(* ===== verification/Hub_Prelude.thy ===== *)
theory Hub_Prelude
  imports Main "HOL-Library.AList" "HOL-Library.Char_ord" "HOL-Library.List_Lexorder"
    "HOL-Library.Sublist" "HOL-Library.Word"
begin

text \<open>
  Shared vocabulary of the development.  A Rust \<open>String\<close>, \<open>&str\<close> or \<open>Vec<u8>\<close> is the list of
  its bytes: the type \<open>string\<close>, one \<open>char\<close> per byte of the UTF-8 encoding.  All string
  operations the program uses on text (prefix tests, searches, splits at an ASCII separator,
  comparison) are bytewise in Rust too, so they are modelled exactly.  A \<open>HashMap\<close> is an
  association list with distinct keys, whose order stands for the unspecified iteration order; the
  updates are those of the library theory AList.  A \<open>Result<T, E>\<close> is the sum type
  \<open>'e + 'a\<close> with \<open>Inl\<close> for the error.
\<close>

section \<open>Integers and results\<close>

type_synonym u16 = "16 word"
type_synonym u32 = "32 word"
type_synonym u64 = "64 word"
type_synonym i64 = "64 word"

text \<open>Facts about the bytewise string operations, and facts about keyed tables.\<close>

named_theorems str_simps
named_theorems table_simps

fun bind_res :: "'e + 'a \<Rightarrow> ('a \<Rightarrow> 'e + 'b) \<Rightarrow> 'e + 'b" where
  "bind_res (Inl e) f = Inl e"
| "bind_res (Inr x) f = f x"

fun is_ok :: "'e + 'a \<Rightarrow> bool" where
  "is_ok (Inl e) = False"
| "is_ok (Inr x) = True"

lemma bind_res_Inr [simp]: "bind_res r f = Inr y \<longleftrightarrow> (\<exists>x. r = Inr x \<and> f x = Inr y)"
  by (cases r) auto

lemma bind_res_Inl [simp]: "bind_res r f = Inl e \<longleftrightarrow> r = Inl e \<or> (\<exists>x. r = Inr x \<and> f x = Inl e)"
  by (cases r) auto

lemma is_ok_iff: "is_ok r \<longleftrightarrow> (\<exists>x. r = Inr x)"
  by (cases r) auto

section \<open>Strings\<close>

fun starts_with :: "string \<Rightarrow> string \<Rightarrow> bool" where
  "starts_with s [] = True"
| "starts_with [] (p # ps) = False"
| "starts_with (c # cs) (p # ps) = (c = p \<and> starts_with cs ps)"

fun strip_prefix :: "string \<Rightarrow> string \<Rightarrow> string option" where
  "strip_prefix s [] = Some s"
| "strip_prefix [] (p # ps) = None"
| "strip_prefix (c # cs) (p # ps) = (if c = p then strip_prefix cs ps else None)"

definition ends_with :: "string \<Rightarrow> string \<Rightarrow> bool" where
  "ends_with s p = starts_with (rev s) (rev p)"

definition strip_suffix :: "string \<Rightarrow> string \<Rightarrow> string option" where
  "strip_suffix s p = map_option rev (strip_prefix (rev s) (rev p))"

text \<open>\<open>str::find\<close> of a substring: the byte index of its first occurrence.\<close>

fun find_sub :: "string \<Rightarrow> string \<Rightarrow> nat option" where
  "find_sub p [] = (if p = [] then Some 0 else None)"
| "find_sub p (c # cs) =
     (if starts_with (c # cs) p then Some 0 else map_option Suc (find_sub p cs))"

definition contains_sub :: "string \<Rightarrow> string \<Rightarrow> bool" where
  "contains_sub s p = (find_sub p s \<noteq> None)"

fun split_once :: "char \<Rightarrow> string \<Rightarrow> (string \<times> string) option" where
  "split_once d [] = None"
| "split_once d (c # cs) =
     (if c = d then Some ([], cs) else map_option (\<lambda>(a, b). (c # a, b)) (split_once d cs))"

text \<open>\<open>str::split\<close> at one separator byte: always at least one piece.\<close>

fun split_on :: "char \<Rightarrow> string \<Rightarrow> string list" where
  "split_on d [] = [[]]"
| "split_on d (c # cs) =
     (if c = d then [] # split_on d cs
      else (case split_on d cs of [] \<Rightarrow> [[c]] | p # ps \<Rightarrow> (c # p) # ps))"

fun join_with :: "string \<Rightarrow> string list \<Rightarrow> string" where
  "join_with sep [] = []"
| "join_with sep [x] = x"
| "join_with sep (x # y # ys) = x @ sep @ join_with sep (y # ys)"

fun digits_of :: "nat \<Rightarrow> string" where
  "digits_of n =
     (if n < 10 then [char_of (48 + n)] else digits_of (n div 10) @ [char_of (48 + n mod 10)])"

declare digits_of.simps [simp del]

lemma starts_with_iff [str_simps]: "starts_with s p \<longleftrightarrow> (\<exists>r. s = p @ r)"
  by (induction s p rule: starts_with.induct) auto

lemma strip_prefix_Some [str_simps]: "strip_prefix s p = Some r \<longleftrightarrow> s = p @ r"
  by (induction s p rule: strip_prefix.induct) auto

lemma strip_prefix_append [simp]: "strip_prefix (p @ r) p = Some r"
  by (simp add: strip_prefix_Some)

lemma strip_prefix_None [str_simps]: "strip_prefix s p = None \<longleftrightarrow> \<not> starts_with s p"
  by (induction s p rule: strip_prefix.induct) auto

lemma starts_with_append [simp]: "starts_with (p @ r) p"
  by (auto simp: starts_with_iff)

lemma ends_with_iff [str_simps]: "ends_with s p \<longleftrightarrow> (\<exists>r. s = r @ p)"
  unfolding ends_with_def starts_with_iff
  by (metis rev_append rev_rev_ident)

lemma strip_suffix_Some [str_simps]: "strip_suffix s p = Some r \<longleftrightarrow> s = r @ p"
  unfolding strip_suffix_def
  by (auto simp: strip_prefix_Some rev_swap)

lemma find_sub_Some:
  "find_sub p s = Some i \<Longrightarrow> i \<le> length s \<and> starts_with (drop i s) p \<and> (\<forall>j < i. \<not> starts_with (drop j s) p)"
proof (induction p s arbitrary: i rule: find_sub.induct)
  case (1 p)
  then show ?case by (auto split: if_splits)
next
  case (2 p c cs)
  show ?case
  proof (cases "starts_with (c # cs) p")
    case True
    with "2.prems" show ?thesis by auto
  next
    case False
    with "2.prems" obtain k where k: "find_sub p cs = Some k" "i = Suc k" by auto
    from "2.IH" [OF False k(1)] k(2) False show ?thesis
      by (auto simp: less_Suc_eq_0_disj)
  qed
qed

lemma find_sub_None: "find_sub p s = None \<longleftrightarrow> (\<forall>j \<le> length s. \<not> starts_with (drop j s) p)"
proof (induction p s rule: find_sub.induct)
  case (1 p)
  then show ?case by (cases p) auto
next
  case (2 p c cs)
  show ?case
  proof (cases "starts_with (c # cs) p")
    case True
    then show ?thesis by (auto intro: exI [of _ 0])
  next
    case False
    have "(\<forall>j \<le> length (c # cs). \<not> starts_with (drop j (c # cs)) p)
        \<longleftrightarrow> (\<forall>j \<le> length cs. \<not> starts_with (drop j cs) p)"
      using False by (auto simp: drop_Cons split: nat.splits)
    with False "2.IH" show ?thesis by simp
  qed
qed

lemma contains_sub_iff [str_simps]: "contains_sub s p \<longleftrightarrow> (\<exists>a b. s = a @ p @ b)"
proof
  assume "contains_sub s p"
  then obtain j where "starts_with (drop j s) p"
    by (auto simp: contains_sub_def dest: find_sub_Some)
  then obtain b where "drop j s = p @ b" by (auto simp: starts_with_iff)
  then have "s = take j s @ p @ b" by (metis append_take_drop_id)
  then show "\<exists>a b. s = a @ p @ b" by blast
next
  assume "\<exists>a b. s = a @ p @ b"
  then obtain a b where s: "s = a @ p @ b" by blast
  then have "starts_with (drop (length a) s) p" "length a \<le> length s" by auto
  then show "contains_sub s p"
    unfolding contains_sub_def using find_sub_None [of p s] by blast
qed

lemma split_once_Some [str_simps]:
  "split_once d s = Some (a, b) \<longleftrightarrow> s = a @ d # b \<and> d \<notin> set a"
  by (induction d s arbitrary: a b rule: split_once.induct)
     (auto simp: Cons_eq_append_conv)

lemma split_once_None [str_simps]: "split_once d s = None \<longleftrightarrow> d \<notin> set s"
  by (induction d s rule: split_once.induct) auto

lemma split_on_not_Nil [simp]: "split_on d s \<noteq> []"
  by (cases s) (auto split: list.splits)

lemma split_on_append_sep [str_simps]:
  "d \<notin> set a \<Longrightarrow> split_on d (a @ d # b) = a # split_on d b"
  by (induction a) auto

lemma split_on_no_sep [str_simps]: "d \<notin> set a \<Longrightarrow> split_on d a = [a]"
  by (induction a) auto

lemma split_on_pieces: "p \<in> set (split_on d s) \<Longrightarrow> d \<notin> set p"
  by (induction d s arbitrary: p rule: split_on.induct) (auto split: if_splits list.splits)

lemma join_split_on: "join_with [d] (split_on d s) = s"
proof (induction d s rule: split_on.induct)
  case (1 d)
  then show ?case by simp
next
  case (2 d c cs)
  obtain p ps where ps: "split_on d cs = p # ps"
    using split_on_not_Nil by (metis neq_Nil_conv)
  show ?case
  proof (cases "c = d")
    case True
    with 2 ps show ?thesis by simp
  next
    case False
    with 2 ps show ?thesis by (cases ps) auto
  qed
qed

subsection \<open>White space\<close>

text \<open>
  \<open>str::trim\<close> removes the Unicode white space at both ends.  On UTF-8 bytes a white-space
  character is one of the byte sequences below: tab to carriage return and space (one byte), U+0085
  and U+00A0 (two bytes), U+1680, U+2000 to U+200A, U+2028, U+2029, U+202F, U+205F and U+3000
  (three bytes).
\<close>

definition ascii_ws :: "char \<Rightarrow> bool" where
  "ascii_ws c = (let n = (of_char c :: nat) in (9 \<le> n \<and> n \<le> 13) \<or> n = 32)"

definition ws2 :: "char \<Rightarrow> char \<Rightarrow> bool" where
  "ws2 a b = ((of_char a :: nat) = 194 \<and> ((of_char b :: nat) = 133 \<or> (of_char b :: nat) = 160))"

definition ws3 :: "char \<Rightarrow> char \<Rightarrow> char \<Rightarrow> bool" where
  "ws3 a b c =
     (let x = (of_char a :: nat); y = (of_char b :: nat); z = (of_char c :: nat) in
      (x = 225 \<and> y = 154 \<and> z = 128) \<or>
      (x = 226 \<and> y = 128 \<and> ((128 \<le> z \<and> z \<le> 138) \<or> z = 168 \<or> z = 169 \<or> z = 175)) \<or>
      (x = 226 \<and> y = 129 \<and> z = 159) \<or>
      (x = 227 \<and> y = 128 \<and> z = 128))"

fun trim_start :: "string \<Rightarrow> string" where
  "trim_start [] = []"
| "trim_start [a] = (if ascii_ws a then [] else [a])"
| "trim_start [a, b] =
     (if ascii_ws a then trim_start [b] else if ws2 a b then [] else [a, b])"
| "trim_start (a # b # c # r) =
     (if ascii_ws a then trim_start (b # c # r)
      else if ws2 a b then trim_start (c # r)
      else if ws3 a b c then trim_start r
      else a # b # c # r)"

text \<open>The same from the right: the argument is the reversed string.\<close>

fun trim_rev :: "string \<Rightarrow> string" where
  "trim_rev [] = []"
| "trim_rev [a] = (if ascii_ws a then [] else [a])"
| "trim_rev [b, a] =
     (if ascii_ws b then trim_rev [a] else if ws2 a b then [] else [b, a])"
| "trim_rev (c # b # a # r) =
     (if ascii_ws c then trim_rev (b # a # r)
      else if ws2 b c then trim_rev (a # r)
      else if ws3 a b c then trim_rev r
      else c # b # a # r)"

definition trim :: "string \<Rightarrow> string" where
  "trim s = rev (trim_rev (rev (trim_start s)))"

text \<open>\<open>to_ascii_lowercase\<close>.\<close>

definition ascii_lower :: "string \<Rightarrow> string" where
  "ascii_lower = map (\<lambda>c. let n = (of_char c :: nat) in if 65 \<le> n \<and> n \<le> 90 then char_of (n + 32) else c)"

section \<open>Keyed tables\<close>

text \<open>
  A table is an association list with distinct keys.  \<open>AList.update\<close> is \<open>insert\<close>,
  \<open>AList.delete\<close> is \<open>remove\<close>, \<open>retain\<close> is \<open>HashMap::retain\<close>.
\<close>

definition table :: "('k \<times> 'v) list \<Rightarrow> bool" where
  "table m = distinct (map fst m)"

definition retain :: "('v \<Rightarrow> bool) \<Rightarrow> ('k \<times> 'v) list \<Rightarrow> ('k \<times> 'v) list" where
  "retain P m = filter (\<lambda>(k, v). P v) m"

definition has_key :: "('k \<times> 'v) list \<Rightarrow> 'k \<Rightarrow> bool" where
  "has_key m k = (map_of m k \<noteq> None)"

lemma table_Nil [simp, intro]: "table []"
  by (simp add: table_def)

lemma table_update [simp, intro]: "table m \<Longrightarrow> table (AList.update k v m)"
  by (simp add: table_def distinct_update)

lemma table_delete [simp, intro]: "table m \<Longrightarrow> table (AList.delete k m)"
  by (simp add: table_def distinct_delete)

lemma table_filter: "table m \<Longrightarrow> table (filter P m)"
  by (auto simp: table_def distinct_map_filter)

lemma table_retain [simp, intro]: "table m \<Longrightarrow> table (retain P m)"
  by (simp add: retain_def table_filter)

lemma table_map_of: "table m \<Longrightarrow> map_of m k = Some v \<longleftrightarrow> (k, v) \<in> set m"
  by (simp add: table_def map_of_eq_Some_iff)

lemma map_of_rev_table: "table m \<Longrightarrow> map_of (rev m) = map_of m"
  by (subst map_of_inject_set) (simp_all add: table_def flip: rev_map)

lemma map_of_update [table_simps]: "map_of (AList.update k v m) = (map_of m)(k \<mapsto> v)"
  by (rule update_conv')

lemma map_of_delete [table_simps]: "map_of (AList.delete k m) = (map_of m)(k := None)"
  by (rule delete_conv')

lemma set_retain [table_simps]: "set (retain P m) = {(k, v) \<in> set m. P v}"
  by (auto simp: retain_def)

lemma map_of_retain [table_simps]:
  "table m \<Longrightarrow> map_of (retain P m) k = (case map_of m k of Some v \<Rightarrow> if P v then Some v else None | None \<Rightarrow> None)"
proof (induction m)
  case Nil
  then show ?case by (simp add: retain_def)
next
  case (Cons kv m)
  obtain a b where kv: "kv = (a, b)" by (cases kv)
  from Cons.prems have m: "table m" and a: "map_of m a = None"
    by (auto simp: table_def kv map_of_eq_None_iff)
  have "map_of (retain P (kv # m)) k =
      (if P b then (map_of (retain P m))(a \<mapsto> b) else map_of (retain P m)) k"
    by (simp add: retain_def kv)
  with Cons.IH [OF m] a show ?case
    by (auto simp: kv split: option.splits)
qed

lemma has_key_iff [table_simps]: "has_key m k \<longleftrightarrow> k \<in> fst ` set m"
  by (metis has_key_def map_of_eq_None_iff)

definition table_modify :: "'k \<Rightarrow> ('v \<Rightarrow> 'v) \<Rightarrow> ('k \<times> 'v) list \<Rightarrow> ('k \<times> 'v) list" where
  "table_modify k f m = map (\<lambda>(a, v). if a = k then (a, f v) else (a, v)) m"

lemma fst_table_modify [simp]: "map fst (table_modify k f m) = map fst m"
  by (auto simp: table_modify_def)

lemma table_table_modify [simp]: "table (table_modify k f m) = table m"
  by (simp add: table_def)

lemma map_of_table_modify [table_simps]:
  "map_of (table_modify k f m) j = (if j = k then map_option f (map_of m j) else map_of m j)"
  by (induction m) (auto simp: table_modify_def)

section \<open>Text pieces\<close>

text \<open>A string between single quotes, as the error messages print names.\<close>

definition sq :: "string \<Rightarrow> string" where
  "sq s = [CHR 0x27] @ s @ [CHR 0x27]"

lemma starts_with_refl [simp]: "starts_with s s"
  by (simp add: starts_with_iff)

end
