(* ===== verification/Hub_Json.thy ===== *)
theory Hub_Json
  imports Hub_Prelude
begin

text \<open>
  The \<open>serde_json::Value\<close> the whole program passes around.  A number is kept in the three
  representations of \<open>serde_json::Number\<close> (non-negative \<open>u64\<close>, negative \<open>i64\<close>, or the bits of
  a float).  An object is a \<open>BTreeMap\<close>: an association list in strictly increasing key order, kept
  so by \<open>obj_insert\<close>.  The well-formedness predicate \<open>wf_json\<close> says that, at every depth.
  The JSON text itself is read and written by the external crate \<open>serde_json\<close>; \<open>codec\<close> is the
  record of the functions of it the program uses.
\<close>

section \<open>Values\<close>

datatype number = PosInt u64 | NegInt i64 | Float u64

datatype json =
    JNull
  | JBool bool
  | JNum number
  | JStr string
  | JArr "json list"
  | JObj "(string \<times> json) list"

type_synonym jobject = "(string \<times> json) list"

definition number_of_i64 :: "i64 \<Rightarrow> number" where
  "number_of_i64 w = (if 0 \<le> sint w then PosInt w else NegInt w)"

fun number_as_i64 :: "number \<Rightarrow> i64 option" where
  "number_as_i64 (PosInt w) = (if 0 \<le> sint w then Some w else None)"
| "number_as_i64 (NegInt w) = Some w"
| "number_as_i64 (Float b) = None"

fun number_as_u64 :: "number \<Rightarrow> u64 option" where
  "number_as_u64 (PosInt w) = Some w"
| "number_as_u64 n = None"

lemma number_as_i64_of_i64 [simp]: "number_as_i64 (number_of_i64 w) = Some w"
  by (simp add: number_of_i64_def)

fun wf_number :: "number \<Rightarrow> bool" where
  "wf_number (NegInt w) = (sint w < 0)"
| "wf_number n = True"

lemma number_of_i64_as_i64: "wf_number n \<Longrightarrow> number_as_i64 n = Some w \<Longrightarrow> number_of_i64 w = n"
  by (cases n) (auto simp: number_of_i64_def split: if_splits)

section \<open>Accessors\<close>

fun as_str :: "json \<Rightarrow> string option" where
  "as_str (JStr s) = Some s"
| "as_str v = None"

fun as_bool :: "json \<Rightarrow> bool option" where
  "as_bool (JBool b) = Some b"
| "as_bool v = None"

fun as_u64 :: "json \<Rightarrow> u64 option" where
  "as_u64 (JNum n) = number_as_u64 n"
| "as_u64 v = None"

fun as_i64 :: "json \<Rightarrow> i64 option" where
  "as_i64 (JNum n) = number_as_i64 n"
| "as_i64 v = None"

fun as_array :: "json \<Rightarrow> json list option" where
  "as_array (JArr vs) = Some vs"
| "as_array v = None"

fun as_object :: "json \<Rightarrow> jobject option" where
  "as_object (JObj kvs) = Some kvs"
| "as_object v = None"

text \<open>\<open>Value::get\<close> with a string key.\<close>

fun get_key :: "json \<Rightarrow> string \<Rightarrow> json option" where
  "get_key (JObj kvs) k = map_of kvs k"
| "get_key v k = None"

text \<open>
  \<open>BTreeMap::insert\<close>: the value of a key is replaced or the key inserted at its place in the key
  order.
\<close>

fun obj_place :: "string \<Rightarrow> json \<Rightarrow> jobject \<Rightarrow> jobject" where
  "obj_place k v [] = [(k, v)]"
| "obj_place k v ((a, b) # kvs) =
     (if k < a then (k, v) # (a, b) # kvs else (a, b) # obj_place k v kvs)"

definition obj_insert :: "string \<Rightarrow> json \<Rightarrow> jobject \<Rightarrow> jobject" where
  "obj_insert k v kvs = obj_place k v (AList.delete k kvs)"

definition obj_of :: "(string \<times> json) list \<Rightarrow> jobject" where
  "obj_of kvs = fold (\<lambda>(k, v). obj_insert k v) kvs []"

text \<open>
  \<open>value[key] = v\<close> (\<open>IndexMut\<close>): inserts into an object, turns \<open>null\<close> into an object, panics
  (\<open>None\<close>) on anything else.
\<close>

fun index_set :: "json \<Rightarrow> string \<Rightarrow> json \<Rightarrow> json option" where
  "index_set (JObj kvs) k v = Some (JObj (obj_insert k v kvs))"
| "index_set JNull k v = Some (JObj [(k, v)])"
| "index_set w k v = None"

section \<open>Well-formed values\<close>

definition sorted_keys :: "(string \<times> 'a) list \<Rightarrow> bool" where
  "sorted_keys kvs = sorted_wrt (<) (map fst kvs)"

function wf_json :: "json \<Rightarrow> bool" where
  "wf_json JNull = True"
| "wf_json (JBool b) = True"
| "wf_json (JNum n) = wf_number n"
| "wf_json (JStr s) = True"
| "wf_json (JArr vs) = list_all wf_json vs"
| "wf_json (JObj kvs) = (sorted_keys kvs \<and> list_all wf_json (map snd kvs))"
  by pat_completeness auto
termination
proof (relation "measure size")
  show "wf (measure size)" by simp
next
  fix vs :: "json list" and z
  assume "z \<in> set vs"
  then show "(z, JArr vs) \<in> measure size"
    by (induction vs) auto
next
  fix kvs :: jobject and z
  assume "z \<in> set (map snd kvs)"
  then show "(z, JObj kvs) \<in> measure size"
    by (induction kvs) (auto, force)
qed

lemma sorted_keys_Nil [simp]: "sorted_keys []"
  by (simp add: sorted_keys_def)

lemma sorted_keys_Cons [simp]:
  "sorted_keys ((k, v) # kvs) \<longleftrightarrow> (\<forall>k' \<in> fst ` set kvs. k < k') \<and> sorted_keys kvs"
  by (auto simp: sorted_keys_def)

lemma sorted_keys_table: "sorted_keys kvs \<Longrightarrow> table kvs"
  unfolding sorted_keys_def table_def
  using strict_sorted_iff by blast

lemma keys_obj_place [simp]: "fst ` set (obj_place k v kvs) = insert k (fst ` set kvs)"
  by (induction k v kvs rule: obj_place.induct) auto

lemma keys_obj_insert [simp]: "fst ` set (obj_insert k v kvs) = insert k (fst ` set kvs)"
  by (auto simp: obj_insert_def AList.delete_eq)

lemma sorted_keys_filter [intro]: "sorted_keys m \<Longrightarrow> sorted_keys (filter P m)"
  by (simp add: sorted_keys_def sorted_wrt_map sorted_wrt_filter)

lemma sorted_keys_obj_place:
  "sorted_keys kvs \<Longrightarrow> k \<notin> fst ` set kvs \<Longrightarrow> sorted_keys (obj_place k v kvs)"
  by (induction k v kvs rule: obj_place.induct) (auto dest: order.strict_trans)

lemma sorted_keys_obj_insert [simp, intro]: "sorted_keys kvs \<Longrightarrow> sorted_keys (obj_insert k v kvs)"
  unfolding obj_insert_def
  by (rule sorted_keys_obj_place) (auto simp: AList.delete_eq)

lemma map_of_obj_place: "k \<notin> fst ` set kvs \<Longrightarrow> map_of (obj_place k v kvs) = (map_of kvs)(k \<mapsto> v)"
  by (induction k v kvs rule: obj_place.induct) (auto simp: fun_eq_iff)

lemma map_of_obj_insert [simp]: "map_of (obj_insert k v kvs) = (map_of kvs)(k \<mapsto> v)"
proof -
  have "k \<notin> fst ` set (AList.delete k kvs)" by (auto simp: AList.delete_eq)
  then show ?thesis by (simp add: obj_insert_def map_of_obj_place delete_conv')
qed

lemma snd_obj_place: "snd ` set (obj_place k v kvs) \<subseteq> insert v (snd ` set kvs)"
  by (induction k v kvs rule: obj_place.induct) auto

lemma snd_obj_insert: "snd ` set (obj_insert k v kvs) \<subseteq> insert v (snd ` set kvs)"
  using snd_obj_place [of k v "AList.delete k kvs"] by (auto simp: obj_insert_def AList.delete_eq)

lemma wf_obj_insert:
  "wf_json (JObj kvs) \<Longrightarrow> wf_json v \<Longrightarrow> wf_json (JObj (obj_insert k v kvs))"
  using snd_obj_insert [of k v kvs] by (fastforce simp: list_all_iff image_subset_iff)

text \<open>Two sorted objects with the same entries are the same list: an object is its map.\<close>

lemma sorted_keys_eqI:
  assumes "sorted_keys xs" and "sorted_keys ys" and "map_of xs = map_of ys"
  shows "xs = ys"
  using assms
proof (induction xs arbitrary: ys)
  case Nil
  then have "\<forall>k. map_of ys k = None" by (metis map_of.simps(1))
  then show ?case by (cases ys) (auto simp: map_of_eq_None_iff split: if_splits)
next
  case (Cons x xs)
  obtain k v where x: "x = (k, v)" by (cases x)
  have ne: "ys \<noteq> []"
  proof
    assume "ys = []"
    then have "map_of (x # xs) k = None" using Cons.prems(3) by (metis map_of.simps(1))
    then show False by (simp add: x)
  qed
  then obtain k' v' ys' where ys: "ys = (k', v') # ys'"
    by (metis neq_Nil_conv surj_pair)
  have kk: "k = k'"
  proof (rule ccontr)
    assume d: "k \<noteq> k'"
    have "map_of ys k = Some v" using Cons.prems(3) by (metis x map_of_Cons_code(2))
    then have "k \<in> fst ` set ys'" using d ys by (metis map_of_Cons_code(2) map_of_eq_None_iff option.distinct(1))
    then have 1: "k' < k" using Cons.prems(2) ys by auto
    have "map_of (x # xs) k' = Some v'" using Cons.prems(3) ys by (metis map_of_Cons_code(2))
    then have "k' \<in> fst ` set xs" using d x by (metis map_of_Cons_code(2) map_of_eq_None_iff option.distinct(1))
    then have "k < k'" using Cons.prems(1) x by auto
    with 1 show False by simp
  qed
  have vv: "v = v'" using Cons.prems(3) kk x ys by (metis map_of_Cons_code(2) option.inject)
  have "map_of xs = map_of ys'"
  proof
    fix j
    show "map_of xs j = map_of ys' j"
    proof (cases "j = k")
      case True
      have "map_of xs k = None" "map_of ys' k = None"
        using Cons.prems(1,2) x ys kk by (auto simp: map_of_eq_None_iff)
      with True show ?thesis by simp
    next
      case False
      then show ?thesis using Cons.prems(3) x ys kk by (metis map_of_Cons_code(2))
    qed
  qed
  then have "xs = ys'" using Cons.IH Cons.prems(1,2) x ys by auto
  then show ?case using x ys kk vv by simp
qed

lemma obj_insert_commute:
  assumes "sorted_keys kvs" and "k \<noteq> k'"
  shows "obj_insert k v (obj_insert k' v' kvs) = obj_insert k' v' (obj_insert k v kvs)"
  using assms by (intro sorted_keys_eqI) (auto simp: fun_upd_twist)

lemma sorted_keys_fold_insert:
  "sorted_keys acc \<Longrightarrow> sorted_keys (fold (\<lambda>(k, v). obj_insert k v) kvs acc)"
  by (induction kvs arbitrary: acc) auto

lemma sorted_keys_obj_of [simp, intro]: "sorted_keys (obj_of kvs)"
  by (simp add: obj_of_def sorted_keys_fold_insert)

lemma map_of_fold_insert:
  "map_of (fold (\<lambda>(k, v). obj_insert k v) kvs acc) = map_of acc ++ map_of (rev kvs)"
  by (induction kvs arbitrary: acc) (auto simp: map_add_upd_left)

lemma map_of_obj_of: "map_of (obj_of kvs) = map_of (rev kvs)"
  by (simp add: obj_of_def map_of_fold_insert)

lemma map_of_filter_keys: "map_of (filter (\<lambda>(k, v). P k) m) k = (if P k then map_of m k else None)"
  by (induction m) auto

section \<open>The external JSON text codec\<close>

text \<open>
  \<open>parse\<close> is \<open>serde_json::from_slice::<Value>\<close> (\<open>None\<close>: a parse error), \<open>to_text\<close> is
  \<open>serde_json::to_vec\<close>, \<open>pretty\<close> is \<open>to_string_pretty\<close>; \<open>parse_msg\<close> and \<open>shape_msg\<close> are
  the texts of the crate's error values for unparsable bytes and for a value of the wrong shape.
\<close>

record codec =
  parse :: "string \<Rightarrow> json option"
  to_text :: "json \<Rightarrow> string"
  pretty :: "json \<Rightarrow> string"
  parse_msg :: "string \<Rightarrow> string"
  shape_msg :: "json \<Rightarrow> string"

text \<open>What the crate documents: writing a value and reading it back gives the value.\<close>

definition codec_ok :: "codec \<Rightarrow> bool" where
  "codec_ok c \<longleftrightarrow> (\<forall>v. wf_json v \<longrightarrow> parse c (to_text c v) = Some v)"

text \<open>\<open>Option<Value>\<close> fields are read with \<open>null\<close> as absent.\<close>

fun opt_value :: "json option \<Rightarrow> json option" where
  "opt_value (Some JNull) = None"
| "opt_value v = v"

lemma opt_value_None [simp]: "opt_value v = None \<longleftrightarrow> v = None \<or> v = Some JNull"
  by (cases v rule: opt_value.cases) auto

section \<open>Derived deserialization of structs\<close>

text \<open>
  The \<open>Deserialize\<close> that serde derives for a struct reads a value by field name from an object
  (unknown keys are ignored) or by position from an array.  Each field is given by its name and
  whether it carries \<open>#[serde(default)]\<close>: only such fields may be missing at the end of an array, and
  an array with more elements than fields is refused.
\<close>

definition struct_fields :: "(string \<times> bool) list \<Rightarrow> json \<Rightarrow> json option list option" where
  "struct_fields fs v =
     (case v of
        JObj kvs \<Rightarrow> Some (map (\<lambda>(n, d). map_of kvs n) fs)
      | JArr vs \<Rightarrow>
          (if length fs < length vs \<or> list_ex (\<lambda>(n, d). \<not> d) (drop (length vs) fs) then None
           else Some (map Some vs @ replicate (length fs - length vs) None))
      | _ \<Rightarrow> None)"

text \<open>\<open>Option<T>\<close>: absent or \<open>null\<close> is \<open>None\<close>, anything else must be a \<open>T\<close>.\<close>

definition opt_of :: "(json \<Rightarrow> 'a option) \<Rightarrow> json option \<Rightarrow> 'a option option" where
  "opt_of f v = (case opt_value v of None \<Rightarrow> Some None | Some w \<Rightarrow> map_option Some (f w))"

text \<open>A field with a default value when absent.\<close>

definition default_of :: "'a \<Rightarrow> (json \<Rightarrow> 'a option) \<Rightarrow> json option \<Rightarrow> 'a option" where
  "default_of d f v = (case v of None \<Rightarrow> Some d | Some w \<Rightarrow> f w)"

text \<open>\<open>serde_json::json!\<close> of an object, and a \<open>Vec\<close> collected from results.\<close>

definition jobj :: "(string \<times> json) list \<Rightarrow> json" where
  "jobj kvs = JObj (obj_of kvs)"

fun all_some :: "'a option list \<Rightarrow> 'a list option" where
  "all_some [] = Some []"
| "all_some (x # xs) = (case x of None \<Rightarrow> None | Some y \<Rightarrow> map_option ((#) y) (all_some xs))"

lemma get_key_jobj [simp]: "get_key (jobj kvs) k = map_of (rev kvs) k"
  by (simp add: jobj_def map_of_obj_of)

lemma all_some_Some: "all_some xs = Some ys \<longleftrightarrow> xs = map Some ys"
  by (induction xs arbitrary: ys) (auto split: option.splits simp: Cons_eq_map_conv)

end
