(* ===== verification/Hub_JsonRpc.thy ===== *)
theory Hub_JsonRpc
  imports Hub_Json
begin

text \<open>
  The JSON-RPC 2.0 layer (\<open>crates/mcp-wire/src/jsonrpc.rs\<close>): the four message shapes, the JSON
  value each is serialized to, the nesting guard that runs over the raw bytes, and the decoder.
  The lemmas show that the guard rejects exactly the documents nested deeper than the limit, that
  decoding is total and classifies every input, and that decoding inverts serialization.
\<close>

section \<open>Message types\<close>

datatype jsonrpc_id = IdNumber i64 | IdString string

record jsonrpc_error =
  rpc_code :: i64
  rpc_message :: string
  rpc_data :: "json option"

definition JSONRPC_VERSION :: string where
  "JSONRPC_VERSION = ''2.0''"

definition MAX_JSON_NESTING_DEPTH :: nat where
  "MAX_JSON_NESTING_DEPTH = 128"

definition PARSE_ERROR :: i64 where "PARSE_ERROR = -32700"
definition INVALID_REQUEST :: i64 where "INVALID_REQUEST = -32600"
definition METHOD_NOT_FOUND :: i64 where "METHOD_NOT_FOUND = -32601"
definition INVALID_PARAMS :: i64 where "INVALID_PARAMS = -32602"
definition INTERNAL_ERROR :: i64 where "INTERNAL_ERROR = -32603"

lemmas rpc_codes = PARSE_ERROR_def INVALID_REQUEST_def METHOD_NOT_FOUND_def INVALID_PARAMS_def
  INTERNAL_ERROR_def

definition rpc_error :: "i64 \<Rightarrow> string \<Rightarrow> jsonrpc_error" where
  "rpc_error c m = \<lparr>rpc_code = c, rpc_message = m, rpc_data = None\<rparr>"

definition parse_error :: "string \<Rightarrow> jsonrpc_error" where
  "parse_error = rpc_error PARSE_ERROR"

definition invalid_request :: "string \<Rightarrow> jsonrpc_error" where
  "invalid_request = rpc_error INVALID_REQUEST"

definition method_not_found :: "string \<Rightarrow> jsonrpc_error" where
  "method_not_found = rpc_error METHOD_NOT_FOUND"

definition invalid_params :: "string \<Rightarrow> jsonrpc_error" where
  "invalid_params = rpc_error INVALID_PARAMS"

definition internal_error :: "string \<Rightarrow> jsonrpc_error" where
  "internal_error = rpc_error INTERNAL_ERROR"

lemma rpc_error_code [simp]:
  "rpc_code (rpc_error c m) = c" "rpc_message (rpc_error c m) = m" "rpc_data (rpc_error c m) = None"
  by (simp_all add: rpc_error_def)

lemma error_codes [simp]:
  "rpc_code (parse_error m) = PARSE_ERROR"
  "rpc_code (invalid_request m) = INVALID_REQUEST"
  "rpc_code (method_not_found m) = METHOD_NOT_FOUND"
  "rpc_code (invalid_params m) = INVALID_PARAMS"
  "rpc_code (internal_error m) = INTERNAL_ERROR"
  by (simp_all add: parse_error_def invalid_request_def method_not_found_def invalid_params_def
      internal_error_def)

record jsonrpc_request =
  req_jsonrpc :: string
  req_id :: jsonrpc_id
  req_method :: string
  req_params :: "json option"

record jsonrpc_notification =
  ntf_jsonrpc :: string
  ntf_method :: string
  ntf_params :: "json option"

record jsonrpc_success =
  ok_jsonrpc :: string
  ok_id :: jsonrpc_id
  ok_result :: json

record jsonrpc_failure =
  err_jsonrpc :: string
  err_id :: "jsonrpc_id option"
  err_error :: jsonrpc_error

datatype jsonrpc_message =
    Request jsonrpc_request
  | Notification jsonrpc_notification
  | SuccessResponse jsonrpc_success
  | ErrorResponse jsonrpc_failure

definition new_request :: "jsonrpc_id \<Rightarrow> string \<Rightarrow> json option \<Rightarrow> jsonrpc_request" where
  "new_request i m p = \<lparr>req_jsonrpc = JSONRPC_VERSION, req_id = i, req_method = m, req_params = p\<rparr>"

definition new_notification :: "string \<Rightarrow> json option \<Rightarrow> jsonrpc_notification" where
  "new_notification m p = \<lparr>ntf_jsonrpc = JSONRPC_VERSION, ntf_method = m, ntf_params = p\<rparr>"

definition new_success :: "jsonrpc_id \<Rightarrow> json \<Rightarrow> jsonrpc_success" where
  "new_success i r = \<lparr>ok_jsonrpc = JSONRPC_VERSION, ok_id = i, ok_result = r\<rparr>"

definition new_failure :: "jsonrpc_id option \<Rightarrow> jsonrpc_error \<Rightarrow> jsonrpc_failure" where
  "new_failure i e = \<lparr>err_jsonrpc = JSONRPC_VERSION, err_id = i, err_error = e\<rparr>"

section \<open>Serialization\<close>

text \<open>The JSON value of each struct, as the derived \<open>Serialize\<close> instances write it.\<close>

fun id_value :: "jsonrpc_id \<Rightarrow> json" where
  "id_value (IdNumber n) = JNum (number_of_i64 n)"
| "id_value (IdString s) = JStr s"

definition opt_field :: "string \<Rightarrow> json option \<Rightarrow> (string \<times> json) list" where
  "opt_field k v = (case v of None \<Rightarrow> [] | Some x \<Rightarrow> [(k, x)])"

definition error_value :: "jsonrpc_error \<Rightarrow> json" where
  "error_value e = JObj (obj_of ([(''code'', JNum (number_of_i64 (rpc_code e))),
     (''message'', JStr (rpc_message e))] @ opt_field ''data'' (rpc_data e)))"

fun message_value :: "jsonrpc_message \<Rightarrow> json" where
  "message_value (Request r) = JObj (obj_of ([(''jsonrpc'', JStr (req_jsonrpc r)),
     (''id'', id_value (req_id r)), (''method'', JStr (req_method r))] @ opt_field ''params'' (req_params r)))"
| "message_value (Notification n) = JObj (obj_of ([(''jsonrpc'', JStr (ntf_jsonrpc n)),
     (''method'', JStr (ntf_method n))] @ opt_field ''params'' (ntf_params n)))"
| "message_value (SuccessResponse r) = JObj (obj_of [(''jsonrpc'', JStr (ok_jsonrpc r)),
     (''id'', id_value (ok_id r)), (''result'', ok_result r)])"
| "message_value (ErrorResponse r) = JObj (obj_of [(''jsonrpc'', JStr (err_jsonrpc r)),
     (''id'', case err_id r of None \<Rightarrow> JNull | Some i \<Rightarrow> id_value i),
     (''error'', error_value (err_error r))])"

section \<open>The nesting guard\<close>

fun nesting_loop :: "nat \<Rightarrow> nat \<Rightarrow> bool \<Rightarrow> bool \<Rightarrow> string \<Rightarrow> bool" where
  "nesting_loop max_depth depth in_string escaped [] = False"
| "nesting_loop max_depth depth in_string escaped (b # bs) =
     (if in_string then
        (if escaped then nesting_loop max_depth depth True False bs
         else if b = CHR 0x5C then nesting_loop max_depth depth True True bs
         else if b = CHR 0x22 then nesting_loop max_depth depth False False bs
         else nesting_loop max_depth depth True False bs)
      else if b = CHR 0x22 then nesting_loop max_depth depth True escaped bs
      else if b = CHR 0x7B \<or> b = CHR 0x5B then
        (if depth + 1 > max_depth then True else nesting_loop max_depth (depth + 1) False escaped bs)
      else if b = CHR 0x7D \<or> b = CHR 0x5D then nesting_loop max_depth (depth - 1) False escaped bs
      else nesting_loop max_depth depth False escaped bs)"

definition exceeds_max_nesting :: "string \<Rightarrow> nat \<Rightarrow> bool" where
  "exceeds_max_nesting bytes max_depth = nesting_loop max_depth 0 False False bytes"

section \<open>Decoding\<close>

fun parse_id :: "json \<Rightarrow> jsonrpc_id option" where
  "parse_id (JNum n) = map_option IdNumber (number_as_i64 n)"
| "parse_id (JStr s) = Some (IdString s)"
| "parse_id v = None"

text \<open>
  \<open>serde_json::from_value::<JsonRpcError>\<close>, the derived \<open>Deserialize\<close>: from an object by field
  name, or from an array by position; \<open>data\<close> may be missing or \<open>null\<close>, other keys are ignored.
\<close>

definition error_of_fields :: "json \<Rightarrow> json \<Rightarrow> json option \<Rightarrow> jsonrpc_error option" where
  "error_of_fields c m d =
     (case (as_i64 c, as_str m) of
        (Some code, Some msg) \<Rightarrow> Some \<lparr>rpc_code = code, rpc_message = msg, rpc_data = opt_value d\<rparr>
      | _ \<Rightarrow> None)"

fun error_from_value :: "json \<Rightarrow> jsonrpc_error option" where
  "error_from_value (JObj o1) =
     (case (map_of o1 ''code'', map_of o1 ''message'') of
        (Some c, Some m) \<Rightarrow> error_of_fields c m (map_of o1 ''data'')
      | _ \<Rightarrow> None)"
| "error_from_value (JArr [c, m]) = error_of_fields c m None"
| "error_from_value (JArr [c, m, d]) = error_of_fields c m (Some d)"
| "error_from_value v = None"

definition decode_request_or_notification :: "jobject \<Rightarrow> json \<Rightarrow> jsonrpc_error + jsonrpc_message" where
  "decode_request_or_notification obj method_value =
     (case method_value of
        JStr m \<Rightarrow>
          (let params = map_of obj ''params'' in
           (case map_of obj ''id'' of
              None \<Rightarrow> Inr (Notification \<lparr>ntf_jsonrpc = JSONRPC_VERSION, ntf_method = m, ntf_params = params\<rparr>)
            | Some iv \<Rightarrow>
                (case parse_id iv of
                   None \<Rightarrow> Inl (invalid_request ''\"id\" must be a number or string'')
                 | Some i \<Rightarrow> Inr (Request \<lparr>req_jsonrpc = JSONRPC_VERSION, req_id = i, req_method = m,
                                          req_params = params\<rparr>))))
      | _ \<Rightarrow> Inl (invalid_request ''\"method\" must be a string''))"

definition decode_response :: "codec \<Rightarrow> jobject \<Rightarrow> jsonrpc_error + jsonrpc_message" where
  "decode_response c obj =
     (let has_result = has_key obj ''result''; has_error = has_key obj ''error'' in
      if has_result \<and> has_error then
        Inl (invalid_request ''a response must not contain both \"result\" and \"error\"'')
      else if has_result then
        (case map_of obj ''id'' of
           None \<Rightarrow> Inl (invalid_request ''missing \"id\" field'')
         | Some iv \<Rightarrow>
             (case parse_id iv of
                None \<Rightarrow> Inl (invalid_request ''\"id\" must be a number or string'')
              | Some i \<Rightarrow>
                  (let r = (case map_of obj ''result'' of None \<Rightarrow> JNull | Some r \<Rightarrow> r) in
                   Inr (SuccessResponse \<lparr>ok_jsonrpc = JSONRPC_VERSION, ok_id = i, ok_result = r\<rparr>))))
      else if has_error then
        (case map_of obj ''id'' of
           None \<Rightarrow> Inl (invalid_request ''missing \"id\" field'')
         | Some iv \<Rightarrow>
             bind_res (case iv of JNull \<Rightarrow> Inr None
                       | _ \<Rightarrow> (case parse_id iv of
                                  None \<Rightarrow> Inl (invalid_request ''\"id\" must be a number, string, or null'')
                                | Some i \<Rightarrow> Inr (Some i)))
               (\<lambda>i. let ev = (case map_of obj ''error'' of None \<Rightarrow> JNull | Some e \<Rightarrow> e) in
                  case error_from_value ev of
                    None \<Rightarrow> Inl (invalid_request (''invalid \"error\" object: '' @ shape_msg c ev))
                  | Some e \<Rightarrow> Inr (ErrorResponse \<lparr>err_jsonrpc = JSONRPC_VERSION, err_id = i, err_error = e\<rparr>)))
      else Inl (invalid_request
             ''a JSON-RPC message must contain \"method\", \"result\", or \"error\"''))"

definition decode_value :: "codec \<Rightarrow> json \<Rightarrow> jsonrpc_error + jsonrpc_message" where
  "decode_value c value =
     (case as_object value of
        None \<Rightarrow> Inl (invalid_request ''a JSON-RPC message must be a JSON object'')
      | Some obj \<Rightarrow>
          (case map_of obj ''jsonrpc'' of
             None \<Rightarrow> Inl (invalid_request ''missing \"jsonrpc\" field'')
           | Some jv \<Rightarrow>
               if jv = JStr JSONRPC_VERSION then
                 (case map_of obj ''method'' of
                    Some mv \<Rightarrow> decode_request_or_notification obj mv
                  | None \<Rightarrow> decode_response c obj)
               else Inl (invalid_request ''\"jsonrpc\" must be the string \"2.0\"'')))"

definition decode_message :: "codec \<Rightarrow> string \<Rightarrow> jsonrpc_error + jsonrpc_message" where
  "decode_message c bytes =
     (if exceeds_max_nesting bytes MAX_JSON_NESTING_DEPTH then
        Inl (invalid_request (''JSON nesting depth exceeds the limit of '' @ digits_of MAX_JSON_NESTING_DEPTH))
      else
        (case parse c bytes of
           None \<Rightarrow> Inl (parse_error (parse_msg c bytes))
         | Some value \<Rightarrow> decode_value c value))"

section \<open>The guard against deep nesting\<close>

text \<open>
  The specification of the guard: the text that \<open>serde_json\<close> documents for a value, over an arbitrary
  rendering of numbers, and the nesting depth of a value.  In strings the quote, the backslash and the
  control characters are escaped.
\<close>

definition hex_digit :: "nat \<Rightarrow> char" where
  "hex_digit n = (if n < 10 then char_of (48 + n) else char_of (87 + n))"

definition short_escapes :: "(char \<times> char) list" where
  "short_escapes = [(CHR 0x22, CHR 0x22), (CHR 0x5C, CHR 0x5C), (CHR 0x08, CHR ''b''), (CHR 0x0C, CHR ''f''),
     (CHR 0x0A, CHR ''n''), (CHR 0x0D, CHR ''r''), (CHR 0x09, CHR ''t'')]"

definition escape_char :: "char \<Rightarrow> string" where
  "escape_char c =
     (case map_of short_escapes c of
        Some e \<Rightarrow> [CHR 0x5C, e]
      | None \<Rightarrow>
          if of_char c < (32 :: nat) then [CHR 0x5C] @ ''u00'' @ [hex_digit (of_char c div 16), hex_digit (of_char c mod 16)]
          else [c])"

fun escape_text :: "string \<Rightarrow> string" where
  "escape_text [] = []"
| "escape_text (c # cs) = escape_char c @ escape_text cs"

definition quoted :: "string \<Rightarrow> string" where
  "quoted s = [CHR 0x22] @ escape_text s @ [CHR 0x22]"

fun comma_list :: "string list \<Rightarrow> string" where
  "comma_list [] = []"
| "comma_list (s # ss) = s @ (if ss = [] then [] else '','') @ comma_list ss"

function render :: "(number \<Rightarrow> string) \<Rightarrow> json \<Rightarrow> string" where
  "render np JNull = ''null''"
| "render np (JBool b) = (if b then ''true'' else ''false'')"
| "render np (JNum n) = np n"
| "render np (JStr s) = quoted s"
| "render np (JArr vs) = [CHR 0x5B] @ comma_list (map (render np) vs) @ [CHR 0x5D]"
| "render np (JObj kvs) =
     [CHR 0x7B] @ comma_list (map (\<lambda>(k, v). (quoted k @ '':'') @ render np v) kvs) @ [CHR 0x7D]"
  by pat_completeness auto
termination
proof (relation "measure (size \<circ> snd)")
  show "wf (measure (size \<circ> snd))" by simp
next
  fix np :: "number \<Rightarrow> string" and vs :: "json list" and z
  assume "z \<in> set vs"
  then show "((np, z), np, JArr vs) \<in> measure (size \<circ> snd)" by (induction vs) auto
next
  fix np :: "number \<Rightarrow> string" and kvs :: jobject and z k v
  assume "z \<in> set kvs" "(k, v) = z"
  then show "((np, v), np, JObj kvs) \<in> measure (size \<circ> snd)" by (induction kvs) auto
qed

fun max_list :: "nat list \<Rightarrow> nat" where
  "max_list [] = 0"
| "max_list (n # ns) = max n (max_list ns)"

function json_depth :: "json \<Rightarrow> nat" where
  "json_depth (JArr vs) = Suc (max_list (map json_depth vs))"
| "json_depth (JObj kvs) = Suc (max_list (map json_depth (map snd kvs)))"
| "json_depth JNull = 0"
| "json_depth (JBool b) = 0"
| "json_depth (JNum n) = 0"
| "json_depth (JStr s) = 0"
  by pat_completeness auto
termination
proof (relation "measure size")
  show "wf (measure size)" by simp
next
  fix vs :: "json list" and z
  assume "z \<in> set vs"
  then show "(z, JArr vs) \<in> measure size" by (induction vs) auto
next
  fix kvs :: jobject and z
  assume "z \<in> set (map snd kvs)"
  then show "(z, JObj kvs) \<in> measure size" by (induction kvs) (auto, force)
qed

definition plain_bytes :: "string \<Rightarrow> bool" where
  "plain_bytes s = (\<forall>b \<in> set s. b \<notin> {CHR 0x22, CHR 0x5B, CHR 0x5D, CHR 0x7B, CHR 0x7D})"

lemma nesting_plain:
  "plain_bytes s \<Longrightarrow> nesting_loop m d False False (s @ r) = nesting_loop m d False False r"
  by (induction s) (auto simp: plain_bytes_def)

lemma code_hex_digit: "n < 16 \<Longrightarrow> of_char (hex_digit n) = (if n < 10 then 48 + n else 87 + n)"
  by (simp add: hex_digit_def of_char_of)

lemma hex_digit_plain:
  assumes "n < 16" shows "hex_digit n \<noteq> CHR 0x22 \<and> hex_digit n \<noteq> CHR 0x5C"
proof -
  have "of_char CHR 0x22 = (34 :: nat)" "of_char CHR 0x5C = (92 :: nat)" by simp_all
  with code_hex_digit [OF assms] assms show ?thesis by (auto split: if_splits)
qed

lemma nesting_escape_char:
  "nesting_loop m d True False (escape_char c @ r) = nesting_loop m d True False r"
proof (cases "map_of short_escapes c")
  case None
  then have "c \<noteq> CHR 0x22" "c \<noteq> CHR 0x5C" by (auto simp: short_escapes_def)
  moreover have "of_char c < (32 :: nat) \<Longrightarrow> of_char c div 16 < (16 :: nat)" by simp
  ultimately show ?thesis using hex_digit_plain [of "of_char c div 16"] hex_digit_plain [of "of_char c mod 16"] None
    by (simp add: escape_char_def)
next
  case (Some e)
  then show ?thesis by (auto simp: escape_char_def)
qed

lemma nesting_escaped:
  "nesting_loop m d True False (escape_text s @ [CHR 0x22] @ r) = nesting_loop m d False False r"
  by (induction s) (simp_all add: nesting_escape_char)

lemma nesting_quoted: "nesting_loop m d False False (quoted s @ r) = nesting_loop m d False False r"
  using nesting_escaped [of m d s r] by (simp add: quoted_def)

text \<open>A piece of text of depth \<open>k\<close>: scanning it either trips the limit or changes nothing.\<close>

definition scans_as :: "string \<Rightarrow> nat \<Rightarrow> bool" where
  "scans_as s k \<longleftrightarrow> (\<forall>m d r. d \<le> m \<longrightarrow>
     nesting_loop m d False False (s @ r) = (m < d + k \<or> nesting_loop m d False False r))"

lemma scans_as_plain: "plain_bytes s \<Longrightarrow> scans_as s 0"
  by (simp add: scans_as_def nesting_plain)

lemma scans_as_quoted: "scans_as (quoted s) 0"
  unfolding scans_as_def using nesting_quoted by simp

lemma scans_as_append: "scans_as s j \<Longrightarrow> scans_as t k \<Longrightarrow> scans_as (s @ t) (max j k)"
  by (auto simp: scans_as_def)

lemma scans_as_comma_list:
  "list_all2 scans_as ss ks \<Longrightarrow> scans_as (comma_list ss) (max_list ks)"
proof (induction ss ks rule: list_all2_induct)
  case Nil
  show ?case by (simp add: scans_as_plain plain_bytes_def)
next
  case (Cons s ss k ks)
  have "scans_as (if ss = [] then [] else '','') 0"
    by (simp add: scans_as_plain plain_bytes_def)
  from scans_as_append [OF Cons.hyps(1) scans_as_append [OF this Cons.IH]]
  show ?case by simp
qed

lemma scans_as_brackets:
  assumes "scans_as s k" and "(a, b) \<in> {(CHR 0x5B, CHR 0x5D), (CHR 0x7B, CHR 0x7D)}"
  shows "scans_as ([a] @ s @ [b]) (Suc k)"
  using assms by (auto simp: scans_as_def)

lemma scans_as_render: "(\<And>n. plain_bytes (np n)) \<Longrightarrow> scans_as (render np v) (json_depth v)"
proof (induction v rule: json_depth.induct)
  case (1 vs)
  then have "list_all2 scans_as (map (render np) vs) (map json_depth vs)"
    by (simp add: list_all2_map1 list_all2_map2 list_all2_same)
  from scans_as_brackets [OF scans_as_comma_list [OF this]] show ?case by simp
next
  case (2 kvs)
  have "scans_as ((quoted k @ '':'') @ render np v) (json_depth v)" if "(k, v) \<in> set kvs" for k v
  proof -
    from that have "v \<in> set (map snd kvs)" by force
    with 2 have v: "scans_as (render np v) (json_depth v)" by simp
    have "scans_as '':'' 0" by (simp add: scans_as_plain plain_bytes_def)
    from scans_as_append [OF scans_as_append [OF scans_as_quoted this] v] show ?thesis by simp
  qed
  then have "list_all2 scans_as (map (\<lambda>(k, v). (quoted k @ '':'') @ render np v) kvs)
      (map json_depth (map snd kvs))"
    by (auto simp: list_all2_map1 list_all2_map2 list_all2_same)
  from scans_as_brackets [OF scans_as_comma_list [OF this]] show ?case by simp
qed (auto simp: scans_as_plain scans_as_quoted plain_bytes_def)

text \<open>
  C27: the nesting guard is exact.  On the text of any JSON value (numbers rendered without quotes
  or brackets, as every JSON number is) it reports an excess exactly when the value's nesting depth
  is greater than the limit; brackets inside strings, escaped quotes included, never count.
\<close>

theorem nesting_guard_exact:
  assumes "\<And>n. plain_bytes (np n)"
  shows "exceeds_max_nesting (render np v) max_depth \<longleftrightarrow> max_depth < json_depth v"
  using scans_as_render [of np v, OF assms]
  unfolding scans_as_def exceeds_max_nesting_def
  by (metis add_0 append_Nil2 le0 nesting_loop.simps(1))

theorem nesting_guard_exact_witness:
  "exceeds_max_nesting (render (\<lambda>n. ''7'') (JArr [JObj [(''a'', JStr [CHR 0x5C, CHR 0x5B])], JNum (PosInt 7)])) 1
   \<and> \<not> exceeds_max_nesting (render (\<lambda>n. ''7'') (JArr [JObj [(''a'', JStr [CHR 0x5C, CHR 0x5B])], JNum (PosInt 7)])) 2"
proof -
  have "plain_bytes ((\<lambda>n :: number. ''7'') n)" for n by (simp add: plain_bytes_def)
  from nesting_guard_exact [OF this] show ?thesis by (simp del: render.simps)
qed

section \<open>Decoding is total and classifies every input\<close>

fun message_version :: "jsonrpc_message \<Rightarrow> string" where
  "message_version (Request r) = req_jsonrpc r"
| "message_version (Notification n) = ntf_jsonrpc n"
| "message_version (SuccessResponse r) = ok_jsonrpc r"
| "message_version (ErrorResponse r) = err_jsonrpc r"

definition well_decoded :: "jsonrpc_error + jsonrpc_message \<Rightarrow> bool" where
  "well_decoded r =
     (case r of Inl e \<Rightarrow> rpc_code e = INVALID_REQUEST | Inr m \<Rightarrow> message_version m = JSONRPC_VERSION)"

lemma well_decoded_simps [simp]:
  "well_decoded (Inl e) \<longleftrightarrow> rpc_code e = INVALID_REQUEST"
  "well_decoded (Inr m) \<longleftrightarrow> message_version m = JSONRPC_VERSION"
  by (simp_all add: well_decoded_def)

lemma decode_request_outcome: "well_decoded (decode_request_or_notification obj mv)"
  by (cases mv) (simp_all add: decode_request_or_notification_def Let_def split: option.split)

lemma decode_response_outcome: "well_decoded (decode_response c obj)"
proof (cases "map_of obj ''id''")
  case (Some iv)
  then show ?thesis by (cases iv) (simp_all add: decode_response_def Let_def split: option.split)
qed (simp add: decode_response_def Let_def)

lemma decode_value_outcome:
  "case decode_value c v of
     Inl e \<Rightarrow> rpc_code e = INVALID_REQUEST
   | Inr m \<Rightarrow> message_version m = JSONRPC_VERSION"
proof -
  have "well_decoded (decode_value c v)"
    using decode_request_outcome decode_response_outcome by (simp add: decode_value_def split: option.split)
  then show ?thesis by (simp add: well_decoded_def)
qed

text \<open>
  decoding never fails to answer and its error code says why.  An error has the parse-error code
  exactly when the guard let the bytes through and they are not JSON; every other error has the
  invalid-request code.  A message comes only from bytes that pass the guard and parse, and it
  carries version 2.0.
\<close>

theorem decode_message_outcome:
  "case decode_message c bytes of
     Inl e \<Rightarrow> rpc_code e =
       (if \<not> exceeds_max_nesting bytes MAX_JSON_NESTING_DEPTH \<and> parse c bytes = None
        then PARSE_ERROR else INVALID_REQUEST)
   | Inr m \<Rightarrow> \<not> exceeds_max_nesting bytes MAX_JSON_NESTING_DEPTH \<and> parse c bytes \<noteq> None
       \<and> message_version m = JSONRPC_VERSION"
proof (cases "exceeds_max_nesting bytes MAX_JSON_NESTING_DEPTH \<or> parse c bytes = None")
  case True
  then show ?thesis by (auto simp: decode_message_def)
next
  case False
  then obtain v where "parse c bytes = Some v" by auto
  with False decode_value_outcome [of c v] show ?thesis
    by (auto simp: decode_message_def split: sum.splits)
qed

text \<open>The fields of an object message, as the decoder reads them.\<close>

definition rpc_object :: "json \<Rightarrow> jobject \<Rightarrow> bool" where
  "rpc_object v kvs \<longleftrightarrow> v = JObj kvs \<and> map_of kvs ''jsonrpc'' = Some (JStr JSONRPC_VERSION)"

lemma decode_response_is_response [simp]:
  "decode_response c obj \<noteq> Inr (Notification n)" "decode_response c obj \<noteq> Inr (Request r)"
proof -
  have "decode_response c obj \<noteq> Inr (Notification n) \<and> decode_response c obj \<noteq> Inr (Request r)"
  proof (cases "map_of obj ''id''")
    case (Some iv)
    then show ?thesis by (cases iv) (simp_all add: decode_response_def Let_def split: option.split)
  qed (simp add: decode_response_def Let_def)
  then show "decode_response c obj \<noteq> Inr (Notification n)" "decode_response c obj \<noteq> Inr (Request r)" by simp_all
qed

lemma decode_request_notification:
  "decode_request_or_notification obj mv = Inr (Notification n) \<longleftrightarrow>
     mv = JStr (ntf_method n) \<and> map_of obj ''id'' = None \<and> n = new_notification (ntf_method n) (map_of obj ''params'')"
  by (cases mv) (auto simp: decode_request_or_notification_def new_notification_def Let_def split: option.splits)

lemma decode_request_request:
  "decode_request_or_notification obj mv = Inr (Request r) \<longleftrightarrow>
     (\<exists>iv. mv = JStr (req_method r) \<and> map_of obj ''id'' = Some iv \<and> parse_id iv = Some (req_id r)
        \<and> r = new_request (req_id r) (req_method r) (map_of obj ''params''))"
  by (cases mv) (auto simp: decode_request_or_notification_def new_request_def Let_def split: option.splits)

text \<open>
  the shape of a decoded message is decided by its keys alone.  It is a notification exactly when
  a version 2.0 object has a string \<open>method\<close> and no \<open>id\<close> key at all (an \<open>id\<close> of \<open>null\<close> is not
  enough), and a request exactly when it has a string \<open>method\<close> and an \<open>id\<close> that is an integer in the
  \<open>i64\<close> range or a string; \<open>result\<close> and \<open>error\<close> keys play no part once \<open>method\<close> is there.
\<close>

theorem decode_shape:
  "(decode_value c v = Inr (Notification n) \<longleftrightarrow>
      (\<exists>kvs. rpc_object v kvs \<and> map_of kvs ''method'' = Some (JStr (ntf_method n)) \<and> map_of kvs ''id'' = None
         \<and> n = new_notification (ntf_method n) (map_of kvs ''params''))) \<and>
   (decode_value c v = Inr (Request r) \<longleftrightarrow>
      (\<exists>kvs iv. rpc_object v kvs \<and> map_of kvs ''method'' = Some (JStr (req_method r))
         \<and> map_of kvs ''id'' = Some iv \<and> parse_id iv = Some (req_id r)
         \<and> r = new_request (req_id r) (req_method r) (map_of kvs ''params'')))"
proof (cases v)
  case (JObj kvs)
  show ?thesis
  proof (cases "map_of kvs ''jsonrpc'' = Some (JStr JSONRPC_VERSION)")
    case True
    with JObj show ?thesis
      by (auto simp: rpc_object_def decode_value_def decode_request_notification decode_request_request
          split: option.splits)
  next
    case False
    with JObj show ?thesis
      by (auto simp: rpc_object_def decode_value_def split: option.splits)
  qed
qed (auto simp: rpc_object_def decode_value_def)

section \<open>Round trip\<close>

lemma parse_id_value [simp]: "parse_id (id_value i) = Some i"
  by (cases i) auto

lemma id_value_not_null [simp]: "id_value i \<noteq> JNull"
  by (cases i) auto

lemma map_of_opt_field [simp]: "map_of (opt_field k v) j = (if j = k then v else None)"
  by (auto simp: opt_field_def split: option.splits)

lemma rev_opt_field [simp]: "rev (opt_field k v) = opt_field k v"
  by (auto simp: opt_field_def split: option.splits)

lemma error_from_error_value:
  "error_from_value (error_value e) = Some (e\<lparr>rpc_data := opt_value (rpc_data e)\<rparr>)"
  by (cases e) (simp add: error_value_def error_of_fields_def map_of_obj_of map_add_def
      split: option.splits)

text \<open>
  A message that survives the wire: version 2.0, and not an error whose \<open>data\<close> is \<open>null\<close> (which is
  read back as an error without \<open>data\<close>).
\<close>

fun canonical :: "jsonrpc_message \<Rightarrow> bool" where
  "canonical (Request r) = (req_jsonrpc r = JSONRPC_VERSION)"
| "canonical (Notification n) = (ntf_jsonrpc n = JSONRPC_VERSION)"
| "canonical (SuccessResponse r) = (ok_jsonrpc r = JSONRPC_VERSION)"
| "canonical (ErrorResponse r) =
     (err_jsonrpc r = JSONRPC_VERSION \<and> rpc_data (err_error r) \<noteq> Some JNull)"

lemma opt_value_same: "opt_value d = d \<longleftrightarrow> d \<noteq> Some JNull"
  by (cases d rule: opt_value.cases) auto

lemma data_update_same: "e\<lparr>rpc_data := d\<rparr> = e \<longleftrightarrow> d = rpc_data e" for e :: jsonrpc_error
  by (cases e) auto

lemma decode_error_response:
  "decode_value c (message_value (ErrorResponse r)) =
     (if err_jsonrpc r = JSONRPC_VERSION
      then Inr (ErrorResponse (r\<lparr>err_error := (err_error r)\<lparr>rpc_data := opt_value (rpc_data (err_error r))\<rparr>\<rparr>))
      else Inl (invalid_request ''\"jsonrpc\" must be the string \"2.0\"''))"
proof (cases "err_id r")
  case None
  then show ?thesis
    by (cases r) (auto simp: decode_value_def decode_response_def has_key_def map_of_obj_of
        error_from_error_value)
next
  case (Some i)
  then show ?thesis
    by (cases r; cases i) (auto simp: decode_value_def decode_response_def has_key_def map_of_obj_of
        error_from_error_value)
qed

lemma value_round_trip: "decode_value c (message_value m) = Inr m \<longleftrightarrow> canonical m"
proof (cases m)
  case (Request r)
  then show ?thesis
    by (cases r) (auto simp: decode_value_def decode_request_or_notification_def map_of_obj_of map_add_def Let_def
        split: option.splits)
next
  case (Notification n)
  then show ?thesis
    by (cases n) (auto simp: decode_value_def decode_request_or_notification_def map_of_obj_of map_add_def Let_def
        split: option.splits)
next
  case (SuccessResponse r)
  then show ?thesis
    by (cases r) (auto simp: decode_value_def decode_response_def has_key_def map_of_obj_of map_add_def Let_def
        split: option.splits)
next
  case (ErrorResponse r)
  have "r\<lparr>err_error := (err_error r)\<lparr>rpc_data := opt_value (rpc_data (err_error r))\<rparr>\<rparr> = r
      \<longleftrightarrow> rpc_data (err_error r) \<noteq> Some JNull"
    by (cases r) (simp add: data_update_same opt_value_same)
  then show ?thesis using ErrorResponse by (simp add: decode_error_response del: message_value.simps)
qed

end
