(* ===== verification/Hub_Core.thy ===== *)
theory Hub_Core
  imports Hub_Json
begin

text \<open>
  The backend contract and its data (\<open>crates/core/src\<close>): error kinds and errors, the configured
  definition of a backend, the tool descriptors and capabilities a backend reports, and the
  interface \<open>McpBackend\<close>.  A backend is used through its trait object only, so it is a handle of
  an arbitrary type \<open>'b\<close> together with the record of its operations; each operation acts on the
  world \<open>'w\<close> outside the hub (the downstream server, the network, the clock) and returns what the
  hub sees of it.
\<close>

section \<open>Errors\<close>

datatype backend_error_kind = Connection | Auth | Timeout | Protocol | Internal

record backend_error =
  be_kind :: backend_error_kind
  be_message :: string
  be_detail :: "string option"

definition backend_error_new :: "backend_error_kind \<Rightarrow> string \<Rightarrow> backend_error" where
  "backend_error_new k m = \<lparr>be_kind = k, be_message = m, be_detail = None\<rparr>"

definition with_detail :: "backend_error \<Rightarrow> string \<Rightarrow> backend_error" where
  "with_detail e d = e\<lparr>be_detail := Some d\<rparr>"

lemma backend_error_new_sel [simp]:
  "be_kind (backend_error_new k m) = k" "be_message (backend_error_new k m) = m"
  by (simp_all add: backend_error_new_def)

text \<open>\<open>env!("CARGO_PKG_VERSION")\<close> of the workspace.\<close>

definition CARGO_PKG_VERSION :: string where "CARGO_PKG_VERSION = ''0.0.16''"

section \<open>Backend definitions\<close>

datatype connection_mode = Eager | Lazy | PerCall

datatype stderr_mode = LogOnError | Silent | Passthrough | LogAlways

record oauth2_config =
  oc_token_endpoint :: "string option"
  oc_client_id :: "string option"
  oc_client_secret :: "string option"
  oc_scopes :: "string option"
  oc_grant_type :: string
  oc_callback_port :: u16

datatype backend_transport =
    Stdio string "string list" "(string \<times> string) list" "string option"
  | Http string "string option" "oauth2_config option"

record backend_def =
  def_id :: string
  def_label :: "string option"
  def_transport :: backend_transport
  def_namespace :: "string option"
  def_connection_mode :: connection_mode
  def_connect_timeout_secs :: u64
  def_call_timeout_secs :: u64
  def_stderr_mode :: stderr_mode
  def_tools_allow :: "string list"
  def_tools_deny :: "string list"
  def_unavailable_hint :: "string option"
  def_forward_request_meta :: bool
  def_pin_args :: jobject
  def_deny_args :: "string list"

section \<open>What a backend reports\<close>

record server_info =
  si_name :: string
  si_version :: string

record resources_capability =
  rc_subscribe :: bool
  rc_list_changed :: bool

record server_capabilities =
  sc_tools :: "bool option"
  sc_resources :: "resources_capability option"
  sc_prompts :: "bool option"
  sc_events :: "json option"

record initialize_result =
  ir_protocol_version :: string
  ir_server_info :: server_info
  ir_capabilities :: server_capabilities

record tool_descriptor =
  td_name :: string
  td_description :: string
  td_input_schema :: json

text \<open>
  The derived readers.  \<open>ToolsCapability\<close> and \<open>PromptsCapability\<close> have the single field
  \<open>listChanged\<close>, true by default, so each is represented by that boolean.
\<close>

definition list_changed_from_value :: "json \<Rightarrow> bool option" where
  "list_changed_from_value v =
     (case struct_fields [(''listChanged'', True)] v of
        Some [l] \<Rightarrow> default_of True as_bool l
      | _ \<Rightarrow> None)"

definition resources_from_value :: "json \<Rightarrow> resources_capability option" where
  "resources_from_value v =
     (case struct_fields [(''subscribe'', True), (''listChanged'', True)] v of
        Some [s, l] \<Rightarrow>
          (case (default_of True as_bool s, default_of True as_bool l) of
             (Some sb, Some lc) \<Rightarrow> Some \<lparr>rc_subscribe = sb, rc_list_changed = lc\<rparr>
           | _ \<Rightarrow> None)
      | _ \<Rightarrow> None)"

definition capabilities_from_value :: "json \<Rightarrow> server_capabilities option" where
  "capabilities_from_value v =
     (case struct_fields [(''tools'', True), (''resources'', True), (''prompts'', True), (''events'', True)] v of
        Some [t, r, p, e] \<Rightarrow>
          (case (opt_of list_changed_from_value t, opt_of resources_from_value r,
                 opt_of list_changed_from_value p) of
             (Some t', Some r', Some p') \<Rightarrow>
               Some \<lparr>sc_tools = t', sc_resources = r', sc_prompts = p', sc_events = opt_value e\<rparr>
           | _ \<Rightarrow> None)
      | _ \<Rightarrow> None)"

definition server_info_from_value :: "json \<Rightarrow> server_info option" where
  "server_info_from_value v =
     (case struct_fields [(''name'', False), (''version'', False)] v of
        Some [Some (JStr n), Some (JStr ver)] \<Rightarrow> Some \<lparr>si_name = n, si_version = ver\<rparr>
      | _ \<Rightarrow> None)"

definition initialize_result_from_value :: "json \<Rightarrow> initialize_result option" where
  "initialize_result_from_value v =
     (case struct_fields [(''protocolVersion'', False), (''serverInfo'', False), (''capabilities'', False)] v of
        Some [Some (JStr pv), Some s, Some c] \<Rightarrow>
          (case (server_info_from_value s, capabilities_from_value c) of
             (Some si, Some caps) \<Rightarrow>
               Some \<lparr>ir_protocol_version = pv, ir_server_info = si, ir_capabilities = caps\<rparr>
           | _ \<Rightarrow> None)
      | _ \<Rightarrow> None)"

definition tool_from_value :: "json \<Rightarrow> tool_descriptor option" where
  "tool_from_value v =
     (case struct_fields [(''name'', False), (''description'', False), (''inputSchema'', False)] v of
        Some [Some (JStr n), Some (JStr d), Some s] \<Rightarrow>
          Some \<lparr>td_name = n, td_description = d, td_input_schema = s\<rparr>
      | _ \<Rightarrow> None)"

definition tool_value :: "tool_descriptor \<Rightarrow> json" where
  "tool_value t = jobj [(''name'', JStr (td_name t)), (''description'', JStr (td_description t)),
     (''inputSchema'', td_input_schema t)]"

lemma tool_from_tool_value [simp]: "tool_from_value (tool_value t) = Some t"
  by (simp add: tool_from_value_def tool_value_def struct_fields_def jobj_def map_of_obj_of)

section \<open>The backend interface\<close>

text \<open>
  The operations of the trait \<open>McpBackend\<close>, and the sleep the registry does between reconnects.
  Timeouts are in seconds.
\<close>

record ('b, 'w) backend_ops =
  op_connect :: "'b \<Rightarrow> 'w \<Rightarrow> (backend_error + initialize_result) \<times> 'w"
  op_list_tools :: "'b \<Rightarrow> 'w \<Rightarrow> (backend_error + tool_descriptor list) \<times> 'w"
  op_call_tool :: "'b \<Rightarrow> string \<Rightarrow> json option \<Rightarrow> nat \<Rightarrow> 'w \<Rightarrow> (backend_error + json) \<times> 'w"
  op_disconnect :: "'b \<Rightarrow> 'w \<Rightarrow> (backend_error + unit) \<times> 'w"
  op_health_check :: "'b \<Rightarrow> 'w \<Rightarrow> (backend_error + unit) \<times> 'w"
  op_request :: "'b \<Rightarrow> string \<Rightarrow> json option \<Rightarrow> nat \<Rightarrow> 'w \<Rightarrow> (backend_error + json) \<times> 'w"
  op_take_tools_refresh :: "'b \<Rightarrow> 'w \<Rightarrow> bool \<times> 'w"
  op_sleep_ms :: "u64 \<Rightarrow> 'w \<Rightarrow> 'w"

text \<open>The trait's default \<open>request\<close>: an error that names the backend and the method.\<close>

definition default_request :: "string \<Rightarrow> string \<Rightarrow> json option \<Rightarrow> nat \<Rightarrow> 'w \<Rightarrow> (backend_error + json) \<times> 'w" where
  "default_request backend_id m params timeout w =
     (Inl (backend_error_new Internal (''backend '' @ sq backend_id @ '' does not support '' @ sq m)), w)"

end
