(* ===== verification/Hub_Protocol.thy ===== *)
theory Hub_Protocol
  imports Hub_JsonRpc Hub_Core
begin

text \<open>
  The two protocol eras (\<open>crates/mcp-server/src/protocol.rs\<close>): a request whose \<open>params._meta\<close>
  names a protocol version is modern and stateless; a request without one is legacy.  Modern results
  are marked complete, and the cacheable ones carry a freshness hint.  The audit records of
  \<open>audit.rs\<close> are here too.
\<close>

section \<open>Protocol versions\<close>

definition LEGACY_PROTOCOL_VERSION :: string where
  "LEGACY_PROTOCOL_VERSION = ''2025-06-18''"

definition MODERN_PROTOCOL_VERSIONS :: "string list" where
  "MODERN_PROTOCOL_VERSIONS = [''2026-07-28'']"

definition META_PROTOCOL_VERSION :: string where
  "META_PROTOCOL_VERSION = ''io.modelcontextprotocol/protocolVersion''"

definition META_SERVER_INFO :: string where
  "META_SERVER_INFO = ''io.modelcontextprotocol/serverInfo''"

definition META_SUBSCRIPTION_ID :: string where
  "META_SUBSCRIPTION_ID = ''io.modelcontextprotocol/subscriptionId''"

definition UNSUPPORTED_PROTOCOL_VERSION :: i64 where
  "UNSUPPORTED_PROTOCOL_VERSION = -32022"

definition request_protocol_version :: "json option \<Rightarrow> string option" where
  "request_protocol_version params =
     Option.bind params (\<lambda>p. Option.bind (get_key p ''_meta'') (\<lambda>m.
       Option.bind (get_key m META_PROTOCOL_VERSION) as_str))"

record request_ctx =
  ctx_modern :: "string option"

definition ctx_from_params :: "json option \<Rightarrow> request_ctx" where
  "ctx_from_params params = \<lparr>ctx_modern = request_protocol_version params\<rparr>"

definition is_modern :: "request_ctx \<Rightarrow> bool" where
  "is_modern ctx = (ctx_modern ctx \<noteq> None)"

definition check_version :: "request_ctx \<Rightarrow> jsonrpc_error + unit" where
  "check_version ctx =
     (case ctx_modern ctx of
        Some v \<Rightarrow>
          (if v \<notin> set MODERN_PROTOCOL_VERSIONS then
             Inl \<lparr>rpc_code = UNSUPPORTED_PROTOCOL_VERSION, rpc_message = ''Unsupported protocol version'',
                  rpc_data = Some (jobj [(''supported'', JArr (map JStr MODERN_PROTOCOL_VERSIONS)),
                                         (''requested'', JStr v)])\<rparr>
           else Inr ())
      | None \<Rightarrow> Inr ())"

section \<open>Modern results\<close>

fun mark_complete :: "json \<Rightarrow> json" where
  "mark_complete (JObj obj) =
     (if has_key obj ''resultType'' then JObj obj else JObj (obj_insert ''resultType'' (JStr ''complete'') obj))"
| "mark_complete v = v"

definition LIST_TTL_MS :: u64 where "LIST_TTL_MS = 60000"

definition cache_ttl_ms :: "string \<Rightarrow> u64 option" where
  "cache_ttl_ms m =
     (if m \<in> {''server/discover'', ''tools/list'', ''resources/list'', ''resources/templates/list'', ''prompts/list''}
      then Some LIST_TTL_MS
      else if m = ''resources/read'' then Some 0 else None)"

definition is_u64 :: "json \<Rightarrow> bool" where
  "is_u64 v = (as_u64 v \<noteq> None)"

definition mark_cacheable :: "string \<Rightarrow> json \<Rightarrow> json" where
  "mark_cacheable m value =
     (case cache_ttl_ms m of
        None \<Rightarrow> value
      | Some ttl_ms \<Rightarrow>
          (case value of
             JObj obj \<Rightarrow>
               (if Option.bind (map_of obj ''resultType'') as_str \<noteq> Some ''complete'' then value
                else
                  (let obj1 = (if (case map_of obj ''ttlMs'' of Some t \<Rightarrow> is_u64 t | None \<Rightarrow> False) then obj
                               else obj_insert ''ttlMs'' (JNum (PosInt ttl_ms)) obj)
                   in JObj (obj_insert ''cacheScope'' (JStr ''private'') obj1)))
           | _ \<Rightarrow> value))"

lemma get_key_mark_complete:
  "get_key (mark_complete v) k =
     (case v of JObj obj \<Rightarrow> if k = ''resultType'' \<and> get_key v k = None then Some (JStr ''complete'') else get_key v k
      | _ \<Rightarrow> None)"
  by (cases v) (auto simp: has_key_def)

section \<open>Audit records\<close>

datatype audit_outcome = AuditOk | AuditError i64

fun outcome_from_result :: "jsonrpc_error + 'a \<Rightarrow> audit_outcome" where
  "outcome_from_result (Inr v) = AuditOk"
| "outcome_from_result (Inl e) = AuditError (rpc_code e)"

record audit_event =
  ae_method :: string
  ae_tool_name :: "string option"
  ae_outcome :: audit_outcome

text \<open>
  What \<open>TracingAuditLogger\<close> emits for an event: a level, a message and the fields.  An event holds neither
  the arguments nor the result of a call, so neither can get into the log.
\<close>

datatype trace_level = TraceInfo | TraceWarn

record trace_event =
  te_level :: trace_level
  te_message :: string
  te_method :: string
  te_tool :: "string option"
  te_code :: "i64 option"

definition trace_record :: "audit_event \<Rightarrow> trace_event" where
  "trace_record event =
     (case ae_outcome event of
        AuditOk \<Rightarrow> \<lparr>te_level = TraceInfo, te_message = ''mcp call ok'', te_method = ae_method event,
          te_tool = ae_tool_name event, te_code = None\<rparr>
      | AuditError code \<Rightarrow> \<lparr>te_level = TraceWarn, te_message = ''mcp call failed'', te_method = ae_method event,
          te_tool = ae_tool_name event, te_code = Some code\<rparr>)"

section \<open>Marks: lemmas\<close>

lemma mark_complete_obj:
  "\<exists>obj'. mark_complete (JObj obj) = JObj obj' \<and>
     map_of obj' = (map_of obj)(''resultType'' \<mapsto>
       (case map_of obj ''resultType'' of None \<Rightarrow> JStr ''complete'' | Some t \<Rightarrow> t))"
  by (cases "map_of obj ''resultType''") (auto simp: has_key_def)

lemma as_str_Some [simp]: "as_str v = Some s \<longleftrightarrow> v = JStr s"
  by (cases v) auto

lemma is_u64_iff: "is_u64 v \<longleftrightarrow> (\<exists>n. v = JNum (PosInt n))"
  unfolding is_u64_def by (cases v) (auto elim: number_as_u64.elims)

lemma mark_cacheable_obj:
  assumes "map_of obj ''resultType'' = Some rt"
  shows "\<exists>obj'. mark_cacheable m (JObj obj) = JObj obj' \<and>
    map_of obj' = (if cache_ttl_ms m \<noteq> None \<and> rt = JStr ''complete'' then
        (map_of obj)(''ttlMs'' \<mapsto> JNum (PosInt
            (case map_of obj ''ttlMs'' of Some (JNum (PosInt n)) \<Rightarrow> n | _ \<Rightarrow> the (cache_ttl_ms m))),
          ''cacheScope'' \<mapsto> JStr ''private'')
      else map_of obj)"
proof (cases "cache_ttl_ms m \<noteq> None \<and> rt = JStr ''complete''")
  case False
  then show ?thesis
    using assms by (auto simp: mark_cacheable_def split: option.splits)
next
  case True
  then obtain ttl where ttl: "cache_ttl_ms m = Some ttl" "rt = JStr ''complete''" by auto
  show ?thesis
  proof (cases "\<exists>n. map_of obj ''ttlMs'' = Some (JNum (PosInt n))")
    case True
    then show ?thesis
      using ttl assms by (auto simp: mark_cacheable_def is_u64_def fun_upd_idem)
  next
    case False
    then show ?thesis
      using ttl assms
      by (auto simp: mark_cacheable_def is_u64_iff split: option.splits json.splits number.splits)
  qed
qed

section \<open>Properties\<close>

text \<open>
  A request is refused for its protocol version exactly when its metadata names a version the
  server does not implement; the error says which versions are supported and which was asked for.
\<close>

theorem check_version_exact:
  "case check_version (ctx_from_params params) of
     Inl e \<Rightarrow> (\<exists>p m v. params = Some p \<and> get_key p ''_meta'' = Some m \<and>
         get_key m ''io.modelcontextprotocol/protocolVersion'' = Some (JStr v) \<and> v \<noteq> ''2026-07-28'' \<and>
         rpc_code e = -32022 \<and>
         Option.bind (rpc_data e) (\<lambda>d. get_key d ''requested'') = Some (JStr v) \<and>
         Option.bind (rpc_data e) (\<lambda>d. get_key d ''supported'') = Some (JArr [JStr ''2026-07-28'']))
   | Inr u \<Rightarrow> request_protocol_version params = None \<or> request_protocol_version params = Some ''2026-07-28''"
proof (cases "request_protocol_version params")
  case None
  then show ?thesis by (simp add: check_version_def ctx_from_params_def)
next
  case (Some v)
  then obtain p m where pm: "params = Some p" "get_key p ''_meta'' = Some m"
      "get_key m META_PROTOCOL_VERSION = Some (JStr v)"
    by (auto simp: request_protocol_version_def bind_eq_Some_conv elim!: as_str.elims)
  show ?thesis
  proof (cases "v = ''2026-07-28''")
    case True
    with Some show ?thesis
      by (simp add: check_version_def ctx_from_params_def MODERN_PROTOCOL_VERSIONS_def)
  next
    case False
    with Some pm show ?thesis
      by (simp add: check_version_def ctx_from_params_def MODERN_PROTOCOL_VERSIONS_def
          UNSUPPORTED_PROTOCOL_VERSION_def META_PROTOCOL_VERSION_def)
  qed
qed

text \<open>
  The marks on a modern result object are exact: a missing result type becomes complete and a
  given one stays; a complete result of a cacheable method always has the private cache scope and a
  numeric time to live, the backend's own if it gave one; an interim result, and the result of any
  other method, gets neither mark; no other field changes and a result that is no object is untouched.
\<close>

theorem modern_marks_exact:
  "case v of
     JObj obj \<Rightarrow>
       (let rt = (case map_of obj ''resultType'' of None \<Rightarrow> JStr ''complete'' | Some t \<Rightarrow> t);
            cached = (cache_ttl_ms m \<noteq> None \<and> rt = JStr ''complete'');
            ttl = (case map_of obj ''ttlMs'' of Some (JNum (PosInt n)) \<Rightarrow> n | _ \<Rightarrow> the (cache_ttl_ms m))
        in \<exists>obj'. mark_cacheable m (mark_complete v) = JObj obj' \<and>
             map_of obj' = (if cached then ((map_of obj)(''resultType'' \<mapsto> rt, ''ttlMs'' \<mapsto> JNum (PosInt ttl),
                 ''cacheScope'' \<mapsto> JStr ''private'')) else (map_of obj)(''resultType'' \<mapsto> rt)))
   | _ \<Rightarrow> mark_cacheable m (mark_complete v) = v"
proof (cases v)
  case (JObj obj)
  obtain obj1 where m1: "mark_complete (JObj obj) = JObj obj1" and
    o1: "map_of obj1 = (map_of obj)(''resultType'' \<mapsto>
       (case map_of obj ''resultType'' of None \<Rightarrow> JStr ''complete'' | Some t \<Rightarrow> t))"
    using mark_complete_obj by blast
  from mark_cacheable_obj [of obj1, OF fun_cong [OF o1, of "''resultType''", simplified], of m]
  show ?thesis unfolding JObj m1 by (auto simp: o1 Let_def split: if_split_asm)
qed (auto simp: mark_cacheable_def split: option.splits)

end
