(* ===== verification/Hub_Registry.thy ===== *)
theory Hub_Registry
  imports Hub_Core
begin

text \<open>
  The backend registry (\<open>crates/registry/src/lib.rs\<close>): the table of registered backends with their
  health, the index of exposed tools, and the operations on them.  Every operation runs as one
  sequence of its atomic sections; where it awaits a backend it threads the world through the
  backend's operation.  The order of the two tables is the iteration order of the hash maps.
\<close>

section \<open>State\<close>

definition HEALTH_CHECK_INTERVAL_SECS :: u64 where "HEALTH_CHECK_INTERVAL_SECS = 30"
definition RECONNECT_BASE_DELAY_MS :: u64 where "RECONNECT_BASE_DELAY_MS = 1000"
definition RECONNECT_MAX_DELAY_MS :: u64 where "RECONNECT_MAX_DELAY_MS = 60000"

record 'b backend_handle =
  bh_def :: backend_def
  bh_backend :: 'b
  bh_health :: bool
  bh_capabilities :: "server_capabilities option"
  bh_reconnect_attempts :: u32

record routed_tool =
  rt_backend_id :: string
  rt_exposed_name :: string
  rt_downstream_name :: string
  rt_descriptor :: tool_descriptor

record 'b registry =
  rg_backends :: "(string \<times> 'b backend_handle) list"
  rg_tool_index :: "(string \<times> routed_tool) list"

definition registry_new :: "'b registry" where
  "registry_new = \<lparr>rg_backends = [], rg_tool_index = []\<rparr>"

section \<open>Names, schemas and arguments\<close>

definition compute_exposed_name :: "string option \<Rightarrow> string \<Rightarrow> string" where
  "compute_exposed_name ns tool_name = (case ns of Some n \<Rightarrow> n @ ''.'' @ tool_name | None \<Rightarrow> tool_name)"

definition hidden_args :: "backend_def \<Rightarrow> string list" where
  "hidden_args d = map fst (def_pin_args d) @ def_deny_args d"

fun modify_key :: "string \<Rightarrow> (json \<Rightarrow> json) \<Rightarrow> json \<Rightarrow> json" where
  "modify_key k f (JObj kvs) = JObj (table_modify k f kvs)"
| "modify_key k f v = v"

fun retain_props :: "string list \<Rightarrow> json \<Rightarrow> json" where
  "retain_props hidden (JObj props) = JObj (filter (\<lambda>(k, v). k \<notin> set hidden) props)"
| "retain_props hidden v = v"

fun retain_required :: "string list \<Rightarrow> json \<Rightarrow> json" where
  "retain_required hidden (JArr vs) =
     JArr (filter (\<lambda>v. case as_str v of Some k \<Rightarrow> k \<notin> set hidden | None \<Rightarrow> True) vs)"
| "retain_required hidden v = v"

definition strip_schema_args :: "json \<Rightarrow> string list \<Rightarrow> json" where
  "strip_schema_args schema hidden =
     (if hidden = [] then schema
      else modify_key ''required'' (retain_required hidden)
             (modify_key ''properties'' (retain_props hidden) schema))"

definition apply_arg_policy :: "backend_def \<Rightarrow> json option \<Rightarrow> backend_error + json option" where
  "apply_arg_policy d args =
     (if def_pin_args d = [] \<and> def_deny_args d = [] then Inr args
      else
        bind_res (case args of
            None \<Rightarrow> Inr []
          | Some JNull \<Rightarrow> Inr []
          | Some (JObj kvs) \<Rightarrow> Inr kvs
          | Some v \<Rightarrow> Inl (backend_error_new Protocol ''tool arguments must be an object''))
        (\<lambda>kvs.
          case find (has_key kvs) (def_deny_args d) of
            Some denied \<Rightarrow> Inl (backend_error_new Protocol
              (''argument '' @ sq denied @ '' is not allowed for backend '' @ sq (def_id d)))
          | None \<Rightarrow> Inr (Some (JObj (fold (\<lambda>(k, v). obj_insert k v) (def_pin_args d) kvs)))))"

text \<open>The allow and deny lists of a backend; an empty list does not filter.\<close>

definition filter_tools :: "backend_def \<Rightarrow> tool_descriptor list \<Rightarrow> tool_descriptor list" where
  "filter_tools d tools =
     (let allowed = (if def_tools_allow d = [] then tools
                     else filter (\<lambda>t. td_name t \<in> set (def_tools_allow d)) tools)
      in if def_tools_deny d = [] then allowed
         else filter (\<lambda>t. td_name t \<notin> set (def_tools_deny d)) allowed)"

section \<open>Registration\<close>

definition register ::
  "backend_def \<Rightarrow> 'b \<Rightarrow> 'b registry \<Rightarrow> (backend_error + unit) \<times> 'b registry" where
  "register d b reg =
     (let i = def_id d in
      if has_key (rg_backends reg) i then
        (Inl (backend_error_new Internal (''backend '' @ sq i @ '' is already registered'')), reg)
      else
        (Inr (), reg\<lparr>rg_backends := AList.update i
           \<lparr>bh_def = d, bh_backend = b, bh_health = False, bh_capabilities = None,
            bh_reconnect_attempts = 0\<rparr> (rg_backends reg)\<rparr>))"

definition not_registered :: "string \<Rightarrow> backend_error" where
  "not_registered i = backend_error_new Internal (''backend '' @ sq i @ '' is not registered'')"

definition drop_tools_of :: "string \<Rightarrow> (string \<times> routed_tool) list \<Rightarrow> (string \<times> routed_tool) list" where
  "drop_tools_of i = retain (\<lambda>routed. rt_backend_id routed \<noteq> i)"

definition unregister ::
  "('b, 'w) backend_ops \<Rightarrow> string \<Rightarrow> 'b registry \<Rightarrow> 'w \<Rightarrow> (backend_error + unit) \<times> 'b registry \<times> 'w" where
  "unregister ops i reg w =
     (case map_of (rg_backends reg) i of
        None \<Rightarrow> (Inl (not_registered i), reg, w)
      | Some h \<Rightarrow>
          (let reg' = reg\<lparr>rg_backends := AList.delete i (rg_backends reg),
                         rg_tool_index := drop_tools_of i (rg_tool_index reg)\<rparr>;
               (r, w') = op_disconnect ops (bh_backend h) w
           in (r, reg', w')))"

section \<open>Connecting and indexing\<close>

definition modify_handle :: "string \<Rightarrow> ('b backend_handle \<Rightarrow> 'b backend_handle) \<Rightarrow> 'b registry \<Rightarrow> 'b registry" where
  "modify_handle i f reg = reg\<lparr>rg_backends := table_modify i f (rg_backends reg)\<rparr>"

definition set_health :: "string \<Rightarrow> bool \<Rightarrow> 'b registry \<Rightarrow> 'b registry" where
  "set_health i b = modify_handle i (\<lambda>h. h\<lparr>bh_health := b\<rparr>)"

definition store_capabilities :: "string \<Rightarrow> server_capabilities \<Rightarrow> 'b registry \<Rightarrow> 'b registry" where
  "store_capabilities i c = modify_handle i (\<lambda>h. h\<lparr>bh_capabilities := Some c\<rparr>)"

definition mark_connected :: "string \<Rightarrow> 'b registry \<Rightarrow> 'b registry" where
  "mark_connected i = modify_handle i (\<lambda>h. h\<lparr>bh_health := True, bh_reconnect_attempts := 0\<rparr>)"

definition route_of :: "string \<Rightarrow> string option \<Rightarrow> string list \<Rightarrow> tool_descriptor \<Rightarrow> routed_tool" where
  "route_of i ns hidden tool =
     (let exposed_name = compute_exposed_name ns (td_name tool) in
      \<lparr>rt_backend_id = i, rt_exposed_name = exposed_name, rt_downstream_name = td_name tool,
       rt_descriptor = \<lparr>td_name = exposed_name, td_description = td_description tool,
          td_input_schema = strip_schema_args (td_input_schema tool) hidden\<rparr>\<rparr>)"

fun index_tools ::
  "string \<Rightarrow> string option \<Rightarrow> string list \<Rightarrow> tool_descriptor list \<Rightarrow> (string \<times> routed_tool) list
     \<Rightarrow> (backend_error + unit) \<times> (string \<times> routed_tool) list" where
  "index_tools i ns hidden [] tool_index = (Inr (), tool_index)"
| "index_tools i ns hidden (tool # tools) tool_index =
     (let exposed_name = compute_exposed_name ns (td_name tool) in
      case map_of tool_index exposed_name of
        Some existing \<Rightarrow>
          (Inl (backend_error_new Internal (''tool name collision: both backend '' @ sq (rt_backend_id existing) @
             '' and backend '' @ sq i @ '' expose '' @ sq exposed_name @ ''. Add a namespace.'')), tool_index)
      | None \<Rightarrow> index_tools i ns hidden tools
                 (AList.update exposed_name (route_of i ns hidden tool) tool_index))"

definition connect_backend ::
  "('b, 'w) backend_ops \<Rightarrow> string \<Rightarrow> 'b registry \<Rightarrow> 'w \<Rightarrow> (backend_error + unit) \<times> 'b registry \<times> 'w" where
  "connect_backend ops i reg w =
     (case map_of (rg_backends reg) i of
        None \<Rightarrow> (Inl (not_registered i), reg, w)
      | Some h \<Rightarrow>
          (case op_connect ops (bh_backend h) w of
             (Inl e, w1) \<Rightarrow> (Inl e, reg, w1)
           | (Inr init, w1) \<Rightarrow>
               (let reg1 = store_capabilities i (ir_capabilities init) reg in
                case op_list_tools ops (bh_backend h) w1 of
                  (Inl e, w2) \<Rightarrow> (Inl e, reg1, w2)
                | (Inr tools, w2) \<Rightarrow>
                    (let (r, idx) = index_tools i (def_namespace (bh_def h)) (hidden_args (bh_def h))
                           (filter_tools (bh_def h) tools) (drop_tools_of i (rg_tool_index reg1));
                         reg2 = reg1\<lparr>rg_tool_index := idx\<rparr>
                     in case r of
                          Inl e \<Rightarrow> (Inl e, reg2, w2)
                        | Inr u \<Rightarrow> (Inr (), mark_connected i reg2, w2)))))"

fun connect_each ::
  "('b, 'w) backend_ops \<Rightarrow> string list \<Rightarrow> 'b registry \<Rightarrow> 'w
     \<Rightarrow> (string \<times> (backend_error + unit)) list \<times> 'b registry \<times> 'w" where
  "connect_each ops [] reg w = ([], reg, w)"
| "connect_each ops (i # is) reg w =
     (let (r, reg', w') = connect_backend ops i reg w;
          (rs, reg'', w'') = connect_each ops is reg' w'
      in ((i, r) # rs, reg'', w''))"

definition connect_all ::
  "('b, 'w) backend_ops \<Rightarrow> 'b registry \<Rightarrow> 'w \<Rightarrow> (string \<times> (backend_error + unit)) list \<times> 'b registry \<times> 'w" where
  "connect_all ops reg w =
     connect_each ops
       (map fst (filter (\<lambda>(i, h). def_connection_mode (bh_def h) = Eager) (rg_backends reg))) reg w"

definition reconnect_backend ::
  "('b, 'w) backend_ops \<Rightarrow> string \<Rightarrow> 'b registry \<Rightarrow> 'w \<Rightarrow> (backend_error + unit) \<times> 'b registry \<times> 'w" where
  "reconnect_backend ops i reg w =
     (let w' = (case map_of (rg_backends reg) i of
                  Some h \<Rightarrow> snd (op_disconnect ops (bh_backend h) w) | None \<Rightarrow> w)
      in connect_backend ops i reg w')"

definition refresh_tools ::
  "('b, 'w) backend_ops \<Rightarrow> 'b registry \<Rightarrow> 'w \<Rightarrow> (backend_error + unit) \<times> 'b registry \<times> 'w" where
  "refresh_tools ops reg w =
     (let ids = map fst (filter (\<lambda>(i, h). bh_health h) (rg_backends reg));
          (rs, reg', w') = connect_each ops ids (reg\<lparr>rg_tool_index := []\<rparr>) w
      in (Inr (), reg', w'))"

section \<open>Queries\<close>

definition is_healthy :: "'b registry \<Rightarrow> string \<Rightarrow> bool" where
  "is_healthy reg i = (case map_of (rg_backends reg) i of Some h \<Rightarrow> bh_health h | None \<Rightarrow> False)"

definition aggregated_tools :: "'b registry \<Rightarrow> tool_descriptor list" where
  "aggregated_tools reg =
     sort_key td_name (map rt_descriptor
       (filter (\<lambda>routed. is_healthy reg (rt_backend_id routed)) (map snd (rg_tool_index reg))))"

definition backend_ids :: "'b registry \<Rightarrow> string list" where
  "backend_ids reg = map fst (rg_backends reg)"

definition has_tool :: "'b registry \<Rightarrow> string \<Rightarrow> bool" where
  "has_tool reg exposed_name = has_key (rg_tool_index reg) exposed_name"

definition namespace_matches :: "string \<Rightarrow> 'b backend_handle \<Rightarrow> bool" where
  "namespace_matches exposed_name h =
     (case def_namespace (bh_def h) of
        None \<Rightarrow> False
      | Some ns \<Rightarrow> (case strip_prefix exposed_name ns of
                      None \<Rightarrow> False
                    | Some rest \<Rightarrow> starts_with rest ''.''))"

definition backend_of_tool :: "'b registry \<Rightarrow> string \<Rightarrow> string option" where
  "backend_of_tool reg exposed_name =
     (case map_of (rg_tool_index reg) exposed_name of
        Some routed \<Rightarrow> Some (rt_backend_id routed)
      | None \<Rightarrow> map_option fst (find (\<lambda>(i, h). namespace_matches exposed_name h) (rg_backends reg)))"

definition unavailable_hint :: "'b registry \<Rightarrow> string \<Rightarrow> string option" where
  "unavailable_hint reg i =
     (case map_of (rg_backends reg) i of Some h \<Rightarrow> def_unavailable_hint (bh_def h) | None \<Rightarrow> None)"

definition forwards_request_meta :: "'b registry \<Rightarrow> string \<Rightarrow> bool" where
  "forwards_request_meta reg i =
     (case map_of (rg_backends reg) i of Some h \<Rightarrow> def_forward_request_meta (bh_def h) | None \<Rightarrow> False)"

definition namespace_of :: "'b registry \<Rightarrow> string \<Rightarrow> string option" where
  "namespace_of reg i =
     (case map_of (rg_backends reg) i of Some h \<Rightarrow> def_namespace (bh_def h) | None \<Rightarrow> None)"

definition has_capability :: "string \<Rightarrow> server_capabilities \<Rightarrow> bool" where
  "has_capability capability c =
     (if capability = ''resources'' then sc_resources c \<noteq> None
      else if capability = ''events'' then sc_events c \<noteq> None
      else if capability = ''tools'' then sc_tools c \<noteq> None
      else False)"

definition backends_with :: "'b registry \<Rightarrow> string \<Rightarrow> string list" where
  "backends_with reg capability =
     sort (map fst (filter (\<lambda>(i, h). bh_health h \<and>
        (case bh_capabilities h of Some c \<Rightarrow> has_capability capability c | None \<Rightarrow> False))
        (rg_backends reg)))"

section \<open>Calls\<close>

definition backend_request ::
  "('b, 'w) backend_ops \<Rightarrow> string \<Rightarrow> string \<Rightarrow> json option \<Rightarrow> nat \<Rightarrow> 'b registry \<Rightarrow> 'w \<Rightarrow> (backend_error + json) \<times> 'w" where
  "backend_request ops i m params timeout reg w =
     (case map_of (rg_backends reg) i of
        None \<Rightarrow> (Inl (backend_error_new Internal (''unknown backend '' @ sq i)), w)
      | Some h \<Rightarrow> op_request ops (bh_backend h) m params timeout w)"

definition perform_call ::
  "('b, 'w) backend_ops \<Rightarrow> 'b \<Rightarrow> string \<Rightarrow> json option \<Rightarrow> jobject \<Rightarrow> nat \<Rightarrow> 'w \<Rightarrow> (backend_error + json) \<times> 'w" where
  "perform_call ops b downstream_name args extra timeout w =
     (if extra = [] then op_call_tool ops b downstream_name args timeout w
      else
        (let params = obj_insert ''arguments'' (case args of Some a \<Rightarrow> a | None \<Rightarrow> JObj [])
               (obj_insert ''name'' (JStr downstream_name) extra)
         in op_request ops b ''tools/call'' (Some (JObj params)) timeout w))"

definition resolve_call ::
  "string \<Rightarrow> json option \<Rightarrow> 'b registry \<Rightarrow> backend_error + routed_tool \<times> 'b backend_handle \<times> json option" where
  "resolve_call exposed_name args reg =
     (case map_of (rg_tool_index reg) exposed_name of
        None \<Rightarrow> Inl (backend_error_new Internal (''no such tool: '' @ exposed_name))
      | Some routed \<Rightarrow>
          (case map_of (rg_backends reg) (rt_backend_id routed) of
             None \<Rightarrow> Inl (backend_error_new Internal (''backend '' @ sq (rt_backend_id routed) @ '' for tool '' @
                       sq exposed_name @ '' is no longer registered''))
           | Some h \<Rightarrow> bind_res (apply_arg_policy (bh_def h) args) (\<lambda>args'. Inr (routed, h, args'))))"

definition route_call_with ::
  "('b, 'w) backend_ops \<Rightarrow> string \<Rightarrow> json option \<Rightarrow> jobject \<Rightarrow> nat \<Rightarrow> 'b registry \<Rightarrow> 'w
     \<Rightarrow> (backend_error + json) \<times> 'b registry \<times> 'w" where
  "route_call_with ops exposed_name args extra timeout reg w =
     (case resolve_call exposed_name args reg of
        Inl e \<Rightarrow> (Inl e, reg, w)
      | Inr (routed, h, args') \<Rightarrow>
          (let i = rt_backend_id routed; b = bh_backend h; mode = def_connection_mode (bh_def h);
               (lazy_result, reg1, w1) =
                 (if mode = Lazy \<and> \<not> is_healthy reg i then connect_backend ops i reg w else (Inr (), reg, w))
           in case lazy_result of
                Inl e \<Rightarrow> (Inl e, reg1, w1)
              | Inr u \<Rightarrow>
                  (if mode = PerCall then
                     (case op_connect ops b w1 of
                        (Inl e, w2) \<Rightarrow> (Inl e, reg1, w2)
                      | (Inr init, w2) \<Rightarrow>
                          (let (result, w3) = perform_call ops b (rt_downstream_name routed) args' extra timeout w2
                           in case op_disconnect ops b w3 of
                                (Inl e, w4) \<Rightarrow> (Inl e, reg1, w4)
                              | (Inr v, w4) \<Rightarrow> (result, reg1, w4)))
                   else
                     (let (result, w2) = perform_call ops b (rt_downstream_name routed) args' extra timeout w1
                      in (result, reg1, w2)))))"

definition route_call ::
  "('b, 'w) backend_ops \<Rightarrow> string \<Rightarrow> json option \<Rightarrow> nat \<Rightarrow> 'b registry \<Rightarrow> 'w
     \<Rightarrow> (backend_error + json) \<times> 'b registry \<times> 'w" where
  "route_call ops exposed_name args timeout = route_call_with ops exposed_name args [] timeout"

section \<open>Health checks\<close>

text \<open>
  The delay before the \<open>n\<close>-th reconnect attempt, in the \<open>u64\<close> arithmetic of the release profile
  (\<open>Cargo.toml\<close> sets no overflow checks): the power and the product wrap around.
\<close>

definition backoff_delay_ms :: "u32 \<Rightarrow> u64" where
  "backoff_delay_ms attempt =
     min (RECONNECT_BASE_DELAY_MS * 2 ^ (unat attempt - 1)) RECONNECT_MAX_DELAY_MS"

definition health_check_one ::
  "('b, 'w) backend_ops \<Rightarrow> string \<Rightarrow> 'b registry \<Rightarrow> 'w \<Rightarrow> 'b registry \<times> 'w" where
  "health_check_one ops i reg w =
     (if \<not> is_healthy reg i then
        (let reg1 = modify_handle i (\<lambda>h. h\<lparr>bh_reconnect_attempts := bh_reconnect_attempts h + 1\<rparr>) reg;
             attempt = (case map_of (rg_backends reg1) i of Some h \<Rightarrow> bh_reconnect_attempts h | None \<Rightarrow> 0);
             (r, reg2, w2) = connect_backend ops i reg1 (op_sleep_ms ops (backoff_delay_ms attempt) w)
         in (reg2, w2))
      else
        (case map_of (rg_backends reg) i of
           None \<Rightarrow> (reg, w)
         | Some h \<Rightarrow>
             (case op_health_check ops (bh_backend h) w of
                (Inr u, w1) \<Rightarrow>
                  (let (refresh, w2) = op_take_tools_refresh ops (bh_backend h) w1 in
                   if refresh then (let (r, reg2, w3) = connect_backend ops i reg w2 in (reg2, w3))
                   else (reg, w2))
              | (Inl e, w1) \<Rightarrow> (set_health i False reg, w1))))"

fun health_check_each ::
  "('b, 'w) backend_ops \<Rightarrow> string list \<Rightarrow> 'b registry \<Rightarrow> 'w \<Rightarrow> 'b registry \<times> 'w" where
  "health_check_each ops [] reg w = (reg, w)"
| "health_check_each ops (i # is) reg w =
     (let (reg', w') = health_check_one ops i reg w in health_check_each ops is reg' w')"

definition run_health_checks :: "('b, 'w) backend_ops \<Rightarrow> 'b registry \<Rightarrow> 'w \<Rightarrow> 'b registry \<times> 'w" where
  "run_health_checks ops reg w =
     health_check_each ops
       (map fst (filter (\<lambda>(i, h). def_connection_mode (bh_def h) \<noteq> PerCall) (rg_backends reg))) reg w"

text \<open>
  The task of \<open>start_health_checks\<close>: it waits for its interval and runs a round, for ever.  The interval is
  the timer's; the model runs a given number of rounds.
\<close>

fun health_rounds ::
  "('b, 'w) backend_ops \<Rightarrow> ('w \<Rightarrow> 'w) \<Rightarrow> nat \<Rightarrow> 'b registry \<Rightarrow> 'w \<Rightarrow> 'b registry \<times> 'w" where
  "health_rounds ops tick 0 reg w = (reg, w)"
| "health_rounds ops tick (Suc n) reg w =
     (let (reg', w') = run_health_checks ops reg (tick w) in health_rounds ops tick n reg' w')"

end
