(* ===== verification/Hub_Registry_Facts.thy ===== *)
theory Hub_Registry_Facts
  imports Hub_Registry "HOL-Library.Multiset"
begin

text \<open>
  The registry's correctness: the invariant of its two tables and that every operation keeps it,
  the exact result of connecting and indexing, what an operation leaves alone, the argument policy
  on calls, and the reconnect back-off.
\<close>

section \<open>Indexing: lemmas\<close>

definition tool_permitted :: "backend_def \<Rightarrow> string \<Rightarrow> bool" where
  "tool_permitted d n \<longleftrightarrow> (def_tools_allow d = [] \<or> n \<in> set (def_tools_allow d)) \<and> n \<notin> set (def_tools_deny d)"

lemma filter_tools_eq: "filter_tools d ts = filter (\<lambda>t. tool_permitted d (td_name t)) ts"
  by (cases "def_tools_allow d = []"; cases "def_tools_deny d = []")
     (simp_all add: filter_tools_def tool_permitted_def)

lemma compute_exposed_name_inj [simp]:
  "compute_exposed_name ns a = compute_exposed_name ns b \<longleftrightarrow> a = b"
  by (auto simp: compute_exposed_name_def split: option.splits)

abbreviation exposed :: "string option \<Rightarrow> tool_descriptor \<Rightarrow> string" where
  "exposed ns t \<equiv> compute_exposed_name ns (td_name t)"

lemma route_of_sel [simp]:
  "rt_backend_id (route_of i ns hid t) = i"
  "rt_exposed_name (route_of i ns hid t) = exposed ns t"
  "rt_downstream_name (route_of i ns hid t) = td_name t"
  "td_name (rt_descriptor (route_of i ns hid t)) = exposed ns t"
  by (simp_all add: route_of_def Let_def)

lemma index_tools_ok_iff:
  "fst (index_tools i ns hid ts idx) = Inr () \<longleftrightarrow>
     distinct (map td_name ts) \<and> exposed ns ` set ts \<inter> fst ` set idx = {}"
proof (induction i ns hid ts idx rule: index_tools.induct)
  case (1 i ns hid idx)
  then show ?case by simp
next
  case (2 i ns hid t ts idx)
  show ?case
  proof (cases "map_of idx (exposed ns t)")
    case None
    have keys: "fst ` set (AList.update (exposed ns t) (route_of i ns hid t) idx) = insert (exposed ns t) (fst ` set idx)"
      by (simp flip: dom_map_of_conv_image_fst add: map_of_update)
    from None have step: "index_tools i ns hid (t # ts) idx =
        index_tools i ns hid ts (AList.update (exposed ns t) (route_of i ns hid t) idx)" by simp
    from None have "exposed ns t \<notin> fst ` set idx" by (simp add: map_of_eq_None_iff)
    with "2.IH" [OF refl None] show ?thesis unfolding step by (auto simp: keys)
  next
    case (Some r)
    then have "exposed ns t \<in> fst ` set idx" by (metis domI dom_map_of_conv_image_fst)
    with Some show ?thesis by auto
  qed
qed

lemma index_tools_table: "table idx \<Longrightarrow> table (snd (index_tools i ns hid ts idx))"
  by (induction i ns hid ts idx rule: index_tools.induct) (auto simp: Let_def split: option.splits)

lemma index_tools_entries:
  "map_of (snd (index_tools i ns hid ts idx)) k = Some rt \<Longrightarrow>
     map_of idx k = Some rt \<or> (\<exists>t \<in> set ts. rt = route_of i ns hid t \<and> k = exposed ns t)"
proof (induction i ns hid ts idx rule: index_tools.induct)
  case (1 i ns hid idx)
  then show ?case by simp
next
  case (2 i ns hid t ts idx)
  show ?case
  proof (cases "map_of idx (exposed ns t)")
    case None
    with "2.prems" "2.IH" [OF refl None] show ?thesis
      by (auto simp: map_of_update split: if_splits)
  next
    case (Some r)
    with "2.prems" show ?thesis by auto
  qed
qed

lemma index_tools_keeps:
  "map_of idx k = Some rt \<Longrightarrow> map_of (snd (index_tools i ns hid ts idx)) k = Some rt"
proof (induction i ns hid ts idx rule: index_tools.induct)
  case (1 i ns hid idx)
  then show ?case by simp
next
  case (2 i ns hid t ts idx)
  show ?case
  proof (cases "map_of idx (exposed ns t)")
    case None
    with "2.prems" have "k \<noteq> exposed ns t" by auto
    with None "2.prems" "2.IH" [OF refl None] show ?thesis by (simp add: map_of_update)
  next
    case (Some r)
    with "2.prems" show ?thesis by simp
  qed
qed

lemma index_tools_adds:
  "fst (index_tools i ns hid ts idx) = Inr () \<Longrightarrow> t \<in> set ts \<Longrightarrow>
     map_of (snd (index_tools i ns hid ts idx)) (exposed ns t) = Some (route_of i ns hid t)"
proof (induction i ns hid ts idx rule: index_tools.induct)
  case (1 i ns hid idx)
  then show ?case by simp
next
  case (2 i ns hid t' ts idx)
  show ?case
  proof (cases "map_of idx (exposed ns t')")
    case None
    show ?thesis
    proof (cases "t \<in> set ts")
      case True
      with None "2.prems" "2.IH" [OF refl None] show ?thesis by simp
    next
      case False
      with "2.prems" have "t = t'" by simp
      with None show ?thesis by (simp add: index_tools_keeps map_of_update)
    qed
  next
    case (Some r)
    with "2.prems" show ?thesis by simp
  qed
qed

section \<open>Schemas and arguments: lemmas\<close>

text \<open>A schema that mentions none of the hidden arguments in its properties or required list.\<close>

definition schema_hides :: "string list \<Rightarrow> json \<Rightarrow> bool" where
  "schema_hides hidden s \<longleftrightarrow>
     (\<forall>props. get_key s ''properties'' = Some (JObj props) \<longrightarrow> fst ` set props \<inter> set hidden = {}) \<and>
     (\<forall>req. get_key s ''required'' = Some (JArr req) \<longrightarrow> JStr ` set hidden \<inter> set req = {})"

lemma get_key_modify_key:
  "get_key (modify_key k f v) j = (if j = k then map_option f (get_key v j) else get_key v j)"
  by (cases v) (auto simp: map_of_table_modify)

lemma retain_props_obj:
  "retain_props hidden v = JObj props \<Longrightarrow> fst ` set props \<inter> set hidden = {}"
  by (cases v) auto

lemma retain_required_arr:
  "retain_required hidden v = JArr req \<Longrightarrow> JStr ` set hidden \<inter> set req = {}"
  by (cases v) auto

lemma strip_schema_hides: "schema_hides hidden (strip_schema_args s hidden)"
proof (cases "hidden = []")
  case True
  then show ?thesis by (simp add: schema_hides_def)
next
  case False
  then show ?thesis
    by (auto simp: schema_hides_def strip_schema_args_def get_key_modify_key
        dest: retain_props_obj retain_required_arr)
qed

fun args_object :: "json option \<Rightarrow> jobject option" where
  "args_object None = Some []"
| "args_object (Some JNull) = Some []"
| "args_object (Some (JObj kvs)) = Some kvs"
| "args_object (Some v) = None"

lemma find_has_key:
  "(find (has_key kvs) ks = None \<longleftrightarrow> (\<forall>k \<in> set ks. \<not> has_key kvs k))"
  by (auto simp: find_None_iff)

lemma map_of_fold_pins: "map_of (fold (\<lambda>(k, v). obj_insert k v) pins kvs) = map_of kvs ++ map_of (rev pins)"
  by (rule map_of_fold_insert)

lemma apply_arg_policy_cases:
  "apply_arg_policy d args =
     (if def_pin_args d = [] \<and> def_deny_args d = [] then Inr args
      else case args_object args of
        None \<Rightarrow> Inl (backend_error_new Protocol ''tool arguments must be an object'')
      | Some kvs \<Rightarrow>
          (case find (has_key kvs) (def_deny_args d) of
            Some denied \<Rightarrow> Inl (backend_error_new Protocol
              (''argument '' @ sq denied @ '' is not allowed for backend '' @ sq (def_id d)))
          | None \<Rightarrow> Inr (Some (JObj (fold (\<lambda>(k, v). obj_insert k v) (def_pin_args d) kvs)))))"
  by (cases args rule: args_object.cases) (simp_all add: apply_arg_policy_def)

section \<open>The registry invariant\<close>

text \<open>
  Every route sits under its exposed name, belongs to a registered backend, is named by that
  backend's namespace, passes its allow and deny lists, and advertises a schema without the hidden
  arguments.
\<close>

definition route_ok :: "backend_def \<Rightarrow> string \<Rightarrow> routed_tool \<Rightarrow> bool" where
  "route_ok d k rt \<longleftrightarrow>
     rt_exposed_name rt = k \<and> td_name (rt_descriptor rt) = k \<and>
     k = compute_exposed_name (def_namespace d) (rt_downstream_name rt) \<and>
     tool_permitted d (rt_downstream_name rt) \<and>
     schema_hides (hidden_args d) (td_input_schema (rt_descriptor rt))"

definition reg_inv :: "'b registry \<Rightarrow> bool" where
  "reg_inv reg \<longleftrightarrow>
     table (rg_backends reg) \<and> table (rg_tool_index reg) \<and>
     (\<forall>i h. map_of (rg_backends reg) i = Some h \<longrightarrow> def_id (bh_def h) = i) \<and>
     (\<forall>k rt. map_of (rg_tool_index reg) k = Some rt \<longrightarrow>
        (\<exists>h. map_of (rg_backends reg) (rt_backend_id rt) = Some h \<and> route_ok (bh_def h) k rt))"

lemma reg_invI:
  assumes "table (rg_backends reg)" and "table (rg_tool_index reg)"
    and "\<And>i h. map_of (rg_backends reg) i = Some h \<Longrightarrow> def_id (bh_def h) = i"
    and "\<And>k rt. map_of (rg_tool_index reg) k = Some rt \<Longrightarrow>
        \<exists>h. map_of (rg_backends reg) (rt_backend_id rt) = Some h \<and> route_ok (bh_def h) k rt"
  shows "reg_inv reg"
  using assms by (simp add: reg_inv_def)

lemma reg_inv_tables: "reg_inv reg \<Longrightarrow> table (rg_backends reg) \<and> table (rg_tool_index reg)"
  by (simp add: reg_inv_def)

lemma reg_inv_id: "reg_inv reg \<Longrightarrow> map_of (rg_backends reg) i = Some h \<Longrightarrow> def_id (bh_def h) = i"
  by (simp add: reg_inv_def)

lemma reg_inv_route:
  assumes "reg_inv reg" and "map_of (rg_tool_index reg) k = Some rt"
  obtains h where "map_of (rg_backends reg) (rt_backend_id rt) = Some h" and "route_ok (bh_def h) k rt"
  using assms unfolding reg_inv_def by blast

lemma route_of_ok:
  "tool_permitted d (td_name t) \<Longrightarrow>
   route_ok d (exposed (def_namespace d) t) (route_of i (def_namespace d) (hidden_args d) t)"
  by (simp add: route_ok_def) (simp add: route_of_def Let_def strip_schema_hides)

lemma reg_inv_new [simp]: "reg_inv registry_new"
  by (simp add: reg_inv_def registry_new_def)

lemma modify_handle_sel [simp]:
  "rg_tool_index (modify_handle i f reg) = rg_tool_index reg"
  "map_of (rg_backends (modify_handle i f reg)) j =
     (if j = i then map_option f (map_of (rg_backends reg) j) else map_of (rg_backends reg) j)"
  "table (rg_backends (modify_handle i f reg)) = table (rg_backends reg)"
  by (simp_all add: modify_handle_def map_of_table_modify)

lemma reg_inv_modify_handle:
  assumes "reg_inv reg" and "\<And>h. bh_def (f h) = bh_def h"
  shows "reg_inv (modify_handle i f reg)"
proof (rule reg_invI)
  fix k rt
  assume "map_of (rg_tool_index (modify_handle i f reg)) k = Some rt"
  then obtain h where "map_of (rg_backends reg) (rt_backend_id rt) = Some h" "route_ok (bh_def h) k rt"
    using assms(1) by (auto elim: reg_inv_route)
  then show "\<exists>h. map_of (rg_backends (modify_handle i f reg)) (rt_backend_id rt) = Some h \<and> route_ok (bh_def h) k rt"
    using assms(2) by auto
next
  fix j h
  assume "map_of (rg_backends (modify_handle i f reg)) j = Some h"
  then show "def_id (bh_def h) = j"
    using assms reg_inv_id [OF assms(1)] by (auto split: if_splits)
qed (use assms(1) in \<open>auto simp: reg_inv_def\<close>)

lemmas handle_ops = set_health_def store_capabilities_def mark_connected_def

lemma reg_inv_handle_ops:
  assumes "reg_inv reg"
  shows "reg_inv (set_health i b reg)" "reg_inv (store_capabilities i c reg)" "reg_inv (mark_connected i reg)"
  using assms by (auto simp: handle_ops intro!: reg_inv_modify_handle)

lemma table_drop_tools_of [simp]: "table idx \<Longrightarrow> table (drop_tools_of i idx)"
  by (simp add: drop_tools_of_def)

lemma map_of_drop_tools_of:
  "table idx \<Longrightarrow> map_of (drop_tools_of i idx) k = Some rt \<longleftrightarrow> map_of idx k = Some rt \<and> rt_backend_id rt \<noteq> i"
  by (auto simp: drop_tools_of_def map_of_retain split: option.splits)

lemma reg_inv_register:
  assumes inv: "reg_inv reg" and reg': "register d b reg = (r, reg')"
  shows "reg_inv reg'"
proof (cases "has_key (rg_backends reg) (def_id d)")
  case True
  with assms show ?thesis by (simp add: register_def)
next
  case False
  then have new: "map_of (rg_backends reg) (def_id d) = None" by (simp add: has_key_def)
  show ?thesis
  proof (rule reg_invI)
    show "table (rg_backends reg')" "table (rg_tool_index reg')"
      using assms False by (auto simp: register_def Let_def reg_inv_def)
  next
    fix i h
    assume "map_of (rg_backends reg') i = Some h"
    then show "def_id (bh_def h) = i"
      using assms False by (auto simp: register_def Let_def map_of_update dest: reg_inv_id split: if_splits)
  next
    fix k rt
    assume "map_of (rg_tool_index reg') k = Some rt"
    then have "map_of (rg_tool_index reg) k = Some rt" using reg' False by (auto simp: register_def Let_def)
    then obtain h where h: "map_of (rg_backends reg) (rt_backend_id rt) = Some h" "route_ok (bh_def h) k rt"
      using inv by (auto elim: reg_inv_route)
    with new have "rt_backend_id rt \<noteq> def_id d" by auto
    with h show "\<exists>h. map_of (rg_backends reg') (rt_backend_id rt) = Some h \<and> route_ok (bh_def h) k rt"
      using reg' False by (auto simp: register_def Let_def map_of_update)
  qed
qed

lemma reg_inv_unregister:
  assumes inv: "reg_inv reg" and un: "unregister ops i reg w = (r, reg', w')"
  shows "reg_inv reg'"
proof (cases "map_of (rg_backends reg) i")
  case None
  with assms show ?thesis by (simp add: unregister_def)
next
  case (Some h)
  then have reg': "reg' = reg\<lparr>rg_backends := AList.delete i (rg_backends reg),
      rg_tool_index := drop_tools_of i (rg_tool_index reg)\<rparr>"
    using un by (auto simp: unregister_def Let_def split: prod.splits)
  have t: "table (rg_backends reg)" "table (rg_tool_index reg)" using inv by (auto simp: reg_inv_def)
  show ?thesis
  proof (rule reg_invI)
    fix k rt
    assume "map_of (rg_tool_index reg') k = Some rt"
    then have k: "map_of (rg_tool_index reg) k = Some rt" "rt_backend_id rt \<noteq> i"
      by (auto simp: reg' map_of_drop_tools_of t)
    then show "\<exists>h. map_of (rg_backends reg') (rt_backend_id rt) = Some h \<and> route_ok (bh_def h) k rt"
      using inv by (auto simp: reg' map_of_delete elim!: reg_inv_route)
  next
    fix j h'
    assume "map_of (rg_backends reg') j = Some h'"
    then show "def_id (bh_def h') = j"
      using inv by (auto simp: reg' map_of_delete dest: reg_inv_id split: if_splits)
  qed (use t in \<open>auto simp: reg'\<close>)
qed

lemma reg_inv_index:
  assumes inv: "reg_inv reg" and h: "map_of (rg_backends reg) i = Some h"
    and ts: "\<forall>t \<in> set ts. tool_permitted (bh_def h) (td_name t)"
    and idx: "index_tools i (def_namespace (bh_def h)) (hidden_args (bh_def h)) ts
        (drop_tools_of i (rg_tool_index reg)) = (r, idx)"
  shows "reg_inv (reg\<lparr>rg_tool_index := idx\<rparr>)"
proof (rule reg_invI)
  have t: "table (rg_tool_index reg)" using inv by (simp add: reg_inv_def)
  then show "table (rg_tool_index (reg\<lparr>rg_tool_index := idx\<rparr>))"
    using index_tools_table [OF table_drop_tools_of] idx by (metis registry.select_convs(2) registry.update_convs(2) registry.surjective snd_conv)
  fix k rt
  assume "map_of (rg_tool_index (reg\<lparr>rg_tool_index := idx\<rparr>)) k = Some rt"
  then have "map_of (snd (index_tools i (def_namespace (bh_def h)) (hidden_args (bh_def h)) ts
        (drop_tools_of i (rg_tool_index reg)))) k = Some rt" using idx by simp
  from index_tools_entries [OF this]
  show "\<exists>h. map_of (rg_backends (reg\<lparr>rg_tool_index := idx\<rparr>)) (rt_backend_id rt) = Some h \<and> route_ok (bh_def h) k rt"
  proof
    assume "map_of (drop_tools_of i (rg_tool_index reg)) k = Some rt"
    then show ?thesis using inv by (auto simp: map_of_drop_tools_of t elim!: reg_inv_route)
  next
    assume "\<exists>x \<in> set ts. rt = route_of i (def_namespace (bh_def h)) (hidden_args (bh_def h)) x
        \<and> k = exposed (def_namespace (bh_def h)) x"
    then show ?thesis using h ts route_of_ok by fastforce
  qed
qed (use inv in \<open>auto simp: reg_inv_def\<close>)

text \<open>The ways a connect can end, one per return of the code.\<close>

definition connect_index ::
  "'b backend_handle \<Rightarrow> string \<Rightarrow> tool_descriptor list \<Rightarrow> 'b registry \<Rightarrow> (backend_error + unit) \<times> (string \<times> routed_tool) list" where
  "connect_index h i tools reg =
     index_tools i (def_namespace (bh_def h)) (hidden_args (bh_def h)) (filter_tools (bh_def h) tools)
       (drop_tools_of i (rg_tool_index reg))"

lemma connect_backend_cases:
  assumes "connect_backend ops i reg w = (r, reg', w')"
  obtains (unknown) "map_of (rg_backends reg) i = None" "r = Inl (not_registered i)" "reg' = reg" "w' = w"
  | (refused) h e where "map_of (rg_backends reg) i = Some h" "op_connect ops (bh_backend h) w = (Inl e, w')"
      "r = Inl e" "reg' = reg"
  | (no_list) h init w1 e where "map_of (rg_backends reg) i = Some h"
      "op_connect ops (bh_backend h) w = (Inr init, w1)" "op_list_tools ops (bh_backend h) w1 = (Inl e, w')"
      "r = Inl e" "reg' = store_capabilities i (ir_capabilities init) reg"
  | (collision) h init w1 tools e idx where "map_of (rg_backends reg) i = Some h"
      "op_connect ops (bh_backend h) w = (Inr init, w1)" "op_list_tools ops (bh_backend h) w1 = (Inr tools, w')"
      "connect_index h i tools reg = (Inl e, idx)"
      "r = Inl e" "reg' = (store_capabilities i (ir_capabilities init) reg)\<lparr>rg_tool_index := idx\<rparr>"
  | (connected) h init w1 tools idx where "map_of (rg_backends reg) i = Some h"
      "op_connect ops (bh_backend h) w = (Inr init, w1)" "op_list_tools ops (bh_backend h) w1 = (Inr tools, w')"
      "connect_index h i tools reg = (Inr (), idx)"
      "r = Inr ()" "reg' = mark_connected i ((store_capabilities i (ir_capabilities init) reg)\<lparr>rg_tool_index := idx\<rparr>)"
proof (cases "map_of (rg_backends reg) i")
  case None
  with assms show thesis by (intro unknown) (auto simp: connect_backend_def)
next
  case (Some h)
  obtain c w1 where c: "op_connect ops (bh_backend h) w = (c, w1)" by fastforce
  show thesis
  proof (cases c)
    case (Inl e)
    with assms Some c show thesis by (intro refused) (auto simp: connect_backend_def)
  next
    case (Inr init)
    obtain l w2 where l: "op_list_tools ops (bh_backend h) w1 = (l, w2)" by fastforce
    show thesis
    proof (cases l)
      case (Inl e)
      with assms Some c Inr l show thesis by (intro no_list) (auto simp: connect_backend_def)
    next
      case tools: (Inr tools)
      obtain q idx where q: "connect_index h i tools reg = (q, idx)" by fastforce
      note facts = assms Some c Inr l tools q [unfolded connect_index_def]
      show thesis
      proof (cases q)
        case (Inl e)
        with facts show thesis
          by (intro collision) (auto simp: connect_backend_def store_capabilities_def connect_index_def)
      next
        case (Inr u)
        with facts show thesis
          by (intro connected) (auto simp: connect_backend_def store_capabilities_def connect_index_def)
      qed
    qed
  qed
qed

lemma reg_inv_connect_index:
  assumes inv: "reg_inv reg" and h: "map_of (rg_backends reg) i = Some h"
    and idx: "connect_index h i tools reg = (r, idx)"
  shows "reg_inv ((store_capabilities i c reg)\<lparr>rg_tool_index := idx\<rparr>)"
proof (rule reg_inv_index [where h = "h\<lparr>bh_capabilities := Some c\<rparr>"])
  show "reg_inv (store_capabilities i c reg)" by (rule reg_inv_handle_ops(2) [OF inv])
qed (use assms in \<open>auto simp: store_capabilities_def filter_tools_eq connect_index_def\<close>)

lemma reg_inv_connect:
  assumes inv: "reg_inv reg" and c: "connect_backend ops i reg w = (r, reg', w')"
  shows "reg_inv reg'"
  using c
  by (cases rule: connect_backend_cases)
    (simp_all add: inv reg_inv_handle_ops reg_inv_connect_index [OF inv])

section \<open>What operations keep\<close>

text \<open>
  A relation between the registry before and after, kept by one connect, by an update of a handle
  that leaves its definition alone and by clearing the index, is kept by every composite operation.
\<close>

locale registry_transition =
  fixes ops :: "('b, 'w) backend_ops" and R :: "'b registry \<Rightarrow> 'b registry \<Rightarrow> bool"
  assumes R_refl: "R reg reg"
    and R_trans: "R reg reg1 \<Longrightarrow> R reg1 reg2 \<Longrightarrow> R reg reg2"
    and R_connect: "connect_backend ops i reg w = (r, reg', w') \<Longrightarrow> R reg reg'"
    and R_handle: "(\<And>h. bh_def (f h) = bh_def h) \<Longrightarrow> (\<And>h. bh_backend (f h) = bh_backend h) \<Longrightarrow>
        R reg (modify_handle i f reg)"
    and R_clear: "R reg (reg\<lparr>rg_tool_index := []\<rparr>)"
begin

lemma R_connect_each: "connect_each ops is reg w = (rs, reg', w') \<Longrightarrow> R reg reg'"
proof (induction "is" arbitrary: reg w rs)
  case Nil
  then show ?case by (simp add: R_refl)
next
  case (Cons i "is")
  then show ?case by (auto simp: Let_def split: prod.splits intro: R_trans R_connect)
qed

lemma R_connect_all: "connect_all ops reg w = (rs, reg', w') \<Longrightarrow> R reg reg'"
  by (auto simp: connect_all_def intro: R_connect_each)

lemma R_reconnect: "reconnect_backend ops i reg w = (r, reg', w') \<Longrightarrow> R reg reg'"
  by (auto simp: reconnect_backend_def Let_def intro: R_connect)

lemma R_refresh: "refresh_tools ops reg w = (r, reg', w') \<Longrightarrow> R reg reg'"
  by (auto simp: refresh_tools_def Let_def split: prod.splits intro: R_trans [OF R_clear] R_connect_each)

lemma R_route_call_with: "route_call_with ops n args extra t reg w = (r, reg', w') \<Longrightarrow> R reg reg'"
  by (auto simp: route_call_with_def Let_def R_refl intro: R_connect
      split: sum.splits prod.splits if_splits)

lemma R_route_call: "route_call ops n args t reg w = (r, reg', w') \<Longrightarrow> R reg reg'"
  by (auto simp: route_call_def intro: R_route_call_with)

lemma R_health_check_one: "health_check_one ops i reg w = (reg', w') \<Longrightarrow> R reg reg'"
proof (cases "is_healthy reg i")
  case True
  then show "health_check_one ops i reg w = (reg', w') \<Longrightarrow> R reg reg'"
    by (auto simp: health_check_one_def Let_def R_refl set_health_def intro: R_connect R_handle
        split: option.splits prod.splits sum.splits if_splits)
next
  case False
  assume "health_check_one ops i reg w = (reg', w')"
  with False obtain r w1 where "connect_backend ops i
      (modify_handle i (\<lambda>h. h\<lparr>bh_reconnect_attempts := bh_reconnect_attempts h + 1\<rparr>) reg) w1 = (r, reg', w')"
    by (auto simp: health_check_one_def Let_def split: prod.splits)
  from R_trans [OF R_handle R_connect [OF this]] show "R reg reg'" by simp
qed

lemma R_health_check_each: "health_check_each ops is reg w = (reg', w') \<Longrightarrow> R reg reg'"
proof (induction "is" arbitrary: reg w)
  case Nil
  then show ?case by (simp add: R_refl)
next
  case (Cons i "is")
  then show ?case by (auto simp: Let_def split: prod.splits intro: R_trans R_health_check_one)
qed

lemma R_run_health_checks: "run_health_checks ops reg w = (reg', w') \<Longrightarrow> R reg reg'"
  by (auto simp: run_health_checks_def intro: R_health_check_each)

lemma R_health_rounds: "health_rounds ops tick n reg w = (reg', w') \<Longrightarrow> R reg reg'"
proof (induction n arbitrary: reg w)
  case 0
  then show ?case by (simp add: R_refl)
next
  case (Suc n)
  then show ?case by (auto split: prod.splits intro: R_trans R_run_health_checks)
qed

lemmas R_ops = R_connect R_connect_each R_connect_all R_reconnect R_refresh R_route_call_with
  R_route_call R_health_check_one R_health_check_each R_run_health_checks R_health_rounds

end

text \<open>The invariant.\<close>

interpretation keeps_inv: registry_transition ops "\<lambda>reg reg'. reg_inv reg \<longrightarrow> reg_inv reg'"
  for ops :: "('b, 'w) backend_ops"
proof
  show "\<And>reg. reg_inv reg \<longrightarrow> reg_inv (reg\<lparr>rg_tool_index := []\<rparr>)" by (simp add: reg_inv_def)
qed (blast intro: reg_inv_modify_handle reg_inv_connect)+

text \<open>The set of backends, with their definitions (policies, namespaces, timeouts) and connections.\<close>

definition backend_defs :: "'b registry \<Rightarrow> (string \<times> backend_def \<times> 'b) list" where
  "backend_defs reg = map (\<lambda>(i, h). (i, bh_def h, bh_backend h)) (rg_backends reg)"

lemma backend_defs_index [simp]: "backend_defs (reg\<lparr>rg_tool_index := idx\<rparr>) = backend_defs reg"
  by (simp add: backend_defs_def)

lemma backend_defs_modify_handle [simp]:
  "(\<And>h. bh_def (f h) = bh_def h) \<Longrightarrow> (\<And>h. bh_backend (f h) = bh_backend h) \<Longrightarrow>
     backend_defs (modify_handle i f reg) = backend_defs reg"
  by (auto simp: backend_defs_def modify_handle_def table_modify_def)

lemma backend_defs_connect:
  "connect_backend ops i reg w = (r, reg', w') \<Longrightarrow> backend_defs reg' = backend_defs reg"
  by (erule connect_backend_cases) (simp_all add: handle_ops)

interpretation keeps_defs: registry_transition ops "\<lambda>reg reg'. backend_defs reg' = backend_defs reg"
  for ops :: "('b, 'w) backend_ops"
  by unfold_locales (auto dest: backend_defs_connect)

section \<open>Reachable registries\<close>

text \<open>
  Every sequence of operations from the empty registry, with any downstream behaviour: each step
  runs in a world of its own, so nothing is assumed of what happens outside between two steps.
\<close>

inductive registry_reach :: "('b, 'w) backend_ops \<Rightarrow> 'b registry \<Rightarrow> bool" for ops :: "('b, 'w) backend_ops" where
  reach_new: "registry_reach ops registry_new"
| reach_register: "registry_reach ops reg \<Longrightarrow> register d b reg = (r, reg') \<Longrightarrow> registry_reach ops reg'"
| reach_unregister: "registry_reach ops reg \<Longrightarrow> unregister ops i reg w = (r, reg', w') \<Longrightarrow> registry_reach ops reg'"
| reach_connect_all: "registry_reach ops reg \<Longrightarrow> connect_all ops reg w = (rs, reg', w') \<Longrightarrow> registry_reach ops reg'"
| reach_reconnect: "registry_reach ops reg \<Longrightarrow> reconnect_backend ops i reg w = (r, reg', w') \<Longrightarrow> registry_reach ops reg'"
| reach_refresh: "registry_reach ops reg \<Longrightarrow> refresh_tools ops reg w = (r, reg', w') \<Longrightarrow> registry_reach ops reg'"
| reach_call: "registry_reach ops reg \<Longrightarrow> route_call_with ops n args extra t reg w = (c, reg', w') \<Longrightarrow> registry_reach ops reg'"
| reach_health: "registry_reach ops reg \<Longrightarrow> run_health_checks ops reg w = (reg', w') \<Longrightarrow> registry_reach ops reg'"

lemma registry_reach_inv: "registry_reach ops reg \<Longrightarrow> reg_inv reg"
proof (induction rule: registry_reach.induct)
  case reach_new
  show ?case by simp
next
  case reach_register
  then show ?case by (blast intro: reg_inv_register)
next
  case reach_unregister
  then show ?case by (blast intro: reg_inv_unregister)
qed (blast dest: keeps_inv.R_ops)+

text \<open>A small instance: two backends, each named by its one tool; every operation succeeds.\<close>

definition sample_def :: "string \<Rightarrow> string option \<Rightarrow> connection_mode \<Rightarrow> backend_def" where
  "sample_def i ns mode =
     \<lparr>def_id = i, def_label = None, def_transport = Stdio ''srv'' [] [] None, def_namespace = ns,
      def_connection_mode = mode, def_connect_timeout_secs = 30, def_call_timeout_secs = 30,
      def_stderr_mode = LogOnError, def_tools_allow = [], def_tools_deny = [''drop''],
      def_unavailable_hint = None, def_forward_request_meta = False,
      def_pin_args = [(''safe'', JBool True)], def_deny_args = [''force'']\<rparr>"

definition sample_tool :: "string \<Rightarrow> tool_descriptor" where
  "sample_tool n = \<lparr>td_name = n, td_description = n,
     td_input_schema = JObj [(''properties'', JObj [(''force'', JNull), (''q'', JNull)])]\<rparr>"

definition sample_caps :: server_capabilities where
  "sample_caps = \<lparr>sc_tools = Some True, sc_resources = None, sc_prompts = None, sc_events = None\<rparr>"

definition sample_ops :: "(string, unit) backend_ops" where
  "sample_ops =
     \<lparr>op_connect = \<lambda>b w. (Inr \<lparr>ir_protocol_version = ''2024-11-05'',
         ir_server_info = \<lparr>si_name = b, si_version = ''1''\<rparr>, ir_capabilities = sample_caps\<rparr>, w),
      op_list_tools = \<lambda>b w. (Inr [sample_tool b, sample_tool ''drop''], w),
      op_call_tool = \<lambda>b n args t w. (Inr (JStr n), w),
      op_disconnect = \<lambda>b w. (Inr (), w),
      op_health_check = \<lambda>b w. (Inr (), w),
      op_request = \<lambda>b m p t w. (Inr JNull, w),
      op_take_tools_refresh = \<lambda>b w. (False, w),
      op_sleep_ms = \<lambda>n w. w\<rparr>"

definition sample_start :: "string registry" where
  "sample_start = snd (register (sample_def ''b'' None Lazy) ''g''
     (snd (register (sample_def ''a'' (Some ''ns'') Eager) ''f'' registry_new)))"

definition sample_registry :: "string registry" where
  "sample_registry = fst (snd (connect_all sample_ops sample_start ()))"

lemma sample_start_reach: "registry_reach sample_ops sample_start"
  unfolding sample_start_def
  by (rule reach_register [OF reach_register [OF reach_new prod.collapse [symmetric]] prod.collapse [symmetric]])

lemma sample_registry_reach: "registry_reach sample_ops sample_registry"
  unfolding sample_registry_def
  by (rule reach_connect_all [OF sample_start_reach, of "()" "fst (connect_all sample_ops sample_start ())" _
        "snd (snd (connect_all sample_ops sample_start ()))"]) (simp add: prod_eq_iff)

lemmas sample_registry_defs = sample_registry_def sample_start_def sample_def_def sample_ops_def
  sample_tool_def sample_caps_def

lemma sample_registry_tools: "map fst (rg_tool_index sample_registry) = [''ns.f'']"
  by (simp add: sample_registry_defs) code_simp

section \<open>Properties\<close>

lemma is_healthy_iff: "is_healthy reg i \<longleftrightarrow> (\<exists>h. map_of (rg_backends reg) i = Some h \<and> bh_health h)"
  by (simp add: is_healthy_def split: option.splits)

lemma distinct_routes:
  assumes "reg_inv reg"
  shows "distinct (map (\<lambda>(k, rt). td_name (rt_descriptor rt)) (rg_tool_index reg))"
proof -
  have t: "table (rg_tool_index reg)" using assms by (simp add: reg_inv_def)
  have "td_name (rt_descriptor rt) = k" if "(k, rt) \<in> set (rg_tool_index reg)" for k rt
    using that t assms by (metis reg_inv_route route_ok_def table_map_of)
  then have "map (\<lambda>(k, rt). td_name (rt_descriptor rt)) (rg_tool_index reg) = map fst (rg_tool_index reg)"
    by auto
  with t show ?thesis by (simp only: table_def)
qed

lemma aggregated_names:
  assumes "reg_inv reg"
  shows "distinct (map td_name (aggregated_tools reg))"
proof -
  let ?f = "filter (\<lambda>(k, rt). is_healthy reg (rt_backend_id rt)) (rg_tool_index reg)"
  have e: "map td_name (map rt_descriptor
       (filter (\<lambda>routed. is_healthy reg (rt_backend_id routed)) (map snd (rg_tool_index reg))))
     = map (\<lambda>(k, rt). td_name (rt_descriptor rt)) ?f"
    by (induction "rg_tool_index reg") (auto simp: filter_map o_def case_prod_beta)
  have "distinct (map (\<lambda>(k, rt). td_name (rt_descriptor rt)) ?f)"
    by (rule distinct_map_filter [OF distinct_routes [OF assms]])
  then have "distinct (map td_name (map rt_descriptor
       (filter (\<lambda>routed. is_healthy reg (rt_backend_id routed)) (map snd (rg_tool_index reg)))))"
    unfolding e .
  then show ?thesis
    unfolding aggregated_tools_def by (metis mset_eq_imp_distinct_iff mset_map mset_sort)
qed

lemma set_aggregated_tools:
  assumes "table (rg_tool_index reg)"
  shows "set (aggregated_tools reg) =
    {rt_descriptor rt | k rt. map_of (rg_tool_index reg) k = Some rt \<and> is_healthy reg (rt_backend_id rt)}"
  using assms by (force simp: aggregated_tools_def table_map_of)

lemma advertised_of_inv:
  assumes inv: "reg_inv reg"
  shows "sorted (map td_name (aggregated_tools reg)) \<and> distinct (map td_name (aggregated_tools reg)) \<and>
    set (aggregated_tools reg) =
      {rt_descriptor rt | rt h.
         map_of (rg_tool_index reg) (td_name (rt_descriptor rt)) = Some rt \<and>
         map_of (rg_backends reg) (rt_backend_id rt) = Some h \<and> bh_health h \<and>
         td_name (rt_descriptor rt) = compute_exposed_name (def_namespace (bh_def h)) (rt_downstream_name rt) \<and>
         tool_permitted (bh_def h) (rt_downstream_name rt) \<and>
         schema_hides (map fst (def_pin_args (bh_def h)) @ def_deny_args (bh_def h))
           (td_input_schema (rt_descriptor rt))}"
proof (intro conjI)
  from inv have t: "table (rg_tool_index reg)" by (simp add: reg_inv_def)
  show "sorted (map td_name (aggregated_tools reg))" by (simp add: aggregated_tools_def)
  show "distinct (map td_name (aggregated_tools reg))" by (rule aggregated_names [OF inv])
  show "set (aggregated_tools reg) = {rt_descriptor rt | rt h.
         map_of (rg_tool_index reg) (td_name (rt_descriptor rt)) = Some rt \<and>
         map_of (rg_backends reg) (rt_backend_id rt) = Some h \<and> bh_health h \<and>
         td_name (rt_descriptor rt) = compute_exposed_name (def_namespace (bh_def h)) (rt_downstream_name rt) \<and>
         tool_permitted (bh_def h) (rt_downstream_name rt) \<and>
         schema_hides (map fst (def_pin_args (bh_def h)) @ def_deny_args (bh_def h))
           (td_input_schema (rt_descriptor rt))}" (is "_ = ?S")
  proof (intro subset_antisym subsetI)
    fix d assume "d \<in> set (aggregated_tools reg)"
    then obtain k rt h where *: "d = rt_descriptor rt" "map_of (rg_tool_index reg) k = Some rt"
        "map_of (rg_backends reg) (rt_backend_id rt) = Some h" "bh_health h"
      by (auto simp: set_aggregated_tools [OF t] is_healthy_iff)
    with inv have "route_ok (bh_def h) k rt" by (metis option.inject reg_inv_route)
    with * show "d \<in> ?S" unfolding route_ok_def hidden_args_def
      by (intro CollectI exI [of _ rt] exI [of _ h]) auto
  next
    fix d assume "d \<in> ?S"
    then show "d \<in> set (aggregated_tools reg)" by (auto simp: set_aggregated_tools [OF t] is_healthy_iff)
  qed
qed

text \<open>
  In every registry reachable by any sequence of operations, whatever the downstream servers
  do, the advertised tool list is sorted by name without duplicates, and each advertised tool
  belongs to a registered healthy backend that routes its name, is named by that backend's
  namespace, passes its allow and deny lists, and shows no pinned or denied argument in its schema.
\<close>

theorem advertised_tools_sound:
  assumes "registry_reach ops reg"
  shows "sorted (map td_name (aggregated_tools reg)) \<and> distinct (map td_name (aggregated_tools reg)) \<and>
    set (aggregated_tools reg) =
      {rt_descriptor rt | rt h.
         map_of (rg_tool_index reg) (td_name (rt_descriptor rt)) = Some rt \<and>
         map_of (rg_backends reg) (rt_backend_id rt) = Some h \<and> bh_health h \<and>
         td_name (rt_descriptor rt) = compute_exposed_name (def_namespace (bh_def h)) (rt_downstream_name rt) \<and>
         tool_permitted (bh_def h) (rt_downstream_name rt) \<and>
         schema_hides (map fst (def_pin_args (bh_def h)) @ def_deny_args (bh_def h))
           (td_input_schema (rt_descriptor rt))}"
  by (rule advertised_of_inv [OF registry_reach_inv [OF assms]])

theorem advertised_tools_sound_witness:
  "sorted (map td_name (aggregated_tools sample_registry)) \<and>
   distinct (map td_name (aggregated_tools sample_registry)) \<and>
   map td_name (aggregated_tools sample_registry) = [''ns.f'']"
proof -
  have "map td_name (aggregated_tools sample_registry) = [''ns.f'']" by code_simp
  with advertised_tools_sound [OF sample_registry_reach] show ?thesis by blast
qed

text \<open>
  Connecting a backend succeeds exactly when it is registered, its handshake and its tool list
  succeed, the tools its allow and deny lists let through have distinct names, and none of their
  exposed names is routed to another backend.
\<close>

theorem connect_succeeds_iff:
  "fst (connect_backend ops i reg w) = Inr () \<longleftrightarrow>
     (case map_of (rg_backends reg) i of
        None \<Rightarrow> False
      | Some h \<Rightarrow>
          (case op_connect ops (bh_backend h) w of
             (Inl e, w1) \<Rightarrow> False
           | (Inr init, w1) \<Rightarrow>
               (case fst (op_list_tools ops (bh_backend h) w1) of
                  Inl e \<Rightarrow> False
                | Inr tools \<Rightarrow>
                    distinct (map td_name (filter (\<lambda>t. tool_permitted (bh_def h) (td_name t)) tools)) \<and>
                    {compute_exposed_name (def_namespace (bh_def h)) (td_name t) | t.
                       t \<in> set tools \<and> tool_permitted (bh_def h) (td_name t)} \<inter>
                    {k. \<exists>rt. (k, rt) \<in> set (rg_tool_index reg) \<and> rt_backend_id rt \<noteq> i} = {})))"
proof -
  have keys: "fst ` set (drop_tools_of i (rg_tool_index reg)) =
      {k. \<exists>rt. (k, rt) \<in> set (rg_tool_index reg) \<and> rt_backend_id rt \<noteq> i}"
    by (force simp: drop_tools_of_def set_retain)
  have names: "exposed (def_namespace d) ` set (filter (\<lambda>t. tool_permitted d (td_name t)) ts) =
      {compute_exposed_name (def_namespace d) (td_name t) | t. t \<in> set ts \<and> tool_permitted d (td_name t)}"
    for d ts by auto
  have ok: "fst (connect_index h i ts reg) = Inr () \<longleftrightarrow>
      distinct (map td_name (filter (\<lambda>t. tool_permitted (bh_def h) (td_name t)) ts)) \<and>
      {compute_exposed_name (def_namespace (bh_def h)) (td_name t) | t.
         t \<in> set ts \<and> tool_permitted (bh_def h) (td_name t)} \<inter>
      {k. \<exists>rt. (k, rt) \<in> set (rg_tool_index reg) \<and> rt_backend_id rt \<noteq> i} = {}" for h ts
    unfolding connect_index_def filter_tools_eq index_tools_ok_iff keys names ..
  have split: "fst (connect_backend ops i reg w) = Inr () \<longleftrightarrow>
      (\<exists>h init w1 tools w2. map_of (rg_backends reg) i = Some h \<and>
         op_connect ops (bh_backend h) w = (Inr init, w1) \<and>
         op_list_tools ops (bh_backend h) w1 = (Inr tools, w2) \<and>
         fst (connect_index h i tools reg) = Inr ())"
  proof -
    obtain r reg' w' where c: "connect_backend ops i reg w = (r, reg', w')" by (cases "connect_backend ops i reg w")
    from c show ?thesis by (cases rule: connect_backend_cases) (auto simp: c)
  qed
  show ?thesis
    unfolding split ok [symmetric]
    by (auto split: option.splits prod.splits sum.splits) (metis prod.collapse)
qed

lemma update_new: "map_of m k = None \<Longrightarrow> AList.update k v m = m @ [(k, v)]"
  by (induction m) (auto split: if_splits)

lemma index_tools_result:
  "fst (index_tools i ns hid ts idx) = Inr () \<Longrightarrow>
     snd (index_tools i ns hid ts idx) = idx @ map (\<lambda>t. (exposed ns t, route_of i ns hid t)) ts"
  by (induction i ns hid ts idx rule: index_tools.induct) (auto simp: Let_def update_new split: option.splits)

lemma index_tools_others: "drop_tools_of i (snd (index_tools i ns hid ts idx)) = drop_tools_of i idx"
  by (induction i ns hid ts idx rule: index_tools.induct)
    (auto simp: Let_def update_new drop_tools_of_def retain_def split: option.splits)

lemma drop_tools_of_idem [simp]: "drop_tools_of i (drop_tools_of i idx) = drop_tools_of i idx"
  by (simp add: drop_tools_of_def retain_def)

lemma connect_index_others:
  "connect_index h i ts reg = (r, idx) \<Longrightarrow> drop_tools_of i idx = drop_tools_of i (rg_tool_index reg)"
  unfolding connect_index_def by (metis drop_tools_of_idem index_tools_others snd_conv)

lemma connect_index_result:
  "connect_index h i ts reg = (Inr (), idx) \<Longrightarrow>
     idx = drop_tools_of i (rg_tool_index reg) @
       map (\<lambda>t. (exposed (def_namespace (bh_def h)) t, route_of i (def_namespace (bh_def h)) (hidden_args (bh_def h)) t))
         (filter (\<lambda>t. tool_permitted (bh_def h) (td_name t)) ts)"
  unfolding connect_index_def filter_tools_eq by (metis fst_conv index_tools_result snd_conv)

lemma map_of_modify_other [simp]:
  "(map_of (rg_backends (modify_handle i f reg)))(i := None) = (map_of (rg_backends reg))(i := None)"
  by auto

text \<open>
  C8: Connecting a backend, however it ends, leaves every other backend's handle and every other
  backend's routes exactly as they were; on success the backend's routes are those of the permitted
  tools it listed and nothing else, it is healthy, its capabilities are the ones it reported and its
  reconnect counter is zero; on failure its health is unchanged.
\<close>

theorem connect_effect:
  "case connect_backend ops i reg w of
     (r, reg', w') \<Rightarrow>
       drop_tools_of i (rg_tool_index reg') = drop_tools_of i (rg_tool_index reg) \<and>
       (map_of (rg_backends reg'))(i := None) = (map_of (rg_backends reg))(i := None) \<and>
       (case r of
          Inl e \<Rightarrow> is_healthy reg' i = is_healthy reg i
        | Inr u \<Rightarrow>
            (\<exists>h init w1 tools.
               map_of (rg_backends reg) i = Some h \<and>
               op_connect ops (bh_backend h) w = (Inr init, w1) \<and>
               op_list_tools ops (bh_backend h) w1 = (Inr tools, w') \<and>
               rg_tool_index reg' = drop_tools_of i (rg_tool_index reg) @
                 map (\<lambda>t. (compute_exposed_name (def_namespace (bh_def h)) (td_name t),
                           route_of i (def_namespace (bh_def h)) (hidden_args (bh_def h)) t))
                   (filter (\<lambda>t. tool_permitted (bh_def h) (td_name t)) tools) \<and>
               map_of (rg_backends reg') i =
                 Some (h\<lparr>bh_health := True, bh_capabilities := Some (ir_capabilities init),
                         bh_reconnect_attempts := 0\<rparr>)))"
proof -
  obtain r reg' w' where c: "connect_backend ops i reg w = (r, reg', w')" by (cases "connect_backend ops i reg w")
  from c show ?thesis
  proof (cases rule: connect_backend_cases)
    case unknown
    then show ?thesis by (simp add: c)
  next
    case refused
    then show ?thesis by (simp add: c)
  next
    case no_list
    then show ?thesis by (simp add: c handle_ops is_healthy_def)
  next
    case (collision h init w1 tools e idx)
    then show ?thesis
      using connect_index_others [OF collision(4)] by (simp add: c handle_ops is_healthy_def)
  next
    case (connected h init w1 tools idx)
    from connected(1-3,5,6) connect_index_others [OF connected(4)] connect_index_result [OF connected(4)]
    show ?thesis by (simp add: c handle_ops)
  qed
qed

section \<open>The argument policy\<close>

text \<open>
  C23: The argument policy of a backend with no pinned and no denied argument changes nothing.
  Otherwise arguments that are not an object are refused, an object that holds a denied argument is
  refused, both with a protocol error, and any other call goes out with the caller's arguments
  overridden by the pinned ones.
\<close>

theorem apply_arg_policy_exact:
  "case apply_arg_policy d args of
     Inl e \<Rightarrow> be_kind e = Protocol \<and> (args_object args = None \<or>
       (\<exists>kvs k. args_object args = Some kvs \<and> k \<in> set (def_deny_args d) \<and> k \<in> fst ` set kvs))
   | Inr args' \<Rightarrow>
       (if def_pin_args d = [] \<and> def_deny_args d = [] then args' = args
        else \<exists>kvs kvs'. args_object args = Some kvs \<and> args' = Some (JObj kvs') \<and>
          fst ` set kvs \<inter> set (def_deny_args d) = {} \<and>
          map_of kvs' = map_of kvs ++ map_of (rev (def_pin_args d)))"
proof (cases "def_pin_args d = [] \<and> def_deny_args d = []")
  case True
  then show ?thesis by (simp add: apply_arg_policy_cases)
next
  case pol: False
  show ?thesis
  proof (cases "args_object args")
    case None
    with pol show ?thesis by (simp only: apply_arg_policy_cases if_False option.case sum.case) simp
  next
    case (Some kvs)
    show ?thesis
    proof (cases "find (has_key kvs) (def_deny_args d)")
      case None
      then have "fst ` set kvs \<inter> set (def_deny_args d) = {}" by (auto simp: find_None_iff has_key_iff)
      with pol Some None show ?thesis
        by (simp only: apply_arg_policy_cases if_False option.case sum.case) (simp add: map_of_fold_pins)
    next
      case (Some k)
      then have "k \<in> set (def_deny_args d)" "k \<in> fst ` set kvs" by (auto simp: find_Some_iff has_key_iff)
      with pol Some \<open>args_object args = Some kvs\<close> show ?thesis
        by (simp only: apply_arg_policy_cases if_False option.case sum.case) auto
    qed
  qed
qed

section \<open>Reconnect back-off\<close>

lemma unat_min: "unat (min a b) = min (unat a) (unat (b :: 'a :: len word))"
  by (simp add: min_def word_le_nat_alt)

lemma unat_backoff: "unat (backoff_delay_ms n) = min (1000 * 2 ^ (unat n - 1) mod 2 ^ 64) 60000"
proof -
  have "RECONNECT_BASE_DELAY_MS * 2 ^ (unat n - 1) = of_nat (1000 * 2 ^ (unat n - 1))"
    by (simp add: RECONNECT_BASE_DELAY_MS_def)
  then show ?thesis
    by (simp only: backoff_delay_ms_def unat_min unat_of_nat RECONNECT_MAX_DELAY_MS_def) simp
qed

lemma wrapped_delay:
  "min (1000 * 2 ^ k mod 2 ^ 64) 60000 = (if 61 \<le> k then 0 else min (1000 * 2 ^ k) (60000 :: nat))"
proof -
  consider "k \<le> 53" | "k \<in> {54, 55, 56, 57, 58, 59, 60}" | "61 \<le> k" by fastforce
  then show ?thesis
  proof cases
    case 1
    then have "(2 :: nat) ^ k \<le> 2 ^ 53" by (rule power_increasing) simp
    with 1 show ?thesis by simp
  next
    case 2
    then show ?thesis by auto
  next
    case 3
    then have "(1000 :: nat) * 2 ^ k = 125 * 2 ^ (k - 61) * 2 ^ 64"
      using power_add [of "2 :: nat" "k - 61" 61] by simp
    with 3 show ?thesis by simp
  qed
qed

text \<open>
  C40: The delay before the n-th reconnect attempt is one second, doubled at every further attempt
  and capped at one minute, up to the 61st attempt; from the 62nd on the 64-bit product is a
  multiple of 2 ^ 64 that wraps around and the delay is zero.
\<close>

theorem backoff_delay_exact:
  "unat (backoff_delay_ms n) = (if 62 \<le> unat n then 0 else min (1000 * 2 ^ (unat n - 1)) 60000)"
  using wrapped_delay [of "unat n - 1"] by (cases "unat n") (auto simp: unat_backoff)

end
