(* ===== verification/Hub_Registry_Calls.thy ===== *)
theory Hub_Registry_Calls
  imports Hub_Registry_Facts
begin

text \<open>
  What a routed call does downstream.  The backends' operations are instrumented with a log of the
  tool calls and requests they receive; connecting, listing tools and disconnecting are not logged.
\<close>

section \<open>Instrumented backends\<close>

datatype 'b downstream =
    Opened 'b
  | Closed 'b
  | ToolCall 'b string "json option" nat
  | DownRequest 'b string "json option" nat

definition logged :: "('b, 'w) backend_ops \<Rightarrow> ('b, 'w \<times> 'b downstream list) backend_ops" where
  "logged ops =
     \<lparr>op_connect = \<lambda>b (w, l). (let (r, w') = op_connect ops b w in (r, w', l @ [Opened b])),
      op_list_tools = \<lambda>b (w, l). (let (r, w') = op_list_tools ops b w in (r, w', l)),
      op_call_tool = \<lambda>b n args t (w, l). (let (r, w') = op_call_tool ops b n args t w in (r, w', l @ [ToolCall b n args t])),
      op_disconnect = \<lambda>b (w, l). (let (r, w') = op_disconnect ops b w in (r, w', l @ [Closed b])),
      op_health_check = \<lambda>b (w, l). (let (r, w') = op_health_check ops b w in (r, w', l)),
      op_request = \<lambda>b m p t (w, l). (let (r, w') = op_request ops b m p t w in (r, w', l @ [DownRequest b m p t])),
      op_take_tools_refresh = \<lambda>b (w, l). (let (r, w') = op_take_tools_refresh ops b w in (r, w', l)),
      op_sleep_ms = \<lambda>n (w, l). (op_sleep_ms ops n w, l)\<rparr>"

lemma logged_sel:
  "op_connect (logged ops) b (w, l) = (let (r, w') = op_connect ops b w in (r, w', l @ [Opened b]))"
  "op_list_tools (logged ops) b (w, l) = (let (r, w') = op_list_tools ops b w in (r, w', l))"
  "op_disconnect (logged ops) b (w, l) = (let (r, w') = op_disconnect ops b w in (r, w', l @ [Closed b]))"
  "op_call_tool (logged ops) b n args t (w, l) = (let (r, w') = op_call_tool ops b n args t w in (r, w', l @ [ToolCall b n args t]))"
  "op_request (logged ops) b m p t (w, l) = (let (r, w') = op_request ops b m p t w in (r, w', l @ [DownRequest b m p t]))"
  by (simp_all add: logged_def)

lemma logged_connect:
  assumes "map_of (rg_backends reg) i = Some h" and "connect_backend (logged ops) i reg (w, l) = (r, reg', w', l')"
  shows "l' = l @ [Opened (bh_backend h)]"
  using assms(2) by (rule connect_backend_cases) (use assms(1) in \<open>auto simp: logged_sel split: prod.splits\<close>)

text \<open>The one message a call sends: a plain tool call, or a request that carries the extra parameters.\<close>

definition call_message :: "'b \<Rightarrow> string \<Rightarrow> json option \<Rightarrow> jobject \<Rightarrow> nat \<Rightarrow> 'b downstream" where
  "call_message b n args extra t =
     (if extra = [] then ToolCall b n args t
      else DownRequest b ''tools/call'' (Some (JObj (obj_insert ''arguments'' (case args of Some a \<Rightarrow> a | None \<Rightarrow> JObj [])
             (obj_insert ''name'' (JStr n) extra)))) t)"

lemma logged_perform_call:
  "perform_call (logged ops) b n args extra t (w, l) = (r, w', l') \<Longrightarrow> l' = l @ [call_message b n args extra t]"
  by (auto simp: perform_call_def call_message_def logged_sel Let_def split: prod.splits if_splits)

lemma resolve_call_Inr:
  "resolve_call n args reg = Inr (rt, h, args') \<longleftrightarrow>
     map_of (rg_tool_index reg) n = Some rt \<and> map_of (rg_backends reg) (rt_backend_id rt) = Some h \<and>
     apply_arg_policy (bh_def h) args = Inr args'"
  by (auto simp: resolve_call_def split: option.splits)

text \<open>The traffic of one call, by the connection mode of the backend and how far the call gets.\<close>

definition call_traffic :: "bool \<Rightarrow> bool \<Rightarrow> 'b \<Rightarrow> 'b downstream \<Rightarrow> bool \<Rightarrow> 'b downstream list \<Rightarrow> bool" where
  "call_traffic lazy_connect per_call b m ok l =
     (if lazy_connect then l = [Opened b, m] \<or> (l = [Opened b] \<and> \<not> ok)
      else if per_call then l = [Opened b, m, Closed b] \<or> (l = [Opened b] \<and> \<not> ok)
      else l = [m])"

lemma route_call_log:
  assumes rs: "resolve_call n args reg = Inr (rt, h, args')"
    and c: "route_call_with (logged ops) n args extra t reg (w, []) = (r, reg', w', l)"
  shows "call_traffic (def_connection_mode (bh_def h) = Lazy \<and> \<not> is_healthy reg (rt_backend_id rt))
           (def_connection_mode (bh_def h) = PerCall) (bh_backend h)
           (call_message (bh_backend h) (rt_downstream_name rt) args' extra t) (is_ok r) l"
proof -
  let ?lazy = "def_connection_mode (bh_def h) = Lazy \<and> \<not> is_healthy reg (rt_backend_id rt)"
  from rs have h: "map_of (rg_backends reg) (rt_backend_id rt) = Some h" by (simp add: resolve_call_Inr)
  obtain lr reg1 w1 l1 where l1: "(if ?lazy then connect_backend (logged ops) (rt_backend_id rt) reg (w, [])
      else (Inr (), reg, (w, []))) = (lr, reg1, (w1, l1))"
    by (metis prod_cases3 surj_pair)
  then have "l1 = (if ?lazy then [Opened (bh_backend h)] else [])"
    by (auto split: if_splits dest: logged_connect [OF h])
  note c' = c [unfolded route_call_with_def rs] l1 this
  show ?thesis
  proof (cases lr)
    case (Inl e)
    then have "?lazy" using l1 by (auto split: if_splits)
    with c' Inl show ?thesis by (auto simp: Let_def call_traffic_def)
  next
    case ok: (Inr u)
    show ?thesis
    proof (cases "def_connection_mode (bh_def h) = PerCall")
      case False
      with c' ok show ?thesis
        by (auto simp: Let_def call_traffic_def split: prod.splits dest!: logged_perform_call)
    next
      case True
      with c' ok show ?thesis
        by (auto simp: Let_def logged_sel call_traffic_def split: prod.splits sum.splits dest!: logged_perform_call)
    qed
  qed
qed

section \<open>Calls are guarded\<close>

text \<open>
  C7: In every reachable registry, a call to an exposed name either reaches nothing downstream and
  fails, or reaches exactly the backend its route names: the backend receives at most one message,
  for a tool its allow and deny lists permit, under the downstream name, with the arguments its
  policy lets through.  A lazy backend that is not healthy is connected first; a per-call backend is
  connected, called and disconnected; and a call succeeds only if the message was sent.
\<close>

theorem routed_call_guarded:
  assumes "registry_reach ops reg"
    and "route_call_with (logged ops) n args extra t reg (w, []) = (r, reg', w', l)"
  shows "case resolve_call n args reg of
      Inl e \<Rightarrow> r = Inl e \<and> l = []
    | Inr (rt, h, args') \<Rightarrow>
        map_of (rg_tool_index reg) n = Some rt \<and> map_of (rg_backends reg) (rt_backend_id rt) = Some h \<and>
        n = compute_exposed_name (def_namespace (bh_def h)) (rt_downstream_name rt) \<and>
        tool_permitted (bh_def h) (rt_downstream_name rt) \<and>
        apply_arg_policy (bh_def h) args = Inr args' \<and>
        call_traffic (def_connection_mode (bh_def h) = Lazy \<and> \<not> is_healthy reg (rt_backend_id rt))
          (def_connection_mode (bh_def h) = PerCall) (bh_backend h)
          (call_message (bh_backend h) (rt_downstream_name rt) args' extra t) (is_ok r) l"
proof (cases "resolve_call n args reg")
  case (Inl e)
  with assms(2) show ?thesis by (auto simp: route_call_with_def)
next
  case (Inr x)
  obtain rt h args' where x: "x = (rt, h, args')" by (cases x)
  from Inr x have m: "map_of (rg_tool_index reg) n = Some rt" "map_of (rg_backends reg) (rt_backend_id rt) = Some h"
      "apply_arg_policy (bh_def h) args = Inr args'" by (simp_all add: resolve_call_Inr)
  then have "route_ok (bh_def h) n rt"
    using registry_reach_inv [OF assms(1)] by (metis option.inject reg_inv_route)
  with m Inr x route_call_log [OF Inr [unfolded x] assms(2)] show ?thesis by (simp add: route_ok_def)
qed

theorem routed_call_guarded_witness:
  "case route_call_with (logged sample_ops) ''ns.f'' None [] 30 sample_registry ((), []) of
     (r, reg', w', l) \<Rightarrow> is_ok r \<and> l = [ToolCall ''f'' ''f'' (Some (JObj [(''safe'', JBool True)])) 30] \<and>
       tool_permitted (sample_def ''a'' (Some ''ns'') Eager) ''f''"
proof -
  obtain r reg' w' l where c: "route_call_with (logged sample_ops) ''ns.f'' None [] 30 sample_registry ((), []) = (r, reg', w', l)"
    by (metis prod_cases4)
  have v: "resolve_call ''ns.f'' None sample_registry =
      Inr (route_of ''a'' (Some ''ns'') [''safe'', ''force''] (sample_tool ''f''),
        \<lparr>bh_def = sample_def ''a'' (Some ''ns'') Eager, bh_backend = ''f'', bh_health = True,
         bh_capabilities = Some sample_caps, bh_reconnect_attempts = 0\<rparr>, Some (JObj [(''safe'', JBool True)]))"
    by code_simp
  have "is_ok (fst (route_call_with (logged sample_ops) ''ns.f'' None [] 30 sample_registry ((), [])))"
    by code_simp
  then show ?thesis
    using routed_call_guarded [OF sample_registry_reach c] c v
    by (simp add: call_traffic_def call_message_def sample_tool_def sample_def_def)
qed

section \<open>Start-up\<close>

lemma connect_others: "connect_backend ops i reg w = (r, reg', w') \<Longrightarrow>
    drop_tools_of i (rg_tool_index reg') = drop_tools_of i (rg_tool_index reg)"
  by (erule connect_backend_cases) (simp_all add: handle_ops connect_index_others)

lemma connect_each_ids: "map fst (fst (connect_each ops is reg w)) = is"
  by (induction "is" arbitrary: reg w) (auto simp: Let_def split: prod.splits, metis fst_conv)

lemma connect_each_routes:
  "connect_each ops is reg w = (rs, reg', w') \<Longrightarrow> (k, rt) \<in> set (rg_tool_index reg') \<Longrightarrow>
     rt_backend_id rt \<in> set is \<or> (k, rt) \<in> set (rg_tool_index reg)"
proof (induction "is" arbitrary: reg w rs)
  case Nil
  then show ?case by simp
next
  case (Cons i "is")
  from Cons.prems(1) obtain r reg1 w1 rs' where c: "connect_backend ops i reg w = (r, reg1, w1)"
      and e: "connect_each ops is reg1 w1 = (rs', reg', w')"
    by (auto simp: Let_def split: prod.splits)
  from Cons.IH [OF e Cons.prems(2)] connect_others [OF c]
  show ?case by (fastforce simp: drop_tools_of_def set_retain set_eq_iff dest: arg_cong [where f = set])
qed

text \<open>
  At start-up only the eager backends are connected, each exactly once and in the table's order,
  with one reported result each; every tool the hub routes afterwards belongs to an eager backend,
  so a lazy or per-call backend has no routable tool until something else connects it.
\<close>

theorem startup_connects_eager_only:
  "case connect_all ops (reg\<lparr>rg_tool_index := []\<rparr>) w of
     (rs, reg', w') \<Rightarrow>
       map fst rs = map fst (filter (\<lambda>(i, h). def_connection_mode (bh_def h) = Eager) (rg_backends reg)) \<and>
       backend_defs reg' = backend_defs reg \<and>
       rt_backend_id ` snd ` set (rg_tool_index reg') \<subseteq>
         {i. \<exists>h. (i, h) \<in> set (rg_backends reg) \<and> def_connection_mode (bh_def h) = Eager}"
proof -
  let ?is = "map fst (filter (\<lambda>(i, h). def_connection_mode (bh_def h) = Eager) (rg_backends reg))"
  obtain rs reg' w' where c: "connect_all ops (reg\<lparr>rg_tool_index := []\<rparr>) w = (rs, reg', w')"
    by (metis prod_cases3)
  then have e: "connect_each ops ?is (reg\<lparr>rg_tool_index := []\<rparr>) w = (rs, reg', w')"
    by (simp add: connect_all_def)
  have "map fst rs = ?is" using connect_each_ids [of ops ?is "reg\<lparr>rg_tool_index := []\<rparr>" w] e by simp
  moreover have "backend_defs reg' = backend_defs reg" using keeps_defs.R_connect_all [OF c] by simp
  moreover have "rt_backend_id ` snd ` set (rg_tool_index reg') \<subseteq> set ?is"
    using connect_each_routes [OF e] by fastforce
  moreover have "set ?is = {i. \<exists>h. (i, h) \<in> set (rg_backends reg) \<and> def_connection_mode (bh_def h) = Eager}"
    by force
  ultimately show ?thesis by (simp add: c)
qed

end
