(* ===== verification/Hub_Session.thy ===== *)
theory Hub_Session
  imports Hub_Protocol Hub_Registry_Calls
begin

text \<open>
  The session (\<open>crates/mcp-server/src/session.rs\<close>): the dispatch of one decoded message to the
  registry, the forwarding of resources and events, and the audit record of every request.  The
  state holds the registry, the handshake flag, the changes broadcast so far, the resource owners
  and the audit trail; the trace fields only grow.
\<close>

section \<open>State\<close>

definition PROTOCOL_VERSION :: string where "PROTOCOL_VERSION = LEGACY_PROTOCOL_VERSION"
definition DEFAULT_CALL_TIMEOUT_SECS :: nat where "DEFAULT_CALL_TIMEOUT_SECS = 30"
definition FORWARD_TIMEOUT_SECS :: nat where "FORWARD_TIMEOUT_SECS = 15"

datatype change = ToolsListChanged

record 'b session =
  ss_registry :: "'b registry"
  ss_initialized :: bool
  ss_changes :: "change list"
  ss_resource_owners :: "(string \<times> string) list"
  ss_audit :: "audit_event list"

definition session_new :: "'b registry \<Rightarrow> 'b session" where
  "session_new reg = \<lparr>ss_registry = reg, ss_initialized = False, ss_changes = [],
     ss_resource_owners = [], ss_audit = []\<rparr>"

definition notify_tools_list_changed :: "'b session \<Rightarrow> 'b session" where
  "notify_tools_list_changed s = s\<lparr>ss_changes := ss_changes s @ [ToolsListChanged]\<rparr>"

section \<open>Handshake and listing\<close>

definition capabilities :: "'b registry \<Rightarrow> json" where
  "capabilities reg =
     (let caps = obj_of [(''tools'', jobj [(''listChanged'', JBool True)])];
          caps1 = (if backends_with reg ''resources'' \<noteq> [] then
                     obj_insert ''resources'' (jobj [(''subscribe'', JBool False), (''listChanged'', JBool False)]) caps
                   else caps);
          caps2 = (if backends_with reg ''events'' \<noteq> [] then obj_insert ''events'' (JObj []) caps1 else caps1)
      in JObj caps2)"

definition server_info_value :: json where
  "server_info_value = jobj [(''name'', JStr ''headless-mcp''), (''version'', JStr CARGO_PKG_VERSION)]"

definition handle_discover :: "'b session \<Rightarrow> json" where
  "handle_discover s =
     jobj [(''supportedVersions'', JArr (map JStr MODERN_PROTOCOL_VERSIONS)),
           (''capabilities'', capabilities (ss_registry s)),
           (''_meta'', jobj [(META_SERVER_INFO, server_info_value)])]"

definition handle_initialize :: "'b session \<Rightarrow> (jsonrpc_error + json) \<times> 'b session" where
  "handle_initialize s =
     (let s' = s\<lparr>ss_initialized := True\<rparr>
      in (Inr (jobj [(''protocolVersion'', JStr PROTOCOL_VERSION), (''serverInfo'', server_info_value),
                (''capabilities'', capabilities (ss_registry s'))]), s'))"

definition require_initialized :: "request_ctx \<Rightarrow> 'b session \<Rightarrow> jsonrpc_error + unit" where
  "require_initialized ctx s =
     (if is_modern ctx \<or> ss_initialized s then Inr ()
      else Inl (invalid_request (''session is not initialized; call '' @ [CHR 0x22] @ ''initialize'' @ [CHR 0x22] @ '' first'')))"

definition handle_tools_list :: "request_ctx \<Rightarrow> 'b session \<Rightarrow> jsonrpc_error + json" where
  "handle_tools_list ctx s =
     bind_res (require_initialized ctx s)
       (\<lambda>u. Inr (jobj [(''tools'', JArr (map tool_value (aggregated_tools (ss_registry s))))]))"

section \<open>Tool calls\<close>

record tool_call_params =
  tp_name :: string
  tp_arguments :: "json option"
  tp_meta :: "json option"
  tp_request_state :: "string option"
  tp_input_responses :: "json option"

definition tool_call_params_from_value :: "json \<Rightarrow> tool_call_params option" where
  "tool_call_params_from_value v =
     (case struct_fields [(''name'', False), (''arguments'', True), (''_meta'', True),
             (''requestState'', True), (''inputResponses'', True)] v of
        Some [Some (JStr n), a, m, r, i] \<Rightarrow>
          map_option (\<lambda>r'. \<lparr>tp_name = n, tp_arguments = opt_value a, tp_meta = opt_value m,
             tp_request_state = r', tp_input_responses = opt_value i\<rparr>) (opt_of as_str r)
      | _ \<Rightarrow> None)"

definition tool_result :: "codec \<Rightarrow> json \<Rightarrow> json" where
  "tool_result c value =
     (let is_call_result = ((case get_key value ''content'' of Some v \<Rightarrow> as_array v \<noteq> None | None \<Rightarrow> False) \<or>
                            Option.bind (get_key value ''resultType'') as_str = Some ''input_required'')
      in if is_call_result then value
         else jobj [(''content'', JArr [jobj [(''type'', JStr ''text''), (''text'', JStr (pretty c value))]]),
                    (''isError'', JBool False),
                    (''structuredContent'', value)])"

definition make_error_result :: "string \<Rightarrow> json" where
  "make_error_result message =
     jobj [(''content'', JArr [jobj [(''type'', JStr ''text''), (''text'', JStr message)]]),
           (''isError'', JBool True)]"

definition reconnect_on_call ::
  "('b, 'w) backend_ops \<Rightarrow> string \<Rightarrow> string option \<Rightarrow> 'b session \<Rightarrow> 'w \<Rightarrow> 'b session \<times> 'w" where
  "reconnect_on_call ops name backend s w =
     (case backend of
        None \<Rightarrow> (s, w)
      | Some i \<Rightarrow>
          (if \<not> has_tool (ss_registry s) name \<and> \<not> is_healthy (ss_registry s) i then
             (case reconnect_backend ops i (ss_registry s) w of
                (Inr u, reg', w') \<Rightarrow> (notify_tools_list_changed (s\<lparr>ss_registry := reg'\<rparr>), w')
              | (Inl e, reg', w') \<Rightarrow> (s\<lparr>ss_registry := reg'\<rparr>, w'))
           else (s, w)))"

definition call_extra :: "request_ctx \<Rightarrow> bool \<Rightarrow> tool_call_params \<Rightarrow> jobject" where
  "call_extra ctx forward_meta p =
     (if is_modern ctx \<and> forward_meta then
        fold (\<lambda>(k, v) extra. case v of Some x \<Rightarrow> obj_insert k x extra | None \<Rightarrow> extra)
          [(''_meta'', tp_meta p), (''requestState'', map_option JStr (tp_request_state p)),
           (''inputResponses'', tp_input_responses p)] []
      else [])"

definition unreachable_error :: "backend_error \<Rightarrow> bool" where
  "unreachable_error e = (be_kind e \<in> {Connection, Timeout})"

definition call_error_message :: "'b registry \<Rightarrow> string option \<Rightarrow> backend_error \<Rightarrow> string" where
  "call_error_message reg backend e =
     (let hint = (case backend of
                    Some i \<Rightarrow> if unreachable_error e then unavailable_hint reg i else None
                  | None \<Rightarrow> None)
      in be_message e @ (case hint of Some h \<Rightarrow> [CHR 0x0A] @ h | None \<Rightarrow> []))"

type_synonym answer = "(jsonrpc_error + json) \<times> string option \<times> audit_outcome"

definition handle_tools_call ::
  "codec \<Rightarrow> ('b, 'w) backend_ops \<Rightarrow> json option \<Rightarrow> request_ctx \<Rightarrow> 'b session \<Rightarrow> 'w \<Rightarrow> answer \<times> 'b session \<times> 'w" where
  "handle_tools_call c ops params ctx s w =
     (case require_initialized ctx s of
        Inl err \<Rightarrow> ((Inl err, None, AuditError (rpc_code err)), s, w)
      | Inr u \<Rightarrow>
     (case params of
        None \<Rightarrow>
          (let err = invalid_params ([CHR 0x22] @ ''tools/call'' @ [CHR 0x22] @ '' requires params'')
           in ((Inl err, None, AuditError (rpc_code err)), s, w))
      | Some v \<Rightarrow>
     (case tool_call_params_from_value v of
        None \<Rightarrow>
          (let err = invalid_params (''invalid '' @ [CHR 0x22] @ ''tools/call'' @ [CHR 0x22] @ '' params: '' @ shape_msg c v)
           in ((Inl err, None, AuditError (rpc_code err)), s, w))
      | Some p \<Rightarrow>
          (let backend = backend_of_tool (ss_registry s) (tp_name p);
               (s1, w1) = reconnect_on_call ops (tp_name p) backend s w;
               forward_meta = (case backend of Some i \<Rightarrow> forwards_request_meta (ss_registry s1) i | None \<Rightarrow> False);
               extra = call_extra ctx forward_meta p;
               (r, reg', w2) = route_call_with ops (tp_name p) (tp_arguments p) extra DEFAULT_CALL_TIMEOUT_SECS
                  (ss_registry s1) w1;
               s2 = s1\<lparr>ss_registry := reg'\<rparr>
           in case r of
                Inr value \<Rightarrow>
                  (let outcome = (if get_key value ''isError'' = Some (JBool True) then AuditError (-32603) else AuditOk)
                   in ((Inr (tool_result c value), Some (tp_name p), outcome), s2, w2))
              | Inl e \<Rightarrow>
                  ((Inr (make_error_result (call_error_message (ss_registry s2) backend e)), Some (tp_name p),
                    AuditError (-32603)), s2, w2)))))"

section \<open>Resources\<close>

definition add_resource :: "string \<Rightarrow> json \<Rightarrow> json list \<times> (string \<times> string) list \<Rightarrow> json list \<times> (string \<times> string) list" where
  "add_resource i resource = (\<lambda>(all, owners).
     case Option.bind (get_key resource ''uri'') as_str of
       None \<Rightarrow> (all, owners)
     | Some uri \<Rightarrow> (all @ [resource], if has_key owners uri then owners else AList.update uri i owners))"

definition array_field :: "string \<Rightarrow> json \<Rightarrow> json list" where
  "array_field k result = (case Option.bind (get_key result k) as_array of Some vs \<Rightarrow> vs | None \<Rightarrow> [])"

fun list_resources_each ::
  "('b, 'w) backend_ops \<Rightarrow> 'b registry \<Rightarrow> string list \<Rightarrow> json list \<times> (string \<times> string) list \<Rightarrow> 'w
     \<Rightarrow> (json list \<times> (string \<times> string) list) \<times> 'w" where
  "list_resources_each ops reg [] acc w = (acc, w)"
| "list_resources_each ops reg (i # is) acc w =
     (case backend_request ops i ''resources/list'' None FORWARD_TIMEOUT_SECS reg w of
        (Inr result, w') \<Rightarrow>
          list_resources_each ops reg is (fold (add_resource i) (array_field ''resources'' result) acc) w'
      | (Inl e, w') \<Rightarrow> list_resources_each ops reg is acc w')"

definition handle_resources_list ::
  "('b, 'w) backend_ops \<Rightarrow> request_ctx \<Rightarrow> 'b session \<Rightarrow> 'w \<Rightarrow> (jsonrpc_error + json) \<times> 'b session \<times> 'w" where
  "handle_resources_list ops ctx s w =
     (case require_initialized ctx s of
        Inl err \<Rightarrow> (Inl err, s, w)
      | Inr u \<Rightarrow>
          (let ((all, owners), w') = list_resources_each ops (ss_registry s)
                 (backends_with (ss_registry s) ''resources'') ([], []) w
           in (Inr (jobj [(''resources'', JArr all)]), s\<lparr>ss_resource_owners := owners\<rparr>, w')))"

definition error_of_backend :: "backend_error + json \<Rightarrow> jsonrpc_error + json" where
  "error_of_backend r = (case r of Inr v \<Rightarrow> Inr v | Inl e \<Rightarrow> Inl (internal_error (be_message e)))"

definition handle_resources_read ::
  "('b, 'w) backend_ops \<Rightarrow> json option \<Rightarrow> request_ctx \<Rightarrow> 'b session \<Rightarrow> 'w \<Rightarrow> (jsonrpc_error + json) \<times> 'b session \<times> 'w" where
  "handle_resources_read ops params ctx s w =
     (case require_initialized ctx s of
        Inl err \<Rightarrow> (Inl err, s, w)
      | Inr u \<Rightarrow>
     (case Option.bind params (\<lambda>p. Option.bind (get_key p ''uri'') as_str) of
        None \<Rightarrow> (Inl (invalid_params (''resources/read requires '' @ sq ''uri'')), s, w)
      | Some uri \<Rightarrow>
          (let (listed, s1, w1) = (if map_of (ss_resource_owners s) uri = None then handle_resources_list ops ctx s w
                                   else (Inr JNull, s, w))
           in case listed of
                Inl err \<Rightarrow> (Inl err, s1, w1)
              | Inr v \<Rightarrow>
                  (case map_of (ss_resource_owners s1) uri of
                     None \<Rightarrow> (Inl (invalid_params (''resource not found: '' @ uri)), s1, w1)
                   | Some owner \<Rightarrow>
                       (let (r, w2) = backend_request ops owner ''resources/read'' (Some (jobj [(''uri'', JStr uri)]))
                              FORWARD_TIMEOUT_SECS (ss_registry s1) w1
                        in (error_of_backend r, s1, w2))))))"

section \<open>Events\<close>

definition exposed_event_name :: "'b registry \<Rightarrow> string \<Rightarrow> string \<Rightarrow> string" where
  "exposed_event_name reg i name =
     (case namespace_of reg i of Some ns \<Rightarrow> ns @ ''.'' @ name | None \<Rightarrow> name)"

definition expose_event :: "'b registry \<Rightarrow> string \<Rightarrow> json \<Rightarrow> json" where
  "expose_event reg i event =
     (case event of
        JObj obj \<Rightarrow> (case Option.bind (map_of obj ''name'') as_str of
            Some name \<Rightarrow> JObj (obj_insert ''name'' (JStr (exposed_event_name reg i name)) obj)
          | None \<Rightarrow> event)
      | _ \<Rightarrow> event)"

fun list_events_each ::
  "('b, 'w) backend_ops \<Rightarrow> 'b registry \<Rightarrow> string list \<Rightarrow> json list \<Rightarrow> 'w \<Rightarrow> json list \<times> 'w" where
  "list_events_each ops reg [] all w = (all, w)"
| "list_events_each ops reg (i # is) all w =
     (case backend_request ops i ''events/list'' None FORWARD_TIMEOUT_SECS reg w of
        (Inr result, w') \<Rightarrow>
          list_events_each ops reg is (all @ map (expose_event reg i) (array_field ''events'' result)) w'
      | (Inl e, w') \<Rightarrow> list_events_each ops reg is all w')"

definition handle_events_list ::
  "('b, 'w) backend_ops \<Rightarrow> request_ctx \<Rightarrow> 'b session \<Rightarrow> 'w \<Rightarrow> (jsonrpc_error + json) \<times> 'w" where
  "handle_events_list ops ctx s w =
     (case require_initialized ctx s of
        Inl err \<Rightarrow> (Inl err, w)
      | Inr u \<Rightarrow>
          (let (all, w') = list_events_each ops (ss_registry s) (backends_with (ss_registry s) ''events'') [] w
           in (Inr (jobj [(''events'', JArr all)]), w')))"

fun find_event_backend :: "'b registry \<Rightarrow> string \<Rightarrow> string list \<Rightarrow> (string \<times> string) option" where
  "find_event_backend reg name [] = None"
| "find_event_backend reg name (i # is) =
     (case (case namespace_of reg i of Some ns \<Rightarrow> strip_prefix name (ns @ ''.'') | None \<Rightarrow> Some name) of
        Some original \<Rightarrow> Some (i, original)
      | None \<Rightarrow> find_event_backend reg name is)"

definition forward_event_request ::
  "('b, 'w) backend_ops \<Rightarrow> string \<Rightarrow> json option \<Rightarrow> request_ctx \<Rightarrow> 'b session \<Rightarrow> 'w \<Rightarrow> (jsonrpc_error + json) \<times> 'w" where
  "forward_event_request ops m params ctx s w =
     (case require_initialized ctx s of
        Inl err \<Rightarrow> (Inl err, w)
      | Inr u \<Rightarrow>
     (case params of
        None \<Rightarrow> (Inl (invalid_params ''missing params''), w)
      | Some p \<Rightarrow>
     (case p of
        JObj obj \<Rightarrow>
          (case Option.bind (map_of obj ''name'') as_str of
             None \<Rightarrow> (Inl (invalid_params (sq ''name'' @ '' is required'')), w)
           | Some name \<Rightarrow>
               (case find_event_backend (ss_registry s) name (backends_with (ss_registry s) ''events'') of
                  None \<Rightarrow> (Inl (invalid_params (''unknown event '' @ sq name)), w)
                | Some (backend, original) \<Rightarrow>
                    (let (r, w') = backend_request ops backend m
                           (Some (JObj (obj_insert ''name'' (JStr original) obj))) FORWARD_TIMEOUT_SECS (ss_registry s) w
                     in (error_of_backend r, w'))))
      | _ \<Rightarrow> (Inl (invalid_params (sq ''name'' @ '' is required'')), w))))"

section \<open>Dispatch\<close>

definition simple :: "jsonrpc_error + json \<Rightarrow> answer" where
  "simple result = (result, None, outcome_from_result result)"

definition dispatch_method ::
  "codec \<Rightarrow> ('b, 'w) backend_ops \<Rightarrow> jsonrpc_request \<Rightarrow> request_ctx \<Rightarrow> 'b session \<Rightarrow> 'w \<Rightarrow> answer \<times> 'b session \<times> 'w" where
  "dispatch_method c ops request ctx s w =
     (let m = req_method request; params = req_params request in
      if m = ''server/discover'' then (simple (Inr (handle_discover s)), s, w)
      else if m = ''initialize'' \<and> \<not> is_modern ctx then
        (let (r, s') = handle_initialize s in (simple r, s', w))
      else if m = ''tools/list'' then (simple (handle_tools_list ctx s), s, w)
      else if m = ''tools/call'' then handle_tools_call c ops params ctx s w
      else if m = ''resources/list'' then
        (let (r, s', w') = handle_resources_list ops ctx s w in (simple r, s', w'))
      else if m = ''resources/read'' then
        (let (r, s', w') = handle_resources_read ops params ctx s w in (simple r, s', w'))
      else if m = ''events/list'' then
        (let (r, w') = handle_events_list ops ctx s w in (simple r, s, w'))
      else if m = ''events/subscribe'' \<or> m = ''events/unsubscribe'' then
        (let (r, w') = forward_event_request ops m params ctx s w in (simple r, s, w'))
      else if m = ''subscriptions/listen'' then
        (simple (Inl (invalid_request ''subscriptions/listen needs a streaming transport'')), s, w)
      else (simple (Inl (method_not_found (''unknown method: '' @ m))), s, w))"

definition mark_modern :: "request_ctx \<Rightarrow> string \<Rightarrow> jsonrpc_error + json \<Rightarrow> jsonrpc_error + json" where
  "mark_modern ctx m result =
     (if is_modern ctx then map_sum id (\<lambda>value. mark_cacheable m (mark_complete value)) result else result)"

definition dispatch_request ::
  "codec \<Rightarrow> ('b, 'w) backend_ops \<Rightarrow> jsonrpc_request \<Rightarrow> 'b session \<Rightarrow> 'w \<Rightarrow> answer \<times> 'b session \<times> 'w" where
  "dispatch_request c ops request s w =
     (let ctx = ctx_from_params (req_params request) in
      case check_version ctx of
        Inl err \<Rightarrow> ((Inl err, None, AuditError (rpc_code err)), s, w)
      | Inr u \<Rightarrow>
          (let ((result, tool_name, outcome), s', w') = dispatch_method c ops request ctx s w
           in ((mark_modern ctx (req_method request) result, tool_name, outcome), s', w')))"

definition response_message :: "jsonrpc_id \<Rightarrow> jsonrpc_error + json \<Rightarrow> jsonrpc_message" where
  "response_message i result =
     (case result of
        Inr value \<Rightarrow> SuccessResponse (new_success i value)
      | Inl error \<Rightarrow> ErrorResponse (new_failure (Some i) error))"

definition handle_request ::
  "codec \<Rightarrow> ('b, 'w) backend_ops \<Rightarrow> jsonrpc_request \<Rightarrow> 'b session \<Rightarrow> 'w \<Rightarrow> jsonrpc_message \<times> 'b session \<times> 'w" where
  "handle_request c ops request s w =
     (let ((result, tool_name, outcome), s', w') = dispatch_request c ops request s w;
          event = \<lparr>ae_method = req_method request, ae_tool_name = tool_name, ae_outcome = outcome\<rparr>
      in (response_message (req_id request) result, s'\<lparr>ss_audit := ss_audit s' @ [event]\<rparr>, w'))"

text \<open>A notification only writes a debug log line.\<close>

definition handle_notification :: "jsonrpc_notification \<Rightarrow> 'b session \<Rightarrow> 'b session" where
  "handle_notification n s = s"

definition handle_message ::
  "codec \<Rightarrow> ('b, 'w) backend_ops \<Rightarrow> jsonrpc_message \<Rightarrow> 'b session \<Rightarrow> 'w \<Rightarrow> jsonrpc_message option \<times> 'b session \<times> 'w" where
  "handle_message c ops message s w =
     (case message of
        Request request \<Rightarrow> (let (m, s', w') = handle_request c ops request s w in (Some m, s', w'))
      | Notification n \<Rightarrow> (None, handle_notification n s, w)
      | SuccessResponse r \<Rightarrow> (None, s, w)
      | ErrorResponse r \<Rightarrow> (None, s, w))"

end
