(* ===== verification/Hub_Session_Facts.thy ===== *)
theory Hub_Session_Facts
  imports Hub_Session
begin

text \<open>
  The session's correctness: what every message does to the state, the reply and audit record of
  each request, the handshake gate, the outcome of tool calls, and the aggregation of resources and
  events over the backends.
\<close>

section \<open>Sample messages\<close>

definition sample_listen :: json where
  "sample_listen = JObj [(''id'', JNum (PosInt 7)), (''jsonrpc'', JStr ''2.0''), (''method'', JStr ''subscriptions/listen''),
     (''params'', JObj [(''_meta'', JObj [(META_PROTOCOL_VERSION, JStr ''2026-07-28'')]),
        (''notifications'', JObj [(''toolsListChanged'', JBool True)])])]"

definition sample_cancel :: json where
  "sample_cancel = JObj [(''jsonrpc'', JStr ''2.0''), (''method'', JStr ''notifications/cancelled''),
     (''params'', JObj [(''requestId'', JNum (PosInt 7))])]"

definition sample_codec :: codec where
  "sample_codec = \<lparr>parse = (\<lambda>s. if s = ''listen'' then Some sample_listen
       else if s = ''cancel'' then Some sample_cancel else None),
     to_text = (\<lambda>v. if v = JNum (PosInt 7) then ''7'' else ''?''), pretty = (\<lambda>v. ''?''),
     parse_msg = (\<lambda>s. ''bad json''), shape_msg = (\<lambda>v. ''bad shape'')\<rparr>"

section \<open>The ways a request can end\<close>

lemma handle_tools_call_cases:
  assumes "handle_tools_call c ops params ctx s w = ((result, tool, outcome), s', w')"
  obtains (refused) err where "result = Inl err" "tool = None" "outcome = AuditError (rpc_code err)" "s' = s" "w' = w"
      "require_initialized ctx s = Inl err \<or> (require_initialized ctx s = Inr () \<and>
         Option.bind params tool_call_params_from_value = None \<and> rpc_code err = INVALID_PARAMS)"
  | (called) p s1 w1 fm r reg' where "require_initialized ctx s = Inr ()"
      "Option.bind params tool_call_params_from_value = Some p"
      "reconnect_on_call ops (tp_name p) (backend_of_tool (ss_registry s) (tp_name p)) s w = (s1, w1)"
      "route_call_with ops (tp_name p) (tp_arguments p) (call_extra ctx fm p) DEFAULT_CALL_TIMEOUT_SECS
         (ss_registry s1) w1 = (r, reg', w')"
      "s' = s1\<lparr>ss_registry := reg'\<rparr>" "tool = Some (tp_name p)"
      "(result, outcome) = (case r of
         Inr v \<Rightarrow> (Inr (tool_result c v), if get_key v ''isError'' = Some (JBool True) then AuditError (-32603) else AuditOk)
       | Inl e \<Rightarrow> (Inr (make_error_result (call_error_message reg' (backend_of_tool (ss_registry s) (tp_name p)) e)),
                   AuditError (-32603)))"
proof (cases "require_initialized ctx s")
  case (Inl err)
  with assms show thesis by (intro refused) (auto simp: handle_tools_call_def)
next
  case (Inr u)
  show thesis
  proof (cases "Option.bind params tool_call_params_from_value")
    case None
    with assms Inr show thesis
      by (intro refused [of "case result of Inl e \<Rightarrow> e"])
        (auto simp: handle_tools_call_def Let_def split: option.splits)
  next
    case (Some p)
    then obtain v where v: "params = Some v" "tool_call_params_from_value v = Some p"
      by (auto simp: bind_eq_Some_conv)
    obtain s1 w1 where 1: "reconnect_on_call ops (tp_name p) (backend_of_tool (ss_registry s) (tp_name p)) s w = (s1, w1)"
      by fastforce
    define fm where "fm = (case backend_of_tool (ss_registry s) (tp_name p) of
        Some i \<Rightarrow> forwards_request_meta (ss_registry s1) i | None \<Rightarrow> False)"
    obtain r reg' w2 where 2: "route_call_with ops (tp_name p) (tp_arguments p) (call_extra ctx fm p)
        DEFAULT_CALL_TIMEOUT_SECS (ss_registry s1) w1 = (r, reg', w2)"
      by (metis prod_cases3)
    show thesis
    proof (rule called [OF _ Some 1])
      show "require_initialized ctx s = Inr ()" using Inr by simp
      show "route_call_with ops (tp_name p) (tp_arguments p) (call_extra ctx fm p)
        DEFAULT_CALL_TIMEOUT_SECS (ss_registry s1) w1 = (r, reg', w')"
        using assms Inr v 1 2 by (auto simp: handle_tools_call_def Let_def fm_def [symmetric] split: sum.splits)
    qed (use assms Inr v 1 2 in \<open>auto simp: handle_tools_call_def Let_def fm_def [symmetric] split: sum.splits\<close>)
  qed
qed

text \<open>The state after a dispatch is one of these.\<close>

lemma dispatch_method_state:
  assumes "dispatch_method c ops q ctx s w = ((result, tool, outcome), s', w')"
  obtains (same) "req_method q \<noteq> ''tools/call''" "s' = s" "tool = None" "outcome = outcome_from_result result"
  | (init) "s' = s\<lparr>ss_initialized := True\<rparr>" "req_method q = ''initialize''" "\<not> is_modern ctx"
      "tool = None" "outcome = outcome_from_result result"
  | (call) "req_method q = ''tools/call''"
      "handle_tools_call c ops (req_params q) ctx s w = ((result, tool, outcome), s', w')"
  | (list) "req_method q = ''resources/list''" "handle_resources_list ops ctx s w = (result, s', w')" "tool = None" "outcome = outcome_from_result result"
  | (read) "req_method q = ''resources/read''" "handle_resources_read ops (req_params q) ctx s w = (result, s', w')" "tool = None"
      "outcome = outcome_from_result result"
proof -
  note d = assms [unfolded dispatch_method_def Let_def simple_def]
  consider "req_method q = ''tools/call''" | "req_method q = ''resources/list''"
    | "req_method q = ''resources/read''" | "req_method q = ''initialize''" "\<not> is_modern ctx"
    | "req_method q \<notin> {''tools/call'', ''resources/list'', ''resources/read''}"
      "req_method q = ''initialize'' \<longrightarrow> is_modern ctx"
    by blast
  then show thesis
  proof cases
    case 1
    with d show thesis by (intro call) simp_all
  next
    case 2
    with d show thesis by (intro list) (auto split: prod.splits)
  next
    case 3
    with d show thesis by (intro read) (auto split: prod.splits)
  next
    case 4
    with d show thesis by (intro init) (auto simp: handle_initialize_def)
  next
    case 5
    with d show thesis by (intro same) (auto split: prod.splits if_splits)
  qed
qed

section \<open>What a message keeps\<close>

context registry_transition
begin

lemma R_reconnect_on_call:
  "reconnect_on_call ops n b s w = (s', w') \<Longrightarrow> R (ss_registry s) (ss_registry s')"
  by (auto simp: reconnect_on_call_def notify_tools_list_changed_def R_refl
      split: option.splits if_splits prod.splits sum.splits intro: R_reconnect)

lemma R_handle_tools_call:
  assumes "handle_tools_call c ops params ctx s w = (a, s', w')"
  shows "R (ss_registry s) (ss_registry s')"
proof -
  obtain result tool outcome where a: "a = (result, tool, outcome)" by (cases a)
  show ?thesis
    using assms unfolding a
    by (rule handle_tools_call_cases)
      (simp_all add: R_refl R_trans [OF R_reconnect_on_call R_route_call_with])
qed

lemma R_handle_resources_list:
  "handle_resources_list ops ctx s w = (r, s', w') \<Longrightarrow> R (ss_registry s) (ss_registry s')"
  by (auto simp: handle_resources_list_def R_refl split: sum.splits prod.splits)

lemma R_handle_resources_read:
  "handle_resources_read ops params ctx s w = (r, s', w') \<Longrightarrow> R (ss_registry s) (ss_registry s')"
  by (auto simp: handle_resources_read_def Let_def R_refl
      split: sum.splits prod.splits option.splits if_splits intro: R_handle_resources_list)

lemma R_dispatch_method:
  assumes "dispatch_method c ops q ctx s w = (a, s', w')"
  shows "R (ss_registry s) (ss_registry s')"
proof -
  obtain result tool outcome where a: "a = (result, tool, outcome)" by (cases a)
  show ?thesis
    using assms unfolding a
    by (rule dispatch_method_state)
      (auto simp: R_refl intro: R_handle_tools_call R_handle_resources_list R_handle_resources_read)
qed

lemma R_handle_request:
  "handle_request c ops q s w = (r, s', w') \<Longrightarrow> R (ss_registry s) (ss_registry s')"
  by (auto simp: handle_request_def dispatch_request_def Let_def R_refl split: prod.splits sum.splits
      intro: R_dispatch_method)

lemma R_handle_message:
  "handle_message c ops m s w = (r, s', w') \<Longrightarrow> R (ss_registry s) (ss_registry s')"
  by (auto simp: handle_message_def R_refl handle_notification_def
      split: jsonrpc_message.splits prod.splits intro: R_handle_request)

end

text \<open>
  The handshake flag is set by a legacy \<open>initialize\<close> and by nothing else, the broadcast changes only
  grow, and only a request's audit record is added.
\<close>

definition session_grows :: "bool \<Rightarrow> 'b session \<Rightarrow> 'b session \<Rightarrow> bool" where
  "session_grows hs s s' \<longleftrightarrow>
     (ss_initialized s' \<longleftrightarrow> ss_initialized s \<or> hs) \<and> prefix (ss_changes s) (ss_changes s') \<and> ss_audit s' = ss_audit s"

definition legacy_initialize :: "jsonrpc_request \<Rightarrow> bool" where
  "legacy_initialize q \<longleftrightarrow> req_method q = ''initialize'' \<and> request_protocol_version (req_params q) = None"

lemma session_grows_refl [simp]: "session_grows False s s"
  by (simp add: session_grows_def)

lemma reconnect_on_call_grows: "reconnect_on_call ops n b s w = (s', w') \<Longrightarrow> session_grows False s s'"
  by (auto simp: reconnect_on_call_def notify_tools_list_changed_def session_grows_def
      split: option.splits if_splits prod.splits sum.splits)

lemma handle_resources_list_grows: "handle_resources_list ops ctx s w = (r, s', w') \<Longrightarrow> session_grows False s s'"
  by (auto simp: handle_resources_list_def session_grows_def split: sum.splits prod.splits)

lemma handle_resources_read_grows: "handle_resources_read ops params ctx s w = (r, s', w') \<Longrightarrow> session_grows False s s'"
  by (auto simp: handle_resources_read_def Let_def split: sum.splits prod.splits option.splits if_splits
      intro: handle_resources_list_grows)

lemma handle_tools_call_grows:
  "handle_tools_call c ops params ctx s w = ((result, tool, outcome), s', w') \<Longrightarrow> session_grows False s s'"
  by (erule handle_tools_call_cases) (auto simp: session_grows_def dest!: reconnect_on_call_grows)

lemma dispatch_method_grows:
  assumes "dispatch_method c ops q ctx s w = ((result, tool, outcome), s', w')"
    and ctx: "ctx = ctx_from_params (req_params q)"
  shows "session_grows (legacy_initialize q) s s'"
proof -
  have li: "legacy_initialize q \<longleftrightarrow> req_method q = ''initialize'' \<and> \<not> is_modern ctx"
    by (simp add: ctx legacy_initialize_def is_modern_def ctx_from_params_def)
  show ?thesis
  proof (cases "req_method q = ''initialize'' \<and> \<not> is_modern ctx")
    case True
    with assms(1) show ?thesis
      unfolding li by (auto simp: dispatch_method_def handle_initialize_def session_grows_def)
  next
    case False
    with assms(1) show ?thesis
      unfolding li by (auto elim!: dispatch_method_state
          intro: handle_tools_call_grows handle_resources_list_grows handle_resources_read_grows)
  qed
qed

lemma dispatch_request_grows:
  assumes "dispatch_request c ops q s w = ((result, tool, outcome), s', w')"
  shows "session_grows (legacy_initialize q) s s'"
proof (cases "check_version (ctx_from_params (req_params q))")
  case (Inl e)
  then have "\<not> legacy_initialize q"
    by (auto simp: legacy_initialize_def check_version_def ctx_from_params_def split: option.splits)
  with Inl assms show ?thesis by (auto simp: dispatch_request_def)
next
  case (Inr u)
  with assms show ?thesis
    by (auto simp: dispatch_request_def Let_def split: prod.splits dest: dispatch_method_grows)
qed

text \<open>
  What a request's audit record says: an error reply is recorded with its code; a successful reply
  is recorded as such, except that a tool call whose result is an error is recorded as one.  Only a
  tool call names a tool.
\<close>

definition audit_matches :: "jsonrpc_request \<Rightarrow> jsonrpc_error + json \<Rightarrow> string option \<Rightarrow> audit_outcome \<Rightarrow> bool" where
  "audit_matches q result tool outcome \<longleftrightarrow>
     (case result of
        Inl e \<Rightarrow> tool = None \<and> outcome = AuditError (rpc_code e)
      | Inr v \<Rightarrow> (if req_method q = ''tools/call'' then tool \<noteq> None \<and> outcome \<in> {AuditOk, AuditError (-32603)}
                else tool = None \<and> outcome = AuditOk))"

lemma handle_tools_call_audit:
  "handle_tools_call c ops params ctx s w = ((result, tool, outcome), s', w') \<Longrightarrow>
   req_method q = ''tools/call'' \<Longrightarrow> audit_matches q result tool outcome"
  by (erule handle_tools_call_cases) (auto simp: audit_matches_def split: sum.splits)

lemma dispatch_method_audit:
  "dispatch_method c ops q ctx s w = ((result, tool, outcome), s', w') \<Longrightarrow> audit_matches q result tool outcome"
  by (erule dispatch_method_state)
    (simp_all add: handle_tools_call_audit, auto simp: audit_matches_def split: sum.splits)

lemma dispatch_request_audit:
  assumes "dispatch_request c ops q s w = ((result, tool, outcome), s', w')"
  shows "audit_matches q result tool outcome"
proof (cases "check_version (ctx_from_params (req_params q))")
  case (Inl e)
  with assms show ?thesis by (auto simp: dispatch_request_def audit_matches_def)
next
  case (Inr u)
  with assms obtain result0 where
    d: "dispatch_method c ops q (ctx_from_params (req_params q)) s w = ((result0, tool, outcome), s', w')"
    and r: "result = mark_modern (ctx_from_params (req_params q)) (req_method q) result0"
    by (auto simp: dispatch_request_def Let_def split: prod.splits)
  from dispatch_method_audit [OF d] r show ?thesis
    by (cases result0) (auto simp: audit_matches_def mark_modern_def)
qed

section \<open>Replies, audit and the registry\<close>


text \<open>
  C22: No message can break the registry: whatever the client sends and whatever the backends answer,
  the registry's invariant is kept, and the set of backends with their definitions (namespaces,
  allow and deny lists, pinned and denied arguments) never changes.
\<close>

theorem messages_keep_registry:
  assumes "reg_inv (ss_registry s)" and "handle_message c ops m s w = (reply, s', w')"
  shows "reg_inv (ss_registry s') \<and> backend_defs (ss_registry s') = backend_defs (ss_registry s)"
  using keeps_inv.R_handle_message [OF assms(2)] keeps_defs.R_handle_message [OF assms(2)] assms(1) by simp

theorem messages_keep_registry_witness:
  "\<exists>reply s' w'. handle_message sample_codec sample_ops (Request (new_request (IdNumber 1) ''tools/call''
        (Some (JObj [(''name'', JStr ''ns.f'')])))) (session_new sample_registry) () = (reply, s', w') \<and>
      reg_inv (ss_registry s') \<and> map fst (backend_defs (ss_registry s')) = [''a'', ''b'']"
proof -
  let ?m = "Request (new_request (IdNumber 1) ''tools/call'' (Some (JObj [(''name'', JStr ''ns.f'')])))"
  obtain reply s' w' where h: "handle_message sample_codec sample_ops ?m (session_new sample_registry) () = (reply, s', w')"
    by (metis prod_cases3)
  have inv: "reg_inv (ss_registry (session_new sample_registry))"
    by (simp add: session_new_def registry_reach_inv [OF sample_registry_reach])
  have "map fst (backend_defs (ss_registry (session_new sample_registry))) = [''a'', ''b'']" by code_simp
  with messages_keep_registry [OF inv h] h show ?thesis by metis
qed

section \<open>The handshake gate\<close>

text \<open>
  C25: Before the handshake a legacy request other than a handshake one does nothing: no backend is
  contacted, the session is unchanged and the reply is an invalid-request error, or method-not-found
  for an unknown method.
\<close>

theorem handshake_gate:
  assumes "request_protocol_version (req_params q) = None" and "\<not> ss_initialized s"
    and "req_method q \<notin> {''initialize'', ''server/discover''}"
  shows "\<exists>e. dispatch_request c ops q s w = ((Inl e, None, AuditError (rpc_code e)), s, w) \<and>
    rpc_code e = (if req_method q \<in> {''tools/list'', ''tools/call'', ''resources/list'', ''resources/read'',
        ''events/list'', ''events/subscribe'', ''events/unsubscribe'', ''subscriptions/listen''}
      then INVALID_REQUEST else METHOD_NOT_FOUND)"
proof -
  have m: "is_modern (ctx_from_params (req_params q)) = False"
      "check_version (ctx_from_params (req_params q)) = Inr ()"
    using assms(1) by (simp_all add: is_modern_def ctx_from_params_def check_version_def)
  then obtain err where r: "require_initialized (ctx_from_params (req_params q)) s = Inl err" "rpc_code err = INVALID_REQUEST"
    using assms(2) by (auto simp: require_initialized_def)
  show ?thesis
    using assms(3) r
    by (simp add: dispatch_request_def m mark_modern_def dispatch_method_def simple_def handle_tools_list_def
        handle_tools_call_def handle_resources_list_def handle_resources_read_def handle_events_list_def
        forward_event_request_def Let_def)
qed

theorem handshake_gate_witness:
  "\<exists>e. dispatch_request sample_codec sample_ops (new_request (IdNumber 3) ''tools/list'' None) (session_new sample_registry) () =
       ((Inl e, None, AuditError (rpc_code e)), session_new sample_registry, ()) \<and> rpc_code e = INVALID_REQUEST"
  using handshake_gate [of "new_request (IdNumber 3) ''tools/list'' None" "session_new sample_registry" sample_codec sample_ops "()"]
  by (simp add: new_request_def session_new_def request_protocol_version_def)

section \<open>Tool calls\<close>

definition is_call_result :: "json \<Rightarrow> bool" where
  "is_call_result v \<longleftrightarrow> (\<exists>vs. get_key v ''content'' = Some (JArr vs)) \<or> get_key v ''resultType'' = Some (JStr ''input_required'')"

lemma as_array_Some [simp]: "as_array v = Some vs \<longleftrightarrow> v = JArr vs"
  by (cases v) auto

lemma tool_result_if:
  "tool_result c v = (if is_call_result v then v
     else jobj [(''content'', JArr [jobj [(''type'', JStr ''text''), (''text'', JStr (pretty c v))]]),
                (''isError'', JBool False), (''structuredContent'', v)])"
  by (auto simp: tool_result_def is_call_result_def Let_def bind_eq_Some_conv split: option.splits)

lemma is_call_result_wrapped [simp]: "is_call_result (tool_result c v)"
  by (simp add: tool_result_if) (simp add: is_call_result_def)

lemma is_call_result_error [simp]: "is_call_result (make_error_result m)"
  by (simp add: is_call_result_def make_error_result_def)


text \<open>
  A backend's error flag survives only on results that carry content: a value without a content
  array that says it is an error is shown to the client as a success, while the audit trail records
  an error.
\<close>

theorem error_flag_of_tool_result:
  "get_key (tool_result c v) ''isError'' = (if is_call_result v then get_key v ''isError'' else Some (JBool False))"
  by (simp add: tool_result_if)

section \<open>Resources\<close>

text \<open>
  The abstract view of \<open>resources/list\<close>: first the answers of the capable backends in the order of
  their ids, then the union of the resources that have a URI, each owned by the first backend that
  listed it.
\<close>

definition resource_uri :: "json \<Rightarrow> string option" where
  "resource_uri r = Option.bind (get_key r ''uri'') as_str"

fun resource_answers ::
  "('b, 'w) backend_ops \<Rightarrow> 'b registry \<Rightarrow> string list \<Rightarrow> 'w \<Rightarrow> (string \<times> json list) list \<times> 'w" where
  "resource_answers ops reg [] w = ([], w)"
| "resource_answers ops reg (i # is) w =
     (let (r, w') = backend_request ops i ''resources/list'' None FORWARD_TIMEOUT_SECS reg w;
          (rest, w'') = resource_answers ops reg is w'
      in ((i, filter (\<lambda>x. resource_uri x \<noteq> None)
             (case r of Inr v \<Rightarrow> array_field ''resources'' v | Inl e \<Rightarrow> [])) # rest, w''))"

definition first_owner :: "(string \<times> json list) list \<Rightarrow> string \<Rightarrow> string option" where
  "first_owner answers uri = map_option fst (find (\<lambda>(i, rs). Some uri \<in> resource_uri ` set rs) answers)"

definition uris_owned :: "string \<Rightarrow> json list \<Rightarrow> string \<Rightarrow> string option" where
  "uris_owned i rs uri = (if Some uri \<in> resource_uri ` set rs then Some i else None)"

lemma fold_add_resource:
  "fold (add_resource i) rs (all, owners) = (all', owners') \<Longrightarrow>
     all' = all @ filter (\<lambda>x. resource_uri x \<noteq> None) rs \<and> map_of owners' = uris_owned i rs ++ map_of owners"
proof (induction rs arbitrary: all owners)
  case Nil
  then show ?case by (auto simp: uris_owned_def map_add_def fun_eq_iff split: option.splits)
next
  case (Cons r rs)
  show ?case
  proof (cases "resource_uri r")
    case None
    then have "fold (add_resource i) rs (all, owners) = (all', owners')"
      using Cons.prems by (simp add: add_resource_def [of i r] resource_uri_def)
    moreover have "uris_owned i (r # rs) = uris_owned i rs" using None by (auto simp: uris_owned_def)
    ultimately show ?thesis using Cons.IH None by simp
  next
    case (Some u)
    let ?o = "if has_key owners u then owners else AList.update u i owners"
    have "fold (add_resource i) rs (all @ [r], ?o) = (all', owners')"
      using Cons.prems Some by (simp add: add_resource_def [of i r] resource_uri_def)
    moreover have "uris_owned i (r # rs) ++ map_of owners = uris_owned i rs ++ map_of ?o"
      using Some by (auto simp: uris_owned_def map_add_def fun_eq_iff has_key_def map_of_update split: option.splits)
    ultimately show ?thesis using Cons.IH [of "all @ [r]" ?o] Some by simp
  qed
qed

lemma uris_owned_filter: "uris_owned i (filter (\<lambda>x. resource_uri x \<noteq> None) rs) = uris_owned i rs"
proof
  fix uri
  have "Some uri \<in> resource_uri ` {x \<in> set rs. resource_uri x \<noteq> None} \<longleftrightarrow> Some uri \<in> resource_uri ` set rs"
    by (auto simp: image_iff) (metis option.distinct(1))+
  then show "uris_owned i (filter (\<lambda>x. resource_uri x \<noteq> None) rs) uri = uris_owned i rs uri"
    by (simp only: uris_owned_def set_filter)
qed

lemma list_resources_each_answers:
  "list_resources_each ops reg is (all, owners) w = ((all', owners'), w') \<Longrightarrow>
   resource_answers ops reg is w = (answers, w2) \<Longrightarrow>
     w' = w2 \<and> all' = all @ concat (map snd answers) \<and> map_of owners' = first_owner answers ++ map_of owners"
proof (induction "is" arbitrary: all owners w answers)
  case Nil
  then show ?case by (auto simp: first_owner_def map_add_def fun_eq_iff split: option.splits)
next
  case (Cons i "is")
  obtain r w1 where b: "backend_request ops i ''resources/list'' None FORWARD_TIMEOUT_SECS reg w = (r, w1)" by fastforce
  let ?rs = "case r of Inr v \<Rightarrow> array_field ''resources'' v | Inl e \<Rightarrow> []"
  let ?fs = "filter (\<lambda>x. resource_uri x \<noteq> None) ?rs"
  obtain all1 owners1 where f: "fold (add_resource i) ?rs (all, owners) = (all1, owners1)" by fastforce
  have step: "list_resources_each ops reg is (all1, owners1) w1 = ((all', owners'), w')"
    using Cons.prems(1) b f by (auto split: sum.splits)
  obtain rest where rest: "resource_answers ops reg is w1 = (rest, w2)" "answers = (i, ?fs) # rest"
    using Cons.prems(2) b by (auto simp: Let_def split: prod.splits)
  have "uris_owned i ?rs = uris_owned i ?fs" by (simp only: uris_owned_filter)
  then have "first_owner answers ++ map_of owners = first_owner rest ++ (uris_owned i ?rs ++ map_of owners)"
    by (auto simp: rest(2) first_owner_def uris_owned_def map_add_def fun_eq_iff split: option.splits)
  with Cons.IH [OF step rest(1)] fold_add_resource [OF f] show ?case by (simp add: rest(2))
qed

text \<open>
  C35: Listing resources gives exactly the resources with a URI that the capable backends answer, in
  the order of their ids, and records as the owner of each URI the first backend that listed it; a
  backend that fails contributes nothing and hides nothing.
\<close>

theorem resources_list_refines:
  "case handle_resources_list ops ctx s w of
     (result, s', w') \<Rightarrow>
       (if is_modern ctx \<or> ss_initialized s then
          (case resource_answers ops (ss_registry s) (backends_with (ss_registry s) ''resources'') w of
             (answers, w2) \<Rightarrow>
               result = Inr (JObj [(''resources'', JArr (concat (map snd answers)))]) \<and> w' = w2 \<and>
               map_of (ss_resource_owners s') = first_owner answers \<and>
               s' = s\<lparr>ss_resource_owners := ss_resource_owners s'\<rparr>)
        else s' = s \<and> w' = w \<and> \<not> is_ok result)"
proof (cases "is_modern ctx \<or> ss_initialized s")
  case False
  then show ?thesis by (simp add: handle_resources_list_def require_initialized_def)
next
  case True
  let ?ids = "backends_with (ss_registry s) ''resources''"
  obtain all owners w' where l: "list_resources_each ops (ss_registry s) ?ids ([], []) w = ((all, owners), w')"
    by (metis surj_pair)
  obtain answers w2 where a: "resource_answers ops (ss_registry s) ?ids w = (answers, w2)" by fastforce
  have "map_of ([] :: (string \<times> string) list) = Map.empty" by simp
  with list_resources_each_answers [OF l a] True l a show ?thesis
    by (simp add: handle_resources_list_def require_initialized_def jobj_def obj_of_def obj_insert_def
        del: map_of.simps)
qed

section \<open>Events\<close>

lemma Cons_split_ex:
  "(\<exists>pre post. j # js = pre @ i # post \<and> Q \<and> set pre \<subseteq> S) \<longleftrightarrow>
     i = j \<and> Q \<or> j \<in> S \<and> (\<exists>pre post. js = pre @ i # post \<and> Q \<and> set pre \<subseteq> S)" (is "?l \<longleftrightarrow> ?r")
proof
  assume ?r
  then show ?l
  proof
    assume "j \<in> S \<and> (\<exists>pre post. js = pre @ i # post \<and> Q \<and> set pre \<subseteq> S)"
    then obtain pre post where "js = pre @ i # post" "Q" "set (j # pre) \<subseteq> S" by auto
    then show ?l by (intro exI [of _ "j # pre"] exI [of _ post]) simp
  qed (auto intro: exI [of _ "[]"])
next
  assume ?l
  then obtain pre post where "j # js = pre @ i # post" "Q" "set pre \<subseteq> S" by blast
  then show ?r by (cases pre) auto
qed

text \<open>
  An event request goes to the first capable backend, in the order of the ids, that either has no
  namespace or whose namespace prefixes the name, and the backend receives the name without that
  prefix; so a capable backend without a namespace takes every event name that no backend before it
  claims, including names under a later backend's namespace.
\<close>

theorem find_event_backend_exact:
  "find_event_backend reg name ids = Some (i, original) \<longleftrightarrow>
     (\<exists>pre post. ids = pre @ i # post \<and> name = exposed_event_name reg i original \<and>
        set pre \<subseteq> {j. \<exists>ns. namespace_of reg j = Some ns \<and> \<not> starts_with name (ns @ ''.'')})"
proof (induction ids)
  case Nil
  then show ?case by simp
next
  case (Cons j ids)
  show ?case
  proof (cases "case namespace_of reg j of Some ns \<Rightarrow> strip_prefix name (ns @ ''.'') | None \<Rightarrow> Some name")
    case None
    then have "j \<in> {j. \<exists>ns. namespace_of reg j = Some ns \<and> \<not> starts_with name (ns @ ''.'')}"
        "\<And>r. name \<noteq> exposed_event_name reg j r"
      by (auto simp: strip_prefix_None starts_with_iff exposed_event_name_def split: option.splits)
    then show ?thesis unfolding Cons_split_ex using None Cons by auto
  next
    case (Some r)
    then have name: "name = exposed_event_name reg j r"
      by (auto simp: strip_prefix_Some exposed_event_name_def split: option.splits)
    have not_pre: "j \<notin> {j. \<exists>ns. namespace_of reg j = Some ns \<and> \<not> starts_with name (ns @ ''.'')}"
      using name by (auto simp: exposed_event_name_def starts_with_iff)
    have inj: "exposed_event_name reg j r = exposed_event_name reg j r' \<longleftrightarrow> r = r'" for r'
      by (simp add: exposed_event_name_def split: option.splits)
    show ?thesis
      unfolding Cons_split_ex using Some not_pre name by (auto simp: inj)
  qed
qed

end
