(* ===== verification/Hub_Subscriptions.thy ===== *)
theory Hub_Subscriptions
  imports Hub_Session_Facts
begin

text \<open>
  \<open>subscriptions/listen\<close> (\<open>crates/mcp-server/src/subscriptions.rs\<close>): the streaming entry point of
  the session, the acknowledgement of a subscription, and the loop of its task.  The broadcast channel
  is external (tokio): the loop is a function of the sequence of results its \<open>recv\<close> returns, each
  with whether the subscriber still holds the receiving end of its message queue.
\<close>

section \<open>Listening\<close>

record listen_stream =
  ls_sub_id :: json
  ls_tools :: bool

datatype session_reply =
    ReplyMessage jsonrpc_message
  | ReplyStream jsonrpc_id listen_stream "jsonrpc_message list"

definition notification_message :: "string \<Rightarrow> json \<Rightarrow> jobject \<Rightarrow> jsonrpc_message" where
  "notification_message m sub_id params =
     Notification (new_notification m
       (Some (JObj (obj_insert ''_meta'' (jobj [(META_SUBSCRIPTION_ID, sub_id)]) params))))"

definition wants_tools :: "json option \<Rightarrow> bool" where
  "wants_tools params =
     (let wanted = (case Option.bind params (\<lambda>p. get_key p ''notifications'') of Some v \<Rightarrow> v | None \<Rightarrow> JNull)
      in Option.bind (get_key wanted ''toolsListChanged'') as_bool = Some True)"

definition listen :: "jsonrpc_id \<Rightarrow> json option \<Rightarrow> request_ctx \<Rightarrow> jsonrpc_error + listen_stream \<times> jsonrpc_message list" where
  "listen i params ctx =
     bind_res (check_version ctx) (\<lambda>u.
       if \<not> is_modern ctx then
         Inl (invalid_request ''subscriptions/listen requires protocol version 2026-07-28'')
       else
         (let tools = wants_tools params;
              agreed = (if tools then obj_insert ''toolsListChanged'' (JBool True) [] else []);
              sub_id = id_value i
          in Inr (\<lparr>ls_sub_id = sub_id, ls_tools = tools\<rparr>,
               [notification_message ''notifications/subscriptions/acknowledged'' sub_id
                  (obj_of [(''notifications'', JObj agreed)])])))"

definition handle_streaming ::
  "codec \<Rightarrow> ('b, 'w) backend_ops \<Rightarrow> jsonrpc_message \<Rightarrow> 'b session \<Rightarrow> 'w \<Rightarrow> session_reply option \<times> 'b session \<times> 'w" where
  "handle_streaming c ops message s w =
     (case message of
        Request request \<Rightarrow>
          (if req_method request = ''subscriptions/listen'' then
             (case listen (req_id request) (req_params request) (ctx_from_params (req_params request)) of
                Inr (stream, messages) \<Rightarrow> (Some (ReplyStream (req_id request) stream messages), s, w)
              | Inl error \<Rightarrow> (Some (ReplyMessage (ErrorResponse (new_failure (Some (req_id request)) error))), s, w))
           else
             (let (reply, s', w') = handle_request c ops request s w in (Some (ReplyMessage reply), s', w')))
      | Notification n \<Rightarrow> (None, handle_notification n s, w)
      | SuccessResponse r \<Rightarrow> (None, s, w)
      | ErrorResponse r \<Rightarrow> (None, s, w))"

section \<open>The subscription task\<close>

datatype recv_result = Received change | Lagged nat | Closed

definition change_message :: "listen_stream \<Rightarrow> jsonrpc_message" where
  "change_message st = notification_message ''notifications/tools/list_changed'' (ls_sub_id st) []"

text \<open>The messages the task sends, and whether it has ended.\<close>

fun listen_loop :: "listen_stream \<Rightarrow> (recv_result \<times> bool) list \<Rightarrow> jsonrpc_message list \<times> bool" where
  "listen_loop st [] = ([], False)"
| "listen_loop st ((Closed, open) # rs) = ([], True)"
| "listen_loop st ((Lagged n, open) # rs) = listen_loop st rs"
| "listen_loop st ((Received ToolsListChanged, open) # rs) =
     (if \<not> ls_tools st then listen_loop st rs
      else if \<not> open then ([], True)
      else (let (ms, ended) = listen_loop st rs in (change_message st # ms, ended)))"

section \<open>Lemmas\<close>

lemma obj_insert_Nil [simp]: "obj_insert k v [] = [(k, v)]"
  by (simp add: obj_insert_def)

definition subscription_of :: "jsonrpc_message \<Rightarrow> json option" where
  "subscription_of m =
     (case m of
        Notification n \<Rightarrow> Option.bind (ntf_params n) (\<lambda>p. Option.bind (get_key p ''_meta'')
          (\<lambda>mt. get_key mt META_SUBSCRIPTION_ID))
      | _ \<Rightarrow> None)"

lemma subscription_of_notification [simp]:
  "subscription_of (notification_message m i params) = Some i"
  by (simp add: subscription_of_def notification_message_def new_notification_def)

lemma subscription_of_change [simp]: "subscription_of (change_message st) = Some (ls_sub_id st)"
  by (simp add: change_message_def)

context registry_transition
begin

lemma R_handle_streaming:
  "handle_streaming c ops m s w = (r, s', w') \<Longrightarrow> R (ss_registry s) (ss_registry s')"
  by (auto simp: handle_streaming_def R_refl handle_notification_def
      split: jsonrpc_message.splits prod.splits if_splits sum.splits intro: R_handle_request)

end

section \<open>Properties\<close>

text \<open>
  A listen request is answered by a stream exactly when its metadata names the supported modern
  version; it never touches the session or a backend, and the stream opens with the acknowledgement,
  under the request's id, of what will be sent: tool-list changes if they were asked for and nothing
  else.  Any other message is handled as by the plain entry point.
\<close>

theorem streaming_outcome:
  "case handle_streaming c ops m s w of
     (reply, s', w') \<Rightarrow>
       (if \<exists>q. m = Request q \<and> req_method q = ''subscriptions/listen'' then
          s' = s \<and> w' = w \<and>
          (\<exists>q. m = Request q \<and>
            (if request_protocol_version (req_params q) = Some ''2026-07-28'' then
               (\<exists>p. reply = Some (ReplyStream (req_id q) \<lparr>ls_sub_id = id_value (req_id q), ls_tools = wants_tools (req_params q)\<rparr>
                  [Notification (new_notification ''notifications/subscriptions/acknowledged'' (Some p))]) \<and>
                  get_key p ''notifications'' =
                    Some (JObj (if wants_tools (req_params q) then [(''toolsListChanged'', JBool True)] else [])) \<and>
                  Option.bind (get_key p ''_meta'') (\<lambda>mt. get_key mt META_SUBSCRIPTION_ID) = Some (id_value (req_id q)))
             else
               (\<exists>e. reply = Some (ReplyMessage (ErrorResponse (new_failure (Some (req_id q)) e))) \<and>
                  rpc_code e \<in> {UNSUPPORTED_PROTOCOL_VERSION, INVALID_REQUEST})))
        else (map_option ReplyMessage (fst (handle_message c ops m s w)), snd (handle_message c ops m s w)) = (reply, s', w'))"
proof (cases "\<exists>q. m = Request q \<and> req_method q = ''subscriptions/listen''")
  case False
  then show ?thesis
    by (auto simp: handle_streaming_def handle_message_def split: jsonrpc_message.splits prod.splits)
next
  case True
  then obtain q where q: "m = Request q" "req_method q = ''subscriptions/listen''" by blast
  consider "request_protocol_version (req_params q) = Some ''2026-07-28''"
    | "request_protocol_version (req_params q) = None"
    | v where "request_protocol_version (req_params q) = Some v" "v \<noteq> ''2026-07-28''"
    by (cases "request_protocol_version (req_params q)") auto
  then show ?thesis
  proof cases
    case 1
    then show ?thesis
      by (simp add: q handle_streaming_def listen_def check_version_def ctx_from_params_def is_modern_def
          MODERN_PROTOCOL_VERSIONS_def Let_def notification_message_def map_of_obj_of new_notification_def)
  next
    case 2
    then show ?thesis
      by (simp add: q handle_streaming_def listen_def check_version_def ctx_from_params_def is_modern_def
          new_failure_def)
  next
    case 3
    then show ?thesis
      by (simp add: q handle_streaming_def listen_def check_version_def ctx_from_params_def is_modern_def
          MODERN_PROTOCOL_VERSIONS_def new_failure_def)
  qed
qed

text \<open>
  While its subscriber listens, a subscription that asked for tool-list changes sends one
  notification, under its own id, for every change the channel delivers, a lag losing only the
  changes it skips; a subscription that did not ask sends nothing; and the task ends exactly when
  the channel closes or a change finds the subscriber gone.
\<close>

theorem listen_loop_exact:
  "listen_loop st rs =
     (let stop = (\<lambda>(r, open). r = Closed \<or> (ls_tools st \<and> r = Received ToolsListChanged \<and> \<not> open));
          seen = takeWhile (\<lambda>x. \<not> stop x) rs
      in (if ls_tools st then map (\<lambda>x. change_message st) (filter (\<lambda>(r, open). r = Received ToolsListChanged) seen) else [],
          list_ex stop rs))"
  by (induction st rs rule: listen_loop.induct) (auto simp: Let_def)

end
