(* ===== verification/Hub_Stdio_Transport.thy ===== *)
theory Hub_Stdio_Transport
  imports Hub_Subscriptions
begin

text \<open>
  The stdio transport (\<open>crates/transport-stdio/src/lib.rs\<close>): the loop over input lines, the table of
  open subscription streams and the tasks that forward their messages.  The loop and the tasks run
  concurrently, so the transport is a transition system: one step handles a line, delivers a change
  to a subscription, or forwards a queued message to the output.
\<close>

section \<open>State\<close>

text \<open>A forwarding task: its subscription and the messages queued for it.\<close>

record stream_task =
  sk_stream :: listen_stream
  sk_queue :: "jsonrpc_message list"

record 'b stdio =
  sd_session :: "'b session"
  sd_streams :: "(string \<times> nat) list"
  sd_tasks :: "(nat \<times> stream_task) list"
  sd_next :: nat
  sd_out :: "jsonrpc_message list"

definition stdio_new :: "'b session \<Rightarrow> 'b stdio" where
  "stdio_new s = \<lparr>sd_session = s, sd_streams = [], sd_tasks = [], sd_next = 0, sd_out = []\<rparr>"

definition send_out :: "jsonrpc_message \<Rightarrow> 'b stdio \<Rightarrow> 'b stdio" where
  "send_out m st = st\<lparr>sd_out := sd_out st @ [m]\<rparr>"

section \<open>Lines\<close>

definition cancelled_key :: "codec \<Rightarrow> jsonrpc_message \<Rightarrow> string option" where
  "cancelled_key c message =
     (case message of
        Notification n \<Rightarrow>
          (if ntf_method n = ''notifications/cancelled'' then
             map_option (to_text c) (Option.bind (ntf_params n) (\<lambda>p. get_key p ''requestId''))
           else None)
      | _ \<Rightarrow> None)"

definition abort_stream :: "string \<Rightarrow> 'b stdio \<Rightarrow> 'b stdio" where
  "abort_stream key st =
     (case map_of (sd_streams st) key of
        None \<Rightarrow> st
      | Some n \<Rightarrow> st\<lparr>sd_streams := AList.delete key (sd_streams st), sd_tasks := AList.delete n (sd_tasks st)\<rparr>)"

definition stream_key :: "codec \<Rightarrow> jsonrpc_id \<Rightarrow> string" where
  "stream_key c i = to_text c (id_value i)"

definition open_stream :: "codec \<Rightarrow> jsonrpc_id \<Rightarrow> listen_stream \<Rightarrow> jsonrpc_message list \<Rightarrow> 'b stdio \<Rightarrow> 'b stdio" where
  "open_stream c i stream messages st =
     st\<lparr>sd_streams := AList.update (stream_key c i) (sd_next st) (sd_streams st),
        sd_tasks := AList.update (sd_next st) \<lparr>sk_stream = stream, sk_queue = messages\<rparr> (sd_tasks st),
        sd_next := sd_next st + 1\<rparr>"

definition handle_line ::
  "codec \<Rightarrow> ('b, 'w) backend_ops \<Rightarrow> string \<Rightarrow> 'b stdio \<Rightarrow> 'w \<Rightarrow> 'b stdio \<times> 'w" where
  "handle_line c ops line st w =
     (if trim line = [] then (st, w)
      else
        (case decode_message c line of
           Inl error \<Rightarrow> (send_out (ErrorResponse (new_failure None error)) st, w)
         | Inr message \<Rightarrow>
             (let st1 = (case cancelled_key c message of Some key \<Rightarrow> abort_stream key st | None \<Rightarrow> st);
                  (reply, s', w') = handle_streaming c ops message (sd_session st1) w;
                  st2 = st1\<lparr>sd_session := s'\<rparr>
              in case reply of
                   Some (ReplyMessage m) \<Rightarrow> (send_out m st2, w')
                 | Some (ReplyStream i stream messages) \<Rightarrow> (open_stream c i stream messages st2, w')
                 | None \<Rightarrow> (st2, w'))))"

text \<open>A failed read is logged and skipped; the end of the input ends the list.\<close>

datatype stdin_item = InputLine string | InputError

fun run_lines :: "codec \<Rightarrow> ('b, 'w) backend_ops \<Rightarrow> stdin_item list \<Rightarrow> 'b stdio \<Rightarrow> 'w \<Rightarrow> 'b stdio \<times> 'w" where
  "run_lines c ops [] st w = (st, w)"
| "run_lines c ops (InputError # items) st w = run_lines c ops items st w"
| "run_lines c ops (InputLine line # items) st w =
     (let (st', w') = handle_line c ops line st w in run_lines c ops items st' w')"

section \<open>Stream tasks\<close>

definition deliver_change :: "nat \<Rightarrow> 'b stdio \<Rightarrow> 'b stdio" where
  "deliver_change n st =
     st\<lparr>sd_tasks := table_modify n
        (\<lambda>t. if ls_tools (sk_stream t) then t\<lparr>sk_queue := sk_queue t @ [change_message (sk_stream t)]\<rparr> else t)
        (sd_tasks st)\<rparr>"

definition forward_one :: "nat \<Rightarrow> 'b stdio \<Rightarrow> 'b stdio" where
  "forward_one n st =
     (case map_of (sd_tasks st) n of
        None \<Rightarrow> st
      | Some t \<Rightarrow>
          (case sk_queue t of
             [] \<Rightarrow> st
           | m # q \<Rightarrow> send_out m (st\<lparr>sd_tasks := table_modify n (\<lambda>t. t\<lparr>sk_queue := q\<rparr>) (sd_tasks st)\<rparr>)))"

section \<open>Shutdown\<close>

text \<open>
  At the end of the input the tasks in the table are aborted and awaited, then the writer is awaited.
  The writer ends when no sender of its channel is left, and every task that is still alive holds one.
\<close>

definition abort_all :: "'b stdio \<Rightarrow> 'b stdio" where
  "abort_all st = st\<lparr>sd_tasks := filter (\<lambda>(n, t). n \<notin> snd ` set (sd_streams st)) (sd_tasks st), sd_streams := []\<rparr>"

definition run_returns :: "'b stdio \<Rightarrow> bool" where
  "run_returns st = (sd_tasks (abort_all st) = [])"

section \<open>Writing\<close>

definition write_reply :: "codec \<Rightarrow> jsonrpc_message \<Rightarrow> string" where
  "write_reply c reply = to_text c (message_value reply) @ [CHR 0x0A]"

definition stdout_text :: "codec \<Rightarrow> 'b stdio \<Rightarrow> string" where
  "stdout_text c st = concat (map (write_reply c) (sd_out st))"

section \<open>Lines and replies\<close>

lemma abort_stream_sel [simp]:
  "sd_session (abort_stream key st) = sd_session st" "sd_out (abort_stream key st) = sd_out st"
  "sd_next (abort_stream key st) = sd_next st"
  by (auto simp: abort_stream_def split: option.splits)

text \<open>
  Every input line is answered on its own: a blank line does nothing, a line that does not decode
  gets one error reply without an id and leaves session, streams and world alone, and any other line
  gets the one reply of the session, under its request's id; only a listen request opens a stream
  instead.  Earlier output is never changed.
\<close>

theorem stdio_line_replies:
  "case handle_line c ops line st w of
     (st', w') \<Rightarrow>
       (if trim line = [] then st' = st \<and> w' = w
        else case decode_message c line of
          Inl e \<Rightarrow> st' = st\<lparr>sd_out := sd_out st @ [ErrorResponse (new_failure None e)]\<rparr> \<and> w' = w
        | Inr m \<Rightarrow>
            (case handle_streaming c ops m (sd_session st) w of
               (reply, s', w2) \<Rightarrow>
                 sd_session st' = s' \<and> w' = w2 \<and>
                 sd_out st' = sd_out st @ (case reply of Some (ReplyMessage r) \<Rightarrow> [r] | _ \<Rightarrow> []) \<and>
                 (sd_next st' = sd_next st \<longleftrightarrow> (\<nexists>i stream ms. reply = Some (ReplyStream i stream ms)))))"
proof (cases "trim line = []")
  case True
  then show ?thesis by (simp add: handle_line_def)
next
  case False
  show ?thesis
  proof (cases "decode_message c line")
    case (Inl e)
    with False show ?thesis by (simp add: handle_line_def send_out_def)
  next
    case (Inr m)
    let ?st1 = "case cancelled_key c m of Some key \<Rightarrow> abort_stream key st | None \<Rightarrow> st"
    have 1: "sd_session ?st1 = sd_session st" "sd_out ?st1 = sd_out st" "sd_next ?st1 = sd_next st"
      by (auto simp: abort_stream_def split: option.splits)
    obtain reply s' w2 where h: "handle_streaming c ops m (sd_session st) w = (reply, s', w2)" by (metis prod_cases3)
    show ?thesis
      using False Inr h
      by (auto simp: handle_line_def 1 send_out_def open_stream_def Let_def split: option.splits session_reply.splits)
  qed
qed

section \<open>Runs of the transport\<close>

definition opens_stream :: "codec \<Rightarrow> ('b, 'w) backend_ops \<Rightarrow> string \<Rightarrow> 'b stdio \<Rightarrow> 'w \<Rightarrow> jsonrpc_id option" where
  "opens_stream c ops line st w =
     (if trim line = [] then None
      else case decode_message c line of
        Inl e \<Rightarrow> None
      | Inr m \<Rightarrow> (case fst (handle_streaming c ops m (sd_session st) w) of
          Some (ReplyStream i stream ms) \<Rightarrow> Some i | _ \<Rightarrow> None))"

text \<open>
  Any interleaving of lines, delivered changes and forwarded messages.  The parameter says whether a
  client may listen under a request id whose stream is still open.
\<close>

inductive stdio_reach ::
  "bool \<Rightarrow> codec \<Rightarrow> ('b, 'w) backend_ops \<Rightarrow> 'b stdio \<Rightarrow> 'b stdio \<Rightarrow> bool"
  for reuse :: bool and c :: codec and ops :: "('b, 'w) backend_ops" and st0 :: "'b stdio" where
  stdio_start: "stdio_reach reuse c ops st0 st0"
| stdio_line: "stdio_reach reuse c ops st0 st \<Longrightarrow>
     reuse \<or> (\<forall>i. opens_stream c ops line st w = Some i \<longrightarrow> map_of (sd_streams st) (stream_key c i) = None) \<Longrightarrow>
     stdio_reach reuse c ops st0 (fst (handle_line c ops line st w))"
| stdio_change: "stdio_reach reuse c ops st0 st \<Longrightarrow> stdio_reach reuse c ops st0 (deliver_change n st)"
| stdio_forward: "stdio_reach reuse c ops st0 st \<Longrightarrow> stdio_reach reuse c ops st0 (forward_one n st)"

text \<open>The shape of the two tables after a line.\<close>

lemma handle_line_tables:
  obtains (same) "sd_streams (fst (handle_line c ops line st w)) = sd_streams st"
      "sd_tasks (fst (handle_line c ops line st w)) = sd_tasks st"
      "sd_next (fst (handle_line c ops line st w)) = sd_next st"
      "opens_stream c ops line st w = None"
  | (aborted) key n where "map_of (sd_streams st) key = Some n"
      "sd_streams (fst (handle_line c ops line st w)) = AList.delete key (sd_streams st)"
      "sd_tasks (fst (handle_line c ops line st w)) = AList.delete n (sd_tasks st)"
      "sd_next (fst (handle_line c ops line st w)) = sd_next st"
      "opens_stream c ops line st w = None"
  | (opened) i t where "opens_stream c ops line st w = Some i"
      "sd_streams (fst (handle_line c ops line st w)) = AList.update (stream_key c i) (sd_next st) (sd_streams st)"
      "sd_tasks (fst (handle_line c ops line st w)) = AList.update (sd_next st) t (sd_tasks st)"
      "sd_next (fst (handle_line c ops line st w)) = sd_next st + 1"
proof (cases "trim line = []")
  case True
  then show thesis by (intro same) (simp_all add: handle_line_def opens_stream_def)
next
  case ne: False
  show thesis
  proof (cases "decode_message c line")
    case (Inl e)
    with ne show thesis by (intro same) (simp_all add: handle_line_def opens_stream_def send_out_def)
  next
    case (Inr m)
    obtain reply s' w2 where h: "handle_streaming c ops m (sd_session st) w = (reply, s', w2)" by (metis prod_cases3)
    show thesis
    proof (cases "\<exists>q. m = Request q")
      case True
      then have k: "cancelled_key c m = None" by (auto simp: cancelled_key_def)
      show thesis
      proof (cases "\<exists>i stream ms. reply = Some (ReplyStream i stream ms)")
        case True
        then obtain i stream ms where "reply = Some (ReplyStream i stream ms)" by blast
        with ne Inr h k show thesis
          by (intro opened [of i "\<lparr>sk_stream = stream, sk_queue = ms\<rparr>"])
            (simp_all add: handle_line_def opens_stream_def open_stream_def)
      next
        case False
        with ne Inr h k show thesis
          by (intro same) (auto simp: handle_line_def opens_stream_def send_out_def Let_def split: option.splits session_reply.splits)
      qed
    next
      case False
      then have r: "reply = None" "s' = sd_session st"
        using h by (auto simp: handle_streaming_def handle_notification_def split: jsonrpc_message.splits)
      show thesis
      proof (cases "\<exists>key n. cancelled_key c m = Some key \<and> map_of (sd_streams st) key = Some n")
        case True
        then obtain key n where "cancelled_key c m = Some key" "map_of (sd_streams st) key = Some n" by blast
        with ne Inr h r show thesis
          by (intro aborted [of key n]) (simp_all add: handle_line_def opens_stream_def abort_stream_def)
      next
        case False
        then have "(case cancelled_key c m of Some key \<Rightarrow> abort_stream key st | None \<Rightarrow> st) = st"
          by (auto simp: abort_stream_def split: option.splits)
        with ne Inr h r show thesis
          by (intro same) (simp_all add: handle_line_def opens_stream_def)
      qed
    qed
  qed
qed

lemma stream_steps_tables [simp]:
  "sd_streams (deliver_change n st) = sd_streams st" "sd_next (deliver_change n st) = sd_next st"
  "map fst (sd_tasks (deliver_change n st)) = map fst (sd_tasks st)"
  "sd_streams (forward_one n st) = sd_streams st" "sd_next (forward_one n st) = sd_next st"
  "map fst (sd_tasks (forward_one n st)) = map fst (sd_tasks st)"
  by (auto simp: deliver_change_def forward_one_def send_out_def split: option.splits list.splits)


section \<open>Streams\<close>

text \<open>
  The tables are consistent: task numbers are fresh, each table entry has its own task, and, without
  reuse of an open id, every live task is in the table.
\<close>

definition streams_inv :: "bool \<Rightarrow> 'b stdio \<Rightarrow> bool" where
  "streams_inv reuse st \<longleftrightarrow>
     table (sd_streams st) \<and> table (sd_tasks st) \<and>
     (\<forall>k n. map_of (sd_streams st) k = Some n \<longrightarrow> n < sd_next st) \<and>
     (\<forall>n. n \<in> dom (map_of (sd_tasks st)) \<longrightarrow> n < sd_next st) \<and>
     (\<forall>k k' n. map_of (sd_streams st) k = Some n \<longrightarrow> map_of (sd_streams st) k' = Some n \<longrightarrow> k = k') \<and>
     (\<not> reuse \<longrightarrow> dom (map_of (sd_tasks st)) \<subseteq> ran (map_of (sd_streams st)))"

lemma streams_inv_abort:
  assumes inv: "streams_inv reuse st" and n: "map_of (sd_streams st) key = Some n"
    and st': "sd_streams st' = AList.delete key (sd_streams st)" "sd_tasks st' = AList.delete n (sd_tasks st)"
      "sd_next st' = sd_next st"
  shows "streams_inv reuse st'"
proof -
  have "dom (map_of (sd_tasks st')) \<subseteq> ran (map_of (sd_streams st'))" if r: "\<not> reuse"
  proof
    fix m assume "m \<in> dom (map_of (sd_tasks st'))"
    then have m: "m \<in> dom (map_of (sd_tasks st))" "m \<noteq> n" by (auto simp: st' map_of_delete)
    then obtain k where "map_of (sd_streams st) k = Some m"
      using r inv unfolding streams_inv_def ran_def by blast
    with m(2) n show "m \<in> ran (map_of (sd_streams st'))"
      by (auto simp: st' map_of_delete ran_def intro!: exI [of _ k])
  qed
  with inv show ?thesis
    unfolding streams_inv_def st' map_of_delete by (auto simp: fun_upd_apply split: if_splits)
qed

lemma streams_inv_open:
  assumes inv: "streams_inv reuse st" and fresh: "reuse \<or> map_of (sd_streams st) key = None"
    and st': "sd_streams st' = AList.update key (sd_next st) (sd_streams st)"
      "sd_tasks st' = AList.update (sd_next st) task (sd_tasks st)" "sd_next st' = sd_next st + 1"
  shows "streams_inv reuse st'"
proof -
  have new: "map_of (sd_streams st) k \<noteq> Some (sd_next st)" for k
    using inv unfolding streams_inv_def by blast
  have "dom (map_of (sd_tasks st')) \<subseteq> ran (map_of (sd_streams st'))" if r: "\<not> reuse"
  proof -
    from r fresh have k: "map_of (sd_streams st) key = None" by simp
    from r inv have "dom (map_of (sd_tasks st)) \<subseteq> ran (map_of (sd_streams st))" by (simp add: streams_inv_def)
    then show ?thesis using k by (auto simp: st' map_of_update)
  qed
  moreover have "k = k'" if "map_of (sd_streams st') k = Some n" "map_of (sd_streams st') k' = Some n" for k k' n
    using that inv new by (auto simp: st' map_of_update streams_inv_def split: if_splits)
  moreover have "n < sd_next st + 1" if "map_of (sd_streams st') k = Some n" for k n
    using that inv by (auto simp: st' map_of_update streams_inv_def less_Suc_eq split: if_splits)
  moreover have "n < sd_next st + 1" if "n \<in> dom (map_of (sd_tasks st'))" for n
    using that inv by (auto simp: st' map_of_update streams_inv_def less_Suc_eq split: if_splits)
  moreover have "table (sd_streams st')" "table (sd_tasks st')"
    using inv by (simp_all add: st' streams_inv_def)
  ultimately show ?thesis unfolding streams_inv_def st'(3) by blast
qed

lemma streams_inv_tables_eq:
  assumes "streams_inv reuse st" and "sd_streams st' = sd_streams st" "map fst (sd_tasks st') = map fst (sd_tasks st)"
    "sd_next st' = sd_next st"
  shows "streams_inv reuse st'"
proof -
  have "dom (map_of (sd_tasks st')) = dom (map_of (sd_tasks st))"
    using assms(3) by (metis dom_map_of_conv_image_fst set_map)
  with assms show ?thesis by (simp add: streams_inv_def table_def)
qed

lemma stdio_reach_inv:
  assumes "stdio_reach reuse c ops st0 st" and "streams_inv reuse st0"
  shows "streams_inv reuse st"
  using assms
proof (induction rule: stdio_reach.induct)
  case (stdio_line st line w)
  note inv = stdio_line.IH [OF stdio_line.prems]
  show ?case
  proof (cases rule: handle_line_tables [of c ops line st w])
    case same
    with inv show ?thesis by (intro streams_inv_tables_eq [OF inv]) simp_all
  next
    case (aborted key n)
    then show ?thesis by (intro streams_inv_abort [OF inv])
  next
    case (opened i t)
    with stdio_line.hyps(2) show ?thesis by (intro streams_inv_open [OF inv]) auto
  qed
qed (auto intro: streams_inv_tables_eq)

lemma streams_inv_new: "streams_inv reuse (stdio_new s)"
  by (simp add: streams_inv_def stdio_new_def)


text \<open>A task that is gone stays gone.\<close>

definition task_gone :: "nat \<Rightarrow> 'b stdio \<Rightarrow> bool" where
  "task_gone n st \<longleftrightarrow> n < sd_next st \<and> map_of (sd_tasks st) n = None"

lemma task_gone_stays:
  assumes "stdio_reach reuse c ops st0 st" and "task_gone n st0"
  shows "task_gone n st"
  using assms
proof (induction rule: stdio_reach.induct)
  case (stdio_line st line w)
  note gone = stdio_line.IH [OF stdio_line.prems]
  show ?case
    by (cases rule: handle_line_tables [of c ops line st w])
      (use gone in \<open>auto simp: task_gone_def map_of_delete map_of_update\<close>)
next
  case (stdio_change st m)
  then show ?case by (auto simp: task_gone_def deliver_change_def map_of_table_modify)
next
  case (stdio_forward st m)
  then show ?case
    by (auto simp: task_gone_def forward_one_def send_out_def map_of_table_modify split: option.splits list.splits)
qed simp

text \<open>
  Cancelling a subscription by its request id stops it for good: whatever lines, changes and
  forwards follow, the task behind the cancelled stream never sends another message.
\<close>

theorem cancelled_stream_is_silent:
  assumes "stdio_reach reuse c ops (stdio_new s) st"
    and "trim line \<noteq> []" and "decode_message c line = Inr m" and "cancelled_key c m = Some key"
    and "map_of (sd_streams st) key = Some n"
    and "stdio_reach True c ops (fst (handle_line c ops line st w)) st'"
  shows "map_of (sd_tasks st') n = None \<and> forward_one n st' = st'"
proof -
  have inv: "streams_inv reuse st" by (rule stdio_reach_inv [OF assms(1) streams_inv_new])
  let ?st1 = "fst (handle_line c ops line st w)"
  from assms(4) have nreq: "\<nexists>q. m = Request q" by (auto simp: cancelled_key_def)
  obtain reply s' w2 where h: "handle_streaming c ops m (sd_session st) w = (reply, s', w2)" by (metis prod_cases3)
  with nreq have "reply = None"
    by (auto simp: handle_streaming_def handle_notification_def split: jsonrpc_message.splits)
  with assms(2-5) h have tasks: "sd_tasks ?st1 = AList.delete n (sd_tasks st)" "sd_next ?st1 = sd_next st"
    by (simp_all add: handle_line_def abort_stream_def)
  have "n < sd_next st" using inv assms(5) unfolding streams_inv_def by blast
  then have "task_gone n ?st1" by (simp add: task_gone_def tasks map_of_delete)
  from task_gone_stays [OF assms(6) this] show ?thesis by (simp add: task_gone_def forward_one_def)
qed

text \<open>
  C34: When no client listens under an id whose stream is still open, the transport always ends with
  its input: after the streams in its table are aborted no task holds the output channel, so the
  writer and the run return.
\<close>

theorem stdio_run_returns:
  assumes "stdio_reach False c ops (stdio_new s) st"
  shows "run_returns st"
proof -
  have inv: "streams_inv False st" by (rule stdio_reach_inv [OF assms streams_inv_new])
  then have sub: "dom (map_of (sd_tasks st)) \<subseteq> ran (map_of (sd_streams st))" by (simp add: streams_inv_def)
  have "n \<in> snd ` set (sd_streams st)" if "(n, t) \<in> set (sd_tasks st)" for n t
  proof -
    from that have "n \<in> dom (map_of (sd_tasks st))" unfolding dom_map_of_conv_image_fst by force
    with sub obtain k where "map_of (sd_streams st) k = Some n" unfolding ran_def by blast
    then show ?thesis by (force dest: map_of_SomeD)
  qed
  then show ?thesis by (auto simp: run_returns_def abort_all_def filter_empty_conv)
qed

section \<open>Sample runs\<close>

definition sample_listening :: "string stdio" where
  "sample_listening = fst (handle_line sample_codec sample_ops ''listen'' (stdio_new (session_new sample_registry)) ())"

lemma sample_listening_reach: "stdio_reach reuse sample_codec sample_ops (stdio_new (session_new sample_registry)) sample_listening"
  unfolding sample_listening_def
  by (rule stdio_line [OF stdio_start]) (simp add: stdio_new_def)

lemma sample_cancel_decodes:
  "trim ''cancel'' \<noteq> []"
  "decode_message sample_codec ''cancel'' = Inr (Notification (new_notification ''notifications/cancelled''
     (Some (JObj [(''requestId'', JNum (PosInt 7))]))))"
  "cancelled_key sample_codec (Notification (new_notification ''notifications/cancelled''
     (Some (JObj [(''requestId'', JNum (PosInt 7))])))) = Some ''7''"
  "map_of (sd_streams sample_listening) ''7'' = Some 0"
  by code_simp+

theorem cancelled_stream_is_silent_witness:
  "map_of (sd_tasks (deliver_change 0 (fst (handle_line sample_codec sample_ops ''cancel'' sample_listening ())))) 0 = None \<and>
   map_of (sd_tasks sample_listening) 0 \<noteq> None"
proof -
  have "stdio_reach True sample_codec sample_ops (fst (handle_line sample_codec sample_ops ''cancel'' sample_listening ()))
      (deliver_change 0 (fst (handle_line sample_codec sample_ops ''cancel'' sample_listening ())))"
    by (intro stdio_change stdio_start)
  from cancelled_stream_is_silent [OF sample_listening_reach [of True] sample_cancel_decodes this]
  have "map_of (sd_tasks (deliver_change 0 (fst (handle_line sample_codec sample_ops ''cancel'' sample_listening ())))) 0 = None"
    by blast
  moreover have "map_of (sd_tasks sample_listening) 0 \<noteq> None" by code_simp
  ultimately show ?thesis by blast
qed

theorem stdio_run_returns_witness: "run_returns sample_listening \<and> sd_tasks sample_listening \<noteq> []"
  using stdio_run_returns [OF sample_listening_reach] by simp code_simp

text \<open>
  A client that listens twice under one id leaves the first task outside the table: no cancellation
  reaches it, and the run does not return at the end of the input.
\<close>

lemma reused_listen_id_blocks_shutdown:
  "\<not> run_returns (fst (run_lines sample_codec sample_ops [InputLine ''listen'', InputLine ''listen'', InputLine ''cancel'']
      (stdio_new (session_new sample_registry)) ()))"
  by code_simp

end
