(* ===== verification/Hub_Http_Transport.thy ===== *)
theory Hub_Http_Transport
  imports Hub_Subscriptions
begin

text \<open>
  The HTTP transport (\<open>crates/transport-http/src\<close>): the start-up checks on the bearer token, the rate
  limit and bearer middleware in the order the router layers them, and the handler of \<open>POST /mcp\<close>
  with its status codes.  The rate limiter (governor) and the reading of a header value as text (http)
  are parameters; header names are in lower case, as the library keeps them.
\<close>

section \<open>Configuration and state\<close>

record http_config =
  hc_bearer_token :: string
  hc_rate_limit_per_minute :: u32

record ('b, 'l) app_state =
  as_session :: "'b session"
  as_bearer_token :: string
  as_limiter :: 'l

record 'l http_lib =
  hl_new_limiter :: "u32 \<Rightarrow> 'l"
  hl_check_key :: "string \<Rightarrow> 'l \<Rightarrow> bool \<times> 'l"
  hl_to_str :: "string \<Rightarrow> string option"

definition build_limiter :: "'l http_lib \<Rightarrow> u32 \<Rightarrow> 'l" where
  "build_limiter lib requests_per_minute =
     hl_new_limiter lib (if requests_per_minute = 0 then 1 else requests_per_minute)"

text \<open>The checks of \<open>run_http\<close> before it binds its listener, and the state its router serves.\<close>

definition run_http :: "'l http_lib \<Rightarrow> http_config \<Rightarrow> 'b session \<Rightarrow> string + ('b, 'l) app_state" where
  "run_http lib config session =
     (if hc_bearer_token config = [] then
        Inl ''refusing to start: no bearer token configured (set [auth] hub_token or HEADLESS_MCP_TOKEN)''
      else if contains_sub (hc_bearer_token config) ''{{unresolved:'' then
        Inl (''refusing to start: bearer token still contains an unresolved placeholder ('' @
          hc_bearer_token config @ ''); the referenced variable is not set'')
      else Inr \<lparr>as_session = session, as_bearer_token = hc_bearer_token config,
                as_limiter = build_limiter lib (hc_rate_limit_per_minute config)\<rparr>)"

text \<open>
  The \<open>Debug\<close> text of a configuration, on one line, with the token redacted; the address is given as text.
\<close>

definition http_config_debug :: "string \<Rightarrow> http_config \<Rightarrow> string" where
  "http_config_debug bind_addr config =
     ''HttpTransportConfig { bind_addr: '' @ bind_addr @ '', bearer_token: '' @ [CHR 0x22] @ ''<redacted>'' @ [CHR 0x22] @
     '', rate_limit_per_minute: '' @ digits_of (unat (hc_rate_limit_per_minute config)) @ '' }''"

section \<open>Requests and responses\<close>

record http_request =
  hr_ip :: string
  hr_headers :: "(string \<times> string) list"
  hr_body :: string

datatype http_response =
    PlainText nat string
  | JsonBody nat string
  | StatusOnly nat
  | EventStream listen_stream "jsonrpc_message list"

fun status_of :: "http_response \<Rightarrow> nat" where
  "status_of (PlainText n t) = n"
| "status_of (JsonBody n t) = n"
| "status_of (StatusOnly n) = n"
| "status_of (EventStream st ms) = 200"

section \<open>Middleware\<close>

definition extract_bearer_token :: "'l http_lib \<Rightarrow> (string \<times> string) list \<Rightarrow> string option" where
  "extract_bearer_token lib headers =
     Option.bind (map_of headers ''authorization'') (\<lambda>raw.
       Option.bind (hl_to_str lib raw) (\<lambda>s. strip_prefix s ''Bearer ''))"

text \<open>The constant-time comparison of the two byte strings.\<close>

definition tokens_match :: "string \<Rightarrow> string \<Rightarrow> bool" where
  "tokens_match provided expected = (provided = expected)"

section \<open>The handler\<close>

definition HEADER_MISMATCH :: i64 where "HEADER_MISMATCH = -32020"

definition modern_request :: "jsonrpc_message \<Rightarrow> (string \<times> jsonrpc_id) option" where
  "modern_request message =
     (case message of
        Request request \<Rightarrow> map_option (\<lambda>v. (v, req_id request)) (request_protocol_version (req_params request))
      | _ \<Rightarrow> None)"

definition modern_status :: "jsonrpc_message \<Rightarrow> nat" where
  "modern_status reply =
     (case reply of
        ErrorResponse err \<Rightarrow>
          (if rpc_code (err_error err) = UNSUPPORTED_PROTOCOL_VERSION then 400
           else if rpc_code (err_error err) = METHOD_NOT_FOUND then 404 else 200)
      | _ \<Rightarrow> 200)"

text \<open>Rust's debug quoting, on the visible characters and tabs a header text can hold.\<close>

fun debug_chars :: "string \<Rightarrow> string" where
  "debug_chars [] = []"
| "debug_chars (x # xs) =
     (if x = CHR 0x22 \<or> x = CHR 0x5C then [CHR 0x5C, x]
      else if x = CHR 0x09 then [CHR 0x5C, CHR ''t''] else [x]) @ debug_chars xs"

definition debug_str :: "string \<Rightarrow> string" where
  "debug_str s = [CHR 0x22] @ debug_chars s @ [CHR 0x22]"

definition header_mismatch :: "string option \<Rightarrow> string \<Rightarrow> jsonrpc_error" where
  "header_mismatch header version =
     rpc_error HEADER_MISMATCH (''Header mismatch: MCP-Protocol-Version '' @
       debug_str (case header of Some h \<Rightarrow> h | None \<Rightarrow> ''<missing>'') @
       '' does not match body version '' @ sq version)"

definition json_response :: "codec \<Rightarrow> nat \<Rightarrow> jsonrpc_message \<Rightarrow> http_response" where
  "json_response c status m = JsonBody status (to_text c (message_value m))"

text \<open>The data of the server-sent events of a stream: each message is one event.\<close>

definition sse_response :: "codec \<Rightarrow> jsonrpc_message list \<Rightarrow> string list" where
  "sse_response c messages = map (\<lambda>m. to_text c (message_value m)) messages"

definition handle_mcp ::
  "codec \<Rightarrow> ('b, 'w) backend_ops \<Rightarrow> 'l http_lib \<Rightarrow> (string \<times> string) list \<Rightarrow> string \<Rightarrow> ('b, 'l) app_state \<Rightarrow> 'w
     \<Rightarrow> http_response \<times> ('b, 'l) app_state \<times> 'w" where
  "handle_mcp c ops lib headers body app w =
     (case decode_message c body of
        Inl error \<Rightarrow> (json_response c 200 (ErrorResponse (new_failure None error)), app, w)
      | Inr message \<Rightarrow>
          (let modern = modern_request message;
               header = Option.bind (map_of headers ''mcp-protocol-version'') (hl_to_str lib)
           in if (case modern of Some (version, i) \<Rightarrow> header \<noteq> Some version | None \<Rightarrow> False) then
                (let (version, i) = the modern
                 in (json_response c 400 (ErrorResponse (new_failure (Some i) (header_mismatch header version))), app, w))
              else
                (let (reply, s', w') = handle_streaming c ops message (as_session app) w;
                     app' = app\<lparr>as_session := s'\<rparr>
                 in case reply of
                      Some (ReplyMessage m) \<Rightarrow>
                        (json_response c (if modern \<noteq> None then modern_status m else 200) m, app', w')
                    | Some (ReplyStream i stream messages) \<Rightarrow> (EventStream stream messages, app', w')
                    | None \<Rightarrow> (StatusOnly 202, app', w'))))"

definition require_bearer_token ::
  "'l http_lib \<Rightarrow> (string \<times> string) list \<Rightarrow> ('b, 'l) app_state
     \<Rightarrow> (('b, 'l) app_state \<Rightarrow> 'w \<Rightarrow> http_response \<times> ('b, 'l) app_state \<times> 'w)
     \<Rightarrow> 'w \<Rightarrow> http_response \<times> ('b, 'l) app_state \<times> 'w" where
  "require_bearer_token lib headers app next w =
     (case extract_bearer_token lib headers of
        Some token \<Rightarrow>
          (if tokens_match token (as_bearer_token app) then next app w
           else (PlainText 401 ''unauthorized'', app, w))
      | None \<Rightarrow> (PlainText 401 ''unauthorized'', app, w))"

definition enforce_rate_limit ::
  "'l http_lib \<Rightarrow> string \<Rightarrow> ('b, 'l) app_state
     \<Rightarrow> (('b, 'l) app_state \<Rightarrow> 'w \<Rightarrow> http_response \<times> ('b, 'l) app_state \<times> 'w)
     \<Rightarrow> 'w \<Rightarrow> http_response \<times> ('b, 'l) app_state \<times> 'w" where
  "enforce_rate_limit lib ip app next w =
     (let (ok, l') = hl_check_key lib ip (as_limiter app); app' = app\<lparr>as_limiter := l'\<rparr>
      in if ok then next app' w else (PlainText 429 ''rate limit exceeded'', app', w))"

text \<open>The router's layers on \<open>POST /mcp\<close>: the rate limit outside, the bearer check inside.\<close>

definition serve_mcp ::
  "codec \<Rightarrow> ('b, 'w) backend_ops \<Rightarrow> 'l http_lib \<Rightarrow> http_request \<Rightarrow> ('b, 'l) app_state \<Rightarrow> 'w
     \<Rightarrow> http_response \<times> ('b, 'l) app_state \<times> 'w" where
  "serve_mcp c ops lib request app w =
     enforce_rate_limit lib (hr_ip request) app
       (\<lambda>app1. require_bearer_token lib (hr_headers request) app1
         (handle_mcp c ops lib (hr_headers request) (hr_body request))) w"

section \<open>Lemmas\<close>

definition authorized :: "'l http_lib \<Rightarrow> http_request \<Rightarrow> ('b, 'l) app_state \<Rightarrow> bool" where
  "authorized lib request app \<longleftrightarrow>
     (\<exists>raw. map_of (hr_headers request) ''authorization'' = Some raw \<and>
        hl_to_str lib raw = Some (''Bearer '' @ as_bearer_token app))"

lemma extract_bearer_token_iff:
  "extract_bearer_token lib (hr_headers request) = Some (as_bearer_token app) \<longleftrightarrow> authorized lib request app"
  by (simp add: extract_bearer_token_def authorized_def bind_eq_Some_conv strip_prefix_Some)

lemma serve_mcp_cases:
  "serve_mcp c ops lib request app w =
     (let (ok, l') = hl_check_key lib (hr_ip request) (as_limiter app); app' = app\<lparr>as_limiter := l'\<rparr>
      in if \<not> ok then (PlainText 429 ''rate limit exceeded'', app', w)
         else if \<not> authorized lib request app then (PlainText 401 ''unauthorized'', app', w)
         else handle_mcp c ops lib (hr_headers request) (hr_body request) app' w)"
  using extract_bearer_token_iff [of lib request app]
  by (auto simp: serve_mcp_def enforce_rate_limit_def require_bearer_token_def tokens_match_def Let_def
      split: prod.splits option.splits)

context registry_transition
begin

lemma R_handle_mcp:
  "handle_mcp c ops lib headers body app w = (r, app', w') \<Longrightarrow>
     R (ss_registry (as_session app)) (ss_registry (as_session app'))"
  by (auto simp: handle_mcp_def Let_def R_refl split: sum.splits prod.splits if_splits option.splits session_reply.splits
      intro: R_handle_streaming)

end

lemma debug_hides_token:
  "http_config_debug bind_addr (config\<lparr>hc_bearer_token := t\<rparr>) = http_config_debug bind_addr config"
  by (simp add: http_config_debug_def)

section \<open>Properties\<close>

text \<open>
  C9: A request reaches the session only when its address is within its rate budget and its
  authorization header is exactly the bearer scheme and the configured token; otherwise it gets 429
  or 401, in that order, and the session and every backend are untouched.  The token never changes.
\<close>

theorem http_gate:
  "case serve_mcp c ops lib request app w of
     (response, app', w') \<Rightarrow>
       as_bearer_token app' = as_bearer_token app \<and>
       (if \<not> fst (hl_check_key lib (hr_ip request) (as_limiter app)) then
          response = PlainText 429 ''rate limit exceeded'' \<and> as_session app' = as_session app \<and> w' = w
        else if map_option (hl_to_str lib) (map_of (hr_headers request) ''authorization'')
            \<noteq> Some (Some (''Bearer '' @ as_bearer_token app)) then
          response = PlainText 401 ''unauthorized'' \<and> as_session app' = as_session app \<and> w' = w
        else \<exists>app1. as_session app1 = as_session app \<and>
          (response, app', w') = handle_mcp c ops lib (hr_headers request) (hr_body request) app1 w)"
proof -
  obtain ok l' where k: "hl_check_key lib (hr_ip request) (as_limiter app) = (ok, l')" by fastforce
  have a: "authorized lib request app \<longleftrightarrow>
      map_option (hl_to_str lib) (map_of (hr_headers request) ''authorization'') = Some (Some (''Bearer '' @ as_bearer_token app))"
    by (auto simp: authorized_def)
  have t: "as_bearer_token (fst (snd (handle_mcp c ops lib h b app1 w))) = as_bearer_token app1" for h b app1
    by (auto simp: handle_mcp_def Let_def split: sum.splits prod.splits option.splits session_reply.splits)
  show ?thesis
    unfolding serve_mcp_cases k a
    using t [of "hr_headers request" "hr_body request" "app\<lparr>as_limiter := l'\<rparr>"]
    by (auto split: prod.splits intro: exI [of _ "app\<lparr>as_limiter := l'\<rparr>"])
qed

text \<open>
  A server that starts has a non-empty token without an unresolved placeholder, so a request
  with an empty bearer token, or with no authorization header, never gets past the gate.
\<close>

theorem started_server_needs_a_token:
  "case run_http lib config s of
     Inl e \<Rightarrow> hc_bearer_token config = [] \<or> contains_sub (hc_bearer_token config) ''{{unresolved:''
   | Inr app \<Rightarrow>
       as_session app = s \<and> as_bearer_token app = hc_bearer_token config \<and> as_bearer_token app \<noteq> [] \<and>
       \<not> contains_sub (as_bearer_token app) ''{{unresolved:'' \<and>
       (if extract_bearer_token lib (hr_headers request) \<in> {None, Some []} then
          status_of (fst (serve_mcp c ops lib request app w)) \<in> {401, 429} \<and>
          as_session (fst (snd (serve_mcp c ops lib request app w))) = s \<and>
          snd (snd (serve_mcp c ops lib request app w)) = w
        else True)"
proof (cases "run_http lib config s")
  case (Inl e)
  then show ?thesis by (auto simp: run_http_def split: if_splits)
next
  case (Inr app)
  then have app: "as_session app = s" "as_bearer_token app = hc_bearer_token config" "as_bearer_token app \<noteq> []"
      "\<not> contains_sub (as_bearer_token app) ''{{unresolved:''"
    by (auto simp: run_http_def split: if_splits)
  have "\<not> authorized lib request app" if "extract_bearer_token lib (hr_headers request) \<in> {None, Some []}"
    using that app(3) by (auto simp flip: extract_bearer_token_iff)
  with app Inr show ?thesis by (auto simp: serve_mcp_cases Let_def split: prod.splits)
qed

text \<open>
  The response of an authorized request is exact.  Bytes that do not decode get status 200 and
  an error reply without an id; a modern request whose version header is missing or differs from
  the version in its body gets 400 and is not executed; a notification gets 202; a listen request
  that is accepted gets an event stream; a reply gets 200, except that a modern error reply for an
  unsupported version gets 400 and for an unknown method 404.
\<close>

theorem http_response_exact:
  "case handle_mcp c ops lib headers body app w of
     (response, app', w') \<Rightarrow>
       (case decode_message c body of
          Inl e \<Rightarrow> response = JsonBody 200 (to_text c (message_value (ErrorResponse (new_failure None e)))) \<and>
            app' = app \<and> w' = w
        | Inr m \<Rightarrow>
            (let header = Option.bind (map_of headers ''mcp-protocol-version'') (hl_to_str lib);
                 version = map_option fst (modern_request m)
             in if version \<noteq> None \<and> header \<noteq> version then
                  app' = app \<and> w' = w \<and>
                  (\<exists>e. rpc_code e = HEADER_MISMATCH \<and> response = JsonBody 400 (to_text c (message_value
                     (ErrorResponse (new_failure (map_option snd (modern_request m)) e)))))
                else
                  (case handle_streaming c ops m (as_session app) w of
                     (reply, s', w2) \<Rightarrow>
                       app' = app\<lparr>as_session := s'\<rparr> \<and> w' = w2 \<and>
                       response = (case reply of
                           None \<Rightarrow> StatusOnly 202
                         | Some (ReplyStream i st ms) \<Rightarrow> EventStream st ms
                         | Some (ReplyMessage r) \<Rightarrow>
                             JsonBody (case r of
                                 ErrorResponse f \<Rightarrow>
                                   (if version = None then 200
                                    else if rpc_code (err_error f) = UNSUPPORTED_PROTOCOL_VERSION then 400
                                    else if rpc_code (err_error f) = METHOD_NOT_FOUND then 404 else 200)
                               | _ \<Rightarrow> 200) (to_text c (message_value r))))))"
proof (cases "decode_message c body")
  case (Inl e)
  then show ?thesis by (simp add: handle_mcp_def json_response_def)
next
  case (Inr m)
  obtain reply s' w2 where h: "handle_streaming c ops m (as_session app) w = (reply, s', w2)" by (metis prod_cases3)
  let ?header = "Option.bind (map_of headers ''mcp-protocol-version'') (hl_to_str lib)"
  show ?thesis
  proof (cases "modern_request m")
    case None
    with Inr h show ?thesis
      by (auto simp: handle_mcp_def json_response_def Let_def split: option.splits session_reply.splits jsonrpc_message.splits)
  next
    case (Some vi)
    obtain v i where vi: "vi = (v, i)" by (cases vi)
    show ?thesis
    proof (cases "?header = Some v")
      case True
      with Inr h Some vi show ?thesis
        by (auto simp: handle_mcp_def json_response_def modern_status_def Let_def
            split: option.splits session_reply.splits jsonrpc_message.splits)
    next
      case False
      have "rpc_code (header_mismatch ?header v) = HEADER_MISMATCH" by (simp add: header_mismatch_def)
      with False Inr Some vi show ?thesis
        by (auto simp: handle_mcp_def json_response_def Let_def simp del: message_value.simps)
    qed
  qed
qed

end
