(* ===== verification/Hub_Sse.thy ===== *)
theory Hub_Sse
  imports Hub_Prelude
begin

text \<open>
  Server-Sent Events framing (\<open>crates/mcp-wire/src/sse.rs\<close>): the encoder, the pending event the
  decoder builds line by line, and the incremental decoder with its text buffer.  The lemmas show
  that the decoder's answer does not depend on how the text is cut into chunks, and that it reads a
  stream of encoded events back, up to the carriage returns the framing cannot carry.
\<close>

section \<open>Encoding\<close>

record sse_event =
  ev_event :: "string option"
  ev_data :: string
  ev_id :: "string option"

abbreviation NL :: char where "NL \<equiv> CHR 0x0A"
abbreviation CR :: char where "CR \<equiv> CHR 0x0D"

definition first_line :: "string \<Rightarrow> string" where
  "first_line s = takeWhile (\<lambda>c. c \<noteq> NL \<and> c \<noteq> CR) s"

definition encode_sse_event :: "sse_event \<Rightarrow> string" where
  "encode_sse_event e =
     (case ev_event e of None \<Rightarrow> [] | Some name \<Rightarrow> ''event: '' @ first_line name @ [NL]) @
     (case ev_id e of None \<Rightarrow> [] | Some i \<Rightarrow> ''id: '' @ first_line i @ [NL]) @
     concat (map (\<lambda>line. ''data: '' @ line @ [NL]) (split_on NL (ev_data e))) @ [NL]"

section \<open>Decoding\<close>

record pending_event =
  pe_event :: "string option"
  pe_id :: "string option"
  pe_data_lines :: "string list"

definition reset :: pending_event where
  "reset = \<lparr>pe_event = None, pe_id = None, pe_data_lines = []\<rparr>"

definition apply_line :: "pending_event \<Rightarrow> string \<Rightarrow> pending_event" where
  "apply_line p line =
     (if starts_with line '':'' then p
      else
        (let (field, raw_value) = (case split_once (CHR '':'') line of Some fv \<Rightarrow> fv | None \<Rightarrow> (line, []));
             value = (case strip_prefix raw_value '' '' of Some v \<Rightarrow> v | None \<Rightarrow> raw_value) in
         if field = ''data'' then p\<lparr>pe_data_lines := pe_data_lines p @ [value]\<rparr>
         else if field = ''event'' then p\<lparr>pe_event := Some value\<rparr>
         else if field = ''id'' then p\<lparr>pe_id := Some value\<rparr>
         else p))"

definition dispatch :: "pending_event \<Rightarrow> sse_event option \<times> pending_event" where
  "dispatch p =
     (if pe_data_lines p = [] then (None, reset)
      else (Some \<lparr>ev_event = pe_event p, ev_data = join_with [NL] (pe_data_lines p), ev_id = pe_id p\<rparr>, reset))"

record sse_decoder =
  sd_buffer :: string
  sd_pending :: pending_event

definition sse_new :: sse_decoder where
  "sse_new = \<lparr>sd_buffer = [], sd_pending = reset\<rparr>"

definition strip_cr :: "string \<Rightarrow> string" where
  "strip_cr line = (if ends_with line [CR] then butlast line else line)"

text \<open>
  The \<open>while\<close> loop of \<open>feed\<close>: one line per round, the events in the order they are dispatched.
\<close>

function feed_loop :: "string \<Rightarrow> pending_event \<Rightarrow> sse_decoder \<times> sse_event list" where
  "feed_loop buffer p =
     (case split_once NL buffer of
        None \<Rightarrow> (\<lparr>sd_buffer = buffer, sd_pending = p\<rparr>, [])
      | Some (raw, rest) \<Rightarrow>
          (let line = strip_cr raw in
           if line = [] then
             (let (ev, p') = dispatch p; (d, evs) = feed_loop rest p' in
              (d, (case ev of Some e \<Rightarrow> e # evs | None \<Rightarrow> evs)))
           else feed_loop rest (apply_line p line)))"
  by pat_completeness auto
termination
  by (relation "measure (\<lambda>(buffer, p). length buffer)") (auto simp: split_once_Some)

declare feed_loop.simps [simp del]

definition feed :: "sse_decoder \<Rightarrow> string \<Rightarrow> sse_decoder \<times> sse_event list" where
  "feed d chunk = feed_loop (sd_buffer d @ chunk) (sd_pending d)"

text \<open>Feeding a list of chunks, collecting the events.\<close>

fun feed_all :: "sse_decoder \<Rightarrow> string list \<Rightarrow> sse_decoder \<times> sse_event list" where
  "feed_all d [] = (d, [])"
| "feed_all d (c # cs) =
     (let (d', evs) = feed d c; (d'', evs') = feed_all d' cs in (d'', evs @ evs'))"

section \<open>One line at a time\<close>

definition line_step :: "pending_event \<Rightarrow> string \<Rightarrow> sse_event list \<times> pending_event" where
  "line_step p raw =
     (let line = strip_cr raw in
      if line = [] then (case dispatch p of (Some e, p') \<Rightarrow> ([e], p') | (None, p') \<Rightarrow> ([], p'))
      else ([], apply_line p line))"

lemma feed_loop_no_newline: "NL \<notin> set b \<Longrightarrow> feed_loop b p = (\<lparr>sd_buffer = b, sd_pending = p\<rparr>, [])"
  by (subst feed_loop.simps) (simp add: iffD2 [OF split_once_None])

lemma feed_loop_line:
  assumes "NL \<notin> set raw"
  shows "feed_loop (raw @ NL # rest) p =
    (let (evs, p') = line_step p raw; (d, evs') = feed_loop rest p' in (d, evs @ evs'))"
proof -
  have "split_once NL (raw @ NL # rest) = Some (raw, rest)"
    using assms by (simp add: split_once_Some)
  then show ?thesis
    by (subst feed_loop.simps)
       (auto simp: line_step_def Let_def split: prod.splits option.splits)
qed

lemma feed_loop_buffer: "NL \<notin> set (sd_buffer (fst (feed_loop b p)))"
proof (induction b p rule: feed_loop.induct)
  case (1 b p)
  show ?case
  proof (cases "split_once NL b")
    case None
    then show ?thesis by (simp add: split_once_None feed_loop_no_newline)
  next
    case (Some rr)
    then obtain raw rest where rr: "split_once NL b = Some (raw, rest)" by (cases rr) auto
    show ?thesis
    proof (cases "strip_cr raw = []")
      case True
      obtain ev p' where dp: "dispatch p = (ev, p')" by (cases "dispatch p")
      from "1.IH"(1) [OF rr refl refl True dp [symmetric]]
      show ?thesis using rr True dp
        by (subst feed_loop.simps) (auto split: prod.splits)
    next
      case False
      from "1.IH"(2) [OF rr refl refl False] show ?thesis using rr False
        by (subst feed_loop.simps) auto
    qed
  qed
qed

lemma feed_loop_append:
  "feed_loop (a @ b) p =
     (let (d, evs) = feed_loop a p; (d', evs') = feed_loop (sd_buffer d @ b) (sd_pending d) in (d', evs @ evs'))"
proof (induction a p rule: feed_loop.induct)
  case (1 a p)
  show ?case
  proof (cases "split_once NL a")
    case None
    then have "NL \<notin> set a" by (simp add: split_once_None)
    then show ?thesis by (simp add: feed_loop_no_newline)
  next
    case (Some rr)
    then obtain raw rest where rr: "split_once NL a = Some (raw, rest)" by (cases rr) auto
    then have a: "a = raw @ NL # rest" "NL \<notin> set raw" by (auto simp: split_once_Some)
    obtain evs p' where st: "line_step p raw = (evs, p')" by (cases "line_step p raw")
    have IH: "feed_loop (rest @ b) p' =
      (let (d, evs) = feed_loop rest p'; (d', evs') = feed_loop (sd_buffer d @ b) (sd_pending d) in (d', evs @ evs'))"
    proof (cases "strip_cr raw = []")
      case True
      obtain ev q where dp: "dispatch p = (ev, q)" by (cases "dispatch p")
      with st True have "q = p'" by (auto simp: line_step_def split: option.splits)
      with "1.IH"(1) [OF rr refl refl True dp [symmetric]] show ?thesis by simp
    next
      case False
      with st have "p' = apply_line p (strip_cr raw)" by (simp add: line_step_def)
      with "1.IH"(2) [OF rr refl refl False] show ?thesis by simp
    qed
    show ?thesis
      using IH st by (auto simp: a feed_loop_line split: prod.splits)
  qed
qed

section \<open>The cut into chunks does not matter\<close>

lemma feed_feed:
  "feed d (a @ b) = (let (d', evs) = feed d a; (d'', evs') = feed d' b in (d'', evs @ evs'))"
  using feed_loop_append [of "sd_buffer d @ a" b "sd_pending d"] by (simp add: feed_def)

lemma feed_empty: "NL \<notin> set (sd_buffer d) \<Longrightarrow> feed d [] = (d, [])"
  by (simp add: feed_def feed_loop_no_newline)

lemma feed_all_concat: "NL \<notin> set (sd_buffer d) \<Longrightarrow> feed_all d cs = feed d (concat cs)"
proof (induction cs arbitrary: d)
  case Nil
  then show ?case by (simp add: feed_empty)
next
  case (Cons c cs)
  obtain d' evs where f: "feed d c = (d', evs)" by (cases "feed d c")
  then have "NL \<notin> set (sd_buffer d')" using feed_loop_buffer by (metis feed_def fst_conv)
  from Cons.IH [OF this] f show ?case by (simp add: feed_feed)
qed

text \<open>
  C28: the decoder is insensitive to chunk boundaries.  Feeding any sequence of chunks to a new decoder
  leaves it in the same state and returns, in order, the same events as feeding their concatenation
  at once, so an event cut mid-line, mid-field or between CR and LF is decoded like a whole one.
\<close>

theorem sse_chunking: "feed_all sse_new chunks = feed sse_new (concat chunks)"
  by (rule feed_all_concat) (simp add: sse_new_def)

section \<open>Round trip\<close>

text \<open>What the framing keeps of an event: names up to their first line break, data without a carriage return at the end of a line.\<close>

definition framed :: "sse_event \<Rightarrow> sse_event" where
  "framed e = \<lparr>ev_event = map_option first_line (ev_event e),
     ev_data = join_with [NL] (map strip_cr (split_on NL (ev_data e))),
     ev_id = map_option first_line (ev_id e)\<rparr>"

lemma first_line_no_break: "NL \<notin> set (first_line s)" "CR \<notin> set (first_line s)"
  by (auto simp: first_line_def dest: set_takeWhileD)

lemma strip_cr_id: "CR \<notin> set s \<Longrightarrow> strip_cr s = s"
  by (auto simp: strip_cr_def ends_with_iff)

lemma ends_with_snoc: "t \<noteq> [] \<Longrightarrow> ends_with (s @ t) [c] = ends_with t [c]"
  by (cases t rule: rev_cases) (auto simp: ends_with_iff)

lemma strip_cr_append:
  assumes "s \<noteq> []" and "last s \<noteq> CR"
  shows "strip_cr (s @ t) = s @ strip_cr t"
proof (cases "t = []")
  case True
  with assms show ?thesis by (auto simp: strip_cr_def ends_with_iff)
next
  case False
  then show ?thesis by (simp add: strip_cr_def butlast_append ends_with_snoc)
qed

lemma line_step_data:
  "line_step p (''data: '' @ s) = ([], p\<lparr>pe_data_lines := pe_data_lines p @ [strip_cr s]\<rparr>)"
  using strip_cr_append [of "''data: ''" s] by (simp add: line_step_def apply_line_def)

lemma line_step_event:
  "line_step p (''event: '' @ first_line s) = ([], p\<lparr>pe_event := Some (first_line s)\<rparr>)"
  using strip_cr_append [of "''event: ''" "first_line s"] first_line_no_break(2) [of s]
  by (simp add: line_step_def apply_line_def strip_cr_id)

lemma line_step_id:
  "line_step p (''id: '' @ first_line s) = ([], p\<lparr>pe_id := Some (first_line s)\<rparr>)"
  using strip_cr_append [of "''id: ''" "first_line s"] first_line_no_break(2) [of s]
  by (simp add: line_step_def apply_line_def strip_cr_id)

lemma feed_loop_data_lines:
  "\<forall>l \<in> set ls. NL \<notin> set l \<Longrightarrow>
   feed_loop (concat (map (\<lambda>l. ''data: '' @ l @ [NL]) ls) @ rest) p =
   feed_loop rest (p\<lparr>pe_data_lines := pe_data_lines p @ map strip_cr ls\<rparr>)"
proof (induction ls arbitrary: p)
  case Nil
  then show ?case by simp
next
  case (Cons l ls)
  have "NL \<notin> set (''data: '' @ l)" using Cons.prems by simp
  note step = feed_loop_line [OF this, of _ p]
  show ?case
    using step [of "concat (map (\<lambda>l. ''data: '' @ l @ [NL]) ls) @ rest"]
      Cons.IH [of "p\<lparr>pe_data_lines := pe_data_lines p @ [strip_cr l]\<rparr>"] Cons.prems
      line_step_data [of p l]
    by simp
qed

lemma feed_loop_encoded:
  "feed_loop (encode_sse_event e @ rest) reset =
     (let (d, evs) = feed_loop rest reset in (d, framed e # evs))"
proof -
  let ?p1 = "case ev_event e of None \<Rightarrow> reset | Some n \<Rightarrow> reset\<lparr>pe_event := Some (first_line n)\<rparr>"
  let ?p2 = "case ev_id e of None \<Rightarrow> ?p1 | Some i \<Rightarrow> ?p1\<lparr>pe_id := Some (first_line i)\<rparr>"
  let ?ls = "split_on NL (ev_data e)"
  let ?p3 = "?p2\<lparr>pe_data_lines := map strip_cr ?ls\<rparr>"
  let ?body = "concat (map (\<lambda>line. ''data: '' @ line @ [NL]) ?ls) @ NL # rest"
  let ?ids = "case ev_id e of None \<Rightarrow> [] | Some i \<Rightarrow> ''id: '' @ first_line i @ [NL]"
  have 1: "feed_loop (encode_sse_event e @ rest) reset = feed_loop (?ids @ ?body) ?p1"
  proof (cases "ev_event e")
    case None
    then show ?thesis by (simp add: encode_sse_event_def)
  next
    case (Some n)
    have "NL \<notin> set (''event: '' @ first_line n)" using first_line_no_break by simp
    from feed_loop_line [OF this, of "?ids @ ?body" reset] line_step_event [of reset n] Some
    show ?thesis by (simp add: encode_sse_event_def)
  qed
  have 2: "feed_loop (?ids @ ?body) ?p1 = feed_loop ?body ?p2"
  proof (cases "ev_id e")
    case None
    then show ?thesis by simp
  next
    case (Some i)
    have "NL \<notin> set (''id: '' @ first_line i)" using first_line_no_break by simp
    from feed_loop_line [OF this, of ?body ?p1] line_step_id [of ?p1 i] Some
    show ?thesis by simp
  qed
  have p2: "pe_data_lines ?p2 = []" by (auto simp: reset_def split: option.splits)
  have 3: "feed_loop ?body ?p2 = feed_loop (NL # rest) ?p3"
    using feed_loop_data_lines [of ?ls "NL # rest" ?p2] split_on_pieces p2 by auto
  have 4: "line_step ?p3 [] = ([framed e], reset)"
    by (auto simp: line_step_def strip_cr_def ends_with_iff dispatch_def framed_def reset_def
        split: option.splits)
  have 5: "feed_loop (NL # rest) ?p3 = (let (d, evs) = feed_loop rest reset in (d, framed e # evs))"
    using feed_loop_line [of "[]" rest ?p3] 4 by (simp split: prod.splits)
  from 1 2 3 5 show ?thesis by simp
qed

lemma feed_loop_stream:
  "feed_loop (concat (map encode_sse_event es)) reset = (sse_new, map framed es)"
  by (induction es) (simp_all add: feed_loop_no_newline sse_new_def feed_loop_encoded)

text \<open>
  a stream of encoded events is decoded to the events, in order, and leaves the decoder as new: with
  no text buffered and nothing pending.  An event comes back as it was framed: names cut at the first
  line break, data without a carriage return before a line feed or at its end.
\<close>

theorem sse_round_trip:
  "feed sse_new (concat (map encode_sse_event es)) = (sse_new, map framed es)"
  using feed_loop_stream [of es] by (simp add: feed_def sse_new_def)

lemma split_on_set: "p \<in> set (split_on d s) \<Longrightarrow> set p \<subseteq> set s"
proof (induction d s arbitrary: p rule: split_on.induct)
  case (1 d)
  then show ?case by simp
next
  case (2 d c cs)
  obtain q qs where "split_on d cs = q # qs" using split_on_not_Nil by (metis neq_Nil_conv)
  with 2 show ?case by (fastforce split: if_splits)
qed

lemma framed_id: 
  assumes "CR \<notin> set (ev_data e)"
    and "\<And>n. ev_event e = Some n \<or> ev_id e = Some n \<Longrightarrow> NL \<notin> set n \<and> CR \<notin> set n"
  shows "framed e = e"
proof -
  have fl: "first_line n = n" if "NL \<notin> set n \<and> CR \<notin> set n" for n
    using that unfolding first_line_def by (intro takeWhile_eq_all_conv [THEN iffD2]) auto
  then have names: "map_option first_line (ev_event e) = ev_event e" "map_option first_line (ev_id e) = ev_id e"
    using assms(2) by (cases "ev_event e"; cases "ev_id e"; simp)+
  have "map strip_cr (split_on NL (ev_data e)) = split_on NL (ev_data e)"
    using assms(1) split_on_set by (intro map_idI strip_cr_id) blast
  with names show ?thesis by (simp add: framed_def join_split_on)
qed

end
