(* ===== verification/Hub_Stdio_Backend.thy ===== *)
theory Hub_Stdio_Backend
  imports Hub_JsonRpc Hub_Core
begin

text \<open>
  The stdio backend (\<open>crates/backends/backend-stdio/src/lib.rs\<close>): a child process, a task that reads its
  output, and callers that wait for the reply with their id.  All of them run concurrently on the shared
  state, so the backend is a transition system: every event is one section of the code between two
  points where a task waits, and carries what the outside decides (whether a write succeeds, which line
  is read, that a timer fires).  The assignments of \<open>connect\<close> before its first request, and those after
  its last write, count as one section each.  Children are numbered as they are spawned, callers by the key of their
  task.  The capture of the standard error of a child (\<open>stderr_capture.rs\<close>) is the last section.
\<close>

section \<open>State\<close>

text \<open>The receiving end of a oneshot channel: nothing yet, a value, or the sender is gone.\<close>

datatype slot = Empty | Sent "backend_error + json" | Dropped

record stdio_call =
  ca_id :: i64
  ca_method :: string
  ca_line :: string
  ca_timeout :: nat
  ca_written :: bool
  ca_slot :: slot
  ca_result :: "(backend_error + json) option"

datatype connect_state = Handshaking | Notified initialize_result | ConnectDone "backend_error + initialize_result"

record stdio_backend =
  sb_def :: backend_def
  sb_stdin :: "nat option"
  sb_child :: "nat option"
  sb_pending :: "(i64 \<times> nat) list"
  sb_connected :: bool
  sb_init :: "initialize_result option"
  sb_counter :: u64
  sb_spawned :: nat
  sb_readers :: "nat list"
  sb_draining :: "nat list"
  sb_closing :: nat
  sb_killing :: nat
  sb_calls :: "(nat \<times> stdio_call) list"
  sb_connects :: "(nat \<times> connect_state) list"
  sb_output :: "(nat \<times> string) list"

definition stdio_backend_new :: "backend_def \<Rightarrow> stdio_backend" where
  "stdio_backend_new d =
     \<lparr>sb_def = d, sb_stdin = None, sb_child = None, sb_pending = [], sb_connected = False, sb_init = None,
      sb_counter = 0, sb_spawned = 0, sb_readers = [], sb_draining = [],
      sb_closing = 0, sb_killing = 0, sb_calls = [], sb_connects = [], sb_output = []\<rparr>"

definition sb_id :: "stdio_backend \<Rightarrow> string" where "sb_id st = def_id (sb_def st)"

definition update_call :: "nat \<Rightarrow> (stdio_call \<Rightarrow> stdio_call) \<Rightarrow> stdio_backend \<Rightarrow> stdio_backend" where
  "update_call k f st = st\<lparr>sb_calls := map (\<lambda>(j, call). (j, if j = k then f call else call)) (sb_calls st)\<rparr>"

definition send_slot :: "nat \<Rightarrow> slot \<Rightarrow> stdio_backend \<Rightarrow> stdio_backend" where
  "send_slot k x = update_call k (\<lambda>call. call\<lparr>ca_slot := x\<rparr>)"

definition return_call :: "nat \<Rightarrow> backend_error + json \<Rightarrow> stdio_backend \<Rightarrow> stdio_backend" where
  "return_call k r = update_call k (\<lambda>call. call\<lparr>ca_result := Some r\<rparr>)"

definition set_connect :: "nat \<Rightarrow> connect_state \<Rightarrow> stdio_backend \<Rightarrow> stdio_backend" where
  "set_connect k x st = st\<lparr>sb_connects := AList.update k x (sb_connects st)\<rparr>"

section \<open>Sending\<close>

datatype write_outcome = Written | WriteFailed string | FlushFailed string

definition send_message :: "string \<Rightarrow> write_outcome \<Rightarrow> stdio_backend \<Rightarrow> (backend_error + unit) \<times> stdio_backend" where
  "send_message line out st =
     (case sb_stdin st of
        None \<Rightarrow> (Inl (backend_error_new Connection ''stdin not available''), st)
      | Some g \<Rightarrow>
          (case out of
             Written \<Rightarrow> (Inr (), st\<lparr>sb_output := sb_output st @ [(g, line)]\<rparr>)
           | WriteFailed e \<Rightarrow> (Inl (backend_error_new Connection (''write to stdin: '' @ e)), st)
           | FlushFailed e \<Rightarrow>
               (Inl (backend_error_new Connection (''flush stdin: '' @ e)), st\<lparr>sb_output := sb_output st @ [(g, line)]\<rparr>)))"

definition NEWLINE :: string where "NEWLINE = [CHR 0x0A]"

text \<open>The first part of \<open>send_request\<close>: an id, and the sender in the table of pending replies.\<close>

definition begin_request :: "codec \<Rightarrow> string \<Rightarrow> json option \<Rightarrow> nat \<Rightarrow> nat \<Rightarrow> stdio_backend \<Rightarrow> stdio_backend" where
  "begin_request c m params timeout k st =
     (let i = sb_counter st;
          line = to_text c (message_value (Request (new_request (IdNumber i) m params))) @ NEWLINE;
          st1 = (case map_of (sb_pending st) i of Some k0 \<Rightarrow> send_slot k0 Dropped st | None \<Rightarrow> st)
      in st1\<lparr>sb_counter := i + 1, sb_pending := AList.update i k (sb_pending st1),
             sb_calls := (k, \<lparr>ca_id = i, ca_method = m, ca_line = line, ca_timeout = timeout, ca_written = False,
                             ca_slot = Empty, ca_result = None\<rparr>) # sb_calls st1\<rparr>)"

definition disconnected_waiting :: "stdio_backend \<Rightarrow> string \<Rightarrow> backend_error" where
  "disconnected_waiting st m =
     backend_error_new Connection (''backend '' @ sq (sb_id st) @ '' disconnected while waiting for '' @ sq m @ '' response'')"

definition timed_out :: "stdio_backend \<Rightarrow> string \<Rightarrow> nat \<Rightarrow> backend_error" where
  "timed_out st m timeout =
     backend_error_new Timeout (''request '' @ sq m @ '' to backend '' @ sq (sb_id st) @ '' timed out after '' @ digits_of timeout @ ''s'')"

section \<open>Reading\<close>

text \<open>Taking a sender out of the table and sending on it.\<close>

definition resolve_pending :: "i64 \<Rightarrow> backend_error + json \<Rightarrow> stdio_backend \<Rightarrow> stdio_backend" where
  "resolve_pending i r st =
     (case map_of (sb_pending st) i of
        None \<Rightarrow> st
      | Some k \<Rightarrow> send_slot k (Sent r) (st\<lparr>sb_pending := AList.delete i (sb_pending st)\<rparr>))"

definition read_response :: "codec \<Rightarrow> string \<Rightarrow> stdio_backend \<Rightarrow> stdio_backend" where
  "read_response c line st =
     (if trim line = [] then st
      else (case decode_message c line of
              Inl e \<Rightarrow> st
            | Inr (SuccessResponse resp) \<Rightarrow>
                (case ok_id resp of IdNumber n \<Rightarrow> resolve_pending n (Inr (ok_result resp)) st | _ \<Rightarrow> st)
            | Inr (ErrorResponse resp) \<Rightarrow>
                (case err_id resp of
                   Some (IdNumber n) \<Rightarrow>
                     resolve_pending n (Inl (backend_error_new Protocol
                       (''backend '' @ sq (sb_id st) @ '' returned error: '' @ rpc_message (err_error resp)))) st
                 | _ \<Rightarrow> st)
            | Inr _ \<Rightarrow> st))"

definition child_disconnected :: "stdio_backend \<Rightarrow> backend_error" where
  "child_disconnected st = backend_error_new Connection (''backend '' @ sq (sb_id st) @ '' disconnected'')"

text \<open>
  The end of a reader, whatever child it was reading: the flag is cleared, and once the table is locked
  everyone waiting is told.
\<close>

definition reader_end :: "nat \<Rightarrow> stdio_backend \<Rightarrow> stdio_backend" where
  "reader_end g st =
     st\<lparr>sb_connected := False, sb_readers := removeAll g (sb_readers st), sb_draining := g # sb_draining st\<rparr>"

definition reader_drain :: "nat \<Rightarrow> stdio_backend \<Rightarrow> stdio_backend" where
  "reader_drain g st =
     (let e = child_disconnected st;
          st1 = fold (\<lambda>(i, k). send_slot k (Sent (Inl e))) (sb_pending st) st
      in st1\<lparr>sb_pending := [], sb_draining := removeAll g (sb_draining st)\<rparr>)"

section \<open>Connecting\<close>

datatype spawn_outcome = SpawnFailed string | NoStdin | NoStdout | Spawned

definition stdio_initialize_params :: json where
  "stdio_initialize_params =
     jobj [(''protocolVersion'', JStr ''2024-11-05''),
       (''clientInfo'', jobj [(''name'', JStr ''headless-mcp''), (''version'', JStr CARGO_PKG_VERSION)]),
       (''capabilities'', JObj [])]"

text \<open>
  The child that \<open>command\<close> describes.  Its three standard streams are pipes, and it is killed when its
  handle is dropped.
\<close>

record child_command =
  cc_program :: string
  cc_args :: "string list"
  cc_env :: "(string \<times> string) list"
  cc_current_dir :: "string option"
  cc_piped :: bool
  cc_kill_on_drop :: bool

definition stdio_command :: "backend_def \<Rightarrow> backend_error + child_command" where
  "stdio_command d =
     (case def_transport d of
        Stdio program args env cwd \<Rightarrow>
          Inr \<lparr>cc_program = program, cc_args = args, cc_env = env, cc_current_dir = cwd, cc_piped = True, cc_kill_on_drop = True\<rparr>
      | Http _ _ _ \<Rightarrow> Inl (backend_error_new Connection ''StdioBackend requires a stdio transport''))"

definition start_connect :: "codec \<Rightarrow> nat \<Rightarrow> spawn_outcome \<Rightarrow> stdio_backend \<Rightarrow> stdio_backend" where
  "start_connect c k out st =
     (if sb_connected st then
        set_connect k (ConnectDone (case sb_init st of
            Some i \<Rightarrow> Inr i
          | None \<Rightarrow> Inl (backend_error_new Internal ''connected but no initialize result cached''))) st
      else (case stdio_command (sb_def st) of
          Inl e \<Rightarrow> set_connect k (ConnectDone (Inl e)) st
        | Inr cmd \<Rightarrow>
            (case out of
               SpawnFailed e \<Rightarrow> set_connect k (ConnectDone (Inl (backend_error_new Connection
                 (''failed to spawn backend '' @ sq (sb_id st) @ '': '' @ e)))) st
             | NoStdin \<Rightarrow> set_connect k (ConnectDone (Inl (backend_error_new Connection
                 (''failed to capture stdin of backend '' @ sq (sb_id st))))) st
             | NoStdout \<Rightarrow> set_connect k (ConnectDone (Inl (backend_error_new Connection
                 (''failed to capture stdout of backend '' @ sq (sb_id st))))) st
             | Spawned \<Rightarrow>
                 (let g = sb_spawned st in
                  set_connect k Handshaking
                    (begin_request c ''initialize'' (Some stdio_initialize_params) (unat (def_connect_timeout_secs (sb_def st))) k
                      (st\<lparr>sb_stdin := Some g, sb_child := Some g, sb_spawned := g + 1, sb_readers := g # sb_readers st\<rparr>))))))"

definition handshake_reply :: "codec \<Rightarrow> nat \<Rightarrow> backend_error + json \<Rightarrow> write_outcome \<Rightarrow> stdio_backend \<Rightarrow> stdio_backend" where
  "handshake_reply c k reply out st =
     (case reply of
        Inl e \<Rightarrow> set_connect k (ConnectDone (Inl e)) st
      | Inr v \<Rightarrow>
          (case initialize_result_from_value v of
             None \<Rightarrow> set_connect k (ConnectDone (Inl (backend_error_new Protocol
               (''failed to parse initialize result from backend '' @ sq (sb_id st) @ '': '' @ shape_msg c v)))) st
           | Some init \<Rightarrow>
               (case send_message (to_text c (message_value (Notification (new_notification ''notifications/initialized'' None))) @ NEWLINE)
                      out st of
                  (Inl e, st') \<Rightarrow> set_connect k (ConnectDone (Inl e)) st'
                | (Inr u, st') \<Rightarrow> set_connect k (Notified init) st')))"

definition finish_connect :: "nat \<Rightarrow> initialize_result \<Rightarrow> stdio_backend \<Rightarrow> stdio_backend" where
  "finish_connect k init st = set_connect k (ConnectDone (Inr init)) (st\<lparr>sb_init := Some init, sb_connected := True\<rparr>)"

text \<open>\<open>disconnect\<close> clears the flag, then waits for the lock of the input, then for the lock of the child.\<close>

definition child_disconnect :: "stdio_backend \<Rightarrow> stdio_backend" where
  "child_disconnect st = st\<lparr>sb_connected := False, sb_closing := sb_closing st + 1\<rparr>"

definition close_stdin :: "stdio_backend \<Rightarrow> stdio_backend" where
  "close_stdin st = st\<lparr>sb_stdin := None, sb_closing := sb_closing st - 1, sb_killing := sb_killing st + 1\<rparr>"

definition kill_child :: "stdio_backend \<Rightarrow> stdio_backend" where
  "kill_child st = st\<lparr>sb_child := None, sb_killing := sb_killing st - 1\<rparr>"

section \<open>Calls\<close>

definition not_connected_error :: "stdio_backend \<Rightarrow> backend_error" where
  "not_connected_error st = backend_error_new Connection (''backend '' @ sq (sb_id st) @ '' is not connected'')"

definition start_call :: "codec \<Rightarrow> nat \<Rightarrow> string \<Rightarrow> json option \<Rightarrow> nat \<Rightarrow> stdio_backend \<Rightarrow> stdio_backend" where
  "start_call c k m params timeout st =
     (if sb_connected st then begin_request c m params timeout k st
      else st\<lparr>sb_calls := (k, \<lparr>ca_id = 0, ca_method = m, ca_line = [], ca_timeout = timeout, ca_written = False,
                    ca_slot = Empty, ca_result = Some (Inl (not_connected_error st))\<rparr>) # sb_calls st\<rparr>)"

definition tool_params :: "string \<Rightarrow> json option \<Rightarrow> json" where
  "tool_params name arguments =
     jobj [(''name'', JStr name), (''arguments'', case arguments of Some a \<Rightarrow> a | None \<Rightarrow> JObj [])]"

text \<open>The requests of the operations, and what \<open>list_tools\<close> and \<open>health_check\<close> make of the reply.\<close>

definition start_list_tools :: "codec \<Rightarrow> nat \<Rightarrow> stdio_backend \<Rightarrow> stdio_backend" where
  "start_list_tools c k st = start_call c k ''tools/list'' None (unat (def_call_timeout_secs (sb_def st))) st"

definition start_call_tool :: "codec \<Rightarrow> nat \<Rightarrow> string \<Rightarrow> json option \<Rightarrow> nat \<Rightarrow> stdio_backend \<Rightarrow> stdio_backend" where
  "start_call_tool c k name arguments timeout st =
     start_call c k ''tools/call'' (Some (tool_params name arguments)) timeout st"

definition start_health_check :: "codec \<Rightarrow> nat \<Rightarrow> stdio_backend \<Rightarrow> stdio_backend" where
  "start_health_check c k st = start_call c k ''tools/list'' None 5 st"

fun read_descriptors :: "codec \<Rightarrow> stdio_backend \<Rightarrow> json list \<Rightarrow> backend_error + tool_descriptor list" where
  "read_descriptors c st [] = Inr []"
| "read_descriptors c st (t # ts) =
     (case tool_from_value t of
        None \<Rightarrow> Inl (backend_error_new Protocol
          (''backend '' @ sq (sb_id st) @ '' returned an invalid tool descriptor: '' @ shape_msg c t))
      | Some d \<Rightarrow> bind_res (read_descriptors c st ts) (\<lambda>ds. Inr (d # ds)))"

definition tools_of_reply :: "codec \<Rightarrow> stdio_backend \<Rightarrow> backend_error + json \<Rightarrow> backend_error + tool_descriptor list" where
  "tools_of_reply c st reply =
     bind_res reply (\<lambda>result.
       case Option.bind (get_key result ''tools'') as_array of
         None \<Rightarrow> Inl (backend_error_new Protocol (''backend '' @ sq (sb_id st) @ '' returned a '' @ sq ''tools/list'' @
           '' response without a '' @ sq ''tools'' @ '' array''))
       | Some tools_list \<Rightarrow> read_descriptors c st tools_list)"

section \<open>The transition system\<close>

datatype child_event =
    StartConnect nat spawn_outcome
  | StartCall nat string "json option" nat
  | WriteRequest nat write_outcome
  | ReadLine nat string
  | ReaderEnd nat
  | ReaderDrain nat
  | Receive nat
  | TimerFires nat bool
  | HandshakeReply nat write_outcome
  | FinishConnect nat
  | Disconnect
  | CloseStdin
  | KillChild

definition fresh_task :: "nat \<Rightarrow> stdio_backend \<Rightarrow> bool" where
  "fresh_task k st = (k \<notin> fst ` set (sb_calls st) \<and> k \<notin> fst ` set (sb_connects st))"

definition open_call :: "nat \<Rightarrow> stdio_backend \<Rightarrow> stdio_call option" where
  "open_call k st =
     (case map_of (sb_calls st) k of
        Some call \<Rightarrow> (if ca_result call = None then Some call else None)
      | None \<Rightarrow> None)"

text \<open>\<open>None\<close>: the event cannot happen in that state.  A timer only fires on an empty channel.\<close>

fun child_step :: "codec \<Rightarrow> child_event \<Rightarrow> stdio_backend \<Rightarrow> stdio_backend option" where
  "child_step c (StartConnect k out) st = (if fresh_task k st then Some (start_connect c k out st) else None)"
| "child_step c (StartCall k m params timeout) st =
     (if fresh_task k st then Some (start_call c k m params timeout st) else None)"
| "child_step c (WriteRequest k out) st =
     (case open_call k st of
        Some call \<Rightarrow>
          (if ca_written call then None
           else (case send_message (ca_line call) out st of
                   (Inl e, st') \<Rightarrow> Some (return_call k (Inl e) st')
                 | (Inr u, st') \<Rightarrow> Some (update_call k (\<lambda>call. call\<lparr>ca_written := True\<rparr>) st')))
      | None \<Rightarrow> None)"
| "child_step c (ReadLine g line) st = (if g \<in> set (sb_readers st) then Some (read_response c line st) else None)"
| "child_step c (ReaderEnd g) st = (if g \<in> set (sb_readers st) then Some (reader_end g st) else None)"
| "child_step c (ReaderDrain g) st = (if g \<in> set (sb_draining st) then Some (reader_drain g st) else None)"
| "child_step c (Receive k) st =
     (case open_call k st of
        Some call \<Rightarrow>
          (if \<not> ca_written call then None
           else (case ca_slot call of
                   Empty \<Rightarrow> None
                 | Sent r \<Rightarrow> Some (return_call k r st)
                 | Dropped \<Rightarrow> Some (return_call k (Inl (disconnected_waiting st (ca_method call))) st)))
      | None \<Rightarrow> None)"
| "child_step c (TimerFires k lock_free) st =
     (case open_call k st of
        Some call \<Rightarrow>
          (if ca_written call \<and> ca_slot call = Empty then
             Some (return_call k (Inl (timed_out st (ca_method call) (ca_timeout call)))
               (if lock_free then st\<lparr>sb_pending := AList.delete (ca_id call) (sb_pending st)\<rparr> else st))
           else None)
      | None \<Rightarrow> None)"
| "child_step c (HandshakeReply k out) st =
     (case map_of (sb_connects st) k of
        Some Handshaking \<Rightarrow>
          (case map_of (sb_calls st) k of
             Some call \<Rightarrow> (case ca_result call of Some reply \<Rightarrow> Some (handshake_reply c k reply out st) | None \<Rightarrow> None)
           | None \<Rightarrow> None)
      | _ \<Rightarrow> None)"
| "child_step c (FinishConnect k) st =
     (case map_of (sb_connects st) k of Some (Notified init) \<Rightarrow> Some (finish_connect k init st) | _ \<Rightarrow> None)"
| "child_step c Disconnect st = Some (child_disconnect st)"
| "child_step c CloseStdin st = (if 0 < sb_closing st then Some (close_stdin st) else None)"
| "child_step c KillChild st = (if 0 < sb_killing st then Some (kill_child st) else None)"

fun child_run :: "codec \<Rightarrow> child_event list \<Rightarrow> stdio_backend \<Rightarrow> stdio_backend option" where
  "child_run c [] st = Some st"
| "child_run c (e # es) st = Option.bind (child_step c e st) (child_run c es)"

inductive child_reach :: "codec \<Rightarrow> backend_def \<Rightarrow> stdio_backend \<Rightarrow> bool" for c :: codec and d :: backend_def where
  reach_new: "child_reach c d (stdio_backend_new d)"
| reach_step: "child_reach c d st \<Longrightarrow> child_step c e st = Some st' \<Longrightarrow> child_reach c d st'"

section \<open>Capturing the standard error\<close>

text \<open>What a captured line does: printed with the prefix of the backend, logged, or kept.\<close>

record stderr_capture =
  ec_backend_id :: string
  ec_mode :: stderr_mode
  ec_buffer :: "string list"
  ec_printed :: "string list"
  ec_logged :: "string list"

definition stderr_new :: "string \<Rightarrow> stderr_mode \<Rightarrow> stderr_capture" where
  "stderr_new backend_id mode =
     \<lparr>ec_backend_id = backend_id, ec_mode = mode, ec_buffer = [], ec_printed = [], ec_logged = []\<rparr>"

definition capture_line :: "stderr_capture \<Rightarrow> string \<Rightarrow> stderr_capture" where
  "capture_line cap line =
     (case ec_mode cap of
        Passthrough \<Rightarrow> cap\<lparr>ec_printed := ec_printed cap @ [''[backend '' @ ec_backend_id cap @ ''] '' @ line]\<rparr>
      | LogAlways \<Rightarrow> cap\<lparr>ec_logged := ec_logged cap @ [line]\<rparr>
      | LogOnError \<Rightarrow> cap\<lparr>ec_buffer := ec_buffer cap @ [line]\<rparr>
      | Silent \<Rightarrow> cap)"

text \<open>\<open>run\<close> reads to the end of the stream (or an error) and drops the capture, its buffer included.\<close>

definition stderr_run :: "stderr_capture \<Rightarrow> string list \<Rightarrow> string list \<times> string list" where
  "stderr_run cap lines =
     (let cap' = foldl capture_line cap lines in (ec_printed cap', ec_logged cap'))"

definition into_buffer :: "stderr_capture \<Rightarrow> string list" where
  "into_buffer cap = ec_buffer cap"

end
