(* ===== verification/Hub_Backend_Contract.thy ===== *)
theory Hub_Backend_Contract
  imports Hub_Registry_Facts Hub_JsonRpc
begin

text \<open>
  The contract of the trait \<open>McpBackend\<close> that the registry's calls rest on: a backend is ready after a
  successful \<open>connect\<close> and not after \<open>disconnect\<close>, and while it is not ready every other operation fails
  with a connection error and does nothing.  What follows for the registry's calls is proved here once,
  for any backend that keeps the contract; the theories of the backends discharge it.
\<close>

text \<open>A request that is turned away.\<close>

definition turned_away :: "(backend_error + 'a) \<times> 'w \<Rightarrow> 'w \<Rightarrow> bool" where
  "turned_away a w \<longleftrightarrow> (\<exists>e. a = (Inl e, w) \<and> be_kind e = Connection)"

locale mcp_backend =
  fixes ops :: "('b, 'w) backend_ops" and ready :: "'b \<Rightarrow> 'w \<Rightarrow> bool"
  assumes connect_ok: "op_connect ops b w = (Inr i, w') \<Longrightarrow> ready b w'"
    and connect_err: "op_connect ops b w = (Inl e, w') \<Longrightarrow> ready b w' = ready b w"
    and disconnect_off: "op_disconnect ops b w = (r, w') \<Longrightarrow> \<not> ready b w'"
    and list_gate: "\<not> ready b w \<Longrightarrow> turned_away (op_list_tools ops b w) w"
    and call_gate: "\<not> ready b w \<Longrightarrow> turned_away (op_call_tool ops b n args t w) w"
    and request_gate: "\<not> ready b w \<Longrightarrow> turned_away (op_request ops b m params t w) w"
    and health_gate: "\<not> ready b w \<Longrightarrow> turned_away (op_health_check ops b w) w"
begin

lemma perform_gate: "\<not> ready b w \<Longrightarrow> turned_away (perform_call ops b n args extra t w) w"
  by (simp add: perform_call_def Let_def call_gate request_gate)

text \<open>A call through a standing connection that is down is turned away, and the registry is as before.\<close>

lemma route_gate:
  assumes "resolve_call n args reg = Inr (routed, h, args')" and "\<not> ready (bh_backend h) w"
    and "def_connection_mode (bh_def h) \<noteq> PerCall"
    and "def_connection_mode (bh_def h) = Lazy \<longrightarrow> is_healthy reg (rt_backend_id routed)"
  shows "\<exists>e. route_call_with ops n args extra t reg w = (Inl e, reg, w) \<and> be_kind e = Connection"
  using assms perform_gate [OF assms(2), of "rt_downstream_name routed" args' extra t]
  by (auto simp: route_call_with_def turned_away_def)

text \<open>A call with a connection of its own does not leave it open, however the call ends.\<close>

lemma per_call_closed:
  assumes "resolve_call n args reg = Inr (routed, h, args')" and "\<not> ready (bh_backend h) w"
    and "def_connection_mode (bh_def h) = PerCall" and "route_call_with ops n args extra t reg w = (r, reg', w')"
  shows "\<not> ready (bh_backend h) w' \<and> reg' = reg"
  using assms by (auto simp: route_call_with_def Let_def split: prod.splits sum.splits dest: connect_err disconnect_off)

text \<open>A check of a backend that went down marks it unhealthy, and does nothing to the backend.\<close>

lemma health_gate_marks:
  assumes "map_of (rg_backends reg) i = Some h" and "bh_health h" and "\<not> ready (bh_backend h) w"
  shows "health_check_one ops i reg w = (set_health i False reg, w)"
  using assms health_gate [OF assms(3)] by (auto simp: health_check_one_def is_healthy_def turned_away_def)

text \<open>A backend that lists its tools after \<open>connect_backend\<close> is ready, and a failed reconnect leaves it down.\<close>

lemma reconnect_refused:
  assumes "map_of (rg_backends reg) i = Some h" and "op_disconnect ops (bh_backend h) w = (d, w0)"
    and "op_connect ops (bh_backend h) w0 = (Inl e, w')"
  shows "reconnect_backend ops i reg w = (Inl e, reg, w') \<and> \<not> ready (bh_backend h) w'"
  using assms connect_err [OF assms(3)] disconnect_off [OF assms(2)]
  by (simp add: reconnect_backend_def connect_backend_def)

end

section \<open>A sample downstream server\<close>

text \<open>A sample server, that answers the \<open>initialize\<close> request with id 0 by the line \<open>r0\<close> and with id 1 by the line \<open>r1\<close>.\<close>

definition sample_init :: json where
  "sample_init = JObj [(''capabilities'', JObj []), (''protocolVersion'', JStr ''2024-11-05''),
     (''serverInfo'', JObj [(''name'', JStr ''s''), (''version'', JStr ''1'')])]"

definition sample_server_codec :: codec where
  "sample_server_codec = \<lparr>parse = (\<lambda>s. if s = ''r0'' then Some (message_value (SuccessResponse (new_success (IdNumber 0) sample_init)))
       else if s = ''r1'' then Some (message_value (SuccessResponse (new_success (IdNumber 1) sample_init))) else None),
     to_text = (\<lambda>v. ''?''), pretty = (\<lambda>v. ''?''), parse_msg = (\<lambda>s. ''bad json''), shape_msg = (\<lambda>v. ''bad shape'')\<rparr>"

lemma server_lines:
  "decode_message sample_server_codec ''r0'' = Inr (SuccessResponse (new_success (IdNumber 0) sample_init))"
  "decode_message sample_server_codec ''r1'' = Inr (SuccessResponse (new_success (IdNumber 1) sample_init))"
  "initialize_result_from_value sample_init = Some \<lparr>ir_protocol_version = ''2024-11-05'',
     ir_server_info = \<lparr>si_name = ''s'', si_version = ''1''\<rparr>, ir_capabilities = \<lparr>sc_tools = None, sc_resources = None, sc_prompts = None, sc_events = None\<rparr>\<rparr>"
  by code_simp+


lemma server_text: "to_text sample_server_codec v = ''?''" "trim ''r0'' \<noteq> []" "trim ''r1'' \<noteq> []"
  by (simp add: sample_server_codec_def, code_simp, code_simp)

end
