(* ===== verification/Hub_Stdio_Backend_Facts.thy ===== *)
theory Hub_Stdio_Backend_Facts
  imports Hub_Stdio_Backend Hub_Backend_Contract
begin

text \<open>
  Properties of the stdio backend over every interleaving of callers, readers, timers and disconnects:
  the table of pending replies matches the callers that wait, a reply reaches the caller of its id, no
  caller waits without a way to return, and what a reader of an earlier child does to a new connection.
\<close>

section \<open>The lookups of an updated state\<close>

named_theorems stdio_simps

lemma map_of_map_value: "map_of (map (\<lambda>(j, x). (j, f j x)) xs) k = map_option (f k) (map_of xs k)"
  by (induction xs) auto

lemma update_call_sel [stdio_simps]:
  "map_of (sb_calls (update_call k f st)) j = map_option (\<lambda>call. if j = k then f call else call) (map_of (sb_calls st) j)"
  "fst ` set (sb_calls (update_call k f st)) = fst ` set (sb_calls st)"
  "sb_pending (update_call k f st) = sb_pending st" "sb_connects (update_call k f st) = sb_connects st"
  "sb_connected (update_call k f st) = sb_connected st" "sb_readers (update_call k f st) = sb_readers st"
  "sb_def (update_call k f st) = sb_def st" "sb_counter (update_call k f st) = sb_counter st"
  "sb_child (update_call k f st) = sb_child st" "sb_stdin (update_call k f st) = sb_stdin st"
  "sb_spawned (update_call k f st) = sb_spawned st" "sb_init (update_call k f st) = sb_init st"
  by (auto simp: update_call_def map_of_map_value image_iff split: prod.splits) (force simp: image_iff)+

lemmas send_slot_sel [stdio_simps] = update_call_sel [where f = "\<lambda>call. call\<lparr>ca_slot := x\<rparr>" for x, folded send_slot_def]
lemmas return_call_sel [stdio_simps] = update_call_sel [where f = "\<lambda>call. call\<lparr>ca_result := Some r\<rparr>" for r, folded return_call_def]

lemma set_connect_sel [stdio_simps]:
  "sb_calls (set_connect k x st) = sb_calls st" "sb_pending (set_connect k x st) = sb_pending st"
  "map_of (sb_connects (set_connect k x st)) j = (if j = k then Some x else map_of (sb_connects st) j)"
  "sb_connected (set_connect k x st) = sb_connected st" "sb_readers (set_connect k x st) = sb_readers st"
  "sb_def (set_connect k x st) = sb_def st" "sb_child (set_connect k x st) = sb_child st"
  "sb_stdin (set_connect k x st) = sb_stdin st" "sb_init (set_connect k x st) = sb_init st"
  by (simp_all add: set_connect_def map_of_update)

lemma send_message_sel [stdio_simps]:
  "send_message line out st = (r, st') \<Longrightarrow> sb_calls st' = sb_calls st"
  "send_message line out st = (r, st') \<Longrightarrow> sb_pending st' = sb_pending st"
  "send_message line out st = (r, st') \<Longrightarrow> sb_connects st' = sb_connects st"
  by (auto simp: send_message_def split: option.splits write_outcome.splits)

lemma drain_calls [stdio_simps]:
  "map_of (sb_calls (fold (\<lambda>(i, k). send_slot k x) ps st)) j =
     map_option (\<lambda>call. if j \<in> snd ` set ps then call\<lparr>ca_slot := x\<rparr> else call) (map_of (sb_calls st) j)"
proof (induction ps arbitrary: st)
  case Nil
  show ?case by (cases "map_of (sb_calls st) j") auto
next
  case (Cons p ps)
  show ?case
    by (cases p; cases "map_of (sb_calls st) j") (auto simp: Cons.IH stdio_simps)
qed

lemma drain_sel [stdio_simps]:
  "sb_connects (fold (\<lambda>(i, k). send_slot k x) ps st) = sb_connects st"
  "sb_def (fold (\<lambda>(i, k). send_slot k x) ps st) = sb_def st"
  "sb_child (fold (\<lambda>(i, k). send_slot k x) ps st) = sb_child st"
  "sb_readers (fold (\<lambda>(i, k). send_slot k x) ps st) = sb_readers st"
  by (induction ps arbitrary: st) (auto simp: stdio_simps)

section \<open>Pending replies\<close>

text \<open>
  The table of pending replies has one entry for an id, each entry is the caller with that id and an
  empty channel, and a caller without a result and with an empty channel is in the table.
\<close>

definition pending_inv :: "stdio_backend \<Rightarrow> bool" where
  "pending_inv st \<longleftrightarrow>
     (\<forall>i k. map_of (sb_pending st) i = Some k \<longrightarrow>
        (\<exists>call. map_of (sb_calls st) k = Some call \<and> ca_id call = i \<and> ca_slot call = Empty)) \<and>
     (\<forall>k call. map_of (sb_calls st) k = Some call \<longrightarrow> ca_result call = None \<longrightarrow> ca_slot call = Empty \<longrightarrow>
        map_of (sb_pending st) (ca_id call) = Some k) \<and>
     distinct (map fst (sb_pending st))"

lemma pending_invD:
  assumes "pending_inv st"
  shows "map_of (sb_pending st) i = Some k \<Longrightarrow> \<exists>call. map_of (sb_calls st) k = Some call \<and> ca_id call = i \<and> ca_slot call = Empty"
    and "map_of (sb_calls st) k = Some call \<Longrightarrow> ca_result call = None \<Longrightarrow> ca_slot call = Empty \<Longrightarrow>
      map_of (sb_pending st) (ca_id call) = Some k"
    and "distinct (map fst (sb_pending st))"
  using assms unfolding pending_inv_def by blast+

lemma pending_invI:
  assumes "\<And>i k. map_of (sb_pending st) i = Some k \<Longrightarrow> \<exists>call. map_of (sb_calls st) k = Some call \<and> ca_id call = i \<and> ca_slot call = Empty"
    and "\<And>k call. map_of (sb_calls st) k = Some call \<Longrightarrow> ca_result call = None \<Longrightarrow> ca_slot call = Empty \<Longrightarrow>
      map_of (sb_pending st) (ca_id call) = Some k"
    and "distinct (map fst (sb_pending st))"
  shows "pending_inv st"
  using assms unfolding pending_inv_def by blast

lemma pending_inv_same:
  assumes "sb_pending st' = sb_pending st" and "sb_calls st' = sb_calls st" and "pending_inv st"
  shows "pending_inv st'"
  using assms by (simp add: pending_inv_def)

lemma pending_inv_connect [simp]: "pending_inv (set_connect k x st) \<longleftrightarrow> pending_inv st"
  by (simp add: pending_inv_def stdio_simps)

text \<open>A change of one call that keeps its id and slot, and does not reopen it.\<close>

lemma pending_inv_update:
  assumes "pending_inv st" and "\<And>call. ca_id (f call) = ca_id call \<and> ca_slot (f call) = ca_slot call"
    and "\<And>call. ca_result (f call) = None \<Longrightarrow> ca_result call = None"
  shows "pending_inv (update_call k f st)"
proof (rule pending_invI, unfold stdio_simps)
  fix i j
  assume "map_of (sb_pending st) i = Some j"
  from pending_invD(1) [OF assms(1) this] obtain c where "map_of (sb_calls st) j = Some c" "ca_id c = i" "ca_slot c = Empty"
    by blast
  with assms(2) [of c] show "\<exists>call. map_option (\<lambda>call. if j = k then f call else call) (map_of (sb_calls st) j) = Some call \<and> ca_id call = i \<and> ca_slot call = Empty"
    by (cases "j = k") auto
next
  fix j call
  assume "map_option (\<lambda>call. if j = k then f call else call) (map_of (sb_calls st) j) = Some call" "ca_result call = None" "ca_slot call = Empty"
  then obtain c where c: "map_of (sb_calls st) j = Some c" "call = (if j = k then f c else c)"
      "ca_result call = None" "ca_slot call = Empty" by auto
  then have "ca_id c = ca_id call" "ca_result c = None" "ca_slot c = Empty"
    using assms(2) [of c] assms(3) [of c] by (auto split: if_splits)
  with c(1) show "map_of (sb_pending st) (ca_id call) = Some j" using pending_invD(2) [OF assms(1), of j c] by simp
qed (rule pending_invD(3) [OF assms(1)])

lemma pending_inv_flags [simp]: "pending_inv (st\<lparr>sb_init := i, sb_connected := b\<rparr>) \<longleftrightarrow> pending_inv st"
  by (simp add: pending_inv_def)

lemma pending_inv_return: "pending_inv st \<Longrightarrow> pending_inv (return_call k r st)"
  unfolding return_call_def by (rule pending_inv_update) simp_all

lemma pending_inv_written: "pending_inv st \<Longrightarrow> pending_inv (update_call k (\<lambda>call. call\<lparr>ca_written := b\<rparr>) st)"
  by (rule pending_inv_update) simp_all

lemma pending_inv_begin:
  assumes inv: "pending_inv st" and fresh: "k \<notin> fst ` set (sb_calls st)"
  shows "pending_inv (begin_request c m params timeout k st)"
proof -
  define i where "i = sb_counter st"
  define st1 where "st1 = (case map_of (sb_pending st) i of Some k0 \<Rightarrow> send_slot k0 Dropped st | None \<Rightarrow> st)"
  define new where "new = \<lparr>ca_id = i, ca_method = m,
      ca_line = to_text c (message_value (Request (new_request (IdNumber i) m params))) @ NEWLINE, ca_timeout = timeout,
      ca_written = False, ca_slot = Empty, ca_result = None\<rparr>"
  have b: "sb_pending (begin_request c m params timeout k st) = AList.update i k (sb_pending st)"
    "sb_calls (begin_request c m params timeout k st) = (k, new) # sb_calls st1"
    by (simp_all add: begin_request_def Let_def i_def st1_def new_def stdio_simps split: option.split)
  have old: "j \<noteq> k" "map_of (sb_calls st1) j = (if map_of (sb_pending st) i = Some j then map_option (\<lambda>call. call\<lparr>ca_slot := Dropped\<rparr>) (map_of (sb_calls st) j)
      else map_of (sb_calls st) j)" if "map_of (sb_calls st) j = Some call" for j call
  proof -
    show "j \<noteq> k" using fresh that by (force dest: map_of_SomeD)
    show "map_of (sb_calls st1) j = (if map_of (sb_pending st) i = Some j then map_option (\<lambda>call. call\<lparr>ca_slot := Dropped\<rparr>) (map_of (sb_calls st) j)
      else map_of (sb_calls st) j)" using that by (auto simp: st1_def stdio_simps split: option.splits)
  qed
  show ?thesis
  proof (rule pending_invI, unfold b)
    fix i' j
    assume "map_of (AList.update i k (sb_pending st)) i' = Some j"
    then have "i' = i \<and> j = k \<or> i' \<noteq> i \<and> map_of (sb_pending st) i' = Some j" by (auto simp: map_of_update split: if_splits)
    then show "\<exists>call. map_of ((k, new) # sb_calls st1) j = Some call \<and> ca_id call = i' \<and> ca_slot call = Empty"
    proof
      assume r: "i' \<noteq> i \<and> map_of (sb_pending st) i' = Some j"
      then obtain call where call: "map_of (sb_calls st) j = Some call" "ca_id call = i'" "ca_slot call = Empty"
        using pending_invD(1) [OF inv] by blast
      have "map_of (sb_pending st) i \<noteq> Some j" using pending_invD(1) [OF inv, of i j] call r by auto
      with old [OF call(1)] call show ?thesis by auto
    qed (auto simp: new_def)
  next
    fix j call
    assume a: "map_of ((k, new) # sb_calls st1) j = Some call" "ca_result call = None" "ca_slot call = Empty"
    show "map_of (AList.update i k (sb_pending st)) (ca_id call) = Some j"
    proof (cases "j = k")
      case True
      with a show ?thesis by (auto simp: new_def map_of_update)
    next
      case False
      with a have c: "map_of (sb_calls st1) j = Some call" by simp
      then obtain call0 where c0: "map_of (sb_calls st) j = Some call0" by (auto simp: st1_def stdio_simps split: option.splits)
      with c old [OF c0] a(3) have n: "map_of (sb_pending st) i \<noteq> Some j" "call0 = call" by (auto split: if_splits)
      then have "map_of (sb_pending st) (ca_id call) = Some j" using pending_invD(2) [OF inv, of j call] c0 a by simp
      with n show ?thesis by (auto simp: map_of_update)
    qed
  qed (simp add: distinct_update pending_invD(3) [OF inv])
qed

lemma pending_inv_resolve:
  assumes inv: "pending_inv st" and "r \<noteq> Empty"
  shows "pending_inv (case map_of (sb_pending st) i of
      None \<Rightarrow> st | Some k \<Rightarrow> send_slot k r (st\<lparr>sb_pending := AList.delete i (sb_pending st)\<rparr>))"
proof (cases "map_of (sb_pending st) i")
  case (Some k)
  then obtain call0 where k: "map_of (sb_calls st) k = Some call0" "ca_id call0 = i" using pending_invD(1) [OF inv] by blast
  have "pending_inv (send_slot k r (st\<lparr>sb_pending := AList.delete i (sb_pending st)\<rparr>))"
  proof (rule pending_invI, unfold stdio_simps)
    fix i' j
    assume "map_of (sb_pending (st\<lparr>sb_pending := AList.delete i (sb_pending st)\<rparr>)) i' = Some j"
    then have i': "i' \<noteq> i" "map_of (sb_pending st) i' = Some j" by (auto simp: map_of_delete split: if_splits)
    then obtain call where "map_of (sb_calls st) j = Some call" "ca_id call = i'" "ca_slot call = Empty"
      using pending_invD(1) [OF inv] by blast
    with i' k show "\<exists>call. map_option (\<lambda>call. if j = k then call\<lparr>ca_slot := r\<rparr> else call)
        (map_of (sb_calls (st\<lparr>sb_pending := AList.delete i (sb_pending st)\<rparr>)) j) = Some call \<and> ca_id call = i' \<and> ca_slot call = Empty"
      by auto
  next
    fix j call
    assume "map_option (\<lambda>call. if j = k then call\<lparr>ca_slot := r\<rparr> else call)
        (map_of (sb_calls (st\<lparr>sb_pending := AList.delete i (sb_pending st)\<rparr>)) j) = Some call"
      and "ca_result call = None" and "ca_slot call = Empty"
    then have j: "j \<noteq> k" "map_of (sb_calls st) j = Some call"
      using assms(2) by (auto split: if_splits dest: arg_cong [of _ _ ca_slot])
    then have "map_of (sb_pending st) (ca_id call) = Some j"
      using pending_invD(2) [OF inv] \<open>ca_result call = None\<close> \<open>ca_slot call = Empty\<close> by blast
    with j Some show "map_of (sb_pending (st\<lparr>sb_pending := AList.delete i (sb_pending st)\<rparr>)) (ca_id call) = Some j"
      by (auto simp: map_of_delete)
  qed (simp add: distinct_delete pending_invD(3) [OF inv])
  with Some show ?thesis by simp
qed (simp add: inv)

lemma pending_inv_exit:
  assumes inv: "pending_inv st"
  shows "pending_inv (reader_drain g st)"
proof (rule pending_invI)
  fix k call
  assume a: "map_of (sb_calls (reader_drain g st)) k = Some call" "ca_result call = None" "ca_slot call = Empty"
  then obtain c where c: "map_of (sb_calls st) k = Some c"
      "call = (if k \<in> snd ` set (sb_pending st) then c\<lparr>ca_slot := Sent (Inl (child_disconnected st))\<rparr> else c)"
    by (auto simp: reader_drain_def Let_def stdio_simps)
  with a have "k \<notin> snd ` set (sb_pending st)" "call = c" by (auto split: if_splits)
  then have "map_of (sb_pending st) (ca_id call) = Some k" using c a pending_invD(2) [OF inv, of k call] by simp
  then have "k \<in> snd ` set (sb_pending st)" by (force dest: map_of_SomeD)
  with \<open>k \<notin> snd ` set (sb_pending st)\<close> show "map_of (sb_pending (reader_drain g st)) (ca_id call) = Some k" by blast
qed (simp_all add: reader_drain_def Let_def)

lemma pending_inv_timer:
  assumes inv: "pending_inv st" and call: "map_of (sb_calls st) k = Some call" "ca_slot call = Empty" "ca_result call = None"
  shows "pending_inv (return_call k r (st\<lparr>sb_pending := AList.delete (ca_id call) (sb_pending st)\<rparr>))"
proof -
  have own: "map_of (sb_pending st) (ca_id call) = Some k" using pending_invD(2) [OF inv call(1,3,2)] .
  show ?thesis
  proof (rule pending_invI, unfold stdio_simps)
    fix i j
    assume "map_of (sb_pending (st\<lparr>sb_pending := AList.delete (ca_id call) (sb_pending st)\<rparr>)) i = Some j"
    then have i: "i \<noteq> ca_id call" "map_of (sb_pending st) i = Some j" by (auto simp: map_of_delete split: if_splits)
    then obtain c where "map_of (sb_calls st) j = Some c" "ca_id c = i" "ca_slot c = Empty" using pending_invD(1) [OF inv] by blast
    with i call show "\<exists>c. map_option (\<lambda>c. if j = k then c\<lparr>ca_result := Some r\<rparr> else c)
        (map_of (sb_calls (st\<lparr>sb_pending := AList.delete (ca_id call) (sb_pending st)\<rparr>)) j) = Some c \<and> ca_id c = i \<and> ca_slot c = Empty"
      by auto
  next
    fix j c
    assume a: "map_option (\<lambda>c. if j = k then c\<lparr>ca_result := Some r\<rparr> else c)
        (map_of (sb_calls (st\<lparr>sb_pending := AList.delete (ca_id call) (sb_pending st)\<rparr>)) j) = Some c"
      "ca_result c = None" "ca_slot c = Empty"
    then have j: "j \<noteq> k" "map_of (sb_calls st) j = Some c" by (auto split: if_splits dest: arg_cong [of _ _ ca_result])
    then have "map_of (sb_pending st) (ca_id c) = Some j" using pending_invD(2) [OF inv] a by blast
    with own j show "map_of (sb_pending (st\<lparr>sb_pending := AList.delete (ca_id call) (sb_pending st)\<rparr>)) (ca_id c) = Some j"
      by (auto simp: map_of_delete)
  qed (simp add: distinct_delete pending_invD(3) [OF inv])
qed

lemma open_callD: "open_call k st = Some call \<Longrightarrow> map_of (sb_calls st) k = Some call \<and> ca_result call = None"
  by (auto simp: open_call_def split: option.splits if_splits)

lemma pending_inv_read: "pending_inv st \<Longrightarrow> pending_inv (read_response c line st)"
  using pending_inv_resolve [of st "Sent r" i for r i]
  by (auto simp: read_response_def resolve_pending_def split: sum.splits jsonrpc_message.splits jsonrpc_id.splits option.splits)

lemma pending_inv_send:
  "pending_inv st \<Longrightarrow> send_message line out st = (r, st') \<Longrightarrow> pending_inv st'"
  using pending_inv_same stdio_simps by metis

lemma pending_inv_step:
  assumes inv: "pending_inv st" and step: "child_step c e st = Some st'"
  shows "pending_inv st'"
proof (cases e)
  case (StartConnect k out)
  let ?st = "st\<lparr>sb_stdin := Some (sb_spawned st), sb_child := Some (sb_spawned st), sb_spawned := sb_spawned st + 1,
      sb_readers := sb_spawned st # sb_readers st\<rparr>"
  have "pending_inv ?st" using inv by (rule pending_inv_same [rotated 2]) simp_all
  from pending_inv_begin [OF this] step StartConnect inv show ?thesis
    by (auto simp: start_connect_def fresh_task_def Let_def split: if_splits sum.splits spawn_outcome.splits)
next
  case (StartCall k m params timeout)
  with step have k: "k \<notin> fst ` set (sb_calls st)" and st': "st' = start_call c k m params timeout st"
    by (auto simp: fresh_task_def split: if_splits)
  show ?thesis
  proof (cases "sb_connected st")
    case True
    with pending_inv_begin [OF inv k] st' show ?thesis by (simp add: start_call_def)
  next
    case False
    have n: "map_of (sb_calls st) j = Some call \<Longrightarrow> j \<noteq> k" for j call using k by (force dest: map_of_SomeD)
    show ?thesis
      by (rule pending_invI) (use pending_invD [OF inv] n False in \<open>auto simp: st' start_call_def split: if_splits\<close>, blast)
  qed
next
  case (TimerFires k free)
  with step obtain call where "open_call k st = Some call" "ca_slot call = Empty"
      "st' = return_call k (Inl (timed_out st (ca_method call) (ca_timeout call)))
        (if free then st\<lparr>sb_pending := AList.delete (ca_id call) (sb_pending st)\<rparr> else st)"
    by (auto split: option.splits if_splits)
  with open_callD [of k st call] pending_inv_timer [OF inv] pending_inv_return [OF inv] show ?thesis by (cases free) simp_all
next
  case (HandshakeReply k out)
  with step inv show ?thesis
    by (auto simp: handshake_reply_def split: option.splits connect_state.splits sum.splits prod.splits dest: pending_inv_send)
next
  case (FinishConnect k)
  with step inv show ?thesis
    by (auto simp: finish_connect_def split: option.splits connect_state.splits)
next
  case Disconnect
  with step inv show ?thesis by (auto simp: child_disconnect_def pending_inv_def)
next
  case (WriteRequest k out)
  with step inv show ?thesis
    by (auto split: option.splits if_splits prod.splits sum.splits intro!: pending_inv_return pending_inv_written dest: pending_inv_send)
next
  case (Receive k)
  with step inv show ?thesis
    by (auto split: option.splits if_splits slot.splits intro!: pending_inv_return)
next
  case (ReadLine g line)
  with step inv show ?thesis by (auto split: if_splits intro: pending_inv_read)
next
  case (ReaderEnd g)
  with step inv show ?thesis by (auto simp: reader_end_def pending_inv_def split: if_splits)
next
  case (ReaderDrain g)
  with step inv show ?thesis by (auto split: if_splits intro: pending_inv_exit)
next
  case CloseStdin
  with step inv show ?thesis by (auto simp: close_stdin_def pending_inv_def split: if_splits)
next
  case KillChild
  with step inv show ?thesis by (auto simp: kill_child_def pending_inv_def split: if_splits)
qed

lemma pending_inv_reach: "child_reach c d st \<Longrightarrow> pending_inv st"
proof (induction rule: child_reach.induct)
  case reach_new
  show ?case by (simp add: pending_inv_def stdio_backend_new_def)
qed (rule pending_inv_step)

section \<open>Replies reach their callers\<close>

text \<open>The value \<open>v\<close> has arrived at a call: it is in the channel or returned.\<close>

definition arrived :: "json \<Rightarrow> stdio_call \<Rightarrow> bool" where
  "arrived v call \<longleftrightarrow> ca_slot call = Sent (Inr v) \<or> ca_result call = Some (Inr v)"

text \<open>A line that answers the request with id \<open>i\<close> with the value \<open>v\<close>.\<close>

definition answers :: "codec \<Rightarrow> i64 \<Rightarrow> json \<Rightarrow> string \<Rightarrow> bool" where
  "answers c i v line \<longleftrightarrow> (\<exists>resp. decode_message c line = Inr (SuccessResponse resp) \<and> ok_id resp = IdNumber i \<and> ok_result resp = v)"

definition arrival :: "json \<Rightarrow> nat \<Rightarrow> i64 \<Rightarrow> stdio_backend \<Rightarrow> bool" where
  "arrival v k i st \<longleftrightarrow> (\<exists>call. map_of (sb_calls st) k = Some call \<and> ca_id call = i \<and> arrived v call)"

lemma arrival_send_slot:
  "arrival v k i (send_slot j x st) \<Longrightarrow> arrival v k i st \<or>
     (k = j \<and> x = Sent (Inr v) \<and> (\<exists>call. map_of (sb_calls st) k = Some call \<and> ca_id call = i))"
  unfolding arrival_def stdio_simps by (auto simp: arrived_def split: if_splits)

lemma arrival_return:
  "arrival v k i (return_call j r st) \<Longrightarrow> arrival v k i st \<or>
     (k = j \<and> r = Inr v \<and> (\<exists>call. map_of (sb_calls st) k = Some call \<and> ca_id call = i))"
  unfolding arrival_def stdio_simps by (auto simp: arrived_def split: if_splits)

lemma arrival_written:
  "arrival v k i (update_call j (\<lambda>call. call\<lparr>ca_written := b\<rparr>) st) \<Longrightarrow> arrival v k i st"
  unfolding arrival_def stdio_simps by (auto simp: arrived_def split: if_splits)

lemma arrival_same: "sb_calls st' = sb_calls st \<Longrightarrow> arrival v k i st' \<longleftrightarrow> arrival v k i st"
  by (simp add: arrival_def)

lemma arrival_begin:
  assumes "arrival v k i (begin_request c m params timeout j st)" and "j \<notin> fst ` set (sb_calls st)"
  shows "arrival v k i st"
proof -
  define st1 where "st1 = (case map_of (sb_pending st) (sb_counter st) of Some k0 \<Rightarrow> send_slot k0 Dropped st | None \<Rightarrow> st)"
  have "k \<noteq> j \<and> arrival v k i st1"
    using assms(1) by (auto simp: arrival_def begin_request_def Let_def st1_def [symmetric] arrived_def split: if_splits)
  then show ?thesis by (auto simp: st1_def split: option.splits dest: arrival_send_slot)
qed

lemma arrival_exit: "arrival v k i (reader_drain g st) \<Longrightarrow> arrival v k i st"
  unfolding arrival_def by (auto simp: reader_drain_def Let_def stdio_simps arrived_def split: if_splits)

lemma arrival_resolve:
  assumes "pending_inv st" and "arrival v k i (resolve_pending n r st)"
  shows "arrival v k i st \<or> (n = i \<and> r = Inr v)"
proof (cases "map_of (sb_pending st) n")
  case (Some j)
  with assms(2) have "arrival v k i (send_slot j (Sent r) (st\<lparr>sb_pending := AList.delete n (sb_pending st)\<rparr>))" by (simp add: resolve_pending_def)
  from arrival_send_slot [OF this] show ?thesis
    using pending_invD(1) [OF assms(1) Some] by (auto simp: arrival_same [of "st\<lparr>sb_pending := x\<rparr>" st for x])
qed (use assms in \<open>simp add: resolve_pending_def\<close>)

lemma arrival_read:
  assumes "pending_inv st" and "arrival v k i (read_response c line st)"
  shows "arrival v k i st \<or> answers c i v line"
  using assms(2)
  by (auto simp: read_response_def answers_def split: if_splits sum.splits jsonrpc_message.splits jsonrpc_id.splits option.splits
      dest!: arrival_resolve [OF assms(1)])

lemma handshake_calls: "sb_calls (handshake_reply c j reply out st) = sb_calls st"
  by (auto simp: handshake_reply_def stdio_simps split: sum.splits option.splits prod.splits dest: send_message_sel(1))

lemma arrival_step:
  assumes inv: "pending_inv st" and step: "child_step c e st = Some st'" and arr: "arrival v k i st'"
  shows "arrival v k i st \<or> (\<exists>g line. e = ReadLine g line \<and> answers c i v line)"
proof (cases e)
  case (StartConnect j out)
  let ?st = "st\<lparr>sb_stdin := Some (sb_spawned st), sb_child := Some (sb_spawned st), sb_spawned := sb_spawned st + 1,
      sb_readers := sb_spawned st # sb_readers st\<rparr>"
  from step StartConnect have j: "j \<notin> fst ` set (sb_calls st)" and st': "st' = start_connect c j out st"
    by (auto simp: fresh_task_def split: if_splits)
  have s: "arrival v k i (set_connect j' x s) \<longleftrightarrow> arrival v k i s" for j' x s by (simp add: arrival_def stdio_simps)
  have "arrival v k i ?st \<longleftrightarrow> arrival v k i st" by (simp add: arrival_def)
  with arr st' arrival_begin [of v k i c _ _ _ j ?st] j show ?thesis
    by (auto simp: start_connect_def Let_def s split: if_splits sum.splits spawn_outcome.splits)
next
  case (StartCall j m params timeout)
  from step StartCall have j: "j \<notin> fst ` set (sb_calls st)" and st': "st' = start_call c j m params timeout st"
    by (auto simp: fresh_task_def split: if_splits)
  with arr arrival_begin [OF _ j] show ?thesis
    by (cases "sb_connected st") (auto simp: start_call_def arrival_def arrived_def split: if_splits)
next
  case (TimerFires j free)
  with step arr have "arrival v k i (if free then st\<lparr>sb_pending := x\<rparr> else st)" for x
    by (auto split: option.splits if_splits dest!: arrival_return simp: arrival_same [of "st\<lparr>sb_pending := y\<rparr>" st for y])
  from this [of "[]"] show ?thesis by (cases free) (auto simp: arrival_def)
next
  case (Receive j)
  with step obtain call r where call: "open_call j st = Some call" and st': "st' = return_call j r st"
      and r: "\<And>u. r = Inr u \<Longrightarrow> ca_slot call = Sent (Inr u)"
    by (auto split: option.splits if_splits slot.splits)
  from arrival_return [OF arr [unfolded st']] show ?thesis
    using r open_callD [OF call] by (auto simp: arrival_def arrived_def)
next
  case (WriteRequest j out)
  with step obtain call r s where call: "open_call j st = Some call" "send_message (ca_line call) out st = (r, s)"
      and st': "st' = (case r of Inl e \<Rightarrow> return_call j (Inl e) s | Inr u \<Rightarrow> update_call j (\<lambda>call. call\<lparr>ca_written := True\<rparr>) s)"
    by (cases "open_call j st"; cases "send_message (ca_line (the (open_call j st))) out st") (auto split: if_splits sum.splits)
  have "arrival v k i s"
  proof (cases r)
    case (Inl err)
    with arr st' have "arrival v k i (return_call j (Inl err) s)" by simp
    from arrival_return [OF this] show ?thesis by simp
  next
    case (Inr u)
    with arr st' have "arrival v k i (update_call j (\<lambda>call. call\<lparr>ca_written := True\<rparr>) s)" by simp
    then show ?thesis by (rule arrival_written)
  qed
  then show ?thesis using arrival_same [OF send_message_sel(1) [OF call(2)]] by simp
next
  case (HandshakeReply j out)
  with step obtain reply where "st' = handshake_reply c j reply out st" by (auto split: option.splits connect_state.splits)
  with arr show ?thesis by (simp add: arrival_same [OF handshake_calls])
next
  case (FinishConnect j)
  with step arr show ?thesis
    by (auto simp: finish_connect_def arrival_def stdio_simps split: option.splits connect_state.splits)
next
  case (ReadLine g line)
  with step arr arrival_read [OF inv] show ?thesis by (auto split: if_splits)
next
  case (ReaderEnd g)
  with step arr show ?thesis by (auto simp: reader_end_def arrival_def split: if_splits)
next
  case (ReaderDrain g)
  with step arr show ?thesis by (auto split: if_splits dest: arrival_exit)
next
  case CloseStdin
  with step arr show ?thesis by (auto simp: close_stdin_def arrival_def split: if_splits)
next
  case KillChild
  with step arr show ?thesis by (auto simp: kill_child_def arrival_def split: if_splits)
next
  case Disconnect
  with step arr show ?thesis by (auto simp: child_disconnect_def arrival_def)
qed

lemma child_run_snoc: "child_run c (es @ [e]) st = Option.bind (child_run c es st) (child_step c e)"
  by (induction es arbitrary: st) (auto split: bind_splits)

lemma child_run_reach: "child_run c es (stdio_backend_new d) = Some st \<Longrightarrow> child_reach c d st"
proof (induction es arbitrary: st rule: rev_induct)
  case (snoc e es)
  then obtain st1 where "child_run c es (stdio_backend_new d) = Some st1" "child_step c e st1 = Some st"
    by (auto simp: child_run_snoc split: bind_splits)
  with snoc.IH show ?case by (blast intro: child_reach.reach_step)
qed (auto intro: child_reach.reach_new)


section \<open>Waiting ends\<close>

text \<open>
  C12: No caller that has written its request waits without a way to go on: it can receive, or its timer
  can fire; and after the drain of a reader that ended every such caller can receive, an error if no reply had come.
\<close>

theorem stdio_waiting_ends:
  assumes "child_reach c d st" and "open_call k st = Some call" and "ca_written call"
  shows "(\<exists>st'. child_step c (if ca_slot call = Empty then TimerFires k free else Receive k) st = Some st' \<and>
      (\<exists>call'. map_of (sb_calls st') k = Some call' \<and> ca_result call' \<noteq> None)) \<and>
    (\<forall>g st1. child_step c (ReaderDrain g) st = Some st1 \<longrightarrow>
      (\<exists>st2 call2 r. child_step c (Receive k) st1 = Some st2 \<and> map_of (sb_calls st2) k = Some call2 \<and>
        ca_result call2 = Some r \<and> (ca_slot call = Empty \<longrightarrow> r = Inl (child_disconnected st))))"
proof (intro conjI allI impI)
  have call: "map_of (sb_calls st) k = Some call" "ca_result call = None" using open_callD [OF assms(2)] by auto
  show "\<exists>st'. child_step c (if ca_slot call = Empty then TimerFires k free else Receive k) st = Some st' \<and>
      (\<exists>call'. map_of (sb_calls st') k = Some call' \<and> ca_result call' \<noteq> None)"
    using call assms(2,3) by (cases "ca_slot call") (auto simp: stdio_simps)
next
  fix g st1
  assume r: "child_step c (ReaderDrain g) st = Some st1"
  have call: "map_of (sb_calls st) k = Some call" "ca_result call = None" using open_callD [OF assms(2)] by auto
  from r have st1: "st1 = reader_drain g st" by (simp split: if_splits)
  define call1 where "call1 = (if k \<in> snd ` set (sb_pending st) then call\<lparr>ca_slot := Sent (Inl (child_disconnected st))\<rparr> else call)"
  have 1: "map_of (sb_calls st1) k = Some call1" using call by (simp add: st1 reader_drain_def Let_def stdio_simps call1_def)
  have e: "ca_slot call = Empty \<Longrightarrow> k \<in> snd ` set (sb_pending st)"
    using pending_invD(2) [OF pending_inv_reach [OF assms(1)] call] by (force dest: map_of_SomeD)
  have "open_call k st1 = Some call1" using 1 call by (simp add: open_call_def call1_def)
  moreover have "ca_written call1" "ca_slot call1 \<noteq> Empty" using e assms(3) by (auto simp: call1_def)
  moreover have "ca_slot call = Empty \<Longrightarrow> ca_slot call1 = Sent (Inl (child_disconnected st))" using e by (auto simp: call1_def)
  ultimately show "\<exists>st2 call2 r. child_step c (Receive k) st1 = Some st2 \<and> map_of (sb_calls st2) k = Some call2 \<and>
        ca_result call2 = Some r \<and> (ca_slot call = Empty \<longrightarrow> r = Inl (child_disconnected st))"
    using 1 by (cases "ca_slot call1") (auto simp: stdio_simps)
qed


section \<open>A reader that outlives its child\<close>

abbreviation child_def :: backend_def where "child_def \<equiv> sample_def ''a'' None Lazy"

definition connect_events :: "nat \<Rightarrow> string \<Rightarrow> child_event list" where
  "connect_events k line = [StartConnect k Spawned, WriteRequest k Written, ReadLine k line, Receive k,
     HandshakeReply k Written, FinishConnect k]"

lemmas child_run_simps = connect_events_def stdio_backend_new_def fresh_task_def start_connect_def stdio_command_def begin_request_def
  open_call_def send_message_def server_lines server_text read_response_def resolve_pending_def send_slot_def update_call_def
  return_call_def set_connect_def handshake_reply_def finish_connect_def sample_def_def new_success_def child_disconnect_def
  close_stdin_def kill_child_def start_call_def reader_end_def reader_drain_def child_disconnected_def sb_id_def

text \<open>
  The reader of a child that was disconnected can end after the backend has reconnected, and then it
  takes the new connection down: with a new child running, connected and read, the end of the reader of
  the first child clears the flag, and its drain fails the request that waits for the new child.
\<close>

theorem stale_reader_drops_connection:
  "\<exists>st1 st2 st3. child_run sample_server_codec
      (connect_events 0 ''r0'' @ [Disconnect, CloseStdin, KillChild] @ connect_events 1 ''r1'' @
        [StartCall 2 ''tools/list'' None 5, WriteRequest 2 Written]) (stdio_backend_new child_def) = Some st1 \<and>
     sb_connected st1 \<and> sb_child st1 = Some 1 \<and>
     child_run sample_server_codec [ReaderEnd 0, ReaderDrain 0] st1 = Some st2 \<and>
     sb_child st2 = Some 1 \<and> 1 \<in> set (sb_readers st2) \<and> \<not> sb_connected st2 \<and>
     child_step sample_server_codec (Receive 2) st2 = Some st3 \<and>
     map_option ca_result (map_of (sb_calls st3) 2) = Some (Some (Inl (child_disconnected st1)))"
  by (simp add: child_run_simps)



theorem stdio_waiting_ends_witness:
  "\<exists>st st' call'. child_run sample_server_codec [StartConnect 0 Spawned, WriteRequest 0 Written] (stdio_backend_new child_def) = Some st \<and>
     child_step sample_server_codec (TimerFires 0 True) st = Some st' \<and> map_of (sb_calls st') 0 = Some call' \<and> ca_result call' \<noteq> None"
proof -
  have "\<exists>st call. child_run sample_server_codec [StartConnect 0 Spawned, WriteRequest 0 Written] (stdio_backend_new child_def) = Some st \<and>
     open_call 0 st = Some call \<and> ca_written call \<and> ca_slot call = Empty"
    by (simp add: child_run_simps)
  then obtain st call where st: "child_run sample_server_codec [StartConnect 0 Spawned, WriteRequest 0 Written] (stdio_backend_new child_def) = Some st"
      "open_call 0 st = Some call" "ca_written call" "ca_slot call = Empty" by blast
  from stdio_waiting_ends [OF child_run_reach [OF st(1)] st(2,3), of True] st show ?thesis by auto
qed

end
