(* ===== verification/Hub_Config.thy ===== *)
theory Hub_Config
  imports Hub_Core
begin

text \<open>
  The configuration (\<open>crates/server/src/config.rs\<close>): the placeholders of credentials, the search for the
  file, the fields of the raw file with their defaults, and the definitions made of them.  The TOML text
  is read by the external crate \<open>toml\<close>; the environment, the file system and the iteration order of a
  hash map are parameters.
\<close>

unbundle bit_operations_syntax

section \<open>TOML values\<close>

text \<open>
  A date reads as a table with one string, the way the crate hands it to a deserializer.  A table keeps
  the order of the file.
\<close>

datatype toml =
    TStr string
  | TInt i64
  | TFloat u64
  | TBool bool
  | TArr "toml list"
  | TTab "(string \<times> toml) list"

text \<open>The derived reader of a struct: by name from a table, by position from an array.\<close>

definition toml_fields :: "(string \<times> bool) list \<Rightarrow> toml \<Rightarrow> toml option list option" where
  "toml_fields fs v =
     (case v of
        TTab kvs \<Rightarrow> Some (map (\<lambda>(n, d). map_of kvs n) fs)
      | TArr vs \<Rightarrow>
          (if list_ex (\<lambda>(n, d). \<not> d) (drop (length vs) fs) then None
           else Some (map Some (take (length fs) vs) @ replicate (length fs - length vs) None))
      | _ \<Rightarrow> None)"

fun toml_str :: "toml \<Rightarrow> string option" where
  "toml_str (TStr s) = Some s"
| "toml_str v = None"

fun toml_bool :: "toml \<Rightarrow> bool option" where
  "toml_bool (TBool b) = Some b"
| "toml_bool v = None"

text \<open>An unsigned integer of \<open>w\<close> bits from the \<open>i64\<close> of the file, if it is in range.\<close>

fun toml_uint :: "toml \<Rightarrow> 'w::len word option" where
  "toml_uint (TInt i) = (if 0 \<le> sint i \<and> sint i < 2 ^ LENGTH('w) then Some (word_of_int (sint i)) else None)"
| "toml_uint v = None"

fun toml_list :: "(toml \<Rightarrow> 'a option) \<Rightarrow> toml \<Rightarrow> 'a list option" where
  "toml_list f (TArr vs) = all_some (map f vs)"
| "toml_list f v = None"

fun toml_map :: "(toml \<Rightarrow> 'a option) \<Rightarrow> toml \<Rightarrow> (string \<times> 'a) list option" where
  "toml_map f (TTab kvs) = all_some (map (\<lambda>(k, v). map_option (Pair k) (f v)) kvs)"
| "toml_map f v = None"

definition toml_opt :: "(toml \<Rightarrow> 'a option) \<Rightarrow> toml option \<Rightarrow> 'a option option" where
  "toml_opt f v = (case v of None \<Rightarrow> Some None | Some w \<Rightarrow> map_option Some (f w))"

definition toml_default :: "'a \<Rightarrow> (toml \<Rightarrow> 'a option) \<Rightarrow> toml option \<Rightarrow> 'a option" where
  "toml_default d f v = (case v of None \<Rightarrow> Some d | Some w \<Rightarrow> f w)"

text \<open>\<open>serde_json::to_value\<close> of a TOML value: a float that is not finite becomes \<open>null\<close>, a table is sorted.\<close>

definition finite_bits :: "u64 \<Rightarrow> bool" where
  "finite_bits b = (drop_bit 52 b AND 0x7FF \<noteq> (0x7FF :: u64))"

function toml_to_json :: "toml \<Rightarrow> json" where
  "toml_to_json (TStr s) = JStr s"
| "toml_to_json (TInt i) = JNum (number_of_i64 i)"
| "toml_to_json (TFloat b) = (if finite_bits b then JNum (Float b) else JNull)"
| "toml_to_json (TBool b) = JBool b"
| "toml_to_json (TArr vs) = JArr (map toml_to_json vs)"
| "toml_to_json (TTab kvs) = JObj (obj_of (map (\<lambda>(k, v). (k, toml_to_json v)) kvs))"
  by pat_completeness auto
termination
proof (relation "measure size")
  show "wf (measure size)" by simp
next
  fix vs :: "toml list" and z
  assume "z \<in> set vs"
  then show "(z, TArr vs) \<in> measure size" by (induction vs) auto
next
  fix kvs :: "(string \<times> toml) list" and z x y
  assume "z \<in> set kvs" "(x, y) = z"
  then have "(x, y) \<in> set kvs" by simp
  then show "(y, TTab kvs) \<in> measure size" by (induction kvs) auto
qed

section \<open>The raw configuration\<close>

record raw_auth =
  ra_hub_token :: "string option"
  ra_rate_limit :: u32

record raw_oauth2 =
  ro_token_endpoint :: "string option"
  ro_client_id :: "string option"
  ro_client_secret :: "string option"
  ro_scopes :: "string option"
  ro_grant_type :: string
  ro_callback_port :: u16

record raw_backend =
  rb_transport :: string
  rb_command :: "string option"
  rb_args :: "string list"
  rb_env :: "(string \<times> string) list"
  rb_cwd :: "string option"
  rb_url :: "string option"
  rb_bearer_token :: "string option"
  rb_oauth2 :: "raw_oauth2 option"
  rb_namespace :: "string option"
  rb_connection_mode :: string
  rb_connect_timeout_secs :: u64
  rb_call_timeout_secs :: u64
  rb_stderr_mode :: string
  rb_tools_allow :: "string list"
  rb_tools_deny :: "string list"
  rb_pin_args :: toml
  rb_deny_args :: "string list"
  rb_unavailable_hint :: "string option"
  rb_forward_request_meta :: bool

record expose_filters =
  ef_tools_allow :: "string list"
  ef_tools_deny :: "string list"

record expose_block =
  eb_port :: u16
  eb_label :: "string option"
  eb_backends :: "(string \<times> expose_filters) list"

record raw_config =
  rc_auth :: "raw_auth option"
  rc_backends :: "(string \<times> raw_backend) list"
  rc_expose :: "expose_block list"

definition default_rate_limit :: u32 where "default_rate_limit = 120"
definition default_connect_timeout :: u64 where "default_connect_timeout = 10"
definition default_call_timeout :: u64 where "default_call_timeout = 30"
definition default_callback_port :: u16 where "default_callback_port = 9798"
definition default_grant_type :: string where "default_grant_type = ''client_credentials''"

definition raw_auth_from :: "toml \<Rightarrow> raw_auth option" where
  "raw_auth_from v =
     (case toml_fields [(''hub_token'', False), (''rate_limit'', True)] v of
        Some [t, l] \<Rightarrow>
          (case (toml_opt toml_str t, toml_default default_rate_limit toml_uint l) of
             (Some t', Some l') \<Rightarrow> Some \<lparr>ra_hub_token = t', ra_rate_limit = l'\<rparr>
           | _ \<Rightarrow> None)
      | _ \<Rightarrow> None)"

definition raw_oauth2_from :: "toml \<Rightarrow> raw_oauth2 option" where
  "raw_oauth2_from v =
     (case toml_fields [(''token_endpoint'', False), (''client_id'', False), (''client_secret'', False),
         (''scopes'', True), (''grant_type'', True), (''callback_port'', True)] v of
        Some [te, ci, cs, sc, gt, cp] \<Rightarrow>
          (case (toml_opt toml_str te, toml_opt toml_str ci, toml_opt toml_str cs, toml_opt toml_str sc,
                 toml_default default_grant_type toml_str gt, toml_default default_callback_port toml_uint cp) of
             (Some te', Some ci', Some cs', Some sc', Some gt', Some cp') \<Rightarrow>
               Some \<lparr>ro_token_endpoint = te', ro_client_id = ci', ro_client_secret = cs', ro_scopes = sc',
                 ro_grant_type = gt', ro_callback_port = cp'\<rparr>
           | _ \<Rightarrow> None)
      | _ \<Rightarrow> None)"

fun toml_table :: "toml \<Rightarrow> toml option" where
  "toml_table (TTab kvs) = Some (TTab kvs)"
| "toml_table v = None"

definition raw_backend_from :: "toml \<Rightarrow> raw_backend option" where
  "raw_backend_from v =
     (case toml_fields [(''transport'', False), (''command'', False), (''args'', True), (''env'', True), (''cwd'', False),
         (''url'', False), (''bearer_token'', False), (''oauth2'', True), (''namespace'', True), (''connection_mode'', True),
         (''connect_timeout_secs'', True), (''call_timeout_secs'', True), (''stderr_mode'', True), (''tools_allow'', True),
         (''tools_deny'', True), (''pin_args'', True), (''deny_args'', True), (''unavailable_hint'', True),
         (''forward_request_meta'', True)] v of
        Some [f1, f2, f3, f4, f5, f6, f7, f8, f9, f10, f11, f12, f13, f14, f15, f16, f17, f18, f19] \<Rightarrow>
          (case (Option.bind f1 toml_str, toml_opt toml_str f2, toml_default [] (toml_list toml_str) f3,
                 toml_default [] (toml_map toml_str) f4, toml_opt toml_str f5, toml_opt toml_str f6, toml_opt toml_str f7,
                 toml_opt raw_oauth2_from f8, toml_opt toml_str f9, toml_default [] toml_str f10) of
             (Some transport, Some cmd, Some args, Some env, Some cwd, Some url, Some bearer, Some oauth2, Some ns, Some mode) \<Rightarrow>
               (case (toml_default default_connect_timeout toml_uint f11, toml_default default_call_timeout toml_uint f12,
                      toml_default [] toml_str f13, toml_default [] (toml_list toml_str) f14,
                      toml_default [] (toml_list toml_str) f15, toml_default (TTab []) toml_table f16,
                      toml_default [] (toml_list toml_str) f17, toml_opt toml_str f18, toml_default False toml_bool f19) of
                  (Some ct, Some rt, Some sm, Some ta, Some td, Some pins, Some da, Some uh, Some fm) \<Rightarrow>
                    Some \<lparr>rb_transport = transport, rb_command = cmd, rb_args = args, rb_env = env, rb_cwd = cwd,
                      rb_url = url, rb_bearer_token = bearer, rb_oauth2 = oauth2, rb_namespace = ns,
                      rb_connection_mode = mode, rb_connect_timeout_secs = ct, rb_call_timeout_secs = rt,
                      rb_stderr_mode = sm, rb_tools_allow = ta, rb_tools_deny = td, rb_pin_args = pins,
                      rb_deny_args = da, rb_unavailable_hint = uh, rb_forward_request_meta = fm\<rparr>
                | _ \<Rightarrow> None)
           | _ \<Rightarrow> None)
      | _ \<Rightarrow> None)"

definition raw_expose_backend_from :: "toml \<Rightarrow> expose_filters option" where
  "raw_expose_backend_from v =
     (case toml_fields [(''tools_allow'', True), (''tools_deny'', True)] v of
        Some [a, d] \<Rightarrow>
          (case (toml_default [] (toml_list toml_str) a, toml_default [] (toml_list toml_str) d) of
             (Some a', Some d') \<Rightarrow> Some \<lparr>ef_tools_allow = a', ef_tools_deny = d'\<rparr>
           | _ \<Rightarrow> None)
      | _ \<Rightarrow> None)"

definition raw_expose_from :: "toml \<Rightarrow> expose_block option" where
  "raw_expose_from v =
     (case toml_fields [(''port'', False), (''label'', True), (''backends'', True)] v of
        Some [p, l, bs] \<Rightarrow>
          (case (Option.bind p toml_uint, toml_opt toml_str l, toml_default [] (toml_map raw_expose_backend_from) bs) of
             (Some p', Some l', Some bs') \<Rightarrow> Some \<lparr>eb_port = p', eb_label = l', eb_backends = bs'\<rparr>
           | _ \<Rightarrow> None)
      | _ \<Rightarrow> None)"

definition raw_config_from :: "toml \<Rightarrow> raw_config option" where
  "raw_config_from v =
     (case toml_fields [(''auth'', True), (''backends'', True), (''expose'', True)] v of
        Some [a, bs, es] \<Rightarrow>
          (case (toml_opt raw_auth_from a, toml_default [] (toml_map raw_backend_from) bs,
                 toml_default [] (toml_list raw_expose_from) es) of
             (Some a', Some bs', Some es') \<Rightarrow> Some \<lparr>rc_auth = a', rc_backends = bs', rc_expose = es'\<rparr>
           | _ \<Rightarrow> None)
      | _ \<Rightarrow> None)"

section \<open>Placeholders\<close>

record config_env =
  ce_var :: "string \<Rightarrow> string option"
  ce_uppercase :: "string \<Rightarrow> string"
  ce_exists :: "string \<Rightarrow> bool"
  ce_read :: "string \<Rightarrow> string + string"
  ce_toml :: "string \<Rightarrow> string + toml"
  ce_toml_msg :: "string \<Rightarrow> string"
  ce_order :: "(string \<times> raw_backend) list \<Rightarrow> (string \<times> raw_backend) list"

definition ENV_PREFIX :: string where "ENV_PREFIX = ''{{env:''"
definition SECRET_PREFIX :: string where "SECRET_PREFIX = ''{{secret:''"
definition MAX_RESOLVE_PASSES :: nat where "MAX_RESOLVE_PASSES = 16"

text \<open>
  The first placeholder with a prefix: the text before, the name and the text after; \<open>Some None\<close>: the
  prefix occurs, and no closing braces follow.
\<close>

definition placeholder :: "string \<Rightarrow> string \<Rightarrow> (string \<times> string \<times> string) option option" where
  "placeholder p s =
     (case find_sub p s of
        None \<Rightarrow> None
      | Some start \<Rightarrow>
          Some (case find_sub ''}}'' (drop start s) of
             None \<Rightarrow> None
           | Some e \<Rightarrow> Some (take start s, take (e - length p) (drop (start + length p) s), drop (start + e + 2) s)))"

definition unresolved :: "string \<Rightarrow> string" where
  "unresolved name = ''{{unresolved:'' @ name @ ''}}''"

text \<open>One pass of the loop; \<open>None\<close>: the loop is left.\<close>

definition resolve_pass :: "config_env \<Rightarrow> string \<Rightarrow> string option" where
  "resolve_pass env s =
     (case placeholder ENV_PREFIX s of
        Some None \<Rightarrow> None
      | Some (Some (before, name, rest)) \<Rightarrow>
          Some (before @ (case ce_var env name of Some v \<Rightarrow> v | None \<Rightarrow> unresolved name) @ rest)
      | None \<Rightarrow>
          (case placeholder SECRET_PREFIX s of
             Some (Some (before, name, rest)) \<Rightarrow>
               Some (before @ (case ce_var env (''HEADLESS_MCP_SECRET_'' @ ce_uppercase env name) of
                  Some v \<Rightarrow> v | None \<Rightarrow> unresolved name) @ rest)
           | _ \<Rightarrow> None))"

fun resolve_passes :: "config_env \<Rightarrow> nat \<Rightarrow> string \<Rightarrow> string" where
  "resolve_passes env 0 s = s"
| "resolve_passes env (Suc n) s = (case resolve_pass env s of None \<Rightarrow> s | Some s' \<Rightarrow> resolve_passes env n s')"

definition resolve_value :: "config_env \<Rightarrow> string \<Rightarrow> string" where
  "resolve_value env raw = resolve_passes env MAX_RESOLVE_PASSES raw"

section \<open>Finding the file\<close>

definition path_join :: "string \<Rightarrow> string \<Rightarrow> string" where
  "path_join a b = (if a = [] \<or> last a = CHR ''/'' then a @ b else a @ ''/'' @ b)"

definition dirs :: "config_env \<Rightarrow> string option" where
  "dirs env = ce_var env ''HOME''"

definition find_config_file :: "config_env \<Rightarrow> string option \<Rightarrow> string option" where
  "find_config_file env explicit =
     (let cwd_config = ''./headless-mcp.toml'';
          user_config = map_option (\<lambda>home. path_join home ''.config/headless-mcp/config.toml'') (dirs env)
      in case explicit of
           Some path \<Rightarrow>
             (if ce_exists env path then Some path
              else if ce_exists env cwd_config then Some cwd_config
              else Option.bind user_config (\<lambda>u. if ce_exists env u then Some u else None))
         | None \<Rightarrow>
             (if ce_exists env cwd_config then Some cwd_config
              else Option.bind user_config (\<lambda>u. if ce_exists env u then Some u else None)))"

section \<open>Loading\<close>

record auth_config =
  ac_hub_token :: "string option"
  ac_rate_limit :: u32

record hub_config =
  hc_auth :: "auth_config option"
  hc_backends :: "backend_def list"
  hc_expose :: "expose_block list"

definition transport_of :: "config_env \<Rightarrow> string \<Rightarrow> raw_backend \<Rightarrow> string + backend_transport" where
  "transport_of env i bc =
     (if rb_transport bc = ''stdio'' then
        (case rb_command bc of
           None \<Rightarrow> Inl (''backend '' @ sq i @ '': missing '' @ sq ''command'' @ '' for stdio transport'')
         | Some cmd \<Rightarrow> Inr (Stdio cmd (rb_args bc) (map (\<lambda>(k, v). (k, resolve_value env v)) (rb_env bc)) (rb_cwd bc)))
      else if rb_transport bc = ''http'' then
        (case rb_url bc of
           None \<Rightarrow> Inl (''backend '' @ sq i @ '': missing '' @ sq ''url'' @ '' for http transport'')
         | Some url \<Rightarrow>
             Inr (Http url (map_option (resolve_value env) (rb_bearer_token bc))
               (map_option (\<lambda>ro. \<lparr>oc_token_endpoint = ro_token_endpoint ro,
                  oc_client_id = map_option (resolve_value env) (ro_client_id ro),
                  oc_client_secret = map_option (resolve_value env) (ro_client_secret ro),
                  oc_scopes = ro_scopes ro, oc_grant_type = ro_grant_type ro, oc_callback_port = ro_callback_port ro\<rparr>)
                (rb_oauth2 bc))))
      else Inl (''backend '' @ sq i @ '': unknown transport '' @ sq (rb_transport bc)))"

definition mode_of :: "string \<Rightarrow> string \<Rightarrow> string + connection_mode" where
  "mode_of i m =
     (if m \<in> {'''', ''eager''} then Inr Eager
      else if m = ''lazy'' then Inr Lazy
      else if m \<in> {''per-call'', ''per_call''} then Inr PerCall
      else Inl (''backend '' @ sq i @ '': unknown connection_mode '' @ sq m))"

definition stderr_mode_of :: "string \<Rightarrow> string \<Rightarrow> string + stderr_mode" where
  "stderr_mode_of i m =
     (if m \<in> {'''', ''log-on-error'', ''log_on_error''} then Inr LogOnError
      else if m = ''silent'' then Inr Silent
      else if m = ''passthrough'' then Inr Passthrough
      else if m \<in> {''log-always'', ''log_always''} then Inr LogAlways
      else Inl (''backend '' @ sq i @ '': unknown stderr_mode '' @ sq m))"

definition pin_args_of :: "toml \<Rightarrow> jobject" where
  "pin_args_of t = (case toml_to_json t of JObj kvs \<Rightarrow> kvs | _ \<Rightarrow> [])"

definition def_of :: "config_env \<Rightarrow> string \<Rightarrow> raw_backend \<Rightarrow> string + backend_def" where
  "def_of env i bc =
     bind_res (transport_of env i bc) (\<lambda>transport.
     bind_res (mode_of i (rb_connection_mode bc)) (\<lambda>mode.
     bind_res (stderr_mode_of i (rb_stderr_mode bc)) (\<lambda>sm.
       Inr \<lparr>def_id = i, def_label = None, def_transport = transport, def_namespace = rb_namespace bc,
            def_connection_mode = mode, def_connect_timeout_secs = rb_connect_timeout_secs bc,
            def_call_timeout_secs = rb_call_timeout_secs bc, def_stderr_mode = sm,
            def_tools_allow = rb_tools_allow bc, def_tools_deny = rb_tools_deny bc,
            def_unavailable_hint = rb_unavailable_hint bc, def_forward_request_meta = rb_forward_request_meta bc,
            def_pin_args = pin_args_of (rb_pin_args bc), def_deny_args = rb_deny_args bc\<rparr>)))"

fun defs_of :: "config_env \<Rightarrow> (string \<times> raw_backend) list \<Rightarrow> string + backend_def list" where
  "defs_of env [] = Inr []"
| "defs_of env ((i, bc) # bs) = bind_res (def_of env i bc) (\<lambda>d. bind_res (defs_of env bs) (\<lambda>ds. Inr (d # ds)))"

definition load_config :: "config_env \<Rightarrow> string option \<Rightarrow> string + hub_config" where
  "load_config env explicit =
     (case find_config_file env explicit of
        None \<Rightarrow> Inl ''no config file found. Create one at ./headless-mcp.toml or ~/.config/headless-mcp/config.toml''
      | Some path \<Rightarrow>
          bind_res (ce_read env path) (\<lambda>raw.
          bind_res (ce_toml env raw) (\<lambda>doc.
            case raw_config_from doc of
              None \<Rightarrow> Inl (ce_toml_msg env raw)
            | Some rc \<Rightarrow>
                bind_res (defs_of env (ce_order env (rc_backends rc))) (\<lambda>backends.
                  Inr \<lparr>hc_auth = map_option (\<lambda>a. \<lparr>ac_hub_token = map_option (resolve_value env) (ra_hub_token a),
                         ac_rate_limit = ra_rate_limit a\<rparr>) (rc_auth rc),
                       hc_backends = backends, hc_expose = rc_expose rc\<rparr>))))"

end
