(* ===== verification/Hub_Config_Facts.thy ===== *)
theory Hub_Config_Facts
  imports Hub_Config "HOL-Library.Multiset"
begin

text \<open>
  Properties of the configuration: the placeholders of a credential are all replaced within the bound on
  the passes, and the definitions that a file gives are well-typed, one for each of its backends.
\<close>

section \<open>Placeholders run out\<close>

text \<open>The opening braces of a text that do not belong to the mark of an unresolved name.\<close>

fun loose :: "string \<Rightarrow> nat" where
  "loose [] = 0"
| "loose (c # s) =
     (if c = CHR ''{'' \<and> \<not> starts_with (c # s) ''{{unresolved:'' \<and> \<not> starts_with (c # s) ''{unresolved:'' then 1 else 0)
       + loose s"

lemma starts_with_more: "starts_with s p \<Longrightarrow> starts_with (s @ t) p"
  by (auto simp: str_simps)

lemma loose_append_le: "loose (a @ b) \<le> loose a + loose b"
proof (induction a)
  case (Cons c a)
  have "starts_with (c # a) u \<Longrightarrow> starts_with (c # a @ b) u" for u using starts_with_more [of "c # a" u b] by simp
  with Cons show ?case by (auto simp del: starts_with.simps)
qed simp

lemma loose_suffix: "loose b \<le> loose (a @ b)"
  by (induction a) auto

lemma mark_not_cut:
  assumes "starts_with ((c # a) @ CHR ''{'' # CHR ''{'' # r) u" and "u = ''{{unresolved:'' \<or> u = ''{unresolved:''"
  shows "starts_with (c # a) u"
  using assms by (auto simp: str_simps append_eq_Cons_conv Cons_eq_append_conv)

lemma loose_before: "loose a + loose (CHR ''{'' # CHR ''{'' # r) \<le> loose (a @ CHR ''{'' # CHR ''{'' # r)"
proof (induction a)
  case (Cons c a)
  have "starts_with (c # a) u" if "starts_with (c # a @ CHR ''{'' # CHR ''{'' # r) u"
    "u = ''{{unresolved:'' \<or> u = ''{unresolved:''" for u
    using mark_not_cut [of c a r u] that by simp
  with Cons show ?case by (auto simp del: starts_with.simps)
qed simp

lemma loose_count: "loose s \<le> count_list s (CHR ''{'')"
  by (induction s) auto

lemma loose_plain: "CHR ''{'' \<notin> set v \<Longrightarrow> loose v = 0"
  by (induction v) auto

definition brace_free :: "config_env \<Rightarrow> bool" where
  "brace_free env \<longleftrightarrow> (\<forall>n v. ce_var env n = Some v \<longrightarrow> CHR ''{'' \<notin> set v)"

lemma placeholder_split:
  assumes "placeholder p s = Some (Some (a, n, b))" and "CHR ''}'' \<notin> set p"
  shows "s = a @ p @ n @ ''}}'' @ b"
proof -
  from assms(1) obtain i e where i: "find_sub p s = Some i" and e: "find_sub ''}}'' (drop i s) = Some e"
    and parts: "a = take i s" "n = take (e - length p) (drop (i + length p) s)" "b = drop (i + e + 2) s"
    by (auto simp: placeholder_def split: option.splits)
  from find_sub_Some [OF i] obtain t where t: "drop i s = p @ t" by (auto simp: starts_with_iff)
  from find_sub_Some [OF e] obtain u where u: "drop e (p @ t) = ''}}'' @ u" by (auto simp: t starts_with_iff)
  have le: "length p \<le> e"
  proof (rule ccontr)
    assume "\<not> length p \<le> e"
    then have "drop e (p @ t) = p ! e # drop (Suc e) p @ t" "p ! e \<in> set p" by (simp_all add: Cons_nth_drop_Suc [symmetric])
    with u assms(2) show False by auto
  qed
  have t2: "drop (i + length p) s = t" using t by (metis add.commute append_eq_conv_conj drop_drop)
  have "drop (e - length p) t = ''}}'' @ u" using u le by simp
  moreover have "b = u"
  proof -
    have "drop e (drop i s) = ''}}'' @ u" using t u by simp
    moreover have "b = drop 2 (drop e (drop i s))" by (simp add: parts(3) add.commute add.left_commute)
    ultimately show ?thesis by (simp del: drop_drop)
  qed
  ultimately have "t = n @ ''}}'' @ b" unfolding parts(2) t2 by (metis append_take_drop_id)
  then show ?thesis using t parts(1) by (metis append.assoc append_take_drop_id)
qed

lemma placeholder_found:
  assumes "s = a @ p @ n @ ''}}'' @ b"
  shows "\<exists>x. placeholder p s = Some (Some x)"
proof -
  have "starts_with (drop (length a) s) p" by (simp add: assms)
  moreover have "length a \<le> length s" by (simp add: assms)
  ultimately have "find_sub p s \<noteq> None" using find_sub_None [of p s] by blast
  then obtain i where i: "find_sub p s = Some i" by blast
  have le: "i \<le> length a" using find_sub_Some [OF i] \<open>starts_with (drop (length a) s) p\<close> by (meson not_le)
  have "drop i s = drop i (a @ p @ n) @ ''}}'' @ b" using le assms by simp
  then have "contains_sub (drop i s) ''}}''" by (auto simp only: contains_sub_iff)
  with i show ?thesis by (auto simp: placeholder_def contains_sub_def)
qed

lemma prefix_braces:
  "ENV_PREFIX @ r = CHR ''{'' # CHR ''{'' # ''env:'' @ r" "SECRET_PREFIX @ r = CHR ''{'' # CHR ''{'' # ''secret:'' @ r"
  "CHR ''}'' \<notin> set ENV_PREFIX" "CHR ''}'' \<notin> set SECRET_PREFIX"
  "loose (ENV_PREFIX @ r) = 2 + loose r" "loose (SECRET_PREFIX @ r) = 2 + loose r"
  by (simp_all add: ENV_PREFIX_def SECRET_PREFIX_def)

lemma loose_replaced:
  assumes "loose (p @ n @ ''}}'' @ b) = 2 + loose (n @ ''}}'' @ b)"
    and "p @ n @ ''}}'' @ b = CHR ''{'' # CHR ''{'' # r" and "CHR ''{'' \<notin> set v \<or> v = unresolved n"
  shows "loose (a @ v @ b) + 2 \<le> loose (a @ p @ n @ ''}}'' @ b)"
proof -
  have 1: "loose a + (2 + loose (n @ ''}}'' @ b)) \<le> loose (a @ p @ n @ ''}}'' @ b)"
    using loose_before [of a r] assms(1,2) by simp
  have "loose (v @ b) \<le> loose (n @ ''}}'' @ b)"
    using assms(3)
  proof
    assume "CHR ''{'' \<notin> set v"
    then show ?thesis
      using loose_append_le [of v b] loose_plain [of v] loose_suffix [of b "n @ ''}}''"] by simp
  qed (simp add: unresolved_def)
  with 1 loose_append_le [of a "v @ b"] show ?thesis by linarith
qed

lemma resolve_pass_Some:
  assumes "resolve_pass env s = Some s'"
  obtains p a n b v where "placeholder p s = Some (Some (a, n, b))" and "p = ENV_PREFIX \<or> p = SECRET_PREFIX"
    and "s' = a @ v @ b" and "v = unresolved n \<or> (\<exists>k. ce_var env k = Some v)"
proof -
  define value_of where "value_of = (\<lambda>k n. case ce_var env k of Some v \<Rightarrow> v | None \<Rightarrow> unresolved n)"
  have v: "value_of k n = unresolved n \<or> (\<exists>j. ce_var env j = Some (value_of k n))" for k n
    by (auto simp: value_of_def split: option.split)
  show thesis
  proof (cases "placeholder ENV_PREFIX s")
    case None
    with assms obtain a n b where q: "placeholder SECRET_PREFIX s = Some (Some (a, n, b))"
        "s' = a @ value_of (''HEADLESS_MCP_SECRET_'' @ ce_uppercase env n) n @ b"
      by (auto simp: resolve_pass_def value_of_def split: option.splits prod.splits)
    show thesis by (rule that [OF q(1) _ q(2) v]) simp
  next
    case (Some x)
    with assms obtain a n b where q: "placeholder ENV_PREFIX s = Some (Some (a, n, b))" "s' = a @ value_of n n @ b"
      by (cases x) (auto simp: resolve_pass_def value_of_def)
    show thesis by (rule that [OF q(1) _ q(2) v]) simp
  qed
qed

lemma resolve_pass_decreases:
  assumes "brace_free env" and "resolve_pass env s = Some s'"
  shows "loose s' + 2 \<le> loose s"
proof -
  obtain p a n b v where pl: "placeholder p s = Some (Some (a, n, b))" "p = ENV_PREFIX \<or> p = SECRET_PREFIX"
    and s': "s' = a @ v @ b" and v: "v = unresolved n \<or> (\<exists>k. ce_var env k = Some v)"
    using assms(2) by (rule resolve_pass_Some)
  from pl prefix_braces have s: "s = a @ p @ n @ ''}}'' @ b" by (auto dest!: placeholder_split)
  have "loose (p @ n @ ''}}'' @ b) = 2 + loose (n @ ''}}'' @ b)" using pl(2) prefix_braces by auto
  moreover have "\<exists>r. p @ n @ ''}}'' @ b = CHR ''{'' # CHR ''{'' # r"
    using pl(2) by (auto simp: ENV_PREFIX_def SECRET_PREFIX_def)
  moreover have "CHR ''{'' \<notin> set v \<or> v = unresolved n" using v assms(1) by (auto simp: brace_free_def)
  ultimately show ?thesis unfolding s s' using loose_replaced by blast
qed

lemma resolve_passes_settle:
  "brace_free env \<Longrightarrow> loose s \<le> 2 * k \<Longrightarrow> resolve_pass env (resolve_passes env k s) = None"
proof (induction k arbitrary: s)
  case 0
  then show ?case using resolve_pass_decreases [of env s] by (cases "resolve_pass env s") auto
next
  case (Suc k)
  then show ?case using resolve_pass_decreases [of env s] by (cases "resolve_pass env s") auto
qed

lemma settled_meaning:
  assumes "resolve_pass env s = None"
  shows "s \<noteq> a @ ENV_PREFIX @ n @ ''}}'' @ b" and "s = a @ SECRET_PREFIX @ n @ ''}}'' @ b \<Longrightarrow> contains_sub s ENV_PREFIX"
proof -
  show "s \<noteq> a @ ENV_PREFIX @ n @ ''}}'' @ b"
    using placeholder_found [of s a ENV_PREFIX n b] assms by (auto simp: resolve_pass_def split: option.splits)
  assume "s = a @ SECRET_PREFIX @ n @ ''}}'' @ b"
  from placeholder_found [OF this] assms show "contains_sub s ENV_PREFIX"
    by (auto simp: resolve_pass_def placeholder_def contains_sub_def split: option.splits)
qed



text \<open>A shell whose variables refer to nothing else.\<close>

definition sample_env :: config_env where
  "sample_env = \<lparr>ce_var = (\<lambda>n. if n = ''A'' then Some ''x'' else if n = ''HEADLESS_MCP_SECRET_NOTION'' then Some ''y'' else None),
     ce_uppercase = map (\<lambda>c. if c = CHR ''n'' then CHR ''N'' else c), ce_exists = (\<lambda>p. p = ''./headless-mcp.toml''),
     ce_read = Inr, ce_toml = (\<lambda>s. Inr (TTab [(''backends'', TTab [
       (''b'', TTab [(''transport'', TStr ''stdio''), (''command'', TStr ''srv''), (''env'', TTab [(''K'', TStr ''{{env:A}}'')]),
          (''pin_args'', TTab [(''z'', TInt (-1)), (''a'', TBool True)])]),
       (''a'', TTab [(''transport'', TStr ''http''), (''url'', TStr ''http://a'')])])])),
     ce_toml_msg = (\<lambda>s. ''bad''), ce_order = rev\<rparr>"


section \<open>Loaded definitions\<close>

text \<open>A TOML document has no key twice in a table, which is what the crate documents.\<close>

function wf_toml :: "toml \<Rightarrow> bool" where
  "wf_toml (TStr s) = True"
| "wf_toml (TInt i) = True"
| "wf_toml (TFloat b) = True"
| "wf_toml (TBool b) = True"
| "wf_toml (TArr vs) = list_all wf_toml vs"
| "wf_toml (TTab kvs) = (distinct (map fst kvs) \<and> list_all wf_toml (map snd kvs))"
  by pat_completeness auto
termination
proof (relation "measure size")
  show "wf (measure size)" by simp
next
  fix vs :: "toml list" and z
  assume "z \<in> set vs"
  then show "(z, TArr vs) \<in> measure size" by (induction vs) auto
next
  fix kvs :: "(string \<times> toml) list" and z
  assume "z \<in> set (map snd kvs)"
  then show "(z, TTab kvs) \<in> measure size" by (induction kvs) (auto, force)
qed

lemma wf_toml_field:
  assumes "wf_toml v" and "toml_fields fs v = Some xs" and "Some x \<in> set xs"
  shows "wf_toml x"
proof (cases v)
  case (TTab kvs)
  with assms(2,3) obtain n where "map_of kvs n = Some x" by (auto simp: toml_fields_def)
  then have "x \<in> set (map snd kvs)" by (force dest: map_of_SomeD)
  with assms(1) TTab show ?thesis by (auto simp: list_all_iff)
next
  case (TArr vs)
  with assms(2,3) have "x \<in> set vs" by (auto simp: toml_fields_def split: if_splits dest: in_set_takeD)
  with assms(1) TArr show ?thesis by (simp add: list_all_iff)
qed (use assms in \<open>auto simp: toml_fields_def\<close>)

lemma toml_map_keys: "toml_map f v = Some kvs \<Longrightarrow> wf_toml v \<Longrightarrow> distinct (map fst kvs)"
proof (cases v)
  case (TTab ts)
  assume a: "toml_map f v = Some kvs" "wf_toml v"
  with TTab have "map (\<lambda>(k, v). map_option (Pair k) (f v)) ts = map Some kvs" by (simp add: all_some_Some)
  then have "map fst kvs = map fst ts"
    by (induction ts arbitrary: kvs) (auto simp: Cons_eq_map_conv split: prod.splits)
  with a TTab show ?thesis by simp
qed auto

lemma raw_backend_keys:
  assumes "raw_config_from doc = Some rc" and "wf_toml doc"
  shows "distinct (map fst (rc_backends rc))"
proof -
  from assms(1) obtain a bs es where f: "toml_fields [(''auth'', True), (''backends'', True), (''expose'', True)] doc = Some [a, bs, es]"
    and b: "toml_default [] (toml_map raw_backend_from) bs = Some (rc_backends rc)"
    by (auto simp: raw_config_from_def split: option.splits list.splits)
  show ?thesis
  proof (cases bs)
    case None
    with b show ?thesis by (simp add: toml_default_def)
  next
    case (Some x)
    with b have "toml_map raw_backend_from x = Some (rc_backends rc)" by (simp add: toml_default_def)
    then show ?thesis by (rule toml_map_keys) (use wf_toml_field [OF assms(2) f] Some in simp)
  qed
qed

lemma wf_toml_to_json: "wf_json (toml_to_json v)"
proof (induction v rule: toml_to_json.induct)
  case (6 kvs)
  have "snd ` set (obj_of kvs') \<subseteq> snd ` set kvs'" for kvs' :: jobject
  proof -
    have "snd ` set (fold (\<lambda>(k, v). obj_insert k v) kvs' acc) \<subseteq> snd ` set kvs' \<union> snd ` set acc" for acc
    proof (induction kvs' arbitrary: acc)
      case (Cons x xs)
      show ?case using Cons [of "obj_insert (fst x) (snd x) acc"] snd_obj_insert [of "fst x" "snd x" acc]
        by (auto simp: case_prod_beta)
    qed simp
    from this [of "[]"] show ?thesis by (simp add: obj_of_def)
  qed
  from this [of "map (\<lambda>(k, v). (k, toml_to_json v)) kvs"] 6 show ?case by (fastforce simp: list_all_iff)
qed (auto simp: list_all_iff number_of_i64_def)

lemma def_of_fields:
  "def_of env i bc = Inr d \<Longrightarrow> def_id d = i \<and> wf_json (JObj (def_pin_args d))"
  using wf_toml_to_json [of "rb_pin_args bc"]
  by (auto simp: def_of_def pin_args_of_def simp del: wf_json.simps split: json.splits) simp_all

lemma defs_of_list: "defs_of env bs = Inr ds \<longleftrightarrow> map (\<lambda>(i, bc). def_of env i bc) bs = map Inr ds"
  by (induction bs arbitrary: ds) (auto simp: Cons_eq_map_conv)

lemma loaded_parts:
  assumes "load_config env explicit = Inr cfg" and "\<forall>bs. mset (ce_order env bs) = mset bs"
  obtains path raw doc rc bs where "find_config_file env explicit = Some path" and "ce_read env path = Inr raw"
    and "ce_toml env raw = Inr doc" and "raw_config_from doc = Some rc" and "mset bs = mset (rc_backends rc)"
    and "map (\<lambda>(i, bc). def_of env i bc) bs = map Inr (hc_backends cfg)" and "map def_id (hc_backends cfg) = map fst bs"
proof -
  from assms(1) obtain path raw doc rc where l: "find_config_file env explicit = Some path" "ce_read env path = Inr raw"
      "ce_toml env raw = Inr doc" "raw_config_from doc = Some rc"
      and ds: "defs_of env (ce_order env (rc_backends rc)) = Inr (hc_backends cfg)"
    by (auto simp: load_config_def split: option.splits)
  have e: "map (\<lambda>(i, bc). def_of env i bc) (ce_order env (rc_backends rc)) = map Inr (hc_backends cfg)"
    using ds by (simp add: defs_of_list)
  have "map (\<lambda>(i, bc). def_of env i bc) bs = map Inr ds \<Longrightarrow> map def_id ds = map fst bs" for bs ds
    by (induction bs arbitrary: ds) (auto simp: Cons_eq_map_conv dest: def_of_fields)
  from that [OF l _ e this [OF e]] assms(2) show thesis by blast
qed

lemma loaded_ids_distinct:
  assumes "load_config env explicit = Inr cfg" and "\<forall>bs. mset (ce_order env bs) = mset bs"
    and "\<forall>raw doc. ce_toml env raw = Inr doc \<longrightarrow> wf_toml doc"
  shows "distinct (map def_id (hc_backends cfg))"
proof (rule loaded_parts [OF assms(1,2)])
  fix path raw doc rc and bs :: "(string \<times> raw_backend) list"
  assume "ce_toml env raw = Inr doc" "raw_config_from doc = Some rc" "mset bs = mset (rc_backends rc)"
    and ids: "map def_id (hc_backends cfg) = map fst bs"
  then have "distinct (map fst (rc_backends rc))" using raw_backend_keys assms(3) by blast
  then show "distinct (map def_id (hc_backends cfg))"
    unfolding ids using \<open>mset bs = mset (rc_backends rc)\<close> by (metis mset_eq_imp_distinct_iff mset_map)
qed

text \<open>
  C16: A configuration that loads is complete and well-typed: every backend of the file gives exactly one
  definition, made from its own section under its own id, ids are unique, and the pinned arguments of a
  definition are a well-formed JSON object, whatever the file says and in whatever order the backends
  are visited.
\<close>

theorem loaded_config_well_typed:
  assumes "load_config env explicit = Inr cfg" and "\<forall>bs. mset (ce_order env bs) = mset bs"
    and "\<forall>raw doc. ce_toml env raw = Inr doc \<longrightarrow> wf_toml doc"
  shows "\<exists>path raw doc rc. find_config_file env explicit = Some path \<and> ce_read env path = Inr raw \<and>
    ce_toml env raw = Inr doc \<and> raw_config_from doc = Some rc \<and>
    (\<forall>d. d \<in> set (hc_backends cfg) \<longleftrightarrow> (\<exists>bc. (def_id d, bc) \<in> set (rc_backends rc) \<and> def_of env (def_id d) bc = Inr d)) \<and>
    length (hc_backends cfg) = length (rc_backends rc) \<and> distinct (map def_id (hc_backends cfg)) \<and>
    (\<forall>d \<in> set (hc_backends cfg). wf_json (JObj (def_pin_args d)))"
proof (rule loaded_parts [OF assms(1,2)])
  fix path raw doc rc bs
  assume l: "find_config_file env explicit = Some path" "ce_read env path = Inr raw" "ce_toml env raw = Inr doc"
      "raw_config_from doc = Some rc"
    and m: "mset bs = mset (rc_backends rc)" and e: "map (\<lambda>(i, bc). def_of env i bc) bs = map Inr (hc_backends cfg)"
    and ids: "map def_id (hc_backends cfg) = map fst bs"
  have s: "d \<in> set (hc_backends cfg) \<longleftrightarrow> (\<exists>i bc. (i, bc) \<in> set (rc_backends rc) \<and> def_of env i bc = Inr d)" for d
  proof -
    have "d \<in> set (hc_backends cfg) \<longleftrightarrow> Inr d \<in> set (map (\<lambda>(i, bc). def_of env i bc) bs)" unfolding e by auto
    also have "\<dots> \<longleftrightarrow> (\<exists>i bc. (i, bc) \<in> set (rc_backends rc) \<and> def_of env i bc = Inr d)"
      using mset_eq_setD [OF m] by force
    finally show ?thesis .
  qed
  moreover have "length (hc_backends cfg) = length (rc_backends rc)"
    using m ids by (metis length_map size_mset)
  ultimately show ?thesis using l def_of_fields loaded_ids_distinct [OF assms]
    by (intro exI [of _ path] exI [of _ raw] exI [of _ doc] exI [of _ rc]) blast
qed

theorem loaded_config_well_typed_witness:
  "\<exists>cfg. load_config sample_env (Some ''missing.toml'') = Inr cfg \<and> map def_id (hc_backends cfg) = [''a'', ''b''] \<and>
     distinct (map def_id (hc_backends cfg)) \<and>
     map def_pin_args (hc_backends cfg) = [[], [(''a'', JBool True), (''z'', JNum (NegInt (-1)))]]"
proof -
  have ok: "is_ok (load_config sample_env (Some ''missing.toml''))" by code_simp
  then obtain cfg where cfg: "load_config sample_env (Some ''missing.toml'') = Inr cfg" by (auto simp: is_ok_iff)
  have "wf_toml doc" if "ce_toml sample_env raw = Inr doc" for raw doc
    using that by (auto simp: sample_env_def)
  then have "\<forall>raw doc. ce_toml sample_env raw = Inr doc \<longrightarrow> wf_toml doc" by blast
  moreover have "\<forall>bs. mset (ce_order sample_env bs) = mset bs" by (simp add: sample_env_def)
  ultimately have "distinct (map def_id (hc_backends cfg))" using loaded_config_well_typed [OF cfg] by blast
  moreover have "map_sum (\<lambda>e. ()) (\<lambda>c. map (\<lambda>d. (def_id d, def_pin_args d)) (hc_backends c)) (load_config sample_env (Some ''missing.toml'')) =
      Inr [(''a'', []), (''b'', [(''a'', JBool True), (''z'', JNum (NegInt (-1)))])]"
    by code_simp
  ultimately show ?thesis using cfg by (auto simp: Cons_eq_map_conv)
qed

end
