(* ===== verification/Hub_Http_Text.thy ===== *)
theory Hub_Http_Text
  imports Hub_JsonRpc Hub_Sse Hub_Protocol
begin

text \<open>
  The pure functions of \<open>crates/backends/backend-http/src/lib.rs\<close>: the JSON of a response body, the
  error that means a lost session, the protocol version of a request, and the arguments that are
  mirrored into request headers with the encoding of their values.
\<close>

section \<open>Reading bytes as text\<close>

text \<open>
  \<open>String::from_utf8_lossy\<close>: every maximal prefix of a character that cannot be completed is replaced by
  U+FFFD.  \<open>utf8_step\<close> gives the length of the next piece and whether it is a character.
\<close>

definition cont :: "string \<Rightarrow> nat \<Rightarrow> bool" where
  "cont s i = (i < length s \<and> 128 \<le> (of_char (s ! i) :: nat) \<and> (of_char (s ! i) :: nat) \<le> 191)"

definition second_ok :: "nat \<Rightarrow> string \<Rightarrow> bool" where
  "second_ok n s =
     (cont s 1 \<and> (n = 224 \<longrightarrow> 160 \<le> (of_char (s ! 1) :: nat)) \<and> (n = 237 \<longrightarrow> (of_char (s ! 1) :: nat) \<le> 159) \<and>
      (n = 240 \<longrightarrow> 144 \<le> (of_char (s ! 1) :: nat)) \<and> (n = 244 \<longrightarrow> (of_char (s ! 1) :: nat) \<le> 143))"

definition utf8_step :: "char \<Rightarrow> string \<Rightarrow> nat \<times> bool" where
  "utf8_step c s =
     (let n = of_char c :: nat in
      if n < 128 then (1, True)
      else if 194 \<le> n \<and> n \<le> 223 then (if cont s 1 then (2, True) else (1, False))
      else if 224 \<le> n \<and> n \<le> 239 then
        (if \<not> second_ok n s then (1, False) else if \<not> cont s 2 then (2, False) else (3, True))
      else if 240 \<le> n \<and> n \<le> 244 then
        (if \<not> second_ok n s then (1, False) else if \<not> cont s 2 then (2, False)
         else if \<not> cont s 3 then (3, False) else (4, True))
      else (1, False))"

definition REPLACEMENT :: string where "REPLACEMENT = [CHR 0xEF, CHR 0xBF, CHR 0xBD]"

function from_utf8_lossy :: "string \<Rightarrow> string" where
  "from_utf8_lossy [] = []"
| "from_utf8_lossy (c # s) =
     (let (n, ok) = utf8_step c (c # s)
      in (if ok then take n (c # s) else REPLACEMENT) @ from_utf8_lossy (drop (n - 1) s))"
  by pat_completeness auto
termination by (relation "measure length") auto

section \<open>Response bodies\<close>

definition json_payload :: "string \<Rightarrow> string option" where
  "json_payload response_bytes =
     (let body = from_utf8_lossy response_bytes in
      if \<not> (starts_with body ''event:'' \<or> starts_with body ''data:'') then Some response_bytes
      else (case snd (feed sse_new body) of
              [] \<Rightarrow> None
            | event # _ \<Rightarrow> Some (ev_data event)))"

definition session_not_initialized :: "codec \<Rightarrow> string \<Rightarrow> string option" where
  "session_not_initialized c response_bytes =
     (case json_payload response_bytes of
        None \<Rightarrow> None
      | Some payload \<Rightarrow>
          (case decode_message c payload of
             Inr (ErrorResponse resp) \<Rightarrow>
               (let code = rpc_code (err_error resp);
                    lost = (code = -32600 \<or> (-32099 \<le> sint code \<and> sint code \<le> -32000)) \<and>
                      contains_sub (ascii_lower (rpc_message (err_error resp))) ''not initialized''
                in if lost then Some ''session is not initialized'' else None)
           | _ \<Rightarrow> None))"

definition display_i64 :: "i64 \<Rightarrow> string" where
  "display_i64 w = (if sint w < 0 then ''-'' @ digits_of (nat (- sint w)) else digits_of (nat (sint w)))"

text \<open>The text of a decoding error, as its \<open>Display\<close> writes it.\<close>

definition display_rpc_error :: "jsonrpc_error \<Rightarrow> string" where
  "display_rpc_error e = ''JSON-RPC error '' @ display_i64 (rpc_code e) @ '': '' @ rpc_message e"

definition parse_response :: "codec \<Rightarrow> string \<Rightarrow> string \<Rightarrow> backend_error + json" where
  "parse_response c response_bytes backend_id =
     (case json_payload response_bytes of
        None \<Rightarrow> Inl (backend_error_new Protocol (''empty SSE response from '' @ sq backend_id))
      | Some json_bytes \<Rightarrow>
          (case decode_message c json_bytes of
             Inl e \<Rightarrow> Inl (backend_error_new Protocol
               (''failed to decode response from '' @ sq backend_id @ '': '' @ display_rpc_error e))
           | Inr (SuccessResponse resp) \<Rightarrow> Inr (ok_result resp)
           | Inr (ErrorResponse resp) \<Rightarrow> Inl (backend_error_new Protocol
               (''backend '' @ sq backend_id @ '' returned error (code '' @ display_i64 (rpc_code (err_error resp)) @
                ''): '' @ rpc_message (err_error resp)))
           | Inr _ \<Rightarrow> Inl (backend_error_new Protocol ''unexpected response type'')))"

section \<open>Request headers\<close>

definition modern_version :: "json option \<Rightarrow> string option" where
  "modern_version params =
     Option.bind params (\<lambda>p. Option.bind (get_key p ''_meta'') (\<lambda>m.
       Option.bind (get_key m META_PROTOCOL_VERSION) as_str))"

text \<open>\<open>x-mcp-header\<close> annotations reachable through \<open>properties\<close> keys only.\<close>

type_synonym param_headers = "(string list \<times> string) list"

definition annotation :: "string list \<Rightarrow> json \<Rightarrow> param_headers" where
  "annotation path prop =
     (let primitive = Option.bind (get_key prop ''type'') as_str \<in> {Some ''string'', Some ''integer'', Some ''boolean''}
      in case Option.bind (get_key prop ''x-mcp-header'') as_str of
           Some name \<Rightarrow> (if primitive then [(path, name)] else [])
         | None \<Rightarrow> [])"

lemma get_key_size: "get_key v k = Some x \<Longrightarrow> size x < size v"
proof (cases v)
  case (JObj kvs)
  assume "get_key v k = Some x"
  with JObj have "(k, x) \<in> set kvs" by (auto dest: map_of_SomeD)
  then show ?thesis unfolding JObj by (induction kvs) auto
qed auto

lemma object_size: "as_object v = Some kvs \<Longrightarrow> (k, x) \<in> set kvs \<Longrightarrow> size x < size v"
proof (cases v)
  case (JObj kvs')
  assume "as_object v = Some kvs" "(k, x) \<in> set kvs"
  with JObj have "(k, x) \<in> set kvs'" by simp
  then show ?thesis unfolding JObj by (induction kvs') auto
qed auto

definition properties :: "json \<Rightarrow> jobject" where
  "properties schema =
     (case Option.bind (get_key schema ''properties'') as_object of Some props \<Rightarrow> props | None \<Rightarrow> [])"

lemma properties_size: "(k, x) \<in> set (properties schema) \<Longrightarrow> size x < size schema"
  by (auto simp: properties_def split: option.splits bind_splits dest!: get_key_size object_size [OF sym])

function walk :: "json \<Rightarrow> string list \<Rightarrow> param_headers" where
  "walk schema path =
     concat (map (\<lambda>(key, prop). annotation (path @ [key]) prop @ walk prop (path @ [key])) (properties schema))"
  by pat_completeness auto
termination
  by (relation "measure (\<lambda>(v, p). size v)") (auto dest: properties_size)

declare walk.simps [simp del]

definition param_header_paths :: "json \<Rightarrow> param_headers" where
  "param_header_paths schema = walk schema []"

fun display_number :: "number \<Rightarrow> string option" where
  "display_number (PosInt w) = Some (digits_of (unat w))"
| "display_number (NegInt w) = Some (display_i64 w)"
| "display_number (Float b) = None"

fun header_text :: "json \<Rightarrow> string option" where
  "header_text (JStr s) = Some s"
| "header_text (JBool b) = Some (if b then ''true'' else ''false'')"
| "header_text (JNum n) = display_number n"
| "header_text v = None"

definition printable :: "string \<Rightarrow> bool" where
  "printable s = list_all (\<lambda>c. 32 \<le> (of_char c :: nat) \<and> (of_char c :: nat) \<le> 126) s"

definition encode_header_value :: "(string \<Rightarrow> string) \<Rightarrow> string \<Rightarrow> string" where
  "encode_header_value b64 v =
     (let plain = printable v \<and> \<not> starts_with v '' '' \<and> \<not> ends_with v '' '' \<and>
        \<not> (starts_with v ''=?base64?'' \<and> ends_with v ''?='')
      in if plain then v else ''=?base64?'' @ b64 v @ ''?='')"

fun arg_at :: "string list \<Rightarrow> json \<Rightarrow> json option" where
  "arg_at [] v = Some v"
| "arg_at (key # path) v = Option.bind (get_key v key) (arg_at path)"

end
