(* ===== verification/Hub_Secrets.thy ===== *)
theory Hub_Secrets
  imports Hub_Prelude
begin

text \<open>
  Secrets at rest (\<open>crates/secrets/src\<close>): the master key, the encrypted store file, its atomic
  rewrite, and the three operations of the store.  The cipher, base64, the random generator and the
  JSON text of the store file are external and are parameters; the file system is the one file the
  store owns, a temporary file beside it, and a schedule of the failures of the calls to come.
\<close>

section \<open>Errors and the file system\<close>

datatype secret_error =
    Io string
  | MissingMasterKey
  | InvalidMasterKey string
  | EmptyKey
  | EncryptionFailed string
  | DecryptionFailed string
  | Corrupted string

text \<open>
  A file is its bytes and its permission bits, unknown until they are set.  The head of
  \<open>sw_faults\<close> is the outcome of the next call: \<open>None\<close> succeeds; past its end every call succeeds.
\<close>

record 'r secret_world =
  sw_file :: "(string \<times> nat option) option"
  sw_temp :: "(string \<times> nat option) option"
  sw_faults :: "string option list"
  sw_rng :: 'r

type_synonym ('r, 'a) io = "'r secret_world \<Rightarrow> (secret_error + 'a) \<times> 'r secret_world"

definition io_call :: "('r, unit) io" where
  "io_call w =
     (case sw_faults w of
        [] \<Rightarrow> (Inr (), w)
      | None # fs \<Rightarrow> (Inr (), w\<lparr>sw_faults := fs\<rparr>)
      | Some e # fs \<Rightarrow> (Inl (Io e), w\<lparr>sw_faults := fs\<rparr>))"

definition bind_io :: "('r, 'a) io \<Rightarrow> ('a \<Rightarrow> ('r, 'b) io) \<Rightarrow> ('r, 'b) io" where
  "bind_io m f w = (case m w of (Inl e, w') \<Rightarrow> (Inl e, w') | (Inr x, w') \<Rightarrow> f x w')"

definition return_io :: "'a \<Rightarrow> ('r, 'a) io" where
  "return_io x w = (Inr x, w)"

definition lift_io :: "secret_error + 'a \<Rightarrow> ('r, 'a) io" where
  "lift_io r w = (r, w)"

section \<open>Master key\<close>

definition KEY_LEN_BYTES :: nat where "KEY_LEN_BYTES = 32"

definition NONCE_LEN_BYTES :: nat where "NONCE_LEN_BYTES = 12"

text \<open>A stored secret, and the external functions.\<close>

record stored_secret =
  st_nonce :: string
  st_ciphertext :: string

type_synonym store_file = "(string \<times> stored_secret) list"

record 'r secret_lib =
  sl_hex_decode :: "string \<Rightarrow> string option"
  sl_encrypt :: "string \<Rightarrow> string \<Rightarrow> string \<Rightarrow> string option"
  sl_decrypt :: "string \<Rightarrow> string \<Rightarrow> string \<Rightarrow> string option"
  sl_b64_encode :: "string \<Rightarrow> string"
  sl_b64_decode :: "string \<Rightarrow> string option"
  sl_random :: "nat \<Rightarrow> 'r \<Rightarrow> string \<times> 'r"
  sl_store_text :: "store_file \<Rightarrow> string"
  sl_store_parse :: "string \<Rightarrow> string + store_file"

definition master_key_from_hex :: "'r secret_lib \<Rightarrow> string \<Rightarrow> secret_error + string" where
  "master_key_from_hex lib hex_str =
     (case sl_hex_decode lib (trim hex_str) of
        None \<Rightarrow> Inl (InvalidMasterKey ''master key must be valid hex'')
      | Some decoded \<Rightarrow>
          (if length decoded = KEY_LEN_BYTES then Inr decoded
           else Inl (InvalidMasterKey (''master key must decode to '' @ digits_of KEY_LEN_BYTES @ '' bytes, got '' @
                  digits_of (length decoded)))))"

definition master_key_from_env :: "'r secret_lib \<Rightarrow> (string \<Rightarrow> string option) \<Rightarrow> secret_error + string" where
  "master_key_from_env lib env =
     (case env ''HEADLESS_MCP_MASTER_KEY'' of
        None \<Rightarrow> Inl MissingMasterKey
      | Some raw \<Rightarrow> master_key_from_hex lib raw)"

section \<open>Atomic write\<close>

definition create_dir_all :: "('r, unit) io" where "create_dir_all = io_call"

definition new_temp_file :: "('r, unit) io" where
  "new_temp_file = bind_io io_call (\<lambda>u w. (Inr (), w\<lparr>sw_temp := Some ([], None)\<rparr>))"

definition temp_write_all :: "string \<Rightarrow> ('r, unit) io" where
  "temp_write_all contents = bind_io io_call (\<lambda>u w. (Inr (), w\<lparr>sw_temp := map_option (\<lambda>(b, m). (b @ contents, m)) (sw_temp w)\<rparr>))"

definition temp_sync_all :: "('r, unit) io" where "temp_sync_all = io_call"

definition set_owner_only_permissions :: "('r, unit) io" where
  "set_owner_only_permissions =
     bind_io io_call (\<lambda>u. bind_io io_call (\<lambda>v w. (Inr (), w\<lparr>sw_temp := map_option (\<lambda>(b, m). (b, Some 384)) (sw_temp w)\<rparr>)))"

definition persist :: "('r, unit) io" where
  "persist = bind_io io_call (\<lambda>u w. (Inr (), w\<lparr>sw_file := sw_temp w, sw_temp := None\<rparr>))"

text \<open>A temporary file that is not persisted is removed when its handle goes out of scope.\<close>

definition drop_temp_on_error :: "('r, unit) io \<Rightarrow> ('r, unit) io" where
  "drop_temp_on_error m w = (case m w of (Inl e, w') \<Rightarrow> (Inl e, w'\<lparr>sw_temp := None\<rparr>) | (Inr u, w') \<Rightarrow> (Inr u, w'))"

definition write_atomic :: "string \<Rightarrow> ('r, unit) io" where
  "write_atomic contents =
     bind_io create_dir_all (\<lambda>u. drop_temp_on_error
       (bind_io new_temp_file (\<lambda>u. bind_io (temp_write_all contents) (\<lambda>u. bind_io temp_sync_all
         (\<lambda>u. bind_io set_owner_only_permissions (\<lambda>u. persist))))))"

section \<open>The store\<close>

record file_store =
  fs_key :: string

definition with_master_key_hex :: "'r secret_lib \<Rightarrow> string \<Rightarrow> secret_error + file_store" where
  "with_master_key_hex lib hex = map_sum id (\<lambda>k. \<lparr>fs_key = k\<rparr>) (master_key_from_hex lib hex)"

definition from_env :: "'r secret_lib \<Rightarrow> (string \<Rightarrow> string option) \<Rightarrow> secret_error + file_store" where
  "from_env lib env = map_sum id (\<lambda>k. \<lparr>fs_key = k\<rparr>) (master_key_from_env lib env)"

definition read_file :: "'r secret_lib \<Rightarrow> ('r, store_file) io" where
  "read_file lib w =
     (case sw_file w of
        None \<Rightarrow> (Inr [], w)
      | Some (bytes, mode) \<Rightarrow>
          bind_io io_call
            (\<lambda>u. if bytes = [] then return_io []
                 else lift_io (case sl_store_parse lib bytes of
                        Inr file \<Rightarrow> Inr file
                      | Inl source \<Rightarrow> Inl (Corrupted (''failed to parse secret store file: '' @ source)))) w)"

definition write_file :: "'r secret_lib \<Rightarrow> store_file \<Rightarrow> ('r, unit) io" where
  "write_file lib file = write_atomic (sl_store_text lib file)"

definition encrypt :: "'r secret_lib \<Rightarrow> file_store \<Rightarrow> string \<Rightarrow> string \<Rightarrow> ('r, stored_secret) io" where
  "encrypt lib fs key plaintext w =
     (let (nonce_bytes, rng') = sl_random lib NONCE_LEN_BYTES (sw_rng w); w' = w\<lparr>sw_rng := rng'\<rparr>
      in case sl_encrypt lib (fs_key fs) nonce_bytes plaintext of
           None \<Rightarrow> (Inl (EncryptionFailed key), w')
         | Some ciphertext \<Rightarrow>
             (Inr \<lparr>st_nonce = sl_b64_encode lib nonce_bytes, st_ciphertext = sl_b64_encode lib ciphertext\<rparr>, w'))"

definition decrypt :: "'r secret_lib \<Rightarrow> file_store \<Rightarrow> string \<Rightarrow> stored_secret \<Rightarrow> secret_error + string" where
  "decrypt lib fs key stored =
     (case sl_b64_decode lib (st_nonce stored) of
        None \<Rightarrow> Inl (Corrupted (''nonce for key '' @ sq key @ '' is not valid base64''))
      | Some nonce_bytes \<Rightarrow>
          (case sl_b64_decode lib (st_ciphertext stored) of
             None \<Rightarrow> Inl (Corrupted (''ciphertext for key '' @ sq key @ '' is not valid base64''))
           | Some ciphertext \<Rightarrow>
               (if length nonce_bytes \<noteq> NONCE_LEN_BYTES then
                  Inl (Corrupted (''nonce for key '' @ sq key @ '' has the wrong length''))
                else (case sl_decrypt lib (fs_key fs) nonce_bytes ciphertext of
                        None \<Rightarrow> Inl (DecryptionFailed key)
                      | Some plaintext \<Rightarrow> Inr plaintext))))"

definition validate_key :: "string \<Rightarrow> secret_error + unit" where
  "validate_key key = (if key = [] then Inl EmptyKey else Inr ())"

text \<open>\<open>String::from_utf8\<close> accepts exactly the well-formed UTF-8 byte sequences.\<close>

definition continuation :: "char \<Rightarrow> bool" where
  "continuation c = (let n = (of_char c :: nat) in 128 \<le> n \<and> n \<le> 191)"

fun valid_utf8 :: "string \<Rightarrow> bool" where
  "valid_utf8 [] = True"
| "valid_utf8 (a # r) =
     (let n = (of_char a :: nat) in
      if n \<le> 127 then valid_utf8 r
      else case r of
        [] \<Rightarrow> False
      | b # r2 \<Rightarrow>
          (let m = (of_char b :: nat) in
           if 194 \<le> n \<and> n \<le> 223 then continuation b \<and> valid_utf8 r2
           else case r2 of
             [] \<Rightarrow> False
           | c # r3 \<Rightarrow>
               if 224 \<le> n \<and> n \<le> 239 then
                 continuation b \<and> continuation c \<and> (n = 224 \<longrightarrow> 160 \<le> m) \<and> (n = 237 \<longrightarrow> m \<le> 159) \<and> valid_utf8 r3
               else case r3 of
                 [] \<Rightarrow> False
               | d # r4 \<Rightarrow>
                   240 \<le> n \<and> n \<le> 244 \<and> continuation b \<and> continuation c \<and> continuation d \<and>
                   (n = 240 \<longrightarrow> 144 \<le> m) \<and> (n = 244 \<longrightarrow> m \<le> 143) \<and> valid_utf8 r4))"

definition store_get :: "'r secret_lib \<Rightarrow> file_store \<Rightarrow> string \<Rightarrow> ('r, string option) io" where
  "store_get lib fs key =
     bind_io (lift_io (validate_key key)) (\<lambda>u.
       bind_io (read_file lib) (\<lambda>file.
         case map_of file key of
           None \<Rightarrow> return_io None
         | Some stored \<Rightarrow>
             bind_io (lift_io (decrypt lib fs key stored)) (\<lambda>plaintext.
               if valid_utf8 plaintext then return_io (Some plaintext)
               else lift_io (Inl (DecryptionFailed key)))))"

definition store_set :: "'r secret_lib \<Rightarrow> file_store \<Rightarrow> string \<Rightarrow> string \<Rightarrow> ('r, unit) io" where
  "store_set lib fs key v =
     bind_io (lift_io (validate_key key)) (\<lambda>u.
       bind_io (read_file lib) (\<lambda>file.
         bind_io (encrypt lib fs key v) (\<lambda>stored.
           write_file lib (AList.update key stored file))))"

definition store_delete :: "'r secret_lib \<Rightarrow> file_store \<Rightarrow> string \<Rightarrow> ('r, unit) io" where
  "store_delete lib fs key =
     bind_io (lift_io (validate_key key)) (\<lambda>u.
       bind_io (read_file lib) (\<lambda>file. write_file lib (AList.delete key file)))"

section \<open>What is relied on of the external parts\<close>

text \<open>
  Documented behaviour: decryption under the same key and nonce inverts encryption, base64 decoding
  inverts encoding, the generator fills the buffer it is given, and reading the text of a store file
  gives the same map (its keys are written in order).
\<close>

definition secret_lib_ok :: "'r secret_lib \<Rightarrow> bool" where
  "secret_lib_ok lib \<longleftrightarrow>
     (\<forall>k n p c. sl_encrypt lib k n p = Some c \<longrightarrow> sl_decrypt lib k n c = Some p) \<and>
     (\<forall>b. sl_b64_decode lib (sl_b64_encode lib b) = Some b) \<and>
     (\<forall>n r. length (fst (sl_random lib n r)) = n) \<and>
     (\<forall>file. sl_store_text lib file \<noteq> [] \<and>
        (\<exists>file'. sl_store_parse lib (sl_store_text lib file) = Inr file' \<and> map_of file' = map_of file))"

section \<open>Lemmas\<close>

lemma bind_io_Inr: "bind_io m f w = (Inr y, w') \<longleftrightarrow> (\<exists>x w1. m w = (Inr x, w1) \<and> f x w1 = (Inr y, w'))"
  by (auto simp: bind_io_def split: prod.splits sum.splits)

lemma bind_io_Inl:
  "bind_io m f w = (Inl e, w') \<longleftrightarrow> m w = (Inl e, w') \<or> (\<exists>x w1. m w = (Inr x, w1) \<and> f x w1 = (Inl e, w'))"
  by (auto simp: bind_io_def split: prod.splits sum.splits)

lemma io_call_file: "io_call w = (r, w') \<Longrightarrow> sw_file w' = sw_file w \<and> sw_temp w' = sw_temp w \<and> sw_rng w' = sw_rng w"
  by (auto simp: io_call_def split: list.splits option.splits)

lemma io_call_no_faults [simp]: "sw_faults w = [] \<Longrightarrow> io_call w = (Inr (), w)"
  by (simp add: io_call_def)

named_theorems io_simps

lemmas io_defs [io_simps] = bind_io_Inr bind_io_Inl return_io_def lift_io_def

lemmas write_steps = create_dir_all_def new_temp_file_def temp_write_all_def temp_sync_all_def
  set_owner_only_permissions_def persist_def

lemma drop_temp_Inr: "drop_temp_on_error m w = (Inr u, w') \<longleftrightarrow> m w = (Inr u, w')"
  by (auto simp: drop_temp_on_error_def split: prod.splits sum.splits)

lemma drop_temp_Inl:
  "drop_temp_on_error m w = (Inl e, w') \<longleftrightarrow> (\<exists>w1. m w = (Inl e, w1) \<and> w' = w1\<lparr>sw_temp := None\<rparr>)"
  by (auto simp: drop_temp_on_error_def split: prod.splits sum.splits)

lemma write_atomic_ok:
  "write_atomic x w = (Inr u, w') \<Longrightarrow> sw_file w' = Some (x, Some 384) \<and> sw_temp w' = None"
  by (auto simp: write_atomic_def drop_temp_Inr write_steps bind_io_Inr dest!: io_call_file)

lemma write_atomic_err:
  assumes "write_atomic x w = (Inl e, w')"
  shows "sw_file w' = sw_file w"
  using assms
  by (auto simp: write_atomic_def drop_temp_Inl write_steps bind_io_Inr bind_io_Inl dest!: io_call_file)

lemma write_atomic_no_faults:
  "sw_faults w = [] \<Longrightarrow> \<exists>w'. write_atomic x w = (Inr (), w') \<and> sw_faults w' = []"
  by (simp add: write_atomic_def drop_temp_on_error_def write_steps bind_io_def)

lemma read_file_keeps: "read_file lib w = (r, w') \<Longrightarrow> sw_file w' = sw_file w"
  by (auto simp: read_file_def bind_io_def return_io_def lift_io_def dest: io_call_file
      split: option.splits prod.splits sum.splits if_splits)

lemma encrypt_keeps: "encrypt lib fs key v w = (r, w') \<Longrightarrow> sw_file w' = sw_file w"
  by (auto simp: encrypt_def Let_def split: prod.splits option.splits)

lemma store_get_keeps: "store_get lib fs key w = (r, w') \<Longrightarrow> sw_file w' = sw_file w"
  by (cases r) (auto simp: store_get_def io_simps split: option.splits if_splits dest!: read_file_keeps)

lemma store_set_err: "store_set lib fs key v w = (Inl e, w') \<Longrightarrow> sw_file w' = sw_file w"
  by (auto simp: store_set_def io_simps write_file_def dest!: read_file_keeps encrypt_keeps write_atomic_err)

lemma store_set_ok:
  "store_set lib fs key v w = (Inr u, w') \<Longrightarrow> \<exists>file stored w1. read_file lib w = (Inr file, w1) \<and>
     sw_file w' = Some (sl_store_text lib (AList.update key stored file), Some 384)"
  by (auto simp: store_set_def io_simps write_file_def dest!: write_atomic_ok)

lemma store_delete_err: "store_delete lib fs key w = (Inl e, w') \<Longrightarrow> sw_file w' = sw_file w"
  by (auto simp: store_delete_def io_simps write_file_def dest!: read_file_keeps write_atomic_err)

lemma store_delete_ok:
  "store_delete lib fs key w = (Inr u, w') \<Longrightarrow> \<exists>file w1. read_file lib w = (Inr file, w1) \<and>
     sw_file w' = Some (sl_store_text lib (AList.delete key file), Some 384)"
  by (auto simp: store_delete_def io_simps write_file_def dest!: write_atomic_ok)

section \<open>Properties of the file\<close>

text \<open>
  C29: The store file is rewritten all or nothing: a successful set or delete leaves the complete new
  text with owner-only permissions, and one that fails at any point (directory, temporary file, write,
  sync, permissions, rename, reading, parsing, encryption, an empty key) leaves the file exactly as it
  was; reading never changes it.
\<close>

theorem store_file_all_or_nothing:
  "sw_file (snd (store_get lib fs key w)) = sw_file w \<and>
   (case store_set lib fs key v w of
      (Inl e, w') \<Rightarrow> sw_file w' = sw_file w
    | (Inr u, w') \<Rightarrow> \<exists>file stored w1. read_file lib w = (Inr file, w1) \<and>
        sw_file w' = Some (sl_store_text lib (AList.update key stored file), Some 384)) \<and>
   (case store_delete lib fs key w of
      (Inl e, w') \<Rightarrow> sw_file w' = sw_file w
    | (Inr u, w') \<Rightarrow> \<exists>file w1. read_file lib w = (Inr file, w1) \<and>
        sw_file w' = Some (sl_store_text lib (AList.delete key file), Some 384))"
proof (intro conjI)
  show "sw_file (snd (store_get lib fs key w)) = sw_file w"
    by (metis store_get_keeps prod.collapse)
next
  obtain r w' where s: "store_set lib fs key v w = (r, w')" by fastforce
  show "case store_set lib fs key v w of
      (Inl e, w') \<Rightarrow> sw_file w' = sw_file w
    | (Inr u, w') \<Rightarrow> \<exists>file stored w1. read_file lib w = (Inr file, w1) \<and>
        sw_file w' = Some (sl_store_text lib (AList.update key stored file), Some 384)"
  proof (cases r)
    case (Inl e)
    from store_set_err [OF s [unfolded Inl]] show ?thesis by (simp add: s Inl)
  next
    case (Inr u)
    from store_set_ok [OF s [unfolded Inr]] show ?thesis by (simp add: s Inr)
  qed
qed (auto split: prod.splits sum.splits dest: store_delete_err store_delete_ok)

section \<open>The secret store contract\<close>

text \<open>
  What a client of \<open>SecretStore\<close> relies on, in the worlds where the store is usable: a value that was
  set is read back, under its key only; a deleted one is gone; reading disturbs nothing and an
  operation that fails changes nothing.
\<close>

locale secret_store =
  fixes usable :: "'w \<Rightarrow> bool"
    and get :: "string \<Rightarrow> 'w \<Rightarrow> ('e + string option) \<times> 'w"
    and put :: "string \<Rightarrow> string \<Rightarrow> 'w \<Rightarrow> ('e + unit) \<times> 'w"
    and del :: "string \<Rightarrow> 'w \<Rightarrow> ('e + unit) \<times> 'w"
  assumes get_stable: "usable w \<Longrightarrow> get k w = (r, w') \<Longrightarrow> usable w' \<and> fst (get j w') = fst (get j w)"
    and put_get: "usable w \<Longrightarrow> valid_utf8 v \<Longrightarrow> put k v w = (Inr u, w') \<Longrightarrow>
        usable w' \<and> fst (get j w') = (if j = k then Inr (Some v) else fst (get j w))"
    and put_fails: "usable w \<Longrightarrow> put k v w = (Inl e, w') \<Longrightarrow> usable w' \<and> fst (get j w') = fst (get j w)"
    and del_get: "usable w \<Longrightarrow> del k w = (Inr u, w') \<Longrightarrow>
        usable w' \<and> fst (get j w') = (if j = k then Inr None else fst (get j w))"
    and del_fails: "usable w \<Longrightarrow> del k w = (Inl e, w') \<Longrightarrow> usable w' \<and> fst (get j w') = fst (get j w)"
begin

lemma put_put: "usable w \<Longrightarrow> valid_utf8 v \<Longrightarrow> valid_utf8 v' \<Longrightarrow> put k v w = (Inr u, w1) \<Longrightarrow> put k' v' w1 = (Inr u', w2) \<Longrightarrow>
    fst (get j w2) = (if j = k' then Inr (Some v') else if j = k then Inr (Some v) else fst (get j w))"
  by (metis put_get)

lemma put_del: "usable w \<Longrightarrow> valid_utf8 v \<Longrightarrow> put k v w = (Inr u, w1) \<Longrightarrow> del k w1 = (Inr u', w2) \<Longrightarrow>
    fst (get j w2) = (if j = k then Inr None else fst (get j w))"
  by (metis del_get put_get)

end

definition store_usable :: "'r secret_lib \<Rightarrow> 'r secret_world \<Rightarrow> bool" where
  "store_usable lib w \<longleftrightarrow> secret_lib_ok lib \<and> sw_faults w = []"

text \<open>Without pending failures, what is read depends on the file alone.\<close>

definition file_contents :: "'r secret_lib \<Rightarrow> (string \<times> nat option) option \<Rightarrow> secret_error + store_file" where
  "file_contents lib f =
     (case f of
        None \<Rightarrow> Inr []
      | Some (bytes, mode) \<Rightarrow>
          (if bytes = [] then Inr []
           else case sl_store_parse lib bytes of
             Inr file \<Rightarrow> Inr file
           | Inl source \<Rightarrow> Inl (Corrupted (''failed to parse secret store file: '' @ source))))"

lemma read_file_contents: "sw_faults w = [] \<Longrightarrow> read_file lib w = (file_contents lib (sw_file w), w)"
  by (auto simp: read_file_def file_contents_def bind_io_def return_io_def lift_io_def split: option.splits)

definition get_result :: "'r secret_lib \<Rightarrow> file_store \<Rightarrow> string \<Rightarrow> (string \<rightharpoonup> stored_secret) \<Rightarrow> secret_error + string option" where
  "get_result lib fs key m =
     (case m key of
        None \<Rightarrow> Inr None
      | Some stored \<Rightarrow>
          (case decrypt lib fs key stored of
             Inl e \<Rightarrow> Inl e
           | Inr p \<Rightarrow> if valid_utf8 p then Inr (Some p) else Inl (DecryptionFailed key)))"

lemma store_get_result:
  "sw_faults w = [] \<Longrightarrow> store_get lib fs key w =
     (if key = [] then Inl EmptyKey
      else case file_contents lib (sw_file w) of Inl e \<Rightarrow> Inl e | Inr file \<Rightarrow> get_result lib fs key (map_of file), w)"
  by (auto simp: store_get_def validate_key_def bind_io_def return_io_def lift_io_def read_file_contents get_result_def
      split: option.splits sum.splits)


lemma file_contents_text:
  assumes "secret_lib_ok lib"
  shows "\<exists>file'. file_contents lib (Some (sl_store_text lib file, m)) = Inr file' \<and> map_of file' = map_of file"
proof -
  from assms obtain file' where "sl_store_parse lib (sl_store_text lib file) = Inr file'" "map_of file' = map_of file"
    unfolding secret_lib_ok_def by blast
  moreover from assms have "sl_store_text lib file \<noteq> []" unfolding secret_lib_ok_def by blast
  ultimately show ?thesis by (simp add: file_contents_def)
qed

lemma no_faults_keep:
  "sw_faults w = [] \<Longrightarrow> write_atomic x w = (r, w') \<Longrightarrow> sw_faults w' = []"
  "sw_faults w = [] \<Longrightarrow> encrypt lib fs key v w = (e, w') \<Longrightarrow> sw_faults w' = []"
  using write_atomic_no_faults [of w x]
  by (auto simp: encrypt_def Let_def split: prod.splits option.splits)

lemma encrypt_decrypts:
  assumes "secret_lib_ok lib" and "encrypt lib fs key v w = (Inr stored, w')"
  shows "decrypt lib fs key stored = Inr v"
proof -
  obtain n r where n: "sl_random lib NONCE_LEN_BYTES (sw_rng w) = (n, r)" by fastforce
  with assms obtain c where c: "sl_encrypt lib (fs_key fs) n v = Some c"
      "stored = \<lparr>st_nonce = sl_b64_encode lib n, st_ciphertext = sl_b64_encode lib c\<rparr>"
    by (auto simp: encrypt_def Let_def split: option.splits)
  have "length n = NONCE_LEN_BYTES" using assms(1) n unfolding secret_lib_ok_def by (metis fst_conv)
  moreover have "sl_decrypt lib (fs_key fs) n c = Some v" using assms(1) c(1) unfolding secret_lib_ok_def by blast
  ultimately show ?thesis using assms(1) c(2) by (simp add: decrypt_def secret_lib_ok_def)
qed

lemma store_put_get:
  assumes use: "store_usable lib w" and v: "valid_utf8 v" and put: "store_set lib fs k v w = (Inr u, w')"
  shows "store_usable lib w' \<and>
    fst (store_get lib fs j w') = (if j = k then Inr (Some v) else fst (store_get lib fs j w))"
proof -
  have lib: "secret_lib_ok lib" and nf: "sw_faults w = []" using use by (auto simp: store_usable_def)
  from put obtain fl stored w2 where k: "k \<noteq> []" and f: "file_contents lib (sw_file w) = Inr fl"
      and e: "encrypt lib fs k v w = (Inr stored, w2)"
      and wr: "write_atomic (sl_store_text lib (AList.update k stored fl)) w2 = (Inr (), w')"
    by (auto simp: store_set_def io_simps validate_key_def read_file_contents [OF nf] write_file_def split: if_splits)
  have nf': "sw_faults w' = []" using no_faults_keep nf e wr by metis
  have written: "sw_file w' = Some (sl_store_text lib (AList.update k stored fl), Some 384)"
    using write_atomic_ok [OF wr] by simp
  obtain fl' where fl': "file_contents lib (sw_file w') = Inr fl'" "map_of fl' = (map_of fl)(k \<mapsto> stored)"
    using file_contents_text [OF lib, of "AList.update k stored fl" "Some 384"] by (auto simp: written map_of_update)
  have "fst (store_get lib fs j w') = (if j = k then Inr (Some v) else fst (store_get lib fs j w))"
    using k f v encrypt_decrypts [OF lib e] by (simp add: store_get_result nf nf' fl' get_result_def)
  with lib nf' show ?thesis by (simp add: store_usable_def)
qed

lemma store_del_get:
  assumes use: "store_usable lib w" and del: "store_delete lib fs k w = (Inr u, w')"
  shows "store_usable lib w' \<and>
    fst (store_get lib fs j w') = (if j = k then Inr None else fst (store_get lib fs j w))"
proof -
  have lib: "secret_lib_ok lib" and nf: "sw_faults w = []" using use by (auto simp: store_usable_def)
  from del obtain fl where k: "k \<noteq> []" and f: "file_contents lib (sw_file w) = Inr fl"
      and wr: "write_atomic (sl_store_text lib (AList.delete k fl)) w = (Inr (), w')"
    by (auto simp: store_delete_def io_simps validate_key_def read_file_contents [OF nf] write_file_def split: if_splits)
  have nf': "sw_faults w' = []" using no_faults_keep nf wr by metis
  have written: "sw_file w' = Some (sl_store_text lib (AList.delete k fl), Some 384)"
    using write_atomic_ok [OF wr] by simp
  obtain fl' where fl': "file_contents lib (sw_file w') = Inr fl'" "map_of fl' = (map_of fl)(k := None)"
    using file_contents_text [OF lib, of "AList.delete k fl" "Some 384"] by (auto simp: written map_of_delete)
  have "fst (store_get lib fs j w') = (if j = k then Inr None else fst (store_get lib fs j w))"
    using k f by (simp add: store_get_result nf nf' fl' get_result_def)
  with lib nf' show ?thesis by (simp add: store_usable_def)
qed

lemma store_failed_get:
  assumes use: "store_usable lib w" and "sw_file w' = sw_file w" and "sw_faults w' = []"
  shows "store_usable lib w' \<and> fst (store_get lib fs j w') = fst (store_get lib fs j w)"
  using assms by (simp add: store_usable_def store_get_result)

lemma store_ops_no_faults:
  "sw_faults w = [] \<Longrightarrow> store_set lib fs k v w = (r, w') \<Longrightarrow> sw_faults w' = []"
  "sw_faults w = [] \<Longrightarrow> store_delete lib fs k w = (r, w') \<Longrightarrow> sw_faults w' = []"
  by (auto simp: store_set_def store_delete_def bind_io_def lift_io_def read_file_contents write_file_def
      split: sum.splits prod.splits dest: no_faults_keep)

text \<open>The encrypted file store keeps the contract.\<close>

interpretation file_store: secret_store "store_usable lib" "store_get lib fs" "store_set lib fs" "store_delete lib fs"
  for lib :: "'r secret_lib" and fs :: file_store
proof
  fix k r and w w' :: "'r secret_world" and j
  assume "store_usable lib w" "store_get lib fs k w = (r, w')"
  then show "store_usable lib w' \<and> fst (store_get lib fs j w') = fst (store_get lib fs j w)"
    by (auto simp: store_usable_def store_get_result)
next
  fix k v e and w w' :: "'r secret_world" and j
  assume "store_usable lib w" "store_set lib fs k v w = (Inl e, w')"
  then show "store_usable lib w' \<and> fst (store_get lib fs j w') = fst (store_get lib fs j w)"
    by (intro store_failed_get) (auto simp: store_usable_def dest: store_set_err store_ops_no_faults)
next
  fix k e and w w' :: "'r secret_world" and j
  assume "store_usable lib w" "store_delete lib fs k w = (Inl e, w')"
  then show "store_usable lib w' \<and> fst (store_get lib fs j w') = fst (store_get lib fs j w)"
    by (intro store_failed_get) (auto simp: store_usable_def dest: store_delete_err store_ops_no_faults)
qed (erule store_put_get store_del_get; assumption)+


section \<open>Round trips\<close>

text \<open>
  C30: With the documented behaviour of the cipher, base64, the generator and the file's text, and no
  pending I/O failure, a secret that was stored is read back exactly, survives the writing of another
  key, and is gone after a delete; no other key is disturbed, and the master key accepted from hex
  is always 32 bytes long.
\<close>

theorem secret_round_trip:
  assumes "secret_lib_ok lib" and "sw_faults w = []" and "valid_utf8 v" and "valid_utf8 v'"
    and "store_set lib fs k v w = (Inr (), w1)" and "k' \<noteq> k"
    and "store_set lib fs k' v' w1 = (Inr (), w2)" and "store_delete lib fs k w2 = (Inr (), w3)"
    and "with_master_key_hex lib hex = Inr fs"
  shows "fst (store_get lib fs k w1) = Inr (Some v) \<and> fst (store_get lib fs k w2) = Inr (Some v) \<and>
    fst (store_get lib fs k' w2) = Inr (Some v') \<and>
    fst (store_get lib fs k w3) = Inr None \<and> fst (store_get lib fs k' w3) = Inr (Some v') \<and>
    length (fs_key fs) = 32"
proof -
  have u: "store_usable lib w" using assms(1,2) by (simp add: store_usable_def)
  note 1 = file_store.put_get [OF u assms(3,5)]
  note 2 = file_store.put_get [OF conjunct1 [OF 1] assms(4,7)]
  note 3 = file_store.del_get [OF conjunct1 [OF 2] assms(8)]
  have "length (fs_key fs) = 32"
    using assms(9) by (cases "master_key_from_hex lib hex")
      (auto simp: with_master_key_hex_def master_key_from_hex_def KEY_LEN_BYTES_def split: option.splits if_splits)
  with 1 [of k] 2 [of k] 2 [of k'] 3 [of k] 3 [of k'] assms(6) show ?thesis by simp
qed

text \<open>An instance of the external functions that has the documented behaviour.\<close>

fun frame :: "string \<Rightarrow> string" where
  "frame [] = [CHR 0x00]"
| "frame (x # xs) = CHR 0x01 # x # frame xs"

fun unframe :: "string \<Rightarrow> string \<Rightarrow> string list" where
  "unframe acc (b # x # r) = (if b = CHR 0x01 then unframe (acc @ [x]) r else acc # unframe [] (x # r))"
| "unframe acc [b] = [acc]"
| "unframe acc [] = []"

lemma unframe_frame: "unframe acc (frame s @ r) = (acc @ s) # unframe [] r"
  by (induction s arbitrary: acc) (cases r, auto)

fun entries :: "string list \<Rightarrow> store_file" where
  "entries (k # n # c # r) = (k, \<lparr>st_nonce = n, st_ciphertext = c\<rparr>) # entries r"
| "entries r = []"

definition sample_lib :: "unit secret_lib" where
  "sample_lib = \<lparr>sl_hex_decode = (\<lambda>s. Some (replicate 32 CHR ''k'')), sl_encrypt = (\<lambda>k n p. Some (rev p)),
     sl_decrypt = (\<lambda>k n c. Some (rev c)), sl_b64_encode = (\<lambda>b. CHR ''b'' # b),
     sl_b64_decode = (\<lambda>s. case s of [] \<Rightarrow> None | x # b \<Rightarrow> Some b),
     sl_random = (\<lambda>n r. (replicate n CHR ''n'', r)),
     sl_store_text = (\<lambda>file. CHR ''S'' # concat (map (\<lambda>(k, st). frame k @ frame (st_nonce st) @ frame (st_ciphertext st)) file)),
     sl_store_parse = (\<lambda>s. case s of [] \<Rightarrow> Inl ''empty'' | x # r \<Rightarrow> Inr (entries (unframe [] r)))\<rparr>"

lemma sample_lib_ok: "secret_lib_ok sample_lib"
proof -
  have "entries (unframe [] (concat (map (\<lambda>(k, st). frame k @ frame (st_nonce st) @ frame (st_ciphertext st)) fl))) = fl"
    for fl by (induction fl) (auto simp: unframe_frame)
  then show ?thesis by (simp add: secret_lib_ok_def sample_lib_def)
qed

definition sample_disk :: "unit secret_world" where
  "sample_disk = \<lparr>sw_file = None, sw_temp = None, sw_faults = [], sw_rng = ()\<rparr>"

theorem secret_round_trip_witness:
  "\<exists>w1 w2 w3. store_set sample_lib \<lparr>fs_key = replicate 32 CHR ''k''\<rparr> ''a'' ''one'' sample_disk = (Inr (), w1) \<and>
     store_set sample_lib \<lparr>fs_key = replicate 32 CHR ''k''\<rparr> ''b'' ''two'' w1 = (Inr (), w2) \<and>
     store_delete sample_lib \<lparr>fs_key = replicate 32 CHR ''k''\<rparr> ''a'' w2 = (Inr (), w3) \<and>
     fst (store_get sample_lib \<lparr>fs_key = replicate 32 CHR ''k''\<rparr> ''a'' w1) = Inr (Some ''one'') \<and>
     fst (store_get sample_lib \<lparr>fs_key = replicate 32 CHR ''k''\<rparr> ''b'' w3) = Inr (Some ''two'')"
proof -
  let ?fs = "\<lparr>fs_key = replicate 32 CHR ''k''\<rparr>"
  define w1 where "w1 = snd (store_set sample_lib ?fs ''a'' ''one'' sample_disk)"
  define w2 where "w2 = snd (store_set sample_lib ?fs ''b'' ''two'' w1)"
  define w3 where "w3 = snd (store_delete sample_lib ?fs ''a'' w2)"
  have 1: "store_set sample_lib ?fs ''a'' ''one'' sample_disk = (Inr (), w1)" unfolding w1_def by code_simp
  have 2: "store_set sample_lib ?fs ''b'' ''two'' w1 = (Inr (), w2)" unfolding w2_def w1_def by code_simp
  have 3: "store_delete sample_lib ?fs ''a'' w2 = (Inr (), w3)" unfolding w3_def w2_def w1_def by code_simp
  have "sw_faults sample_disk = []" "valid_utf8 ''one''" "valid_utf8 ''two''" by code_simp+
  moreover have "with_master_key_hex sample_lib ''00'' = Inr ?fs"
    by (simp add: with_master_key_hex_def master_key_from_hex_def sample_lib_def KEY_LEN_BYTES_def)
  ultimately have "fst (store_get sample_lib ?fs ''a'' w1) = Inr (Some ''one'') \<and>
      fst (store_get sample_lib ?fs ''b'' w3) = Inr (Some ''two'')"
    using secret_round_trip [OF sample_lib_ok _ _ _ 1 _ 2 3] by simp
  with 1 2 3 show ?thesis by blast
qed

end
