(* ===== verification/Hub_OAuth2_Text.thy ===== *)
theory Hub_OAuth2_Text
  imports Hub_Secrets
begin

text \<open>
  The text parsers of \<open>crates/backends/backend-http/src/oauth2.rs\<close>: percent decoding, the code in a
  callback or pasted URL, and the metadata URL of a \<open>WWW-Authenticate\<close> header; and that a code
  percent-encoded by the authorization server comes back as it was.
\<close>

section \<open>The text of URLs and headers\<close>

text \<open>The characters of a UTF-8 string: a byte with the continuation bytes that follow it.\<close>

function utf8_chars :: "string \<Rightarrow> string list" where
  "utf8_chars [] = []"
| "utf8_chars (b # r) = (b # takeWhile continuation r) # utf8_chars (dropWhile continuation r)"
  by pat_completeness auto
termination by (relation "measure length") (auto simp: le_imp_less_Suc length_dropWhile_le)

definition digit16 :: "string \<Rightarrow> nat option" where
  "digit16 c =
     (case c of
        [x] \<Rightarrow>
          (let n = of_char x :: nat in
           if 48 \<le> n \<and> n \<le> 57 then Some (n - 48)
           else if 97 \<le> n \<and> n \<le> 102 then Some (n - 87)
           else if 65 \<le> n \<and> n \<le> 70 then Some (n - 55) else None)
      | _ \<Rightarrow> None)"

definition next_digit16 :: "string list \<Rightarrow> nat option" where
  "next_digit16 cs = (case cs of c # _ \<Rightarrow> digit16 c | [] \<Rightarrow> None)"

text \<open>\<open>String::push\<close> of the character with code \<open>n < 256\<close>.\<close>

definition push_char :: "nat \<Rightarrow> string" where
  "push_char n = (if n < 128 then [char_of n] else [char_of (192 + n div 64), char_of (128 + n mod 64)])"

function percent_decode_chars :: "string list \<Rightarrow> string" where
  "percent_decode_chars [] = []"
| "percent_decode_chars (c # cs) =
     (if c = ''%'' then
        (case (next_digit16 cs, next_digit16 (drop 1 cs)) of
           (Some h, Some l) \<Rightarrow> push_char (16 * h + l)
         | _ \<Rightarrow> []) @ percent_decode_chars (drop 2 cs)
      else if c = ''+'' then '' '' @ percent_decode_chars cs
      else c @ percent_decode_chars cs)"
  by pat_completeness auto
termination by (relation "measure length") auto

definition percent_decode :: "string \<Rightarrow> string" where
  "percent_decode s = percent_decode_chars (utf8_chars s)"

fun find_code :: "string list \<Rightarrow> string option" where
  "find_code [] = None"
| "find_code (param # ps) =
     (case split_once CHR ''='' param of
        Some (k, v) \<Rightarrow> (if k = ''code'' then Some (percent_decode v) else find_code ps)
      | None \<Rightarrow> find_code ps)"

definition code_of_url :: "string \<Rightarrow> string option" where
  "code_of_url s =
     (case split_on CHR ''?'' s of
        _ # query # _ \<Rightarrow> find_code (split_on CHR ''&'' query)
      | _ \<Rightarrow> None)"

fun words_of :: "string list \<Rightarrow> string \<Rightarrow> string list" where
  "words_of [] w = (if w = [] then [] else [w])"
| "words_of (c # cs) w =
     (if trim c = [] then (if w = [] then words_of cs [] else w # words_of cs [])
      else words_of cs (w @ c))"

definition split_whitespace :: "string \<Rightarrow> string list" where
  "split_whitespace s = words_of (utf8_chars s) []"

definition callback_code :: "string \<Rightarrow> string option" where
  "callback_code request_line =
     (case split_whitespace request_line of
        _ # path # _ \<Rightarrow> code_of_url path
      | _ \<Rightarrow> None)"

fun find_map :: "('a \<Rightarrow> 'b option) \<Rightarrow> 'a list \<Rightarrow> 'b option" where
  "find_map f [] = None"
| "find_map f (x # xs) = (case f x of Some y \<Rightarrow> Some y | None \<Rightarrow> find_map f xs)"

definition metadata_param :: "string \<Rightarrow> string option" where
  "metadata_param part =
     (case strip_prefix (trim part) (''resource_metadata='' @ [CHR 0x22]) of
        Some url \<Rightarrow> strip_suffix url [CHR 0x22]
      | None \<Rightarrow> None)"

definition parse_resource_metadata_url :: "string \<Rightarrow> string option" where
  "parse_resource_metadata_url header_value =
     (case strip_prefix header_value ''Bearer '' of
        Some rest \<Rightarrow> find_map metadata_param (split_on CHR '','' rest)
      | None \<Rightarrow> None)"

section \<open>A percent-encoded code comes back\<close>

text \<open>
  What an authorization server does, for the query parameters it redirects with: every byte of a value
  is written as \<open>%\<close> and two hexadecimal digits.
\<close>

definition hex_char :: "nat \<Rightarrow> char" where
  "hex_char n = (if n < 10 then char_of (48 + n) else char_of (55 + n))"

fun percent_encode :: "string \<Rightarrow> string" where
  "percent_encode [] = []"
| "percent_encode (c # cs) =
     CHR ''%'' # hex_char (of_char c div 16) # hex_char (of_char c mod 16) # percent_encode cs"

definition ascii :: "string \<Rightarrow> bool" where
  "ascii s = (\<forall>c \<in> set s. (of_char c :: nat) < 128)"

text \<open>A parameter name of letters, digits and underscores, and the query of such parameters.\<close>

definition name_char :: "char \<Rightarrow> bool" where
  "name_char c =
     (let n = of_char c :: nat in (48 \<le> n \<and> n \<le> 57) \<or> (65 \<le> n \<and> n \<le> 90) \<or> (97 \<le> n \<and> n \<le> 122) \<or> n = 95)"

definition query_of :: "(string \<times> string) list \<Rightarrow> string" where
  "query_of ps = join_with ''&'' (map (\<lambda>(k, v). k @ ''='' @ percent_encode v) ps)"

lemma ascii_simps [simp]: "ascii []" "ascii (c # s) \<longleftrightarrow> (of_char c :: nat) < 128 \<and> ascii s" "ascii (a @ b) \<longleftrightarrow> ascii a \<and> ascii b"
  by (auto simp: ascii_def)

lemma not_continuation: "ascii s \<Longrightarrow> takeWhile continuation s = [] \<and> dropWhile continuation s = s"
  by (cases s) (auto simp: continuation_def Let_def)

lemma utf8_chars_ascii: "ascii s \<Longrightarrow> utf8_chars s = map (\<lambda>c. [c]) s"
  by (induction s) (auto simp: not_continuation)

lemma high_nibble [simp]: "(of_char c :: nat) div 16 < 16"
  using nat_of_char_less_256 [of c] by linarith

lemma hex_char_digit: "n < 16 \<Longrightarrow> digit16 [hex_char n] = Some n"
  by (auto simp: hex_char_def digit16_def Let_def)

lemma hex_char_name: "n < 16 \<Longrightarrow> name_char (hex_char n)"
  by (auto simp: hex_char_def name_char_def Let_def)

lemma percent_decode_encode: "ascii s \<Longrightarrow> percent_decode_chars (map (\<lambda>c. [c]) (percent_encode s)) = s"
proof (induction s)
  case (Cons c s)
  have "16 * (of_char c div 16) + of_char c mod 16 = (of_char c :: nat)" by simp
  with Cons show ?case by (simp add: next_digit16_def hex_char_digit push_char_def)
qed simp

lemma percent_encode_set: "c \<in> set (percent_encode s) \<Longrightarrow> name_char c \<or> c = CHR ''%''"
  by (induction s) (auto intro: hex_char_name)

lemma name_char_plain:
  "name_char c \<Longrightarrow> (of_char c :: nat) < 128 \<and> \<not> ascii_ws c \<and> c \<noteq> CHR ''?'' \<and> c \<noteq> CHR ''&'' \<and> c \<noteq> CHR ''=''"
  by (auto simp: name_char_def ascii_ws_def Let_def)

lemma split_on_join:
  "ps \<noteq> [] \<Longrightarrow> \<forall>p \<in> set ps. d \<notin> set p \<Longrightarrow> split_on d (join_with [d] ps) = ps"
  by (induction "[d]" ps rule: join_with.induct) (auto simp: str_simps)

lemma percent_encode_ascii: "ascii (percent_encode s)"
  using percent_encode_set name_char_plain by (fastforce simp: ascii_def)

lemma find_code_params:
  "\<forall>(k, v) \<in> set ps. (\<forall>c \<in> set k. name_char c) \<and> ascii v \<Longrightarrow>
   find_code (map (\<lambda>(k, v). k @ ''='' @ percent_encode v) ps) = map_of ps ''code''"
proof (induction ps)
  case (Cons p ps)
  obtain k v where p: "p = (k, v)" by fastforce
  with Cons.prems have "CHR ''='' \<notin> set k" using name_char_plain by auto
  then have "split_once CHR ''='' (k @ CHR ''='' # percent_encode v) = Some (k, percent_encode v)" by (simp add: str_simps)
  with Cons p show ?case
    by (auto simp: percent_decode_def utf8_chars_ascii percent_encode_ascii percent_decode_encode)
qed simp

lemma words_of_word:
  "\<forall>c \<in> set u. \<not> ascii_ws c \<Longrightarrow> ascii_ws s \<Longrightarrow> w @ u \<noteq> [] \<Longrightarrow>
   words_of (map (\<lambda>c. [c]) u @ [s] # cs) w = (w @ u) # words_of cs []"
  by (induction u arbitrary: w) (auto simp: trim_def)

lemma join_with_set: "c \<in> set (join_with sep ps) \<Longrightarrow> c \<in> set sep \<or> (\<exists>p \<in> set ps. c \<in> set p)"
  by (induction sep ps rule: join_with.induct) auto

lemma query_of_chars:
  assumes "\<forall>(k, v) \<in> set ps. \<forall>c \<in> set k. name_char c"
  shows "c \<in> set (query_of ps) \<Longrightarrow> name_char c \<or> c = CHR ''&'' \<or> c = CHR ''='' \<or> c = CHR ''%''"
  using assms percent_encode_set by (fastforce simp: query_of_def dest!: join_with_set)

text \<open>
  The code the browser is redirected with is the code the hub exchanges: from the request line of the
  callback, with any query of percent-encoded ASCII parameters, exactly the value of the first parameter
  named \<open>code\<close> is taken, and a query without one gives none; the same for a redirect URL pasted by hand.
\<close>

theorem callback_code_exact:
  assumes "\<forall>(k, v) \<in> set ps. (\<forall>c \<in> set k. name_char c) \<and> ascii v" and "ps \<noteq> []"
  shows "callback_code (''GET /callback?'' @ query_of ps @ '' HTTP/1.1'' @ [CHR 0x0D, CHR 0x0A]) = map_of ps ''code'' \<and>
    code_of_url (''http://localhost:8765/callback?'' @ query_of ps) = map_of ps ''code''"
proof -
  have q: "c \<in> set (query_of ps) \<Longrightarrow> (of_char c :: nat) < 128 \<and> \<not> ascii_ws c \<and> c \<noteq> CHR ''?''" for c
  proof -
    assume "c \<in> set (query_of ps)"
    then have "name_char c \<or> c = CHR ''&'' \<or> c = CHR ''='' \<or> c = CHR ''%''" using assms(1) by (intro query_of_chars) auto
    then show ?thesis using name_char_plain [of c] by (auto simp: ascii_ws_def)
  qed
  have "\<forall>p \<in> set (map (\<lambda>(k, v). k @ ''='' @ percent_encode v) ps). CHR ''&'' \<notin> set p"
    using assms(1) name_char_plain percent_encode_set by fastforce
  then have s: "split_on CHR ''&'' (query_of ps) = map (\<lambda>(k, v). k @ ''='' @ percent_encode v) ps"
    using split_on_join assms(2) by (simp add: query_of_def)
  have u: "code_of_url (a @ CHR ''?'' # query_of ps) = map_of ps ''code''" if "CHR ''?'' \<notin> set a" for a
  proof -
    have "CHR ''?'' \<notin> set (query_of ps)" using q by blast
    with that s find_code_params [OF assms(1)] show ?thesis by (simp add: code_of_url_def str_simps)
  qed
  let ?path = "''/callback?'' @ query_of ps"
  let ?rest = "''HTTP/1.1'' @ [CHR 0x0D, CHR 0x0A]"
  let ?cs = "map (\<lambda>c. [c])"
  have sp: "ascii_ws CHR '' ''" by (simp add: ascii_ws_def)
  have get: "words_of (?cs ''GET'' @ [CHR '' ''] # cs) [] = ''GET'' # words_of cs []" for cs
    using words_of_word [OF _ sp, of "''GET''" "[]" cs] by (simp add: ascii_ws_def)
  have "\<forall>c \<in> set ?path. \<not> ascii_ws c" using q by (simp add: ascii_ws_def)
  then have path: "words_of (?cs ?path @ [CHR '' ''] # cs) [] = ?path # words_of cs []" for cs
    using words_of_word [OF _ sp, of ?path "[]" cs] by simp
  have "ascii (query_of ps)" using q by (auto simp: ascii_def)
  then have "utf8_chars (''GET /callback?'' @ query_of ps @ '' HTTP/1.1'' @ [CHR 0x0D, CHR 0x0A]) =
      ?cs ''GET'' @ [CHR '' ''] # ?cs ?path @ [CHR '' ''] # ?cs ?rest"
    by (subst utf8_chars_ascii) simp_all
  then have "split_whitespace (''GET /callback?'' @ query_of ps @ '' HTTP/1.1'' @ [CHR 0x0D, CHR 0x0A]) =
      ''GET'' # ?path # words_of (?cs ?rest) []"
    unfolding split_whitespace_def by (simp only: get path)
  then have "callback_code (''GET /callback?'' @ query_of ps @ '' HTTP/1.1'' @ [CHR 0x0D, CHR 0x0A]) = code_of_url ?path"
    unfolding callback_code_def by (simp only: list.case)
  with u [of "''/callback''"] u [of "''http://localhost:8765/callback''"] show ?thesis by simp
qed

theorem callback_code_exact_witness:
  "callback_code (''GET /callback?'' @ query_of [(''state'', ''x''), (''code'', ''a/b c'')] @ '' HTTP/1.1'' @ [CHR 0x0D, CHR 0x0A]) =
     Some ''a/b c''"
  using callback_code_exact [of "[(''state'', ''x''), (''code'', ''a/b c'')]"] by (simp add: name_char_def)

end
