(* ===== verification/Hub_OAuth2.thy ===== *)
theory Hub_OAuth2
  imports Hub_OAuth2_Text Hub_Core
begin

text \<open>
  OAuth2 tokens of HTTP backends (\<open>crates/backends/backend-http/src/oauth2.rs\<close> and
  \<open>token_store.rs\<close>): the persisted token over the secret store, the in-memory cache, discovery,
  dynamic registration, the three grants, refresh with one retry, and the text parsers.  The HTTP
  client, the clocks, the browser, the callback socket and the generator act on the network part
  \<open>'n\<close> of the world and are parameters; waiting for the refresh lock is a parameter too, which may
  change the cache and the world in any way, as other tasks do while this one waits.
\<close>

section \<open>Tokens and metadata\<close>

record persisted_token =
  pt_access_token :: string
  pt_refresh_token :: "string option"
  pt_client_id :: "string option"
  pt_expires_at_unix :: u64

record token_cache =
  tc_access_token :: string
  tc_refresh_token :: "string option"
  tc_client_id :: "string option"
  tc_expires_at :: nat

record auth_server_metadata =
  am_issuer :: string
  am_authorization_endpoint :: "string option"
  am_token_endpoint :: string
  am_registration_endpoint :: "string option"
  am_scopes_supported :: "string list option"
  am_code_challenge_methods :: "string list option"

record resource_metadata =
  rm_resource :: string
  rm_authorization_servers :: "string list option"

definition string_list :: "json \<Rightarrow> string list option" where
  "string_list v = Option.bind (as_array v) (\<lambda>vs. all_some (map as_str vs))"

definition resource_metadata_from_value :: "json \<Rightarrow> resource_metadata option" where
  "resource_metadata_from_value v =
     (case struct_fields [(''resource'', False), (''authorization_servers'', True), (''scopes_supported'', True),
             (''bearer_methods_supported'', True), (''resource_name'', True)] v of
        Some [Some (JStr r), a, s, b, n] \<Rightarrow>
          (case (opt_of string_list a, opt_of string_list s, opt_of string_list b, opt_of as_str n) of
             (Some a', Some s', Some b', Some n') \<Rightarrow> Some \<lparr>rm_resource = r, rm_authorization_servers = a'\<rparr>
           | _ \<Rightarrow> None)
      | _ \<Rightarrow> None)"

definition auth_server_from_value :: "json \<Rightarrow> auth_server_metadata option" where
  "auth_server_from_value v =
     (case struct_fields [(''issuer'', False), (''authorization_endpoint'', True), (''token_endpoint'', False),
             (''registration_endpoint'', True), (''scopes_supported'', True), (''response_types_supported'', True),
             (''grant_types_supported'', True), (''code_challenge_methods_supported'', True),
             (''token_endpoint_auth_methods_supported'', True)] v of
        Some [Some (JStr i), a, Some (JStr t), r, s, rt, g, cc, am] \<Rightarrow>
          (case (opt_of as_str a, opt_of as_str r, opt_of string_list s) of
             (Some a', Some r', Some s') \<Rightarrow>
               (case (opt_of string_list rt, opt_of string_list g, opt_of string_list cc, opt_of string_list am) of
                  (Some rt', Some g', Some cc', Some am') \<Rightarrow>
                    Some \<lparr>am_issuer = i, am_authorization_endpoint = a', am_token_endpoint = t,
                          am_registration_endpoint = r', am_scopes_supported = s', am_code_challenge_methods = cc'\<rparr>
                | _ \<Rightarrow> None)
           | _ \<Rightarrow> None)
      | _ \<Rightarrow> None)"

section \<open>The manager and its world\<close>

record oauth_manager =
  om_config :: oauth2_config
  om_store :: "file_store option"
  om_cache :: "token_cache option"
  om_discovered :: "auth_server_metadata option"

definition manager_with_store :: "oauth2_config \<Rightarrow> file_store option \<Rightarrow> oauth_manager" where
  "manager_with_store config store =
     \<lparr>om_config = config, om_store = store, om_cache = None, om_discovered = None\<rparr>"

record ('n, 'r) oauth_world =
  ow_secrets :: "'r secret_world"
  ow_net :: 'n

text \<open>
  An HTTP reply is its numeric status, the status as displayed, and its body read as JSON or the
  text of the error in doing so; a request that cannot be sent gives the text of its error.  The
  monotonic clock counts nanoseconds, the system clock seconds.
\<close>

record http_reply =
  hp_status :: nat
  hp_status_text :: string
  hp_body :: "string + json"

datatype post_body = Form "(string \<times> string) list" | JsonPost json

record ('n, 'r) oauth_lib =
  ol_secret :: "'r secret_lib"
  ol_token_text :: "persisted_token \<Rightarrow> string"
  ol_token_parse :: "string \<Rightarrow> persisted_token option"
  ol_get_json :: "string \<Rightarrow> 'n \<Rightarrow> (string + (string + json)) \<times> 'n"
  ol_post :: "string \<Rightarrow> post_body \<Rightarrow> 'n \<Rightarrow> (string + http_reply) \<times> 'n"
  ol_mono_ns :: "'n \<Rightarrow> nat"
  ol_unix_secs :: "'n \<Rightarrow> u64"
  ol_await_refresh_lock :: "oauth_manager \<Rightarrow> ('n, 'r) oauth_world
     \<Rightarrow> (token_cache option \<times> auth_server_metadata option) \<times> ('n, 'r) oauth_world"
  ol_json_text :: "json \<Rightarrow> string"
  ol_shape_error :: "json \<Rightarrow> string"
  ol_random :: "nat \<Rightarrow> 'n \<Rightarrow> string \<times> 'n"
  ol_sha256 :: "string \<Rightarrow> string"
  ol_b64url :: "string \<Rightarrow> string"
  ol_open_browser :: "string \<Rightarrow> 'n \<Rightarrow> bool \<times> 'n"
  ol_callback_bind :: "u16 \<Rightarrow> 'n \<Rightarrow> (string + unit) \<times> 'n"
  ol_callback_accept :: "'n \<Rightarrow> (string + unit) \<times> 'n"
  ol_callback_line :: "'n \<Rightarrow> (string + string) \<times> 'n"
  ol_callback_write :: "string \<Rightarrow> 'n \<Rightarrow> (string + unit) \<times> 'n"
  ol_read_stdin :: "'n \<Rightarrow> (string + string) \<times> 'n"

type_synonym ('n, 'r) oauth_state = "oauth_manager \<times> ('n, 'r) oauth_world"

definition auth_error :: "string \<Rightarrow> backend_error" where
  "auth_error m = backend_error_new Auth m"

definition NS_PER_SEC :: nat where "NS_PER_SEC = 1000000000"

section \<open>Token persistence\<close>

definition token_key :: "string \<Rightarrow> string" where
  "token_key backend_id = ''oauth2:'' @ backend_id @ '':token''"

definition is_valid :: "u64 \<Rightarrow> persisted_token \<Rightarrow> bool" where
  "is_valid now t = (pt_expires_at_unix t > now + 30)"

definition load_token ::
  "('n, 'r) oauth_lib \<Rightarrow> file_store \<Rightarrow> string \<Rightarrow> ('n, 'r) oauth_world \<Rightarrow> persisted_token option \<times> ('n, 'r) oauth_world" where
  "load_token lib store backend_id w =
     (let (r, sw) = store_get (ol_secret lib) store (token_key backend_id) (ow_secrets w); w' = w\<lparr>ow_secrets := sw\<rparr>
      in (case r of Inr (Some text) \<Rightarrow> ol_token_parse lib text | _ \<Rightarrow> None, w'))"

definition save_token ::
  "('n, 'r) oauth_lib \<Rightarrow> file_store \<Rightarrow> string \<Rightarrow> string \<Rightarrow> string option \<Rightarrow> u64 \<Rightarrow> string option
     \<Rightarrow> ('n, 'r) oauth_world \<Rightarrow> ('n, 'r) oauth_world" where
  "save_token lib store backend_id access refresh expires_in client w =
     (let token = \<lparr>pt_access_token = access, pt_refresh_token = refresh, pt_client_id = client,
                   pt_expires_at_unix = ol_unix_secs lib (ow_net w) + expires_in\<rparr>;
          (r, sw) = store_set (ol_secret lib) store (token_key backend_id) (ol_token_text lib token) (ow_secrets w)
      in w\<lparr>ow_secrets := sw\<rparr>)"

definition clear_token ::
  "('n, 'r) oauth_lib \<Rightarrow> file_store \<Rightarrow> string \<Rightarrow> ('n, 'r) oauth_world \<Rightarrow> ('n, 'r) oauth_world" where
  "clear_token lib store backend_id w =
     w\<lparr>ow_secrets := snd (store_delete (ol_secret lib) store (token_key backend_id) (ow_secrets w))\<rparr>"

section \<open>The cache\<close>

fun or_else :: "'a option \<Rightarrow> 'a option \<Rightarrow> 'a option" where
  "or_else (Some x) b = Some x"
| "or_else None b = b"

definition cached_client_id :: "oauth_manager \<Rightarrow> string option" where
  "cached_client_id m = Option.bind (om_cache m) tc_client_id"

definition secs_left :: "u64 \<Rightarrow> u64 \<Rightarrow> u64" where
  "secs_left expires now = (if now \<le> expires then expires - now else 0)"

definition install_persisted ::
  "('n, 'r) oauth_lib \<Rightarrow> persisted_token \<Rightarrow> ('n, 'r) oauth_world \<Rightarrow> oauth_manager \<Rightarrow> oauth_manager" where
  "install_persisted lib p w m =
     (let remaining = secs_left (pt_expires_at_unix p) (ol_unix_secs lib (ow_net w));
          client_id = or_else (oc_client_id (om_config m)) (or_else (pt_client_id p) (cached_client_id m))
      in m\<lparr>om_cache := Some \<lparr>tc_access_token = pt_access_token p, tc_refresh_token = pt_refresh_token p,
             tc_client_id = client_id,
             tc_expires_at = ol_mono_ns lib (ow_net w) + unat remaining * NS_PER_SEC\<rparr>\<rparr>)"

text \<open>Taking \<open>refresh_lock\<close>: other tasks may run, on this manager too, until it is free.\<close>

definition await_refresh_lock :: "('n, 'r) oauth_lib \<Rightarrow> ('n, 'r) oauth_state \<Rightarrow> ('n, 'r) oauth_state" where
  "await_refresh_lock lib = (\<lambda>(m, w).
     let ((cache, discovered), w') = ol_await_refresh_lock lib m w
     in (m\<lparr>om_cache := cache, om_discovered := discovered\<rparr>, w'))"

definition adopt_persisted ::
  "('n, 'r) oauth_lib \<Rightarrow> string \<Rightarrow> ('n, 'r) oauth_state \<Rightarrow> string option \<times> ('n, 'r) oauth_state" where
  "adopt_persisted lib backend_id = (\<lambda>(m, w).
     case om_store m of
       None \<Rightarrow> (None, m, w)
     | Some store \<Rightarrow>
         (let (m1, w1) = await_refresh_lock lib (m, w) in
          if (case om_cache m1 of Some c \<Rightarrow> tc_access_token c \<noteq> [] | None \<Rightarrow> False) then (None, m1, w1)
          else (case load_token lib store backend_id w1 of
            (None, w2) \<Rightarrow> (None, m1, w2)
          | (Some p, w2) \<Rightarrow>
              (let valid = is_valid (ol_unix_secs lib (ow_net w2)) p in
               if \<not> valid \<and> pt_refresh_token p = None then (None, m1, w2)
               else (if valid then Some (pt_access_token p) else None, install_persisted lib p w2 m1, w2)))))"

definition set_dynamic_client_id ::
  "('n, 'r) oauth_lib \<Rightarrow> string \<Rightarrow> ('n, 'r) oauth_world \<Rightarrow> oauth_manager \<Rightarrow> oauth_manager" where
  "set_dynamic_client_id lib client_id w m =
     m\<lparr>om_cache := Some (case om_cache m of
         Some c \<Rightarrow> c\<lparr>tc_client_id := Some client_id\<rparr>
       | None \<Rightarrow> \<lparr>tc_access_token = [], tc_refresh_token = None, tc_client_id = Some client_id,
                  tc_expires_at = ol_mono_ns lib (ow_net w)\<rparr>)\<rparr>"

definition current_client_id :: "oauth_manager \<Rightarrow> string option" where
  "current_client_id m =
     (case oc_client_id (om_config m) of Some i \<Rightarrow> Some i | None \<Rightarrow> cached_client_id m)"

definition token_life :: "json \<Rightarrow> u64" where
  "token_life body = (case Option.bind (get_key body ''expires_in'') as_u64 of Some n \<Rightarrow> n | None \<Rightarrow> 3600)"

definition cache_token_response ::
  "('n, 'r) oauth_lib \<Rightarrow> json \<Rightarrow> string \<Rightarrow> ('n, 'r) oauth_state \<Rightarrow> (backend_error + string) \<times> ('n, 'r) oauth_state" where
  "cache_token_response lib body backend_id = (\<lambda>(m, w).
     case Option.bind (get_key body ''access_token'') as_str of
       None \<Rightarrow> (Inl (auth_error (''response missing '' @ sq ''access_token'')), m, w)
     | Some access_token \<Rightarrow>
         (let expires_in = token_life body;
              expires_at = ol_mono_ns lib (ow_net w) + unat expires_in * NS_PER_SEC;
              refresh_token = or_else (Option.bind (get_key body ''refresh_token'') as_str)
                 (Option.bind (om_cache m) tc_refresh_token);
              client_id = or_else (oc_client_id (om_config m)) (cached_client_id m);
              m' = m\<lparr>om_cache := Some \<lparr>tc_access_token = access_token, tc_refresh_token = refresh_token,
                      tc_client_id = client_id, tc_expires_at = expires_at\<rparr>\<rparr>;
              w' = (case om_store m of
                      Some store \<Rightarrow> save_token lib store backend_id access_token refresh_token expires_in client_id w
                    | None \<Rightarrow> w)
          in (Inr access_token, m', w')))"

section \<open>Requests\<close>

type_synonym ('n, 'r, 'a) oauth = "('n, 'r) oauth_state \<Rightarrow> (backend_error + 'a) \<times> ('n, 'r) oauth_state"

definition bind_auth :: "('n, 'r, 'a) oauth \<Rightarrow> ('a \<Rightarrow> ('n, 'r, 'b) oauth) \<Rightarrow> ('n, 'r, 'b) oauth" where
  "bind_auth m f s = (case m s of (Inl e, s') \<Rightarrow> (Inl e, s') | (Inr x, s') \<Rightarrow> f x s')"

definition return_auth :: "'a \<Rightarrow> ('n, 'r, 'a) oauth" where "return_auth x s = (Inr x, s)"

definition fail_auth :: "string \<Rightarrow> ('n, 'r, 'a) oauth" where "fail_auth m s = (Inl (auth_error m), s)"

text \<open>A call of the outside world whose error is wrapped in a message of the hub.\<close>

definition net :: "string \<Rightarrow> ('n \<Rightarrow> (string + 'a) \<times> 'n) \<Rightarrow> ('n, 'r, 'a) oauth" where
  "net wrap f = (\<lambda>(m, w).
     let (r, n) = f (ow_net w); w' = w\<lparr>ow_net := n\<rparr>
     in (case r of Inl e \<Rightarrow> Inl (auth_error (wrap @ e)) | Inr x \<Rightarrow> Inr x, m, w'))"

definition get_state :: "('n, 'r, oauth_manager) oauth" where "get_state s = (Inr (fst s), s)"

definition fetch_metadata ::
  "('n, 'r) oauth_lib \<Rightarrow> string \<Rightarrow> (json \<Rightarrow> 'a option) \<Rightarrow> string \<Rightarrow> ('n, 'r, 'a) oauth" where
  "fetch_metadata lib what reader url =
     bind_auth (net (''failed to fetch '' @ what @ '': '') (ol_get_json lib url)) (\<lambda>body.
       case (case body of Inl e \<Rightarrow> Inl e
             | Inr v \<Rightarrow> (case reader v of Some x \<Rightarrow> Inr x | None \<Rightarrow> Inl (ol_shape_error lib v))) of
         Inl e \<Rightarrow> fail_auth (''failed to parse '' @ what @ '': '' @ e)
       | Inr x \<Rightarrow> return_auth x)"

definition discover :: "('n, 'r) oauth_lib \<Rightarrow> string \<Rightarrow> ('n, 'r, auth_server_metadata) oauth" where
  "discover lib discovery_url =
     bind_auth
       (if contains_sub discovery_url ''oauth-protected-resource'' then
          bind_auth (fetch_metadata lib ''resource metadata'' resource_metadata_from_value discovery_url) (\<lambda>rm.
            case rm_authorization_servers rm of
              Some (url # _) \<Rightarrow> return_auth (url @ ''/.well-known/oauth-authorization-server'')
            | _ \<Rightarrow> fail_auth ''resource metadata has no authorization_servers'')
        else return_auth discovery_url)
       (\<lambda>auth_server_url.
          bind_auth (fetch_metadata lib ''auth server metadata'' auth_server_from_value auth_server_url) (\<lambda>am.
            \<lambda>(m, w). (Inr am, m\<lparr>om_discovered := Some am\<rparr>, w)))"

definition resolve_token_endpoint :: "oauth_manager \<Rightarrow> backend_error + string" where
  "resolve_token_endpoint m =
     (case oc_token_endpoint (om_config m) of
        Some (c # cs) \<Rightarrow> Inr (c # cs)
      | _ \<Rightarrow>
          (case om_discovered m of
             Some am \<Rightarrow> Inr (am_token_endpoint am)
           | None \<Rightarrow> Inl (auth_error ''no OAuth2 token endpoint configured or discovered'')))"

definition resolve_grant_type :: "oauth_manager \<Rightarrow> string" where
  "resolve_grant_type m =
     (if oc_grant_type (om_config m) \<noteq> [] \<and> oc_grant_type (om_config m) \<noteq> ''client_credentials''
      then oc_grant_type (om_config m) else ''client_credentials'')"

definition lift_auth :: "backend_error + 'a \<Rightarrow> ('n, 'r, 'a) oauth" where "lift_auth r s = (r, s)"

definition is_success :: "http_reply \<Rightarrow> bool" where
  "is_success r = (200 \<le> hp_status r \<and> hp_status r \<le> 299)"

text \<open>Post, then read the body as JSON whatever the status is.\<close>

definition post_json ::
  "('n, 'r) oauth_lib \<Rightarrow> string \<Rightarrow> string \<Rightarrow> string \<Rightarrow> post_body \<Rightarrow> ('n, 'r, http_reply \<times> json) oauth" where
  "post_json lib sending reading url body =
     bind_auth (net sending (ol_post lib url body)) (\<lambda>r.
       case hp_body r of
         Inl e \<Rightarrow> fail_auth (reading @ e)
       | Inr v \<Rightarrow> return_auth (r, v))"

definition redirect_uri :: "oauth_manager \<Rightarrow> string" where
  "redirect_uri m = ''http://localhost:'' @ digits_of (unat (oc_callback_port (om_config m))) @ ''/callback''"

definition registration_endpoint :: "oauth_manager \<Rightarrow> string option" where
  "registration_endpoint m = Option.bind (om_discovered m) am_registration_endpoint"

definition register_client :: "('n, 'r) oauth_lib \<Rightarrow> ('n, 'r, string \<times> string option) oauth" where
  "register_client lib =
     bind_auth get_state (\<lambda>m.
       case registration_endpoint m of
         None \<Rightarrow> return_auth ([], None)
       | Some url \<Rightarrow>
           bind_auth (post_json lib ''dynamic client registration failed: '' ''failed to parse registration response: '' url
             (JsonPost (jobj [(''client_name'', JStr ''headless-mcp''),
                (''redirect_uris'', JArr [JStr (redirect_uri m)]),
                (''grant_types'', JArr [JStr ''authorization_code'', JStr ''refresh_token'']),
                (''token_endpoint_auth_method'', JStr ''none'')])))
             (\<lambda>(r, reg).
               if \<not> is_success r then
                 fail_auth (''registration failed ('' @ hp_status_text r @ ''): '' @ ol_json_text lib reg)
               else (case Option.bind (get_key reg ''client_id'') as_str of
                 None \<Rightarrow> fail_auth ''registration response missing client_id''
               | Some client_id \<Rightarrow>
                   return_auth (client_id, Option.bind (get_key reg ''client_secret'') as_str))))"

definition error_description :: "json \<Rightarrow> string" where
  "error_description body =
     (case Option.bind (get_key body ''error_description'') as_str of Some d \<Rightarrow> d | None \<Rightarrow> ''unknown error'')"

definition register_dynamic :: "('n, 'r) oauth_lib \<Rightarrow> string \<Rightarrow> ('n, 'r, string \<times> string option) oauth" where
  "register_dynamic lib none =
     bind_auth get_state (\<lambda>m.
       case registration_endpoint m of
         None \<Rightarrow> fail_auth none
       | Some _ \<Rightarrow>
           bind_auth (register_client lib) (\<lambda>(cid, cs).
             \<lambda>(m, w). (Inr (cid, cs), set_dynamic_client_id lib cid w m, w)))"

text \<open>The end of the two acquiring grants: a token response is cached, an error status is reported.\<close>

definition accept_token :: "('n, 'r) oauth_lib \<Rightarrow> string \<Rightarrow> http_reply \<times> json \<Rightarrow> ('n, 'r, string) oauth" where
  "accept_token lib backend_id = (\<lambda>(r, body).
     if \<not> is_success r then
       fail_auth (''token endpoint returned '' @ hp_status_text r @ '': '' @ error_description body)
     else cache_token_response lib body backend_id)"

definition do_client_credentials :: "('n, 'r) oauth_lib \<Rightarrow> string \<Rightarrow> string \<Rightarrow> ('n, 'r, string) oauth" where
  "do_client_credentials lib token_endpoint backend_id =
     bind_auth get_state (\<lambda>m.
       let config = om_config m in
       bind_auth
         (case (oc_client_id config, oc_client_secret config) of
            (Some cid, Some cs) \<Rightarrow> return_auth (cid, cs)
          | (Some cid, None) \<Rightarrow> return_auth (cid, [])
          | (None, _) \<Rightarrow>
              bind_auth (register_dynamic lib ''OAuth2 client_id not configured and no registration endpoint'')
                (\<lambda>(cid, cs). return_auth (cid, case cs of Some x \<Rightarrow> x | None \<Rightarrow> [])))
         (\<lambda>(client_id, client_secret).
           bind_auth (post_json lib ''OAuth2 token request failed: '' ''failed to parse token response: '' token_endpoint
               (Form [(''grant_type'', ''client_credentials''), (''client_id'', client_id),
                 (''client_secret'', client_secret),
                 (''scope'', case oc_scopes config of Some s \<Rightarrow> s | None \<Rightarrow> ''mcp'')]))
             (accept_token lib backend_id)))"

section \<open>The authorization code grant\<close>

definition generate_pkce_s256 :: "('n, 'r) oauth_lib \<Rightarrow> 'n \<Rightarrow> (string \<times> string) \<times> 'n" where
  "generate_pkce_s256 lib n =
     (let (bytes, n') = ol_random lib 32 n; verifier = ol_b64url lib bytes
      in ((verifier, ol_b64url lib (ol_sha256 lib verifier)), n'))"

definition generate_pkce_plain :: "('n, 'r) oauth_lib \<Rightarrow> 'n \<Rightarrow> (string \<times> string) \<times> 'n" where
  "generate_pkce_plain lib n =
     (let (bytes, n') = ol_random lib 32 n; verifier = ol_b64url lib bytes in ((verifier, verifier), n'))"

definition nl2 :: string where "nl2 = [CHR 0x0D, CHR 0x0A]"

definition CALLBACK_RESPONSE :: string where
  "CALLBACK_RESPONSE = ''HTTP/1.1 200 OK'' @ nl2 @ ''Content-Type: text/html'' @ nl2 @ nl2 @
     ''<html><body><h1>Authorization Complete</h1><p>You can close this window.</p></body></html>''"

definition receive_callback :: "('n, 'r) oauth_lib \<Rightarrow> u16 \<Rightarrow> ('n, 'r, string) oauth" where
  "receive_callback lib port =
     bind_auth (net ''failed to bind callback server: '' (ol_callback_bind lib port)) (\<lambda>u1.
     bind_auth (net ''callback server accept failed: '' (ol_callback_accept lib)) (\<lambda>u2.
     bind_auth (net ''read request failed: '' (ol_callback_line lib)) (\<lambda>request_line.
       case callback_code request_line of
         None \<Rightarrow> fail_auth ''no authorization code in callback''
       | Some code \<Rightarrow>
           bind_auth (net ''write response failed: '' (ol_callback_write lib CALLBACK_RESPONSE)) (\<lambda>u3.
             return_auth code))))"

definition pasted_code :: "('n, 'r) oauth_lib \<Rightarrow> ('n, 'r, string) oauth" where
  "pasted_code lib =
     bind_auth (net ''failed to read input: '' (ol_read_stdin lib)) (\<lambda>input.
       case code_of_url (trim input) of
         None \<Rightarrow> fail_auth ''could not parse authorization code from input''
       | Some code \<Rightarrow> return_auth code)"

definition opt_list :: "'a list option \<Rightarrow> 'a list" where
  "opt_list x = (case x of Some l \<Rightarrow> l | None \<Rightarrow> [])"

definition auth_scopes :: "oauth_manager \<Rightarrow> string" where
  "auth_scopes m =
     (case oc_scopes (om_config m) of
        Some s \<Rightarrow> s
      | None \<Rightarrow> join_with '' '' (opt_list (Option.bind (om_discovered m) am_scopes_supported)))"

definition auth_url :: "string \<Rightarrow> string \<Rightarrow> string \<Rightarrow> string \<Rightarrow> string \<Rightarrow> string" where
  "auth_url endpoint client_id redirect challenge scopes =
     endpoint @ ''?response_type=code&client_id='' @ client_id @ ''&redirect_uri='' @ redirect @
     ''&code_challenge='' @ challenge @ ''&code_challenge_method=S256'' @
     (if scopes = [] then [] else ''&scope='' @ scopes)"

definition authorization_endpoint :: "oauth_manager \<Rightarrow> string \<Rightarrow> string" where
  "authorization_endpoint m token_endpoint =
     (case Option.bind (om_discovered m) am_authorization_endpoint of Some e \<Rightarrow> e | None \<Rightarrow> token_endpoint)"

definition s256_offered :: "oauth_manager \<Rightarrow> bool" where
  "s256_offered m = (''S256'' \<in> set (opt_list (Option.bind (om_discovered m) am_code_challenge_methods)))"

definition net_ok :: "('n \<Rightarrow> 'a \<times> 'n) \<Rightarrow> ('n, 'r, 'a) oauth" where
  "net_ok f = net [] (\<lambda>n. case f n of (x, n') \<Rightarrow> (Inr x, n'))"

definition do_authorization_code :: "('n, 'r) oauth_lib \<Rightarrow> string \<Rightarrow> string \<Rightarrow> ('n, 'r, string) oauth" where
  "do_authorization_code lib token_endpoint backend_id =
     bind_auth get_state (\<lambda>m.
     bind_auth
       (case oc_client_id (om_config m) of
          Some cid \<Rightarrow> return_auth cid
        | None \<Rightarrow>
            bind_auth (register_dynamic lib ''OAuth2 client_id not configured and no registration endpoint discovered'')
              (\<lambda>(cid, cs). return_auth cid))
       (\<lambda>client_id.
     bind_auth (net_ok (if s256_offered m then generate_pkce_s256 lib else generate_pkce_plain lib))
       (\<lambda>(code_verifier, code_challenge).
     bind_auth (net_ok (ol_open_browser lib
         (auth_url (authorization_endpoint m token_endpoint) client_id (redirect_uri m) code_challenge (auth_scopes m))))
       (\<lambda>browser_opened.
     bind_auth (if browser_opened then receive_callback lib (oc_callback_port (om_config m)) else pasted_code lib)
       (\<lambda>code.
     bind_auth (post_json lib ''token request failed: '' ''failed to parse token response: '' token_endpoint
         (Form [(''grant_type'', ''authorization_code''), (''client_id'', client_id), (''code'', code),
           (''redirect_uri'', redirect_uri m), (''code_verifier'', code_verifier)]))
       (accept_token lib backend_id))))))"

section \<open>Refreshing\<close>

record refresh_failure =
  rf_error :: backend_error
  rf_rejected :: bool

definition refresh_request :: "('n, 'r) oauth_lib \<Rightarrow> string \<Rightarrow> ('n, 'r, http_reply \<times> json) oauth" where
  "refresh_request lib refresh_token =
     bind_auth get_state (\<lambda>m.
       bind_auth (lift_auth (resolve_token_endpoint m)) (\<lambda>token_endpoint.
         post_json lib ''token refresh failed: '' ''failed to parse refresh response: '' token_endpoint
           (Form [(''grant_type'', ''refresh_token''), (''refresh_token'', refresh_token),
             (''client_id'', case current_client_id m of Some i \<Rightarrow> i | None \<Rightarrow> []),
             (''client_secret'', case oc_client_secret (om_config m) of Some c \<Rightarrow> c | None \<Rightarrow> [])])))"

definition do_refresh ::
  "('n, 'r) oauth_lib \<Rightarrow> string \<Rightarrow> string \<Rightarrow> ('n, 'r) oauth_state \<Rightarrow> (refresh_failure + string) \<times> ('n, 'r) oauth_state" where
  "do_refresh lib refresh_token backend_id s =
     (case refresh_request lib refresh_token s of
        (Inl e, s') \<Rightarrow> (Inl \<lparr>rf_error = e, rf_rejected = False\<rparr>, s')
      | (Inr (r, body), s') \<Rightarrow>
          (if \<not> is_success r then
             (Inl \<lparr>rf_error = auth_error (''refresh failed ('' @ hp_status_text r @ ''): '' @ error_description body),
                   rf_rejected = (hp_status r = 400 \<or> hp_status r = 401)\<rparr>, s')
           else (case cache_token_response lib body backend_id s' of
               (Inl e, s2) \<Rightarrow> (Inl \<lparr>rf_error = e, rf_rejected = False\<rparr>, s2)
             | (Inr t, s2) \<Rightarrow> (Inr t, s2))))"

definition retry_with_stored ::
  "('n, 'r) oauth_lib \<Rightarrow> string \<Rightarrow> string \<Rightarrow> ('n, 'r) oauth_state \<Rightarrow> string option \<times> ('n, 'r) oauth_state" where
  "retry_with_stored lib rejected backend_id = (\<lambda>(m, w).
     case om_store m of
       None \<Rightarrow> (None, m, w)
     | Some store \<Rightarrow>
         (case load_token lib store backend_id w of
            (None, w1) \<Rightarrow> (None, m, w1)
          | (Some stored, w1) \<Rightarrow>
              (if pt_refresh_token stored = Some rejected then (None, m, w1)
               else
                 (let m1 = install_persisted lib stored w1 m in
                  if is_valid (ol_unix_secs lib (ow_net w1)) stored then (Some (pt_access_token stored), m1, w1)
                  else (case pt_refresh_token stored of
                    None \<Rightarrow> (None, m1, w1)
                  | Some refresh_token \<Rightarrow>
                      (case do_refresh lib refresh_token backend_id (m1, w1) of
                         (Inr token, s2) \<Rightarrow> (Some token, s2)
                       | (Inl _, s2) \<Rightarrow> (None, s2)))))))"

section \<open>Getting a token\<close>

definition usable_token :: "('n, 'r) oauth_lib \<Rightarrow> ('n, 'r) oauth_state \<Rightarrow> string option" where
  "usable_token lib = (\<lambda>(m, w).
     case om_cache m of
       Some c \<Rightarrow> (if tc_expires_at c > ol_mono_ns lib (ow_net w) + 30 * NS_PER_SEC then Some (tc_access_token c) else None)
     | None \<Rightarrow> None)"

text \<open>
  The refresh attempt under the lock: \<open>Some\<close> is the result to return, \<open>None\<close> goes on to acquire a
  new token.
\<close>

definition try_refresh ::
  "('n, 'r) oauth_lib \<Rightarrow> string \<Rightarrow> bool \<Rightarrow> ('n, 'r) oauth_state \<Rightarrow> (backend_error + string) option \<times> ('n, 'r) oauth_state" where
  "try_refresh lib backend_id daemon_mode s =
     (let s1 = await_refresh_lock lib s in
      case usable_token lib s1 of
        Some t \<Rightarrow> (Some (Inr t), s1)
      | None \<Rightarrow>
          (case Option.bind (om_cache (fst s1)) tc_refresh_token of
             None \<Rightarrow> (None, s1)
           | Some refresh_token \<Rightarrow>
               (case do_refresh lib refresh_token backend_id s1 of
                  (Inr new_token, s2) \<Rightarrow> (Some (Inr new_token), s2)
                | (Inl failure, s2) \<Rightarrow>
                    (case (if rf_rejected failure then retry_with_stored lib refresh_token backend_id s2 else (None, s2)) of
                       (Some token, s3) \<Rightarrow> (Some (Inr token), s3)
                     | (None, s3) \<Rightarrow>
                         (if daemon_mode
                          then (Some (Inl (auth_error (''token refresh failed (daemon mode): '' @ be_message (rf_error failure)))), s3)
                          else (None, s3))))))"

definition em_dash :: string where "em_dash = [CHR 0xE2, CHR 0x80, CHR 0x94]"

definition acquire_token :: "('n, 'r) oauth_lib \<Rightarrow> string \<Rightarrow> bool \<Rightarrow> ('n, 'r, string) oauth" where
  "acquire_token lib backend_id daemon_mode s =
     (let s1 = await_refresh_lock lib s in
      case usable_token lib s1 of
        Some t \<Rightarrow> (Inr t, s1)
      | None \<Rightarrow>
          bind_auth get_state (\<lambda>m.
            bind_auth (lift_auth (resolve_token_endpoint m)) (\<lambda>token_endpoint.
              let grant_type = resolve_grant_type m in
              if grant_type = ''client_credentials'' then do_client_credentials lib token_endpoint backend_id
              else if grant_type = ''authorization_code'' then
                (if daemon_mode then fail_auth ''interactive authorization_code grant blocked in daemon mode''
                 else do_authorization_code lib token_endpoint backend_id)
              else if grant_type = ''urn:ietf:params:oauth:grant-type:jwt-bearer'' then
                fail_auth ''JWT bearer grant is not yet supported by headless-mcp''
              else fail_auth (''unsupported OAuth2 grant type: '' @ grant_type))) s1)"

definition get_token :: "('n, 'r) oauth_lib \<Rightarrow> string \<Rightarrow> bool \<Rightarrow> ('n, 'r, string) oauth" where
  "get_token lib backend_id daemon_mode s =
     (case om_cache (fst s) of
        None \<Rightarrow> acquire_token lib backend_id daemon_mode s
      | Some cached \<Rightarrow>
          (case usable_token lib s of
             Some t \<Rightarrow> (Inr t, s)
           | None \<Rightarrow>
               (if tc_refresh_token cached \<noteq> None then
                  (case try_refresh lib backend_id daemon_mode s of
                     (Some r, s1) \<Rightarrow> (r, s1)
                   | (None, s1) \<Rightarrow> acquire_token lib backend_id daemon_mode s1)
                else if daemon_mode then
                  fail_auth (''token expired and no refresh token available (daemon mode '' @ em_dash @
                    '' run '' @ sq ''auth'' @ '' to re-authenticate)'') s
                else acquire_token lib backend_id daemon_mode s)))"

end
