(* ===== verification/Hub_Http_Backend.thy ===== *)
theory Hub_Http_Backend
  imports Hub_Http_Text Hub_OAuth2
begin

text \<open>
  The HTTP backend (\<open>crates/backends/backend-http/src/lib.rs\<close>): its state, posting with OAuth2
  discovery on a 401, requests with one authentication retry and one re-initialisation of a lost
  session, the handshake, and the operations of \<open>McpBackend\<close>.  Sending is a parameter on the network
  part of the world; taking the lock of re-initialisation is one too, since other requests of the same
  backend run meanwhile.  A request of the backend is otherwise one step.
\<close>

section \<open>State\<close>

record http_backend =
  hb_def :: backend_def
  hb_url :: string
  hb_bearer :: "string option"
  hb_oauth :: "oauth_manager option"
  hb_init :: "initialize_result option"
  hb_connected :: bool
  hb_counter :: u64
  hb_daemon :: bool
  hb_session_id :: "string option"
  hb_param_headers :: "(string \<times> param_headers) list"
  hb_epoch :: u64
  hb_tools_refresh :: bool

text \<open>
  A post: the bearer token of the client, the headers (names in lower case) and the body.  A failed
  send says whether it timed out.  Of a response the hub reads the status, two headers (as text) and
  the body.
\<close>

record post =
  po_url :: string
  po_bearer :: "string option"
  po_headers :: "(string \<times> string) list"
  po_body :: string

record downstream_reply =
  dr_status :: nat
  dr_www_authenticate :: "string option"
  dr_session_id :: "string option"
  dr_body :: "string + string"

record ('n, 'r) client_lib =
  cl_oauth :: "('n, 'r) oauth_lib"
  cl_codec :: codec
  cl_send :: "post \<Rightarrow> 'n \<Rightarrow> (bool \<times> string + downstream_reply) \<times> 'n"
  cl_url_origin :: "string \<Rightarrow> (string \<times> string) option"
  cl_header_value :: "string \<Rightarrow> bool"
  cl_header_name :: "string \<Rightarrow> string option"
  cl_b64 :: "string \<Rightarrow> string"
  cl_await_reinit :: "http_backend \<Rightarrow> ('n, 'r) oauth_world \<Rightarrow> http_backend \<times> ('n, 'r) oauth_world"

type_synonym ('n, 'r) http_state = "http_backend \<times> ('n, 'r) oauth_world"

record failure =
  fl_error :: backend_error
  fl_session_lost :: "string option"

definition plain_failure :: "backend_error \<Rightarrow> failure" where
  "plain_failure e = \<lparr>fl_error = e, fl_session_lost = None\<rparr>"

section \<open>Construction\<close>

definition client_bearer :: "('n, 'r) client_lib \<Rightarrow> string option \<Rightarrow> string option" where
  "client_bearer lib bearer_token =
     (case bearer_token of
        Some token \<Rightarrow> (if token \<noteq> [] \<and> cl_header_value lib (''Bearer '' @ token) then Some token else None)
      | None \<Rightarrow> None)"

definition oauth2_manager :: "backend_def \<Rightarrow> file_store option \<Rightarrow> oauth_manager option" where
  "oauth2_manager d token_store =
     (case def_transport d of
        Http url bearer (Some config) \<Rightarrow> Some (manager_with_store config token_store)
      | _ \<Rightarrow> None)"

text \<open>\<open>None\<close>: the panic for a transport that is not HTTP.\<close>

definition with_shared_oauth2 ::
  "('n, 'r) client_lib \<Rightarrow> backend_def \<Rightarrow> bool \<Rightarrow> oauth_manager option \<Rightarrow> http_backend option" where
  "with_shared_oauth2 lib d daemon_mode oauth2 =
     (case def_transport d of
        Http url bearer_token _ \<Rightarrow>
          Some \<lparr>hb_def = d, hb_url = url, hb_bearer = client_bearer lib bearer_token, hb_oauth = oauth2, hb_init = None,
                hb_connected = False, hb_counter = 0, hb_daemon = daemon_mode, hb_session_id = None,
                hb_param_headers = [], hb_epoch = 0, hb_tools_refresh = False\<rparr>
      | _ \<Rightarrow> None)"

definition http_with_store ::
  "('n, 'r) client_lib \<Rightarrow> backend_def \<Rightarrow> file_store option \<Rightarrow> bool \<Rightarrow> http_backend option" where
  "http_with_store lib d token_store daemon_mode =
     with_shared_oauth2 lib d daemon_mode (oauth2_manager d token_store)"

definition http_new :: "('n, 'r) client_lib \<Rightarrow> backend_def \<Rightarrow> http_backend option" where
  "http_new lib d = http_with_store lib d None False"

definition set_daemon_mode :: "bool \<Rightarrow> http_backend \<Rightarrow> http_backend" where
  "set_daemon_mode daemon hb = hb\<lparr>hb_daemon := daemon\<rparr>"

definition rebuild_client_with_token :: "('n, 'r) client_lib \<Rightarrow> string \<Rightarrow> http_backend \<Rightarrow> http_backend" where
  "rebuild_client_with_token lib token hb = hb\<lparr>hb_bearer := client_bearer lib (Some token)\<rparr>"

section \<open>Posting\<close>

definition hb_id :: "http_backend \<Rightarrow> string" where "hb_id hb = def_id (hb_def hb)"

definition APPLICATION_JSON :: string where "APPLICATION_JSON = ''application/json''"
definition SSE_CONTENT_TYPE :: string where "SSE_CONTENT_TYPE = ''text/event-stream''"

text \<open>Where discovery starts: the URL the server names, or the well-known one of its origin.\<close>

definition discovery_url :: "('n, 'r) client_lib \<Rightarrow> string \<Rightarrow> string option \<Rightarrow> string" where
  "discovery_url lib url www_authenticate =
     (case Option.bind www_authenticate parse_resource_metadata_url of
        Some u \<Rightarrow> u
      | None \<Rightarrow>
          (case cl_url_origin lib url of
             Some (scheme, authority) \<Rightarrow> scheme @ ''://'' @ authority @ ''/.well-known/oauth-authorization-server''
           | None \<Rightarrow> url @ ''/.well-known/oauth-authorization-server''))"

definition discover_on_401 :: "('n, 'r) client_lib \<Rightarrow> downstream_reply \<Rightarrow> ('n, 'r) http_state \<Rightarrow> ('n, 'r) http_state" where
  "discover_on_401 lib resp = (\<lambda>(hb, w).
     case hb_oauth hb of
       Some m \<Rightarrow>
         (if dr_status resp = 401 then
            (case discover (cl_oauth lib) (discovery_url lib (hb_url hb) (dr_www_authenticate resp)) (m, w) of
               (_, m', w') \<Rightarrow> (hb\<lparr>hb_oauth := Some m'\<rparr>, w'))
          else (hb, w))
     | None \<Rightarrow> (hb, w))"

definition session_field :: "string option \<Rightarrow> (string \<times> string) list" where
  "session_field sid = (case sid of Some s \<Rightarrow> [(''mcp-session-id'', s)] | None \<Rightarrow> [])"

definition http_post ::
  "('n, 'r) client_lib \<Rightarrow> string \<Rightarrow> (string \<times> string) list \<Rightarrow> string option \<Rightarrow> ('n, 'r) http_state
     \<Rightarrow> (backend_error + string \<times> nat \<times> string option) \<times> ('n, 'r) http_state" where
  "http_post lib body extra_headers session_id = (\<lambda>(hb, w).
     let p = \<lparr>po_url = hb_url hb, po_bearer = hb_bearer hb,
              po_headers = [(''content-type'', APPLICATION_JSON), (''accept'', APPLICATION_JSON @ '', '' @ SSE_CONTENT_TYPE)] @
                extra_headers @ session_field session_id,
              po_body = body\<rparr>
     in (case cl_send lib p (ow_net w) of
           (Inl (timeout, e), n) \<Rightarrow>
             (Inl (backend_error_new (if timeout then Timeout else Connection)
                (''HTTP request to '' @ sq (hb_id hb) @ '' failed: '' @ e)), hb, w\<lparr>ow_net := n\<rparr>)
         | (Inr resp, n) \<Rightarrow>
             (case discover_on_401 lib resp (hb, w\<lparr>ow_net := n\<rparr>) of
                (hb', w') \<Rightarrow>
                  (case dr_body resp of
                     Inl e \<Rightarrow> (Inl (backend_error_new Protocol
                       (''failed to read response from '' @ sq (hb_id hb) @ '': '' @ e)), hb', w')
                   | Inr bytes \<Rightarrow> (Inr (bytes, dr_status resp, dr_session_id resp), hb', w')))))"

section \<open>Headers of a modern request\<close>

definition put_header :: "('n, 'r) client_lib \<Rightarrow> string \<Rightarrow> string \<Rightarrow> (string \<times> string) list \<Rightarrow> (string \<times> string) list" where
  "put_header lib name v headers = (if cl_header_value lib v then AList.update name v headers else headers)"

definition name_field :: "string \<Rightarrow> string option" where
  "name_field m =
     (if m = ''tools/call'' \<or> m = ''prompts/get'' then Some ''name''
      else if m = ''resources/read'' then Some ''uri'' else None)"

definition tool_headers :: "http_backend \<Rightarrow> string option \<Rightarrow> param_headers" where
  "tool_headers hb tool =
     (case Option.bind tool (map_of (rev (hb_param_headers hb))) of Some ps \<Rightarrow> ps | None \<Rightarrow> [])"

definition put_param ::
  "('n, 'r) client_lib \<Rightarrow> json \<Rightarrow> string list \<times> string \<Rightarrow> (string \<times> string) list \<Rightarrow> (string \<times> string) list" where
  "put_param lib params = (\<lambda>(path, suffix) headers.
     case (Option.bind (Option.bind (get_key params ''arguments'') (arg_at path)) header_text,
           cl_header_name lib (''Mcp-Param-'' @ suffix)) of
       (Some v, Some name) \<Rightarrow> put_header lib name (encode_header_value (cl_b64 lib) v) headers
     | _ \<Rightarrow> headers)"

definition modern_headers :: "('n, 'r) client_lib \<Rightarrow> http_backend \<Rightarrow> string \<Rightarrow> json option \<Rightarrow> (string \<times> string) list" where
  "modern_headers lib hb m params =
     (case (params, modern_version params) of
        (Some p, Some version) \<Rightarrow>
          (let source = Option.bind (Option.bind (name_field m) (get_key p)) as_str;
               h1 = put_header lib ''mcp-method'' m (put_header lib ''mcp-protocol-version'' version []);
               h2 = (case source of
                       Some s \<Rightarrow> put_header lib ''mcp-name'' (encode_header_value (cl_b64 lib) s) h1
                     | None \<Rightarrow> h1)
           in if m = ''tools/call'' then fold (put_param lib p) (tool_headers hb source) h2 else h2)
      | _ \<Rightarrow> [])"

section \<open>Requests\<close>

definition capture_session :: "string option \<Rightarrow> http_backend \<Rightarrow> http_backend" where
  "capture_session sid hb = (case sid of Some s \<Rightarrow> hb\<lparr>hb_session_id := Some s\<rparr> | None \<Rightarrow> hb)"

definition ok_status :: "nat \<Rightarrow> bool" where "ok_status s = (200 \<le> s \<and> s \<le> 299)"

definition final_reply ::
  "('n, 'r) client_lib \<Rightarrow> string option \<Rightarrow> string \<Rightarrow> nat \<Rightarrow> ('n, 'r) http_state \<Rightarrow> (failure + json) \<times> ('n, 'r) http_state" where
  "final_reply lib sent_session bytes status = (\<lambda>(hb, w).
     (if \<not> ok_status status then
        Inl \<lparr>fl_error = backend_error_new (if 500 \<le> status \<and> status \<le> 599 then Connection else Protocol)
               (''HTTP '' @ digits_of status @ '' from '' @ sq (hb_id hb) @ '': '' @ from_utf8_lossy bytes),
             fl_session_lost =
               (if status = 404 \<and> sent_session \<noteq> None then Some ''HTTP 404 for the session''
                else session_not_initialized (cl_codec lib) bytes)\<rparr>
      else (case parse_response (cl_codec lib) bytes (hb_id hb) of
              Inr v \<Rightarrow> Inr v
            | Inl e \<Rightarrow> Inl \<lparr>fl_error = e, fl_session_lost = session_not_initialized (cl_codec lib) bytes\<rparr>), hb, w))"

text \<open>The second post, after a token was got.\<close>

definition authorized_retry ::
  "('n, 'r) client_lib \<Rightarrow> string \<Rightarrow> (string \<times> string) list \<Rightarrow> string option \<Rightarrow> ('n, 'r) http_state
     \<Rightarrow> (failure + json) \<times> ('n, 'r) http_state" where
  "authorized_retry lib body extra_headers sent_session s =
     (case http_post lib body extra_headers sent_session s of
        (Inl e, s') \<Rightarrow> (Inl (plain_failure e), s')
      | (Inr (bytes, status, sid), hb, w) \<Rightarrow>
          ((if ok_status status then
              (case parse_response (cl_codec lib) bytes (hb_id hb) of Inr v \<Rightarrow> Inr v | Inl e \<Rightarrow> Inl (plain_failure e))
            else Inl (plain_failure (backend_error_new Auth
              (''HTTP '' @ digits_of status @ '' after OAuth2: '' @ from_utf8_lossy bytes)))),
           capture_session sid hb, w))"

definition send_request_inner ::
  "('n, 'r) client_lib \<Rightarrow> string \<Rightarrow> json option \<Rightarrow> bool \<Rightarrow> ('n, 'r) http_state \<Rightarrow> (failure + json) \<times> ('n, 'r) http_state" where
  "send_request_inner lib m params retry = (\<lambda>(hb, w).
     let request_id = hb_counter hb;
         hb0 = hb\<lparr>hb_counter := request_id + 1\<rparr>;
         extra_headers = modern_headers lib hb0 m params;
         body = to_text (cl_codec lib) (message_value (Request (new_request (IdNumber request_id) m params)));
         sent_session = hb_session_id hb0
     in (case http_post lib body extra_headers sent_session (hb0, w) of
           (Inl e, s) \<Rightarrow> (Inl (plain_failure e), s)
         | (Inr (bytes, status, sid), hb1, w1) \<Rightarrow>
             (let hb2 = capture_session sid hb1 in
              case (if status = 401 \<and> retry then hb_oauth hb2 else None) of
                None \<Rightarrow> final_reply lib sent_session bytes status (hb2, w1)
              | Some mgr \<Rightarrow>
                  (case get_token (cl_oauth lib) (hb_id hb2) (hb_daemon hb2) (mgr, w1) of
                     (Inr token, mgr', w2) \<Rightarrow>
                       authorized_retry lib body extra_headers sent_session
                         (rebuild_client_with_token lib token (hb2\<lparr>hb_oauth := Some mgr'\<rparr>), w2)
                   | (Inl e, mgr', w2) \<Rightarrow>
                       final_reply lib sent_session bytes status (hb2\<lparr>hb_oauth := Some mgr'\<rparr>, w2)))))"

definition session_header :: "('n, 'r) client_lib \<Rightarrow> http_backend \<Rightarrow> (string \<times> string) list" where
  "session_header lib hb =
     (case hb_session_id hb of
        Some sid \<Rightarrow> (if cl_header_value lib sid then [(''mcp-session-id'', sid)] else [])
      | None \<Rightarrow> [])"

definition send_notification ::
  "('n, 'r) client_lib \<Rightarrow> string \<Rightarrow> json option \<Rightarrow> ('n, 'r) http_state \<Rightarrow> (backend_error + unit) \<times> ('n, 'r) http_state" where
  "send_notification lib m params = (\<lambda>(hb, w).
     let p = \<lparr>po_url = hb_url hb, po_bearer = hb_bearer hb,
              po_headers = (''content-type'', APPLICATION_JSON) # session_header lib hb,
              po_body = to_text (cl_codec lib) (message_value (Notification (new_notification m params)))\<rparr>
     in (case cl_send lib p (ow_net w) of
           (Inl (timeout, e), n) \<Rightarrow>
             (Inl (backend_error_new Connection (''HTTP notification to '' @ sq (hb_id hb) @ '' failed: '' @ e)), hb, w\<lparr>ow_net := n\<rparr>)
         | (Inr resp, n) \<Rightarrow>
             (if \<not> ok_status (dr_status resp) then
                Inl (backend_error_new Protocol
                  (''notification to '' @ sq (hb_id hb) @ '' returned HTTP '' @ digits_of (dr_status resp)))
              else Inr (), hb, w\<lparr>ow_net := n\<rparr>)))"

definition initialize_params :: json where
  "initialize_params =
     jobj [(''protocolVersion'', JStr ''2024-11-05''),
       (''clientInfo'', jobj [(''name'', JStr ''headless-mcp''), (''version'', JStr CARGO_PKG_VERSION)]),
       (''capabilities'', JObj [])]"

definition handshake :: "('n, 'r) client_lib \<Rightarrow> ('n, 'r) http_state \<Rightarrow> (backend_error + initialize_result) \<times> ('n, 'r) http_state" where
  "handshake lib s =
     (case send_request_inner lib ''initialize'' (Some initialize_params) True s of
        (Inl f, s1) \<Rightarrow> (Inl (fl_error f), s1)
      | (Inr result, s1) \<Rightarrow>
          (case initialize_result_from_value result of
             None \<Rightarrow> (Inl (backend_error_new Protocol (''bad init result: '' @ shape_msg (cl_codec lib) result)), s1)
           | Some init_result \<Rightarrow>
               (Inr init_result, snd (send_notification lib ''notifications/initialized'' None s1))))"

definition reinitialize ::
  "('n, 'r) client_lib \<Rightarrow> u64 \<Rightarrow> ('n, 'r) http_state \<Rightarrow> (backend_error + unit) \<times> ('n, 'r) http_state" where
  "reinitialize lib seen_epoch = (\<lambda>(hb, w).
     let (hb0, w0) = cl_await_reinit lib hb w in
     if hb_epoch hb0 \<noteq> seen_epoch then (Inr (), hb0, w0)
     else
       (let stale = hb_session_id hb0 in
        case handshake lib (hb0\<lparr>hb_session_id := None\<rparr>, w0) of
          (outcome, hb1, w1) \<Rightarrow>
            (let hb2 = hb1\<lparr>hb_epoch := hb_epoch hb1 + 1\<rparr> in
             case outcome of
               Inr init \<Rightarrow> (Inr (), hb2\<lparr>hb_init := Some init, hb_tools_refresh := True\<rparr>, w1)
             | Inl e \<Rightarrow> (Inl e, (if hb_session_id hb2 = None then hb2\<lparr>hb_session_id := stale\<rparr> else hb2), w1))))"

definition send_request ::
  "('n, 'r) client_lib \<Rightarrow> string \<Rightarrow> json option \<Rightarrow> bool \<Rightarrow> ('n, 'r) http_state \<Rightarrow> (backend_error + json) \<times> ('n, 'r) http_state" where
  "send_request lib m params retry s =
     (let epoch = hb_epoch (fst s) in
      case send_request_inner lib m params retry s of
        (Inr v, s1) \<Rightarrow> (Inr v, s1)
      | (Inl f, s1) \<Rightarrow>
          (case fl_session_lost f of
             None \<Rightarrow> (Inl (fl_error f), s1)
           | Some reason \<Rightarrow>
               (if m = ''initialize'' \<or> modern_version params \<noteq> None then (Inl (fl_error f), s1)
                else
                  (case reinitialize lib epoch s1 of
                     (Inl e, s2) \<Rightarrow> (Inl (fl_error f), s2)
                   | (Inr u, s2) \<Rightarrow>
                       (case send_request_inner lib m params retry s2 of
                          (Inl f', s3) \<Rightarrow> (Inl (fl_error f'), s3)
                        | (Inr v, s3) \<Rightarrow> (Inr v, s3))))))"

section \<open>The operations of the backend\<close>

definition check_connected :: "http_backend \<Rightarrow> backend_error + unit" where
  "check_connected hb =
     (if hb_connected hb then Inr ()
      else Inl (backend_error_new Connection (''backend '' @ sq (hb_id hb) @ '' not connected'')))"

definition adopt_token :: "('n, 'r) client_lib \<Rightarrow> ('n, 'r) http_state \<Rightarrow> ('n, 'r) http_state" where
  "adopt_token lib = (\<lambda>(hb, w).
     case hb_oauth hb of
       None \<Rightarrow> (hb, w)
     | Some m \<Rightarrow>
         (case adopt_persisted (cl_oauth lib) (hb_id hb) (m, w) of
            (token, m', w') \<Rightarrow>
              (let hb' = hb\<lparr>hb_oauth := Some m'\<rparr>
               in (case token of Some t \<Rightarrow> rebuild_client_with_token lib t hb' | None \<Rightarrow> hb', w'))))"

definition http_connect :: "('n, 'r) client_lib \<Rightarrow> ('n, 'r) http_state \<Rightarrow> (backend_error + initialize_result) \<times> ('n, 'r) http_state" where
  "http_connect lib s =
     (if hb_connected (fst s) then
        (case hb_init (fst s) of
           Some i \<Rightarrow> Inr i
         | None \<Rightarrow> Inl (backend_error_new Internal ''no cached init result''), s)
      else
        (case handshake lib (adopt_token lib s) of
           (Inl e, s1) \<Rightarrow> (Inl e, s1)
         | (Inr init, hb, w) \<Rightarrow> (Inr init, hb\<lparr>hb_init := Some init, hb_connected := True\<rparr>, w)))"

fun read_tools :: "('n, 'r) client_lib \<Rightarrow> json list \<Rightarrow> backend_error + tool_descriptor list" where
  "read_tools lib [] = Inr []"
| "read_tools lib (t # ts) =
     (case tool_from_value t of
        None \<Rightarrow> Inl (backend_error_new Protocol (''invalid tool descriptor: '' @ shape_msg (cl_codec lib) t))
      | Some d \<Rightarrow> bind_res (read_tools lib ts) (\<lambda>ds. Inr (d # ds)))"

definition http_list_tools :: "('n, 'r) client_lib \<Rightarrow> ('n, 'r) http_state \<Rightarrow> (backend_error + tool_descriptor list) \<times> ('n, 'r) http_state" where
  "http_list_tools lib s =
     (case check_connected (fst s) of
        Inl e \<Rightarrow> (Inl e, s)
      | Inr u \<Rightarrow>
          (case send_request lib ''tools/list'' None True s of
             (Inl e, s1) \<Rightarrow> (Inl e, s1)
           | (Inr result, hb, w) \<Rightarrow>
               (case Option.bind (get_key result ''tools'') as_array of
                  None \<Rightarrow> (Inl (backend_error_new Protocol (''no '' @ sq ''tools'' @ '' array in response'')), hb, w)
                | Some tools_list \<Rightarrow>
                    (case read_tools lib tools_list of
                       Inl e \<Rightarrow> (Inl e, hb, w)
                     | Inr tools \<Rightarrow>
                         (Inr tools, hb\<lparr>hb_param_headers :=
                            filter (\<lambda>(n, paths). paths \<noteq> [])
                              (map (\<lambda>t. (td_name t, param_header_paths (td_input_schema t))) tools)\<rparr>, w)))))"

definition http_call_method ::
  "('n, 'r) client_lib \<Rightarrow> string \<Rightarrow> json option \<Rightarrow> ('n, 'r) http_state \<Rightarrow> (backend_error + json) \<times> ('n, 'r) http_state" where
  "http_call_method lib m params s =
     (case check_connected (fst s) of
        Inl e \<Rightarrow> (Inl e, s)
      | Inr u \<Rightarrow> send_request lib m params True s)"

definition http_call_tool ::
  "('n, 'r) client_lib \<Rightarrow> string \<Rightarrow> json option \<Rightarrow> ('n, 'r) http_state \<Rightarrow> (backend_error + json) \<times> ('n, 'r) http_state" where
  "http_call_tool lib name arguments s =
     (case check_connected (fst s) of
        Inl e \<Rightarrow> (Inl e, s)
      | Inr u \<Rightarrow>
          send_request lib ''tools/call''
            (Some (jobj [(''name'', JStr name), (''arguments'', case arguments of Some a \<Rightarrow> a | None \<Rightarrow> JObj [])])) True s)"

definition http_disconnect :: "('n, 'r) http_state \<Rightarrow> (backend_error + unit) \<times> ('n, 'r) http_state" where
  "http_disconnect = (\<lambda>(hb, w). (Inr (), hb\<lparr>hb_connected := False\<rparr>, w))"

definition http_health_check :: "('n, 'r) client_lib \<Rightarrow> ('n, 'r) http_state \<Rightarrow> (backend_error + unit) \<times> ('n, 'r) http_state" where
  "http_health_check lib s =
     (case check_connected (fst s) of
        Inl e \<Rightarrow> (Inl e, s)
      | Inr u \<Rightarrow>
          (case send_request lib ''tools/list'' None True s of
             (Inl e, s1) \<Rightarrow> (Inl e, s1)
           | (Inr v, s1) \<Rightarrow> (Inr (), s1)))"

definition http_take_tools_refresh :: "('n, 'r) http_state \<Rightarrow> bool \<times> ('n, 'r) http_state" where
  "http_take_tools_refresh = (\<lambda>(hb, w). (hb_tools_refresh hb, hb\<lparr>hb_tools_refresh := False\<rparr>, w))"

text \<open>
  The backend as the registry sees it: backends are shared objects, found by a key \<open>'b\<close> in the world.
\<close>

definition at_backend :: "(('n, 'r) http_state \<Rightarrow> 'a \<times> ('n, 'r) http_state) \<Rightarrow> 'b \<Rightarrow>
    ('b \<Rightarrow> http_backend) \<times> ('n, 'r) oauth_world \<Rightarrow> 'a \<times> ('b \<Rightarrow> http_backend) \<times> ('n, 'r) oauth_world" where
  "at_backend f b = (\<lambda>(bs, w). case f (bs b, w) of (r, hb, w') \<Rightarrow> (r, bs(b := hb), w'))"

definition http_ops ::
  "('n, 'r) client_lib \<Rightarrow> (u64 \<Rightarrow> 'n \<Rightarrow> 'n) \<Rightarrow> ('b, ('b \<Rightarrow> http_backend) \<times> ('n, 'r) oauth_world) backend_ops" where
  "http_ops lib sleep =
     \<lparr>op_connect = at_backend (http_connect lib),
      op_list_tools = at_backend (http_list_tools lib),
      op_call_tool = (\<lambda>b n args timeout. at_backend (http_call_tool lib n args) b),
      op_disconnect = at_backend http_disconnect,
      op_health_check = at_backend (http_health_check lib),
      op_request = (\<lambda>b m p timeout. at_backend (http_call_method lib m p) b),
      op_take_tools_refresh = at_backend http_take_tools_refresh,
      op_sleep_ms = (\<lambda>ms (bs, w). (bs, w\<lparr>ow_net := sleep ms (ow_net w)\<rparr>))\<rparr>"

end
