(* ===== verification/Hub_Http_Contract.thy ===== *)
theory Hub_Http_Contract
  imports Hub_Http_Backend Hub_Backend_Contract
begin

text \<open>
  The HTTP backend keeps the contract of \<open>McpBackend\<close>: the flag \<open>connected\<close> is only changed by \<open>connect\<close>
  and \<open>disconnect\<close>, whatever OAuth2 does in between.
\<close>

section \<open>The flag\<close>

lemma discover_connected: "discover_on_401 lib resp (hb, w) = (hb', w') \<Longrightarrow> hb_connected hb' = hb_connected hb"
  by (auto simp: discover_on_401_def split: option.splits if_splits prod.splits)

lemma post_connected: "http_post lib body extra sid (hb, w) = (r, hb', w') \<Longrightarrow> hb_connected hb' = hb_connected hb"
  by (auto simp: http_post_def Let_def split: prod.splits sum.splits dest!: discover_connected)

lemma keeps_connected [simp]:
  "hb_connected (capture_session sid hb) = hb_connected hb"
  "hb_connected (rebuild_client_with_token lib t hb) = hb_connected hb"
  by (simp_all add: capture_session_def rebuild_client_with_token_def split: option.split)

lemma retry_connected: "authorized_retry lib body extra sid (hb, w) = (r, hb', w') \<Longrightarrow> hb_connected hb' = hb_connected hb"
  by (auto simp: authorized_retry_def split: prod.splits sum.splits dest!: post_connected)

lemma final_connected: "final_reply lib sid bytes st (hb, w) = (r, hb', w') \<Longrightarrow> hb_connected hb' = hb_connected hb"
  by (simp add: final_reply_def)

lemma inner_connected:
  assumes "send_request_inner lib m params retry (hb, w) = (r, hb', w')"
  shows "hb_connected hb' = hb_connected hb"
proof -
  let ?hb0 = "hb\<lparr>hb_counter := hb_counter hb + 1\<rparr>"
  let ?body = "to_text (cl_codec lib) (message_value (Request (new_request (IdNumber (hb_counter hb)) m params)))"
  obtain p hb1 w1 where p: "http_post lib ?body (modern_headers lib ?hb0 m params) (hb_session_id hb) (?hb0, w) = (p, hb1, w1)"
    by (metis prod_cases3)
  have c: "hb_connected hb1 = hb_connected hb" using post_connected [OF p] by simp
  show ?thesis
  proof (cases p)
    case (Inl e)
    with assms p c show ?thesis by (simp add: send_request_inner_def Let_def del: message_value.simps)
  next
    case (Inr a)
    then obtain bytes status sid where a: "p = Inr (bytes, status, sid)" by (metis prod_cases3)
    let ?hb2 = "capture_session sid hb1"
    show ?thesis
    proof (cases "if status = 401 \<and> retry then hb_oauth ?hb2 else None")
      case None
      with assms p a have "final_reply lib (hb_session_id hb) bytes status (?hb2, w1) = (r, hb', w')"
        by (simp add: send_request_inner_def Let_def del: message_value.simps cong: if_cong)
      from final_connected [OF this] c show ?thesis by simp
    next
      case (Some mgr)
      obtain g mgr' w2 where g: "get_token (cl_oauth lib) (hb_id ?hb2) (hb_daemon ?hb2) (mgr, w1) = (g, mgr', w2)"
        by (metis prod_cases3)
      with assms p a Some have "(r, hb', w') = (case g of
           Inr token \<Rightarrow> authorized_retry lib ?body (modern_headers lib ?hb0 m params) (hb_session_id hb)
              (rebuild_client_with_token lib token (?hb2\<lparr>hb_oauth := Some mgr'\<rparr>), w2)
         | Inl e \<Rightarrow> final_reply lib (hb_session_id hb) bytes status (?hb2\<lparr>hb_oauth := Some mgr'\<rparr>, w2))"
        by (simp add: send_request_inner_def Let_def del: message_value.simps cong: if_cong split: sum.splits)
      with c show ?thesis by (cases g) (auto dest!: retry_connected [OF sym] final_connected [OF sym])
    qed
  qed
qed

lemma notification_connected: "send_notification lib m params (hb, w) = (r, hb', w') \<Longrightarrow> hb_connected hb' = hb_connected hb"
  by (auto simp: send_notification_def Let_def split: prod.splits sum.splits if_splits)

lemma handshake_connected:
  assumes "handshake lib (hb, w) = (r, hb', w')"
  shows "hb_connected hb' = hb_connected hb"
proof -
  obtain r1 hb1 w1 where 1: "send_request_inner lib ''initialize'' (Some initialize_params) True (hb, w) = (r1, hb1, w1)"
    by (metis prod_cases3)
  obtain r2 hb2 w2 where 2: "send_notification lib ''notifications/initialized'' None (hb1, w1) = (r2, hb2, w2)"
    by (metis prod_cases3)
  from assms 1 2 have "hb' = hb1 \<or> hb' = hb2"
    by (auto simp: handshake_def split: sum.splits option.splits)
  with inner_connected [OF 1] notification_connected [OF 2] show ?thesis by auto
qed

lemma adopt_connected: "adopt_token lib (hb, w) = (hb', w') \<Longrightarrow> hb_connected hb' = hb_connected hb"
  by (auto simp: adopt_token_def Let_def split: option.splits prod.splits)

section \<open>The contract\<close>

definition http_ready :: "'b \<Rightarrow> ('b \<Rightarrow> http_backend) \<times> ('n, 'r) oauth_world \<Rightarrow> bool" where
  "http_ready b w = hb_connected (fst w b)"

lemma connect_outcome:
  assumes "http_connect lib (hb, w) = (r, hb', w')"
  shows "(\<forall>i. r = Inr i \<longrightarrow> hb_connected hb') \<and> (\<forall>e. r = Inl e \<longrightarrow> hb_connected hb' = hb_connected hb)"
proof (cases "hb_connected hb")
  case True
  with assms show ?thesis by (auto simp: http_connect_def split: option.splits)
next
  case False
  obtain hb0 w0 where 0: "adopt_token lib (hb, w) = (hb0, w0)" by (metis prod.collapse)
  obtain r1 hb1 w1 where 1: "handshake lib (hb0, w0) = (r1, hb1, w1)" by (metis prod_cases3)
  from assms False 0 1 handshake_connected [OF 1] adopt_connected [OF 0] show ?thesis
    by (auto simp: http_connect_def split: sum.splits)
qed

lemma http_gates:
  "\<not> hb_connected hb \<Longrightarrow> turned_away (http_list_tools lib (hb, w)) (hb, w)"
  "\<not> hb_connected hb \<Longrightarrow> turned_away (http_call_tool lib n args (hb, w)) (hb, w)"
  "\<not> hb_connected hb \<Longrightarrow> turned_away (http_call_method lib m params (hb, w)) (hb, w)"
  "\<not> hb_connected hb \<Longrightarrow> turned_away (http_health_check lib (hb, w)) (hb, w)"
  by (simp_all add: turned_away_def http_list_tools_def http_call_tool_def http_call_method_def http_health_check_def
      check_connected_def)

lemma turned_away_at: "turned_away (f (bs b, w)) (bs b, w) \<Longrightarrow> turned_away (at_backend f b (bs, w)) (bs, w)"
  by (auto simp: turned_away_def at_backend_def)

interpretation http: mcp_backend "http_ops lib sleep" http_ready for lib sleep
proof
  fix b w i w'
  assume "op_connect (http_ops lib sleep) b w = (Inr i, w')"
  then show "http_ready b w'"
    by (cases w) (auto simp: http_ops_def at_backend_def http_ready_def split: prod.splits dest!: connect_outcome)
next
  fix b w e w'
  assume "op_connect (http_ops lib sleep) b w = (Inl e, w')"
  then show "http_ready b w' = http_ready b w"
    by (cases w) (auto simp: http_ops_def at_backend_def http_ready_def split: prod.splits dest!: connect_outcome)
next
  fix b w r w'
  assume "op_disconnect (http_ops lib sleep) b w = (r, w')"
  then show "\<not> http_ready b w'"
    by (cases w) (auto simp: http_ops_def at_backend_def http_ready_def http_disconnect_def)
qed (auto simp: http_ops_def http_ready_def intro!: turned_away_at http_gates)

text \<open>
  C15: A call the registry routes to an HTTP backend that is down is turned away before anything is sent:
  over a standing connection (eager, daemon, or lazy and healthy) the result is a connection error and
  nothing changes.  A call with a connection of its own never leaves the backend connected, whatever
  \<open>connect\<close>, the request and the server did.
\<close>

theorem http_calls_keep_connection_discipline:
  assumes "resolve_call n args reg = Inr (routed, h, args')" and "\<not> http_ready (bh_backend h) w"
    and "def_connection_mode (bh_def h) = Lazy \<longrightarrow> is_healthy reg (rt_backend_id routed)"
    and "route_call_with (http_ops lib sleep) n args extra t reg w = (r, reg', w')"
  shows "reg' = reg \<and> \<not> http_ready (bh_backend h) w' \<and>
    (def_connection_mode (bh_def h) \<noteq> PerCall \<longrightarrow> w' = w \<and> (\<exists>e. r = Inl e \<and> be_kind e = Connection))"
proof (cases "def_connection_mode (bh_def h) = PerCall")
  case True
  with http.per_call_closed [OF assms(1,2) True assms(4)] show ?thesis by simp
next
  case False
  from http.route_gate [OF assms(1,2) False assms(3), of lib sleep extra t] assms(2,4) show ?thesis by auto
qed

section \<open>A sample server\<close>

text \<open>
  It refuses the session \<open>gone\<close> with 404 and answers everything else with the sample result; its state is
  the log of the posts it got.
\<close>

definition session_of :: "post \<Rightarrow> string option" where
  "session_of p = map_of (po_headers p) ''mcp-session-id''"

definition post_oauth_lib :: "(post list, unit) oauth_lib" where
  "post_oauth_lib = \<lparr>ol_secret = sample_lib, ol_token_text = (\<lambda>t. []), ol_token_parse = (\<lambda>s. None),
     ol_get_json = (\<lambda>url n. (Inl ''offline'', n)), ol_post = (\<lambda>url body n. (Inl ''offline'', n)),
     ol_mono_ns = length, ol_unix_secs = (\<lambda>n. of_nat (length n)),
     ol_await_refresh_lock = (\<lambda>m w. ((om_cache m, om_discovered m), w)),
     ol_json_text = (\<lambda>v. []), ol_shape_error = (\<lambda>v. []), ol_random = (\<lambda>k n. (replicate k CHR ''r'', n)),
     ol_sha256 = (\<lambda>s. s), ol_b64url = (\<lambda>s. s), ol_open_browser = (\<lambda>url n. (False, n)),
     ol_callback_bind = (\<lambda>p n. (Inr (), n)), ol_callback_accept = (\<lambda>n. (Inr (), n)),
     ol_callback_line = (\<lambda>n. (Inl ''closed'', n)), ol_callback_write = (\<lambda>s n. (Inr (), n)),
     ol_read_stdin = (\<lambda>n. (Inl ''closed'', n))\<rparr>"

definition sample_client :: "(post list, unit) client_lib" where
  "sample_client = \<lparr>cl_oauth = post_oauth_lib, cl_codec = sample_server_codec,
     cl_send = (\<lambda>p l. (Inr \<lparr>dr_status = (if session_of p = Some ''gone'' then 404 else 200), dr_www_authenticate = None,
        dr_session_id = None, dr_body = Inr ''r0''\<rparr>, l @ [p])),
     cl_url_origin = (\<lambda>u. None), cl_header_value = (\<lambda>v. True), cl_header_name = Some, cl_b64 = (\<lambda>v. v),
     cl_await_reinit = Pair\<rparr>"

definition sample_http_def :: backend_def where
  "sample_http_def = (sample_def ''a'' None Eager)\<lparr>def_transport := Http ''http://a'' None None\<rparr>"

definition sample_http :: http_backend where
  "sample_http = the (http_with_store sample_client sample_http_def None False)"

definition sample_http_world :: "(post list, unit) oauth_world" where
  "sample_http_world = \<lparr>ow_secrets = sample_disk, ow_net = []\<rparr>"

lemma sample_http_sel [simp]:
  "hb_connected sample_http = False" "hb_oauth sample_http = None" "hb_epoch sample_http = 0"
  by (simp_all add: sample_http_def http_with_store_def with_shared_oauth2_def oauth2_manager_def sample_http_def_def)

theorem http_calls_keep_connection_discipline_witness:
  "\<exists>e. route_call_with (http_ops sample_client (\<lambda>ms n. n)) ''ns.f'' None [] 5 sample_registry
        ((\<lambda>b. sample_http), sample_http_world) = (Inl e, sample_registry, (\<lambda>b. sample_http), sample_http_world) \<and>
     be_kind e = Connection"
proof -
  let ?w = "(\<lambda>b. sample_http, sample_http_world)"
  obtain r reg' w' where c: "route_call_with (http_ops sample_client (\<lambda>ms n. n)) ''ns.f'' None [] 5 sample_registry ?w = (r, reg', w')"
    by (metis prod_cases3)
  have v: "resolve_call ''ns.f'' None sample_registry =
      Inr (route_of ''a'' (Some ''ns'') [''safe'', ''force''] (sample_tool ''f''),
        \<lparr>bh_def = sample_def ''a'' (Some ''ns'') Eager, bh_backend = ''f'', bh_health = True,
         bh_capabilities = Some sample_caps, bh_reconnect_attempts = 0\<rparr>, Some (JObj [(''safe'', JBool True)]))"
    by code_simp
  from http_calls_keep_connection_discipline [OF v _ _ c] c show ?thesis
    by (auto simp: http_ready_def sample_def_def)
qed

end
