(* ===== verification/Hub_One_Shot.thy ===== *)
theory Hub_One_Shot
  imports Hub_Config_Facts Hub_Registry_Calls Hub_Http_Contract Hub_Stdio_Backend
begin

text \<open>
  The one-shot call (\<open>crates/server/src/one_shot.rs\<close>): find the backend that owns a tool, connect, call,
  print.  The backends are objects made from their definitions: \<open>alloc\<close> puts a new one into the world and
  gives its handle, and its operations are those of the trait.  What is printed is a list of lines.
\<close>

section \<open>Arguments\<close>

definition parse_tool_name :: "string \<Rightarrow> string option \<times> string" where
  "parse_tool_name tool_name =
     (case split_once CHR ''.'' tool_name of Some (hint, rest) \<Rightarrow> (Some hint, rest) | None \<Rightarrow> (None, tool_name))"

fun pair_args :: "string list \<Rightarrow> jobject \<Rightarrow> string + jobject" where
  "pair_args [] m = Inr m"
| "pair_args (arg # args) m =
     (case split_once CHR ''='' arg of
        None \<Rightarrow> Inl (''arguments must be key=value pairs, got: '' @ sq arg)
      | Some (key, v) \<Rightarrow> pair_args args (obj_insert key (JStr v) m))"

definition call_arguments :: "codec \<Rightarrow> string list \<Rightarrow> string option \<Rightarrow> string + json option" where
  "call_arguments c args json_args =
     (case json_args of
        Some json_str \<Rightarrow>
          (case parse c json_str of
             Some v \<Rightarrow> Inr (Some v)
           | None \<Rightarrow> Inl (''invalid JSON arguments: '' @ parse_msg c json_str))
      | None \<Rightarrow> (if args \<noteq> [] then bind_res (pair_args args []) (\<lambda>m. Inr (Some (JObj m))) else Inr None))"

section \<open>Finding the owner\<close>

datatype backend_impl = StdioImpl stdio_backend | HttpImpl http_backend

text \<open>\<open>None\<close> would be the panic of \<open>HttpBackend::with_store\<close>, which its branch excludes.\<close>

definition connect_stdio_backend ::
  "('n, 'r) client_lib \<Rightarrow> backend_def \<Rightarrow> file_store option \<Rightarrow> bool \<Rightarrow> backend_impl option" where
  "connect_stdio_backend lib d store daemon =
     (case def_transport d of
        Stdio _ _ _ _ \<Rightarrow> Some (StdioImpl (stdio_backend_new d))
      | Http _ _ _ \<Rightarrow> map_option HttpImpl (http_with_store lib d store daemon))"

definition downstream_name_of :: "string option \<Rightarrow> string \<Rightarrow> backend_def \<Rightarrow> string option" where
  "downstream_name_of namespace_hint tool_name d =
     (case def_namespace d of
        Some ns \<Rightarrow>
          (case namespace_hint of
             Some hint \<Rightarrow> (if hint \<noteq> ns then None else strip_prefix tool_name (ns @ ''.''))
           | None \<Rightarrow> strip_prefix tool_name (ns @ ''.''))
      | None \<Rightarrow> Some tool_name)"

record ('b, 'w) backend_host =
  ho_ops :: "('b, 'w) backend_ops"
  ho_alloc :: "backend_def \<Rightarrow> backend_impl option \<Rightarrow> 'w \<Rightarrow> 'b \<times> 'w"

fun find_owner ::
  "('b, 'w) backend_host \<Rightarrow> ('n, 'r) client_lib \<Rightarrow> file_store option \<Rightarrow> bool \<Rightarrow> string option \<Rightarrow> string \<Rightarrow> backend_def list
     \<Rightarrow> 'w \<Rightarrow> (backend_def \<times> string) option \<times> 'w" where
  "find_owner host lib store daemon hint tool_name [] w = (None, w)"
| "find_owner host lib store daemon hint tool_name (d # ds) w =
     (case downstream_name_of hint tool_name d of
        None \<Rightarrow> find_owner host lib store daemon hint tool_name ds w
      | Some downstream_name \<Rightarrow>
          (let (b, w1) = ho_alloc host d (connect_stdio_backend lib d store daemon) w in
           case op_connect (ho_ops host) b w1 of
             (Inl e, w2) \<Rightarrow> find_owner host lib store daemon hint tool_name ds w2
           | (Inr init, w2) \<Rightarrow>
               (let (r, w3) = op_list_tools (ho_ops host) b w2 in
                if (case r of Inr tools \<Rightarrow> list_ex (\<lambda>t. td_name t = downstream_name) tools | Inl e \<Rightarrow> False)
                then (Some (d, downstream_name), w3)
                else find_owner host lib store daemon hint tool_name ds (snd (op_disconnect (ho_ops host) b w3)))))"

section \<open>Printing\<close>

definition chars :: "string \<Rightarrow> nat" where
  "chars s = length (filter (\<lambda>c. \<not> (128 \<le> (of_char c :: nat) \<and> (of_char c :: nat) \<le> 191)) s)"

text \<open>\<open>{:<20}\<close>: padded to 20 characters.\<close>

definition pad20 :: "string \<Rightarrow> string" where
  "pad20 s = s @ replicate (20 - chars s) CHR '' ''"

fun format_value :: "codec \<Rightarrow> json \<Rightarrow> string" where
  "format_value c JNull = ''null''"
| "format_value c (JBool b) = (if b then ''true'' else ''false'')"
| "format_value c (JNum n) = to_text c (JNum n)"
| "format_value c (JStr s) = s"
| "format_value c (JArr vs) = to_text c (JArr vs)"
| "format_value c (JObj kvs) = to_text c (JObj kvs)"

definition table_row :: "codec \<Rightarrow> string list \<Rightarrow> json \<Rightarrow> string" where
  "table_row c keys row =
     join_with '' | '' (map (\<lambda>k. pad20 (case get_key row k of Some v \<Rightarrow> format_value c v | None \<Rightarrow> [])) keys)"

definition print_table :: "codec \<Rightarrow> json \<Rightarrow> string list" where
  "print_table c v =
     (case v of
        JArr rows \<Rightarrow>
          (case rows of
             [] \<Rightarrow> [''(empty)'']
           | first # _ \<Rightarrow>
               (case as_object first of
                  Some obj \<Rightarrow>
                    (let keys = map fst obj; header = join_with '' | '' (map pad20 keys)
                     in header # replicate (length header) CHR ''-'' # map (table_row c keys) rows)
                | None \<Rightarrow> [pretty c v]))
      | _ \<Rightarrow> [pretty c v])"

definition print_result :: "codec \<Rightarrow> string \<Rightarrow> json \<Rightarrow> string list" where
  "print_result c format v = (if format = ''table'' then print_table c v else [pretty c v])"

section \<open>The call\<close>

definition run_one_shot ::
  "codec \<Rightarrow> ('b, 'w) backend_host \<Rightarrow> ('n, 'r) client_lib \<Rightarrow> config_env \<Rightarrow> string \<Rightarrow> string list \<Rightarrow> string option \<Rightarrow> string
     \<Rightarrow> string option \<Rightarrow> file_store option \<Rightarrow> bool \<Rightarrow> 'w \<Rightarrow> (string + unit) \<times> string list \<times> 'w" where
  "run_one_shot c host lib env tool_name args json_args format config_path token_store daemon w =
     (case load_config env config_path of
        Inl e \<Rightarrow> (Inl e, [], w)
      | Inr hub_config \<Rightarrow>
          (case call_arguments c args json_args of
             Inl e \<Rightarrow> (Inl e, [], w)
           | Inr arguments \<Rightarrow>
               (case find_owner host lib token_store daemon (fst (parse_tool_name tool_name)) tool_name
                       (hc_backends hub_config) w of
                  (None, w1) \<Rightarrow> (Inl (''no backend found that owns tool '' @ sq tool_name), [], w1)
                | (Some (d, downstream_name), w1) \<Rightarrow>
                    (let (b, w2) = ho_alloc host d (connect_stdio_backend lib d token_store daemon) w1 in
                     case op_connect (ho_ops host) b w2 of
                       (Inl e, w3) \<Rightarrow> (Inl (be_message e), [], w3)
                     | (Inr init, w3) \<Rightarrow>
                         (case op_call_tool (ho_ops host) b downstream_name arguments (unat (def_call_timeout_secs d)) w3 of
                            (Inl e, w4) \<Rightarrow> (Inl (''tool call failed: '' @ be_message e), [], w4)
                          | (Inr result, w4) \<Rightarrow>
                              (let out = print_result c format result in
                               case op_disconnect (ho_ops host) b w4 of
                                 (Inl e, w5) \<Rightarrow> (Inl (be_message e), out, w5)
                               | (Inr u, w5) \<Rightarrow> (Inr (), out, w5)))))))"

section \<open>What it calls\<close>

text \<open>The tool calls in a log.\<close>

definition tool_calls :: "'b downstream list \<Rightarrow> (string \<times> json option \<times> nat) list" where
  "tool_calls l = concat (map (\<lambda>m. case m of ToolCall b n args t \<Rightarrow> [(n, args, t)] | _ \<Rightarrow> []) l)"

lemma tool_calls_simps [simp]:
  "tool_calls [] = []" "tool_calls (l @ l') = tool_calls l @ tool_calls l'" "tool_calls (Opened b # l) = tool_calls l"
  "tool_calls (Closed b # l) = tool_calls l" "tool_calls (ToolCall b n args t # l) = (n, args, t) # tool_calls l"
  by (simp_all add: tool_calls_def)

text \<open>A host whose backends are logged, and whose new objects are not.\<close>

definition log_host :: "('b, 'w) backend_host \<Rightarrow> ('b, 'w \<times> 'b downstream list) backend_host" where
  "log_host host = \<lparr>ho_ops = logged (ho_ops host),
     ho_alloc = (\<lambda>d i (w, l). let (b, w') = ho_alloc host d i w in (b, w', l))\<rparr>"

lemma log_host_sel:
  "ho_ops (log_host host) = logged (ho_ops host)"
  "ho_alloc (log_host host) d i (w, l) = (let (b, w') = ho_alloc host d i w in (b, w', l))"
  by (simp_all add: log_host_def)

lemma find_owner_log:
  assumes "find_owner (log_host host) lib store daemon hint tool ds (w, l) = (r, w', l')"
  shows "tool_calls l' = tool_calls l \<and>
    (\<forall>d n. r = Some (d, n) \<longrightarrow> d \<in> set ds \<and> downstream_name_of hint tool d = Some n)"
  using assms
proof (induction ds arbitrary: w l)
  case (Cons d ds)
  show ?case
  proof (cases "downstream_name_of hint tool d")
    case None
    with Cons show ?thesis by auto
  next
    case (Some n)
    obtain b w1 where a: "ho_alloc host d (connect_stdio_backend lib d store daemon) w = (b, w1)" by (metis prod.collapse)
    obtain r1 w2 where c: "op_connect (ho_ops host) b w1 = (r1, w2)" by (metis prod.collapse)
    obtain r2 w3 where t: "op_list_tools (ho_ops host) b w2 = (r2, w3)" by (metis prod.collapse)
    obtain r3 w4 where q: "op_disconnect (ho_ops host) b w3 = (r3, w4)" by (metis prod.collapse)
    show ?thesis
    proof (cases r1)
      case (Inl e)
      with Cons.prems Some a c have "find_owner (log_host host) lib store daemon hint tool ds (w2, l @ [Opened b]) = (r, w', l')"
        by (simp add: log_host_sel logged_sel)
      from Cons.IH [OF this] show ?thesis by auto
    next
      case (Inr i)
      show ?thesis
      proof (cases "case r2 of Inr tools \<Rightarrow> list_ex (\<lambda>t. td_name t = n) tools | Inl e \<Rightarrow> False")
        case True
        with Cons.prems Some a c t Inr show ?thesis by (auto simp: log_host_sel logged_sel)
      next
        case False
        with Cons.prems Some a c t q Inr
        have "find_owner (log_host host) lib store daemon hint tool ds (w4, l @ [Opened b] @ [Closed b]) = (r, w', l')"
          by (simp add: log_host_sel logged_sel)
        from Cons.IH [OF this] show ?thesis by auto
      qed
    qed
  qed
qed simp


text \<open>A file with one backend, whose policy denies the tool \<open>f\<close> and the argument \<open>force\<close>, and a host for it.\<close>

definition policy_env :: config_env where
  "policy_env = \<lparr>ce_var = (\<lambda>n. None), ce_uppercase = id, ce_exists = (\<lambda>p. p = ''./headless-mcp.toml''), ce_read = Inr,
     ce_toml = (\<lambda>s. Inr (TTab [(''backends'', TTab [(''a'', TTab [(''transport'', TStr ''stdio''), (''command'', TStr ''srv''),
        (''namespace'', TStr ''ns''), (''tools_deny'', TArr [TStr ''f'']), (''deny_args'', TArr [TStr ''force''])])])])),
     ce_toml_msg = (\<lambda>s. ''bad''), ce_order = id\<rparr>"

definition sample_host :: "(string, unit) backend_host" where
  "sample_host = \<lparr>ho_ops = sample_ops, ho_alloc = (\<lambda>d i w. (''f'', w))\<rparr>"

abbreviation one_shot_run :: "(string + unit) \<times> string list \<times> unit \<times> string downstream list" where
  "one_shot_run \<equiv> run_one_shot sample_server_codec (log_host sample_host) sample_client policy_env
     ''ns.f'' [''force=1''] None ''json'' None None False ((), [])"


text \<open>
  The one-shot call is not held to the policy of a backend: a file that denies the tool and the
  argument gives a definition under which the registry has no such tool and refuses the argument, and
  the one-shot run makes the call with that argument and succeeds.
\<close>

theorem one_shot_ignores_policy:
  "\<exists>cfg d. load_config policy_env None = Inr cfg \<and> hc_backends cfg = [d] \<and>
     \<not> tool_permitted d ''f'' \<and> \<not> is_ok (apply_arg_policy d (Some (JObj [(''force'', JStr ''1'')]))) \<and>
     is_ok (fst one_shot_run) \<and>
     tool_calls (snd (snd (snd one_shot_run))) = [(''f'', Some (JObj [(''force'', JStr ''1'')]), 30)]"
proof -
  have c: "map_sum (\<lambda>e. ()) (\<lambda>cfg. map (\<lambda>d. (def_tools_allow d, def_tools_deny d, is_ok (apply_arg_policy d (Some (JObj [(''force'', JStr ''1'')])))))
      (hc_backends cfg)) (load_config policy_env None) = Inr [([], [''f''], False)]" by code_simp
  then obtain cfg d where "load_config policy_env None = Inr cfg" "hc_backends cfg = [d]" "def_tools_deny d = [''f'']"
      "\<not> is_ok (apply_arg_policy d (Some (JObj [(''force'', JStr ''1'')])))"
    by (cases "load_config policy_env None") (auto simp: Cons_eq_map_conv)
  moreover have "is_ok (fst one_shot_run)" by code_simp
  moreover have "tool_calls (snd (snd (snd one_shot_run))) = [(''f'', Some (JObj [(''force'', JStr ''1'')]), 30)]" by code_simp
  ultimately show ?thesis by (auto simp: tool_permitted_def)
qed

text \<open>A backend whose namespace has a dot is never asked, though the registry exposes its tools under that name.\<close>

lemma dotted_namespace_never_asked:
  "def_namespace d = Some ns \<Longrightarrow> CHR ''.'' \<in> set ns \<Longrightarrow>
     downstream_name_of (fst (parse_tool_name (compute_exposed_name (Some ns) n))) (compute_exposed_name (Some ns) n) d = None"
  by (auto simp: downstream_name_of_def parse_tool_name_def compute_exposed_name_def str_simps split: option.splits)

end
