(* ===== verification/Hub_Main.thy ===== *)
theory Hub_Main
  imports Hub_One_Shot Hub_Http_Transport
begin

text \<open>
  The binary (\<open>crates/server/src/main.rs\<close>): the registries it builds from a configuration, and its
  commands.  Parsing of the command line and of socket addresses, and the loops that the two transports
  run once they are set up, are parameters; log lines are left out.
\<close>

section \<open>Addresses and stores\<close>

datatype 'ip sock_addr = SockAddr 'ip u16

record 'ip net_lib =
  nl_socket :: "string \<Rightarrow> 'ip sock_addr option"
  nl_ip :: "string \<Rightarrow> 'ip option"
  nl_loopback :: 'ip

text \<open>\<open>127.0.0.1\<close> with a port always parses, to the loopback address.\<close>

definition default_bind :: "'ip net_lib \<Rightarrow> u16 \<Rightarrow> 'ip sock_addr" where
  "default_bind nl port = SockAddr (nl_loopback nl) port"

definition bind_addr_from_expose :: "'ip net_lib \<Rightarrow> u16 \<Rightarrow> 'ip sock_addr" where
  "bind_addr_from_expose nl port = SockAddr (nl_loopback nl) port"

definition bind_addr :: "'ip net_lib \<Rightarrow> string option \<Rightarrow> u16 \<Rightarrow> string + 'ip sock_addr" where
  "bind_addr nl bind port =
     (case bind of
        None \<Rightarrow> Inr (default_bind nl port)
      | Some b \<Rightarrow>
          (case nl_socket nl b of
             Some a \<Rightarrow> Inr a
           | None \<Rightarrow>
               (case nl_ip nl b of
                  Some ip \<Rightarrow> Inr (SockAddr ip port)
                | None \<Rightarrow> Inl (''--bind '' @ sq b @ '' is not a valid address; expected HOST:PORT (e.g. 0.0.0.0:'' @
                    digits_of (unat port) @ '') or HOST (e.g. 0.0.0.0)''))))"

definition build_token_store :: "'r secret_lib \<Rightarrow> (string \<Rightarrow> string option) \<Rightarrow> file_store option" where
  "build_token_store sl env = (case from_env sl env of Inr s \<Rightarrow> Some s | Inl e \<Rightarrow> None)"

section \<open>Registries\<close>

text \<open>A backend object is made for each definition and registered; the first refusal ends the loop.\<close>

fun register_each ::
  "('b, 'w) backend_host \<Rightarrow> (backend_def \<Rightarrow> backend_impl option) \<Rightarrow> backend_def list \<Rightarrow> 'b registry \<Rightarrow> 'w
     \<Rightarrow> (backend_error + 'b registry) \<times> 'w" where
  "register_each host mk [] reg w = (Inr reg, w)"
| "register_each host mk (d # ds) reg w =
     (let (b, w1) = ho_alloc host d (mk d) w in
      case register d b reg of
        (Inl e, _) \<Rightarrow> (Inl e, w1)
      | (Inr u, reg') \<Rightarrow> register_each host mk ds reg' w1)"

definition make_backend :: "('n, 'r) client_lib \<Rightarrow> file_store option \<Rightarrow> bool \<Rightarrow> backend_def \<Rightarrow> backend_impl option" where
  "make_backend lib store daemon d =
     (case def_transport d of
        Stdio _ _ _ _ \<Rightarrow> Some (StdioImpl (stdio_backend_new d))
      | Http _ _ _ \<Rightarrow> map_option HttpImpl (http_with_store lib d store daemon))"

definition build_registry ::
  "('b, 'w) backend_host \<Rightarrow> ('n, 'r) client_lib \<Rightarrow> hub_config \<Rightarrow> file_store option \<Rightarrow> bool \<Rightarrow> 'w
     \<Rightarrow> (backend_error + 'b registry) \<times> 'w" where
  "build_registry host lib config store daemon w =
     register_each host (make_backend lib store daemon) (hc_backends config) registry_new w"

definition expose_filtered :: "expose_filters \<Rightarrow> backend_def \<Rightarrow> backend_def" where
  "expose_filtered ebc d =
     (let d1 = (if ef_tools_allow ebc \<noteq> [] then d\<lparr>def_tools_allow := ef_tools_allow ebc\<rparr> else d)
      in if ef_tools_deny ebc \<noteq> [] then d1\<lparr>def_tools_deny := ef_tools_deny ebc\<rparr> else d1)"

definition exposed_defs :: "hub_config \<Rightarrow> expose_block \<Rightarrow> backend_def list" where
  "exposed_defs cfg eb =
     List.map_filter (\<lambda>d. map_option (\<lambda>ebc. expose_filtered ebc d) (map_of (eb_backends eb) (def_id d))) (hc_backends cfg)"

definition make_exposed ::
  "('n, 'r) client_lib \<Rightarrow> (string \<times> oauth_manager) list \<Rightarrow> bool \<Rightarrow> backend_def \<Rightarrow> backend_impl option" where
  "make_exposed lib oauth2 daemon d =
     (case def_transport d of
        Stdio _ _ _ _ \<Rightarrow> Some (StdioImpl (stdio_backend_new d))
      | Http _ _ _ \<Rightarrow> map_option HttpImpl (with_shared_oauth2 lib d daemon (map_of oauth2 (def_id d))))"

definition build_expose_registry ::
  "('b, 'w) backend_host \<Rightarrow> ('n, 'r) client_lib \<Rightarrow> hub_config \<Rightarrow> expose_block \<Rightarrow> (string \<times> oauth_manager) list \<Rightarrow> bool \<Rightarrow> 'w
     \<Rightarrow> (backend_error + 'b registry) \<times> 'w" where
  "build_expose_registry host lib cfg eb oauth2 daemon w =
     register_each host (make_exposed lib oauth2 daemon) (exposed_defs cfg eb) registry_new w"

text \<open>One token manager for each OAuth2 backend, by its id.\<close>

definition shared_managers :: "hub_config \<Rightarrow> file_store option \<Rightarrow> (string \<times> oauth_manager) list" where
  "shared_managers cfg store =
     List.map_filter (\<lambda>d. map_option (Pair (def_id d)) (oauth2_manager d store)) (hc_backends cfg)"

section \<open>Serving\<close>

text \<open>
  What the transports do once set up: the HTTP listener with the state of its router, and the loop on the
  standard streams.  A listener's task can also be lost (a panic).
\<close>

datatype task_end = Finished "string + unit" | Lost

record ('b, 'w, 'l, 'ip) server_lib =
  sv_limits :: "'l http_lib"
  sv_listen :: "'ip sock_addr \<Rightarrow> ('b, 'l) app_state \<Rightarrow> 'w \<Rightarrow> task_end \<times> 'w"
  sv_stdio :: "'b session \<Rightarrow> 'w \<Rightarrow> (string + unit) \<times> 'w"

definition DEFAULT_RATE_LIMIT :: u32 where "DEFAULT_RATE_LIMIT = 120"

definition hub_token_of :: "config_env \<Rightarrow> hub_config \<Rightarrow> string" where
  "hub_token_of env cfg =
     (case Option.bind (hc_auth cfg) ac_hub_token of
        Some t \<Rightarrow> t
      | None \<Rightarrow> (case ce_var env ''HEADLESS_MCP_TOKEN'' of Some t \<Rightarrow> t | None \<Rightarrow> []))"

definition rate_limit_of :: "hub_config \<Rightarrow> u32" where
  "rate_limit_of cfg = (case hc_auth cfg of Some a \<Rightarrow> ac_rate_limit a | None \<Rightarrow> DEFAULT_RATE_LIMIT)"

definition serve_http ::
  "('b, 'w, 'l, 'ip) server_lib \<Rightarrow> 'ip sock_addr \<Rightarrow> http_config \<Rightarrow> 'b session \<Rightarrow> 'w \<Rightarrow> task_end \<times> 'w" where
  "serve_http sv addr config session w =
     (case run_http (sv_limits sv) config session of
        Inl e \<Rightarrow> (Finished (Inl e), w)
      | Inr app \<Rightarrow> sv_listen sv addr app w)"

text \<open>
  The listeners run at the same time; \<open>main\<close> uses only how each of them ended, and the model lets them
  act on the world one after the other, once every block is set up.
\<close>

fun expose_each ::
  "('b, 'w) backend_host \<Rightarrow> ('n, 'r) client_lib \<Rightarrow> 'ip net_lib \<Rightarrow> hub_config \<Rightarrow> (string \<times> oauth_manager) list \<Rightarrow> bool
     \<Rightarrow> expose_block list \<Rightarrow> 'w \<Rightarrow> (backend_error + ('ip sock_addr \<times> 'b session) list) \<times> 'w" where
  "expose_each host lib nl cfg oauth2 daemon [] w = (Inr [], w)"
| "expose_each host lib nl cfg oauth2 daemon (eb # ebs) w =
     (case build_expose_registry host lib cfg eb oauth2 daemon w of
        (Inl e, w1) \<Rightarrow> (Inl e, w1)
      | (Inr reg, w1) \<Rightarrow>
          (case connect_all (ho_ops host) reg w1 of
             (rs, reg', w2) \<Rightarrow>
               (case expose_each host lib nl cfg oauth2 daemon ebs w2 of
                  (Inl e, w3) \<Rightarrow> (Inl e, w3)
                | (Inr ls, w3) \<Rightarrow> (Inr ((bind_addr_from_expose nl (eb_port eb), session_new reg') # ls), w3))))"

fun serve_each ::
  "('b, 'w, 'l, 'ip) server_lib \<Rightarrow> http_config \<Rightarrow> ('ip sock_addr \<times> 'b session) list \<Rightarrow> 'w \<Rightarrow> task_end list \<times> 'w" where
  "serve_each sv config [] w = ([], w)"
| "serve_each sv config ((addr, session) # ls) w =
     (let (o1, w1) = serve_http sv addr config session w; (rest, w2) = serve_each sv config ls w1 in (o1 # rest, w2))"

definition all_failed :: "task_end list \<Rightarrow> bool" where
  "all_failed outcomes = (outcomes \<noteq> [] \<and> list_all (\<lambda>t. t \<noteq> Finished (Inr ())) outcomes)"

definition result_of :: "task_end \<Rightarrow> string + unit" where
  "result_of t = (case t of Finished r \<Rightarrow> r | Lost \<Rightarrow> Inl ''listener lost'')"

definition run_serve ::
  "('b, 'w) backend_host \<Rightarrow> ('n, 'r) client_lib \<Rightarrow> config_env \<Rightarrow> 'ip net_lib \<Rightarrow> ('b, 'w, 'l, 'ip) server_lib \<Rightarrow> bool
     \<Rightarrow> string option \<Rightarrow> 'ip sock_addr \<Rightarrow> file_store option \<Rightarrow> bool \<Rightarrow> 'w \<Rightarrow> (string + unit) \<times> 'w" where
  "run_serve host lib env nl sv http config_path addr store daemon w =
     (case load_config env config_path of
        Inl e \<Rightarrow> (Inl e, w)
      | Inr cfg \<Rightarrow>
          (let config = \<lparr>hc_bearer_token = hub_token_of env cfg, hc_rate_limit_per_minute = rate_limit_of cfg\<rparr> in
           if hc_expose cfg \<noteq> [] then
             (if \<not> http then (Inr (), w)
              else (case expose_each host lib nl cfg (shared_managers cfg store) daemon (hc_expose cfg) w of
                      (Inl e, w1) \<Rightarrow> (Inl (be_message e), w1)
                    | (Inr ls, w1) \<Rightarrow>
                        (case serve_each sv config ls w1 of
                           (outcomes, w2) \<Rightarrow>
                             (if all_failed outcomes then Inl ''every expose listener failed to start'' else Inr (), w2))))
           else
             (case build_registry host lib cfg store daemon w of
                (Inl e, w1) \<Rightarrow> (Inl (be_message e), w1)
              | (Inr reg, w1) \<Rightarrow>
                  (case connect_all (ho_ops host) reg w1 of
                     (rs, reg', w2) \<Rightarrow>
                       (if http then
                          (case serve_http sv addr config (session_new reg') w2 of (t, w3) \<Rightarrow> (result_of t, w3))
                        else sv_stdio sv (session_new reg') w2)))))"

section \<open>The other commands\<close>

definition run_list_tools ::
  "('b, 'w) backend_host \<Rightarrow> ('n, 'r) client_lib \<Rightarrow> config_env \<Rightarrow> string option \<Rightarrow> file_store option \<Rightarrow> bool \<Rightarrow> 'w
     \<Rightarrow> (string + unit) \<times> string list \<times> 'w" where
  "run_list_tools host lib env config_path store daemon w =
     (case load_config env config_path of
        Inl e \<Rightarrow> (Inl e, [], w)
      | Inr cfg \<Rightarrow>
          (case build_registry host lib cfg store daemon w of
             (Inl e, w1) \<Rightarrow> (Inl (be_message e), [], w1)
           | (Inr reg, w1) \<Rightarrow>
               (case connect_all (ho_ops host) reg w1 of
                  (rs, reg', w2) \<Rightarrow>
                    (let tools = aggregated_tools reg'
                     in (Inr (), concat (map (\<lambda>t. [''  '' @ td_name t, ''    '' @ td_description t]) tools) @
                           (if tools = [] then [''No tools available.''] else []), w2)))))"

definition run_dry_run ::
  "('b, 'w) backend_host \<Rightarrow> ('n, 'r) client_lib \<Rightarrow> config_env \<Rightarrow> string option \<Rightarrow> file_store option \<Rightarrow> bool \<Rightarrow> 'w
     \<Rightarrow> (string + unit) \<times> string list \<times> 'w" where
  "run_dry_run host lib env config_path store daemon w =
     (case load_config env config_path of
        Inl e \<Rightarrow> (Inl e, [], w)
      | Inr cfg \<Rightarrow>
          (case build_registry host lib cfg store daemon w of
             (Inl e, w1) \<Rightarrow> (Inl (be_message e), [], w1)
           | (Inr reg, w1) \<Rightarrow>
               (case connect_all (ho_ops host) reg w1 of
                  (rs, reg', w2) \<Rightarrow>
                    (if 0 < length (filter (\<lambda>(i, r). \<not> is_ok r) rs) then Inl ''some backends failed'' else Inr (),
                     map (\<lambda>t. ''  '' @ td_name t) (aggregated_tools reg'), w2))))"

definition pad_to :: "nat \<Rightarrow> string \<Rightarrow> string" where
  "pad_to n s = s @ replicate (n - chars s) CHR '' ''"

definition config_line :: "backend_def \<Rightarrow> string" where
  "config_line d =
     (let ts = (case def_transport d of
                  Stdio cmd _ _ _ \<Rightarrow> ''stdio('' @ cmd @ '')'' | Http url _ _ \<Rightarrow> ''http('' @ url @ '')'')
      in ''  '' @ pad_to 20 (def_id d) @ '' '' @ pad_to 40 ts @ '' ns='' @
           (case def_namespace d of Some ns \<Rightarrow> ns | None \<Rightarrow> ''<none>''))"

definition run_print_config :: "config_env \<Rightarrow> string option \<Rightarrow> string list" where
  "run_print_config env config_path =
     (case load_config env config_path of Inr c \<Rightarrow> map config_line (hc_backends c) | Inl e \<Rightarrow> [])"

text \<open>
  The marks of \<open>auth_one\<close> (box drawing, a tick, a cross, bullets) are printed as UTF-8 bytes; lines of the
  error stream are kept apart from those of the standard output.
\<close>

definition BAR :: string where
  "BAR = [CHR 0xE2, CHR 0x95, CHR 0x90, CHR 0xE2, CHR 0x95, CHR 0x90, CHR 0xE2, CHR 0x95, CHR 0x90]"
definition TICK :: string where "TICK = [CHR 0xE2, CHR 0x9C, CHR 0x85]"
definition CROSS :: string where "CROSS = [CHR 0xE2, CHR 0x9D, CHR 0x8C]"
definition BULLET :: string where "BULLET = [CHR 0xE2, CHR 0x80, CHR 0xA2]"

datatype printed = OutLine string | ErrLine string

definition auth_one ::
  "('b, 'w) backend_host \<Rightarrow> ('n, 'r) client_lib \<Rightarrow> backend_def \<Rightarrow> file_store option \<Rightarrow> 'w \<Rightarrow> printed list \<times> 'w" where
  "auth_one host lib d store w =
     (let (b, w1) = ho_alloc host d (map_option HttpImpl (http_with_store lib d store False)) w;
          headline = [OutLine [], OutLine (BAR @ '' Authenticating '' @ sq (def_id d) @ '' '' @ BAR)]
      in case op_connect (ho_ops host) b w1 of
           (Inl e, w2) \<Rightarrow> (headline @ [ErrLine (CROSS @ '' '' @ def_id d @ '': '' @ be_message e)], w2)
         | (Inr init, w2) \<Rightarrow>
             (case op_list_tools (ho_ops host) b w2 of
                (r, w3) \<Rightarrow>
                  (headline @
                   [OutLine (TICK @ '' Connected to '' @ def_id d @ '' ('' @ si_name (ir_server_info init) @ '')'')] @
                   (case r of
                      Inl e \<Rightarrow> []
                    | Inr tools \<Rightarrow> OutLine (''   '' @ digits_of (length tools) @ '' tools:'') #
                        map (\<lambda>t. OutLine (''   '' @ BULLET @ '' '' @
                          (case def_namespace d of Some ns \<Rightarrow> ns | None \<Rightarrow> []) @ ''.'' @ td_name t)) tools) @
                   (if store \<noteq> None then [OutLine ''   Token persisted.''] else []), w3)))"

fun auth_each ::
  "('b, 'w) backend_host \<Rightarrow> ('n, 'r) client_lib \<Rightarrow> file_store option \<Rightarrow> backend_def list \<Rightarrow> 'w \<Rightarrow> printed list \<times> 'w" where
  "auth_each host lib store [] w = ([], w)"
| "auth_each host lib store (d # ds) w =
     (let (out, w1) = auth_one host lib d store w; (outs, w2) = auth_each host lib store ds w1 in (out @ outs, w2))"

fun numbered :: "nat \<Rightarrow> backend_def list \<Rightarrow> printed list" where
  "numbered n [] = []"
| "numbered n (d # ds) = OutLine (''  ['' @ digits_of n @ ''] '' @ def_id d) # numbered (n + 1) ds"

definition oauth2_backends :: "hub_config \<Rightarrow> backend_def list" where
  "oauth2_backends cfg =
     filter (\<lambda>d. case def_transport d of Http _ _ (Some _) \<Rightarrow> True | _ \<Rightarrow> False) (hc_backends cfg)"

definition run_auth ::
  "('b, 'w) backend_host \<Rightarrow> ('n, 'r) client_lib \<Rightarrow> config_env \<Rightarrow> string option \<Rightarrow> string option \<Rightarrow> file_store option \<Rightarrow> 'w
     \<Rightarrow> (string + unit) \<times> printed list \<times> 'w" where
  "run_auth host lib env config_path target store w =
     (case load_config env config_path of
        Inl e \<Rightarrow> (Inl e, [], w)
      | Inr cfg \<Rightarrow>
          (let backends = oauth2_backends cfg in
           if backends = [] then (Inr (), [OutLine ''No OAuth2 backends configured.''], w)
           else (case target of
                   Some t \<Rightarrow>
                     (if t = ''--all'' then (case auth_each host lib store backends w of (out, w1) \<Rightarrow> (Inr (), out, w1))
                      else (case find (\<lambda>d. def_id d = t) backends of
                              None \<Rightarrow> (Inl (''no such backend: '' @ t), [], w)
                            | Some d \<Rightarrow> (case auth_one host lib d store w of (out, w1) \<Rightarrow> (Inr (), out, w1))))
                 | None \<Rightarrow> (Inr (), numbered 1 backends @
                     [OutLine (''Run '' @ sq ''auth <id>'' @ '' or '' @ sq ''auth --all'')], w))))"

section \<open>The entry point\<close>

datatype command =
    Serve bool "string option" u16
  | CallTool string "string list" "string option" string
  | Tools "string option"
  | PrintConfig
  | Auth "string option"

record cli =
  cli_config :: "string option"
  cli_verbose :: bool
  cli_no_daemon :: bool
  cli_dry_run :: bool
  cli_command :: "command option"

text \<open>\<open>main\<close> after the command line is read: the result (the exit code is whether it is \<open>Ok\<close>) and what is printed.\<close>

definition main_run ::
  "codec \<Rightarrow> ('b, 'w) backend_host \<Rightarrow> ('n, 'r) client_lib \<Rightarrow> config_env \<Rightarrow> 'ip net_lib \<Rightarrow> ('b, 'w, 'l, 'ip) server_lib \<Rightarrow> 'r secret_lib
     \<Rightarrow> cli \<Rightarrow> 'w \<Rightarrow> (string + unit) \<times> printed list \<times> 'w" where
  "main_run c host lib env nl sv sl cli w =
     (let config_path = cli_config cli; token_store = build_token_store sl (ce_var env) in
      case cli_command cli of
        Some (Serve http bind port) \<Rightarrow>
          (case bind_addr nl bind port of
             Inl e \<Rightarrow> (Inl e, [], w)
           | Inr addr \<Rightarrow> (case run_serve host lib env nl sv http config_path addr token_store True w of (r, w1) \<Rightarrow> (r, [], w1)))
      | Some (Auth backend) \<Rightarrow> run_auth host lib env config_path backend token_store w
      | Some (CallTool tool args json format) \<Rightarrow>
          (case run_one_shot c host lib env tool args json format config_path token_store (cli_no_daemon cli) w of
             (r, out, w1) \<Rightarrow> (r, map OutLine out, w1))
      | Some (Tools _) \<Rightarrow>
          (case run_list_tools host lib env config_path token_store (cli_no_daemon cli) w of
             (r, out, w1) \<Rightarrow> (r, map OutLine out, w1))
      | Some PrintConfig \<Rightarrow> (Inr (), map OutLine (run_print_config env config_path), w)
      | None \<Rightarrow>
          (if cli_dry_run cli then
             (case run_dry_run host lib env config_path token_store (cli_no_daemon cli) w of
                (r, out, w1) \<Rightarrow> (r, map OutLine out, w1))
           else (case run_serve host lib env nl sv False config_path (default_bind nl 9797) token_store True w of
                   (r, w1) \<Rightarrow> (r, [], w1))))"

end
