(* ===== verification/Hub_Main_Facts.thy ===== *)
theory Hub_Main_Facts
  imports Hub_Main
begin

text \<open>
  Properties of the binary: the registry built from a loaded configuration, what a listener of an expose
  block advertises, and a hub token whose variable is not set.
\<close>

section \<open>Registering\<close>

lemma register_each_ids:
  assumes "register_each host mk ds reg w = (Inr reg', w')"
  shows "map fst (rg_backends reg') = map fst (rg_backends reg) @ map def_id ds \<and>
    rg_tool_index reg' = rg_tool_index reg \<and>
    map (\<lambda>(i, h). (i, bh_def h, bh_health h)) (rg_backends reg') =
      map (\<lambda>(i, h). (i, bh_def h, bh_health h)) (rg_backends reg) @ map (\<lambda>d. (def_id d, d, False)) ds"
  using assms
proof (induction ds arbitrary: reg w)
  case (Cons d ds)
  obtain b w1 where a: "ho_alloc host d (mk d) w = (b, w1)" by (metis prod.collapse)
  from Cons.prems a have n: "def_id d \<notin> fst ` set (rg_backends reg)"
    by (auto simp: register_def Let_def has_key_iff split: if_splits)
  have u: "AList.update (def_id d) h m = m @ [(def_id d, h)]" if "def_id d \<notin> fst ` set m" for h and m :: "(string \<times> 'a backend_handle) list"
    using that by (induction m) auto
  from Cons.IH [of "snd (register d b reg)" w1] Cons.prems a n show ?case
    by (simp add: register_def Let_def has_key_iff u)
qed simp

lemma register_each_ok:
  "distinct (map fst (rg_backends reg) @ map def_id ds) \<Longrightarrow> is_ok (fst (register_each host mk ds reg w))"
proof (induction ds arbitrary: reg w)
  case (Cons d ds)
  obtain b w1 where a: "ho_alloc host d (mk d) w = (b, w1)" by (metis prod.collapse)
  have n: "def_id d \<notin> fst ` set (rg_backends reg)" using Cons.prems by auto
  have u: "AList.update (def_id d) h m = m @ [(def_id d, h)]" if "def_id d \<notin> fst ` set m" for h and m :: "(string \<times> 'a backend_handle) list"
    using that by (induction m) auto
  from Cons.IH [of "snd (register d b reg)" w1] Cons.prems a n show ?case
    by (simp add: register_def Let_def has_key_iff u)
qed simp

lemma register_each_reach: "registry_reach ops reg \<Longrightarrow> register_each host mk ds reg w = (Inr reg', w') \<Longrightarrow> registry_reach ops reg'"
proof (induction ds arbitrary: reg w)
  case (Cons d ds)
  obtain b w1 where a: "ho_alloc host d (mk d) w = (b, w1)" by (metis prod.collapse)
  obtain r reg1 where r: "register d b reg = (r, reg1)" by (metis prod.collapse)
  from Cons.prems a r have "register_each host mk ds reg1 w1 = (Inr reg', w')" by (cases r) auto
  then show ?case by (rule Cons.IH [rotated]) (rule reach_register [OF Cons.prems(1) r])
qed simp

lemma make_backend_never_panics: "make_backend lib store daemon d \<noteq> None"
  by (cases "def_transport d") (simp_all add: make_backend_def http_with_store_def with_shared_oauth2_def)

text \<open>
  C17: A configuration that loads can be built: no definition makes a constructor panic, no registration
  is refused, and the registry holds exactly the configured backends in their order, none of them
  healthy yet and no tool indexed.
\<close>

theorem loaded_config_builds:
  assumes "load_config env explicit = Inr cfg" and "\<forall>bs. mset (ce_order env bs) = mset bs"
    and "\<forall>raw doc. ce_toml env raw = Inr doc \<longrightarrow> wf_toml doc"
  shows "\<exists>reg w1. build_registry host lib cfg store daemon w = (Inr reg, w1) \<and>
    map (\<lambda>(i, h). (i, bh_def h, bh_health h)) (rg_backends reg) = map (\<lambda>d. (def_id d, d, False)) (hc_backends cfg) \<and>
    rg_tool_index reg = [] \<and> (\<forall>d \<in> set (hc_backends cfg). make_backend lib store daemon d \<noteq> None)"
proof -
  have "distinct (map def_id (hc_backends cfg))"
    by (rule loaded_ids_distinct [OF assms])
  then have "is_ok (fst (build_registry host lib cfg store daemon w))"
    unfolding build_registry_def by (intro register_each_ok) (simp add: registry_new_def)
  then obtain reg w1 where r: "build_registry host lib cfg store daemon w = (Inr reg, w1)"
    by (metis is_ok_iff prod.collapse)
  from register_each_ids [OF r [unfolded build_registry_def]] r make_backend_never_panics show ?thesis
    by (auto simp: registry_new_def)
qed


text \<open>A host for configurations whose backends are named by their definitions.\<close>

definition named_host :: "(string, unit) backend_host" where
  "named_host = \<lparr>ho_ops = sample_ops, ho_alloc = (\<lambda>d i w. (''f'', w))\<rparr>"

lemma sample_env_ok:
  "\<forall>bs. mset (ce_order sample_env bs) = mset bs" "\<forall>raw doc. ce_toml sample_env raw = Inr doc \<longrightarrow> wf_toml doc"
  by (auto simp: sample_env_def)

theorem loaded_config_builds_witness:
  "\<exists>cfg reg w1. load_config sample_env None = Inr cfg \<and>
     build_registry named_host sample_client cfg None True () = (Inr reg, w1) \<and> map fst (rg_backends reg) = [''a'', ''b'']"
proof -
  have "map_sum (\<lambda>e. ()) (\<lambda>c. map def_id (hc_backends c)) (load_config sample_env None) = Inr [''a'', ''b'']" by code_simp
  then obtain cfg where cfg: "load_config sample_env None = Inr cfg" "map def_id (hc_backends cfg) = [''a'', ''b'']"
    by (cases "load_config sample_env None") auto
  from loaded_config_builds [OF cfg(1) sample_env_ok, of named_host sample_client None True "()"]
  obtain reg w1 where r: "build_registry named_host sample_client cfg None True () = (Inr reg, w1)"
      "map (\<lambda>(i, h). (i, bh_def h, bh_health h)) (rg_backends reg) = map (\<lambda>d. (def_id d, d, False)) (hc_backends cfg)"
    by blast
  from arg_cong [OF r(2), of "map fst"] have "map fst (rg_backends reg) = map def_id (hc_backends cfg)"
    by (simp add: o_def case_prod_beta)
  with cfg r(1) show ?thesis by auto
qed

section \<open>Expose blocks\<close>

lemma exposed_defs_set:
  "set (exposed_defs cfg eb) = {expose_filtered ebc d | d ebc. d \<in> set (hc_backends cfg) \<and> map_of (eb_backends eb) (def_id d) = Some ebc}"
  by (force simp: exposed_defs_def List.map_filter_def)

lemma expose_filtered_sel [simp]:
  "def_id (expose_filtered ebc d) = def_id d" "def_namespace (expose_filtered ebc d) = def_namespace d"
  by (simp_all add: expose_filtered_def Let_def)

text \<open>
  C19: A listener of an expose block advertises nothing else than tools of the backends the block names,
  under the namespace of the backend and let through by the filters of the block: each list of the block
  that is not empty stands in place of the one of the backend.  This holds whatever the backends do.
\<close>

theorem expose_advertises_only:
  assumes "build_expose_registry host lib cfg eb oauth2 daemon w = (Inr reg, w1)"
    and "connect_all ops reg w1 = (rs, reg', w2)" and "t \<in> set (aggregated_tools reg')"
  shows "\<exists>d ebc n. d \<in> set (hc_backends cfg) \<and> map_of (eb_backends eb) (def_id d) = Some ebc \<and>
    td_name t = compute_exposed_name (def_namespace d) n \<and>
    (let allow = (if ef_tools_allow ebc = [] then def_tools_allow d else ef_tools_allow ebc);
         deny = (if ef_tools_deny ebc = [] then def_tools_deny d else ef_tools_deny ebc)
     in (allow = [] \<or> n \<in> set allow) \<and> n \<notin> set deny)"
proof -
  note b = assms(1) [unfolded build_expose_registry_def]
  have "registry_reach ops reg'"
    using reach_connect_all [OF register_each_reach [OF registry_reach.reach_new b] assms(2)] .
  then have inv: "reg_inv reg'" by (rule registry_reach_inv)
  have defs: "backend_defs reg' = backend_defs reg" using keeps_defs.R_connect_all [OF assms(2)] .
  from inv have "table (rg_tool_index reg')" by (simp add: reg_inv_def)
  from assms(3) obtain k rt h where t: "t = rt_descriptor rt" "map_of (rg_tool_index reg') k = Some rt"
      "map_of (rg_backends reg') (rt_backend_id rt) = Some h"
    by (auto simp: set_aggregated_tools [OF \<open>table (rg_tool_index reg')\<close>] is_healthy_iff)
  with inv have ok: "route_ok (bh_def h) k rt" by (metis option.inject reg_inv_route)
  have "(rt_backend_id rt, bh_def h, bh_backend h) \<in> set (backend_defs reg')"
    using t(3) by (force simp: backend_defs_def dest: map_of_SomeD)
  then have "bh_def h \<in> (\<lambda>(i, d, b). d) ` set (backend_defs reg)" unfolding defs by force
  also have "\<dots> = (\<lambda>(i, d, b). d) ` set (map (\<lambda>(i, h). (i, bh_def h, bh_health h)) (rg_backends reg))"
    by (force simp: backend_defs_def image_iff)
  also have "\<dots> = set (exposed_defs cfg eb)"
    using register_each_ids [OF b] by (auto simp: registry_new_def image_image)
  finally obtain d ebc where d: "bh_def h = expose_filtered ebc d" "d \<in> set (hc_backends cfg)"
      "map_of (eb_backends eb) (def_id d) = Some ebc"
    by (auto simp: exposed_defs_set)
  from ok d(1) have "td_name t = compute_exposed_name (def_namespace d) (rt_downstream_name rt)"
      "tool_permitted (expose_filtered ebc d) (rt_downstream_name rt)"
    by (auto simp: route_ok_def t(1))
  moreover from this(2) have "let allow = (if ef_tools_allow ebc = [] then def_tools_allow d else ef_tools_allow ebc);
         deny = (if ef_tools_deny ebc = [] then def_tools_deny d else ef_tools_deny ebc)
     in (allow = [] \<or> rt_downstream_name rt \<in> set allow) \<and> rt_downstream_name rt \<notin> set deny"
    by (simp add: tool_permitted_def expose_filtered_def Let_def split: if_splits)
  ultimately show ?thesis using d(2,3) by blast
qed

text \<open>One backend in one block, whose deny list stands in place of the one of the backend.\<close>

definition sample_hub :: hub_config where
  "sample_hub = \<lparr>hc_auth = None, hc_backends = [sample_def ''a'' (Some ''ns'') Eager],
     hc_expose = [\<lparr>eb_port = 80, eb_label = None, eb_backends = [(''a'', \<lparr>ef_tools_allow = [], ef_tools_deny = [''f'']\<rparr>)]\<rparr>]\<rparr>"

definition exposed_tools :: "string list" where
  "exposed_tools =
     (case build_expose_registry named_host sample_client sample_hub (hd (hc_expose sample_hub)) [] True () of
        (Inr reg, w) \<Rightarrow> map td_name (aggregated_tools (fst (snd (connect_all sample_ops reg w)))) | _ \<Rightarrow> [])"

theorem expose_advertises_only_witness:
  "exposed_tools = [''ns.drop''] \<and> def_tools_deny (hd (hc_backends sample_hub)) = [''drop''] \<and>
   (\<exists>n. ''ns.drop'' = compute_exposed_name (Some ''ns'') n \<and> n \<noteq> ''f'')"
proof -
  let ?eb = "hd (hc_expose sample_hub)"
  have e: "exposed_tools = [''ns.drop'']" by code_simp
  obtain r w1 where b: "build_expose_registry named_host sample_client sample_hub ?eb [] True () = (r, w1)" by (metis prod.collapse)
  with e obtain reg where r: "r = Inr reg" by (cases r) (auto simp: exposed_tools_def)
  obtain rs reg' w2 where c: "connect_all sample_ops reg w1 = (rs, reg', w2)" by (metis prod_cases3)
  have t: "exposed_tools = map td_name (aggregated_tools reg')" using b r c by (simp add: exposed_tools_def)
  have "\<exists>n. td_name t = compute_exposed_name (Some ''ns'') n \<and> n \<noteq> ''f''" if "t \<in> set (aggregated_tools reg')" for t
    using expose_advertises_only [OF b [unfolded r] c that] by (auto simp: sample_hub_def sample_def_def Let_def split: if_splits)
  then have "\<forall>t \<in> set exposed_tools. \<exists>n. t = compute_exposed_name (Some ''ns'') n \<and> n \<noteq> ''f''"
    unfolding t by simp
  moreover have "def_tools_deny (hd (hc_backends sample_hub)) = [''drop'']" by (simp add: sample_hub_def sample_def_def)
  moreover have "''ns.drop'' \<in> set exposed_tools" unfolding e by (rule list.set_intros)
  ultimately show ?thesis using e by blast
qed

section \<open>The hub token\<close>

lemma resolve_unset:
  assumes "ce_var env x = None" and "CHR ''{'' \<notin> set x" and "CHR ''}'' \<notin> set x"
  shows "resolve_value env (''{{env:'' @ x @ ''}}'') = unresolved x"
proof -
  have u: "\<not> contains_sub (unresolved x) p" if "p = ENV_PREFIX \<or> p = SECRET_PREFIX" for p
  proof
    assume "contains_sub (unresolved x) p"
    then obtain a b where e: "unresolved x = a @ p @ b" by (auto simp: contains_sub_iff)
    have c: "count_list (unresolved x) (CHR ''{'') = 2" using assms(2) by (simp add: unresolved_def)
    have "count_list p (CHR ''{'') = 2" using that by (auto simp: ENV_PREFIX_def SECRET_PREFIX_def)
    with c e have "count_list a (CHR ''{'') = 0" by simp
    moreover have "hd (unresolved x) = CHR ''{''" by (simp add: unresolved_def)
    ultimately have "a = []" using e by (cases a) (auto split: if_splits)
    with e that show False by (auto simp: unresolved_def ENV_PREFIX_def SECRET_PREFIX_def)
  qed
  then have stop: "resolve_pass env (unresolved x) = None"
    by (auto simp: resolve_pass_def placeholder_def contains_sub_def split: option.splits)
  have f: "find_sub ''}}'' (x @ ''}}'') = Some (length x)"
    using assms(3) by (induction x) auto
  have "placeholder ENV_PREFIX (''{{env:'' @ x @ ''}}'') = Some (Some ([], x, []))"
    by (simp add: placeholder_def ENV_PREFIX_def f)
  then have "resolve_pass env (''{{env:'' @ x @ ''}}'') = Some (unresolved x)"
    using assms(1) by (simp add: resolve_pass_def)
  moreover have "resolve_passes env k (unresolved x) = unresolved x" for k using stop by (cases k) simp_all
  ultimately show ?thesis by (simp add: resolve_value_def MAX_RESOLVE_PASSES_def numeral_eq_Suc stop)
qed

lemma run_http_refused:
  "contains_sub (hc_bearer_token config) ''{{unresolved:'' \<Longrightarrow> \<exists>e. run_http lib config s = Inl e"
  by (simp add: run_http_def)

lemma serve_each_refused:
  "contains_sub (hc_bearer_token config) ''{{unresolved:'' \<Longrightarrow>
     snd (serve_each sv config ls w) = w \<and> length (fst (serve_each sv config ls w)) = length ls \<and>
     list_all (\<lambda>t. t \<noteq> Finished (Inr ())) (fst (serve_each sv config ls w))"
proof (induction ls arbitrary: w)
  case (Cons l ls)
  obtain addr s where l: "l = (addr, s)" by (cases l)
  from run_http_refused [OF Cons.prems] obtain e where "run_http (sv_limits sv) config s = Inl e" by blast
  with Cons l show ?case by (auto simp: serve_http_def Let_def case_prod_beta)
qed simp

lemma expose_each_length:
  "expose_each host lib nl cfg oauth2 daemon ebs w = (Inr ls, w') \<Longrightarrow> length ls = length ebs"
  by (induction ebs arbitrary: w ls w') (auto split: prod.splits sum.splits)

text \<open>
  C10: A hub token that is configured as a variable which is not set never becomes the token of a listener:
  \<open>serve --http\<close> fails, with one listener or with expose blocks, for every environment, set of backends
  and transport, so the placeholder or its mark cannot be guessed as a credential.
\<close>

theorem unset_token_never_serves:
  assumes "load_config env path = Inr cfg" and "Option.bind (hc_auth cfg) ac_hub_token = Some (resolve_value env (''{{env:'' @ x @ ''}}''))"
    and "ce_var env x = None" and "CHR ''{'' \<notin> set x" and "CHR ''}'' \<notin> set x"
  shows "\<not> is_ok (fst (run_serve host lib env nl sv True path addr store daemon w))"
proof -
  let ?config = "\<lparr>hc_bearer_token = hub_token_of env cfg, hc_rate_limit_per_minute = rate_limit_of cfg\<rparr>"
  have "hub_token_of env cfg = unresolved x"
    using assms(2) resolve_unset [OF assms(3-5)] by (simp add: hub_token_of_def)
  moreover have "contains_sub (unresolved x) ''{{unresolved:''"
    unfolding contains_sub_iff unresolved_def by (intro exI [of _ "[]"] exI [of _ "x @ ''}}''"]) simp
  ultimately have refused: "contains_sub (hc_bearer_token ?config) ''{{unresolved:''" by simp
  show ?thesis
  proof (cases "hc_expose cfg = []")
    case True
    obtain r w1 where b: "build_registry host lib cfg store daemon w = (r, w1)" by (metis prod.collapse)
    show ?thesis
    proof (cases r)
      case (Inr reg)
      obtain rs reg' w2 where c: "connect_all (ho_ops host) reg w1 = (rs, reg', w2)" by (metis prod_cases3)
      from run_http_refused [OF refused] obtain e where "run_http (sv_limits sv) ?config (session_new reg') = Inl e" by blast
      with True assms(1) b c Inr show ?thesis by (simp add: run_serve_def Let_def serve_http_def result_of_def)
    qed (use True assms(1) b in \<open>simp add: run_serve_def Let_def\<close>)
  next
    case False
    obtain r w1 where e: "expose_each host lib nl cfg (shared_managers cfg store) daemon (hc_expose cfg) w = (r, w1)"
      by (metis prod.collapse)
    show ?thesis
    proof (cases r)
      case (Inr ls)
      obtain outcomes w2 where s: "serve_each sv ?config ls w1 = (outcomes, w2)" by (metis prod.collapse)
      have "length ls = length (hc_expose cfg)" by (rule expose_each_length [OF e [unfolded Inr]])
      then have "all_failed outcomes"
        using serve_each_refused [OF refused, of sv ls w1] s False by (auto simp: all_failed_def)
      with False assms(1) e s Inr show ?thesis by (simp add: run_serve_def Let_def)
    qed (use False assms(1) e in \<open>simp add: run_serve_def Let_def\<close>)
  qed
qed

definition token_env :: config_env where
  "token_env = sample_env\<lparr>ce_toml := (\<lambda>s. Inr (TTab [(''auth'', TTab [(''hub_token'', TStr ''{{env:TOKEN}}'')])]))\<rparr>"

definition sample_server :: "(string, unit, unit, unit) server_lib" where
  "sample_server = \<lparr>sv_limits = \<lparr>hl_new_limiter = (\<lambda>n. ()), hl_check_key = (\<lambda>k l. (True, l)), hl_to_str = Some\<rparr>,
     sv_listen = (\<lambda>a app w. (Finished (Inr ()), w)), sv_stdio = (\<lambda>s w. (Inr (), w))\<rparr>"

definition sample_net :: "unit net_lib" where
  "sample_net = \<lparr>nl_socket = (\<lambda>s. None), nl_ip = (\<lambda>s. None), nl_loopback = ()\<rparr>"

theorem unset_token_never_serves_witness:
  "\<not> is_ok (fst (run_serve named_host sample_client token_env sample_net sample_server True None (default_bind sample_net 80) None True ()))"
proof -
  have "map_sum (\<lambda>e. ()) (\<lambda>c. Option.bind (hc_auth c) ac_hub_token) (load_config token_env None) =
      Inr (Some (resolve_value token_env (''{{env:'' @ ''TOKEN'' @ ''}}'')))" by code_simp
  then obtain cfg where cfg: "load_config token_env None = Inr cfg"
      "Option.bind (hc_auth cfg) ac_hub_token = Some (resolve_value token_env (''{{env:'' @ ''TOKEN'' @ ''}}''))"
    by (cases "load_config token_env None") auto
  show ?thesis
    by (rule unset_token_never_serves [OF cfg]) (simp_all add: token_env_def sample_env_def)
qed


section \<open>The flag of interactive sign-in\<close>

text \<open>A host that keeps the backends it makes; they are all offline.\<close>

definition offline_host :: "(nat, backend_impl option list) backend_host" where
  "offline_host = \<lparr>ho_ops =
       \<lparr>op_connect = (\<lambda>b w. (Inl (backend_error_new Connection ''offline''), w)),
        op_list_tools = (\<lambda>b w. (Inl (backend_error_new Connection ''offline''), w)),
        op_call_tool = (\<lambda>b n args t w. (Inl (backend_error_new Connection ''offline''), w)),
        op_disconnect = (\<lambda>b w. (Inr (), w)),
        op_health_check = (\<lambda>b w. (Inl (backend_error_new Connection ''offline''), w)),
        op_request = (\<lambda>b m p t w. (Inl (backend_error_new Connection ''offline''), w)),
        op_take_tools_refresh = (\<lambda>b w. (False, w)), op_sleep_ms = (\<lambda>n w. w)\<rparr>,
     ho_alloc = (\<lambda>d i w. (length w, w @ [i]))\<rparr>"

definition offline_server :: "(nat, backend_impl option list, unit, unit) server_lib" where
  "offline_server = \<lparr>sv_limits = \<lparr>hl_new_limiter = (\<lambda>n. ()), hl_check_key = (\<lambda>k l. (True, l)), hl_to_str = Some\<rparr>,
     sv_listen = (\<lambda>a app w. (Finished (Inr ()), w)), sv_stdio = (\<lambda>s w. (Inr (), w))\<rparr>"

text \<open>Whether each HTTP backend that \<open>tools\<close> makes is in daemon mode, by the flag \<open>--no-daemon\<close>.\<close>

definition daemon_modes :: "bool \<Rightarrow> bool list" where
  "daemon_modes no_daemon =
     (case main_run sample_server_codec offline_host sample_client sample_env sample_net offline_server sample_lib
         \<lparr>cli_config = None, cli_verbose = False, cli_no_daemon = no_daemon, cli_dry_run = False,
          cli_command = Some (Tools None)\<rparr> [] of
        (r, out, w) \<Rightarrow> concat (map (\<lambda>i. case i of Some (HttpImpl hb) \<Rightarrow> [hb_daemon hb] | _ \<Rightarrow> []) w))"

text \<open>
  The flag \<open>--no-daemon\<close> does the opposite of its help text: with it the HTTP backends of \<open>tools\<close> are
  made in daemon mode, in which no browser may be opened, and without it they are not.
\<close>

theorem no_daemon_flag_inverted: "daemon_modes True = [True] \<and> daemon_modes False = [False]"
  by code_simp

end
