(* ===== verification/Hub_Core_Serde.thy ===== *)
theory Hub_Core_Serde
  imports Hub_Core
begin

text \<open>
  The derived readers and writers of the core types (\<open>crates/core/src/types.rs\<close>) as JSON, and the
  defaults of the trait \<open>McpBackend\<close> (\<open>crates/core/src/lib.rs\<close>).  The hub itself builds its definitions
  from the configuration file; the tests and other users of the crate read them from JSON.
\<close>

section \<open>Readers\<close>

definition core_default_connect_timeout :: u64 where "core_default_connect_timeout = 10"
definition core_default_call_timeout :: u64 where "core_default_call_timeout = 30"
definition core_default_callback_port :: u16 where "core_default_callback_port = 9798"
definition core_default_grant_type :: string where "core_default_grant_type = ''client_credentials''"

definition as_u16 :: "json \<Rightarrow> u16 option" where
  "as_u16 v = Option.bind (as_u64 v) (\<lambda>n. if n < 2 ^ 16 then Some (ucast n) else None)"

definition as_str_list :: "json \<Rightarrow> string list option" where
  "as_str_list v = Option.bind (as_array v) (\<lambda>vs. all_some (map as_str vs))"

definition as_str_map :: "json \<Rightarrow> (string \<times> string) list option" where
  "as_str_map v = Option.bind (as_object v) (\<lambda>kvs. all_some (map (\<lambda>(k, x). map_option (Pair k) (as_str x)) kvs))"

text \<open>An enum of names reads from the name, or from an object with the name for its one key and \<open>null\<close>.\<close>

fun enum_from_value :: "(string \<times> 'a) list \<Rightarrow> json \<Rightarrow> 'a option" where
  "enum_from_value names (JStr s) = map_of names s"
| "enum_from_value names (JObj [(s, JNull)]) = map_of names s"
| "enum_from_value names v = None"

definition connection_mode_names :: "(string \<times> connection_mode) list" where
  "connection_mode_names = [(''eager'', Eager), (''lazy'', Lazy), (''percall'', PerCall)]"

definition stderr_mode_names :: "(string \<times> stderr_mode) list" where
  "stderr_mode_names = [(''logonerror'', LogOnError), (''silent'', Silent), (''passthrough'', Passthrough), (''logalways'', LogAlways)]"

definition oauth2_from_value :: "json \<Rightarrow> oauth2_config option" where
  "oauth2_from_value v =
     (case struct_fields [(''token_endpoint'', False), (''client_id'', False), (''client_secret'', False),
         (''scopes'', True), (''grant_type'', True), (''callback_port'', True)] v of
        Some [te, ci, cs, sc, gt, cp] \<Rightarrow>
          (case (opt_of as_str te, opt_of as_str ci, opt_of as_str cs, opt_of as_str sc,
                 default_of core_default_grant_type as_str gt, default_of core_default_callback_port as_u16 cp) of
             (Some te', Some ci', Some cs', Some sc', Some gt', Some cp') \<Rightarrow>
               Some \<lparr>oc_token_endpoint = te', oc_client_id = ci', oc_client_secret = cs', oc_scopes = sc',
                 oc_grant_type = gt', oc_callback_port = cp'\<rparr>
           | _ \<Rightarrow> None)
      | _ \<Rightarrow> None)"

text \<open>
  The transport is flattened into the definition and tagged from inside: its variant is the value of
  \<open>transport\<close>, by name or by number, and its fields are keys of the same object.
\<close>

definition transport_from_object :: "jobject \<Rightarrow> backend_transport option" where
  "transport_from_object kvs =
     (let field = map_of kvs; tag = field ''transport'' in
      if tag = Some (JStr ''stdio'') \<or> tag = Some (JNum (PosInt 0)) then
        (case (Option.bind (field ''command'') as_str, default_of [] as_str_list (field ''args''),
               default_of [] as_str_map (field ''env''), opt_of as_str (field ''cwd'')) of
           (Some c, Some a, Some e, Some d) \<Rightarrow> Some (Stdio c a e d)
         | _ \<Rightarrow> None)
      else if tag = Some (JStr ''http'') \<or> tag = Some (JNum (PosInt 1)) then
        (case (Option.bind (field ''url'') as_str, opt_of as_str (field ''bearer_token''), opt_of oauth2_from_value (field ''oauth2'')) of
           (Some u, Some b, Some x) \<Rightarrow> Some (Http u b x)
         | _ \<Rightarrow> None)
      else None)"

definition backend_def_from_value :: "json \<Rightarrow> backend_def option" where
  "backend_def_from_value v = Option.bind (as_object v) (\<lambda>kvs.
     let field = map_of kvs in
     case (Option.bind (field ''id'') as_str, opt_of as_str (field ''label''), transport_from_object kvs,
           opt_of as_str (field ''namespace''), default_of Eager (enum_from_value connection_mode_names) (field ''connection_mode''),
           default_of core_default_connect_timeout as_u64 (field ''connect_timeout_secs''),
           default_of core_default_call_timeout as_u64 (field ''call_timeout_secs'')) of
       (Some i, Some l, Some t, Some ns, Some m, Some ct, Some rt) \<Rightarrow>
         (case (default_of LogOnError (enum_from_value stderr_mode_names) (field ''stderr_mode''),
                default_of [] as_str_list (field ''tools_allow''), default_of [] as_str_list (field ''tools_deny''),
                opt_of as_str (field ''unavailable_hint''), default_of False as_bool (field ''forward_request_meta''),
                default_of [] as_object (field ''pin_args''), default_of [] as_str_list (field ''deny_args'')) of
            (Some sm, Some ta, Some td, Some uh, Some fm, Some pins, Some da) \<Rightarrow>
              Some \<lparr>def_id = i, def_label = l, def_transport = t, def_namespace = ns, def_connection_mode = m,
                def_connect_timeout_secs = ct, def_call_timeout_secs = rt, def_stderr_mode = sm, def_tools_allow = ta,
                def_tools_deny = td, def_unavailable_hint = uh, def_forward_request_meta = fm, def_pin_args = pins,
                def_deny_args = da\<rparr>
          | _ \<Rightarrow> None)
     | _ \<Rightarrow> None)"

section \<open>Writers\<close>

definition opt_str :: "string option \<Rightarrow> json" where
  "opt_str s = (case s of Some t \<Rightarrow> JStr t | None \<Rightarrow> JNull)"

definition str_list :: "string list \<Rightarrow> json" where
  "str_list ss = JArr (map JStr ss)"

fun connection_mode_value :: "connection_mode \<Rightarrow> json" where
  "connection_mode_value Eager = JStr ''eager''"
| "connection_mode_value Lazy = JStr ''lazy''"
| "connection_mode_value PerCall = JStr ''percall''"

fun stderr_mode_value :: "stderr_mode \<Rightarrow> json" where
  "stderr_mode_value LogOnError = JStr ''logonerror''"
| "stderr_mode_value Silent = JStr ''silent''"
| "stderr_mode_value Passthrough = JStr ''passthrough''"
| "stderr_mode_value LogAlways = JStr ''logalways''"

definition oauth2_value :: "oauth2_config \<Rightarrow> json" where
  "oauth2_value o2 = jobj [(''token_endpoint'', opt_str (oc_token_endpoint o2)), (''client_id'', opt_str (oc_client_id o2)),
     (''client_secret'', opt_str (oc_client_secret o2)), (''scopes'', opt_str (oc_scopes o2)),
     (''grant_type'', JStr (oc_grant_type o2)), (''callback_port'', JNum (PosInt (ucast (oc_callback_port o2))))]"

fun transport_fields :: "backend_transport \<Rightarrow> (string \<times> json) list" where
  "transport_fields (Stdio c a e d) = [(''transport'', JStr ''stdio''), (''command'', JStr c), (''args'', str_list a),
     (''env'', jobj (map (\<lambda>(k, v). (k, JStr v)) e)), (''cwd'', opt_str d)]"
| "transport_fields (Http u b x) = [(''transport'', JStr ''http''), (''url'', JStr u), (''bearer_token'', opt_str b),
     (''oauth2'', case x of Some o2 \<Rightarrow> oauth2_value o2 | None \<Rightarrow> JNull)]"

definition backend_def_value :: "backend_def \<Rightarrow> json" where
  "backend_def_value d = jobj ([(''id'', JStr (def_id d)), (''label'', opt_str (def_label d))] @ transport_fields (def_transport d) @
     [(''namespace'', opt_str (def_namespace d)), (''connection_mode'', connection_mode_value (def_connection_mode d)),
      (''connect_timeout_secs'', JNum (PosInt (def_connect_timeout_secs d))),
      (''call_timeout_secs'', JNum (PosInt (def_call_timeout_secs d))), (''stderr_mode'', stderr_mode_value (def_stderr_mode d)),
      (''tools_allow'', str_list (def_tools_allow d)), (''tools_deny'', str_list (def_tools_deny d)),
      (''unavailable_hint'', opt_str (def_unavailable_hint d)), (''forward_request_meta'', JBool (def_forward_request_meta d)),
      (''pin_args'', JObj (def_pin_args d)), (''deny_args'', str_list (def_deny_args d))])"

text \<open>Capabilities write \<open>null\<close> for what is absent, except \<open>events\<close>, which is left out.\<close>

definition list_changed_value :: "bool \<Rightarrow> json" where
  "list_changed_value b = jobj [(''listChanged'', JBool b)]"

definition opt_json :: "('a \<Rightarrow> json) \<Rightarrow> 'a option \<Rightarrow> json" where
  "opt_json f x = (case x of Some y \<Rightarrow> f y | None \<Rightarrow> JNull)"

definition resources_value :: "resources_capability \<Rightarrow> json" where
  "resources_value r = jobj [(''subscribe'', JBool (rc_subscribe r)), (''listChanged'', JBool (rc_list_changed r))]"

definition capabilities_value :: "server_capabilities \<Rightarrow> json" where
  "capabilities_value c = jobj ([(''tools'', opt_json list_changed_value (sc_tools c)),
     (''resources'', opt_json resources_value (sc_resources c)), (''prompts'', opt_json list_changed_value (sc_prompts c))] @
     (case sc_events c of Some e \<Rightarrow> [(''events'', e)] | None \<Rightarrow> []))"

definition info_value :: "server_info \<Rightarrow> json" where
  "info_value s = jobj [(''name'', JStr (si_name s)), (''version'', JStr (si_version s))]"

definition initialize_result_value :: "initialize_result \<Rightarrow> json" where
  "initialize_result_value r = jobj [(''protocolVersion'', JStr (ir_protocol_version r)),
     (''serverInfo'', info_value (ir_server_info r)), (''capabilities'', capabilities_value (ir_capabilities r))]"

section \<open>The result of a call\<close>

record content_block =
  cb_kind :: string
  cb_text :: "string option"

record call_tool_result =
  ctr_content :: "content_block list"
  ctr_is_error :: bool

definition content_block_from_value :: "json \<Rightarrow> content_block option" where
  "content_block_from_value v =
     (case struct_fields [(''type'', False), (''text'', True)] v of
        Some [Some (JStr k), t] \<Rightarrow> map_option (\<lambda>t'. \<lparr>cb_kind = k, cb_text = t'\<rparr>) (opt_of as_str t)
      | _ \<Rightarrow> None)"

definition content_block_value :: "content_block \<Rightarrow> json" where
  "content_block_value b = jobj ((''type'', JStr (cb_kind b)) # (case cb_text b of Some t \<Rightarrow> [(''text'', JStr t)] | None \<Rightarrow> []))"

definition call_tool_result_from_value :: "json \<Rightarrow> call_tool_result option" where
  "call_tool_result_from_value v =
     (case struct_fields [(''content'', False), (''isError'', True)] v of
        Some [Some (JArr bs), e] \<Rightarrow>
          (case (all_some (map content_block_from_value bs), default_of False as_bool e) of
             (Some bs', Some e') \<Rightarrow> Some \<lparr>ctr_content = bs', ctr_is_error = e'\<rparr>
           | _ \<Rightarrow> None)
      | _ \<Rightarrow> None)"

definition call_tool_result_value :: "call_tool_result \<Rightarrow> json" where
  "call_tool_result_value r = jobj [(''content'', JArr (map content_block_value (ctr_content r))), (''isError'', JBool (ctr_is_error r))]"

section \<open>The defaults of the trait\<close>

text \<open>The label both backends give: the configured one, or the id.\<close>

definition backend_label :: "backend_def \<Rightarrow> string" where
  "backend_label d = (case def_label d of Some l \<Rightarrow> l | None \<Rightarrow> def_id d)"

definition default_protocol_version :: "string option" where
  "default_protocol_version = None"

definition default_take_tools_refresh :: "'w \<Rightarrow> bool \<times> 'w" where
  "default_take_tools_refresh w = (False, w)"

section \<open>Round trips\<close>

text \<open>The same transport, up to the order in which a hash map of variables is walked.\<close>

fun same_transport :: "backend_transport \<Rightarrow> backend_transport \<Rightarrow> bool" where
  "same_transport (Stdio c a e d) t = (\<exists>e'. t = Stdio c a e' d \<and> map_of e' = map_of e)"
| "same_transport (Http u b x) t = (t = Http u b x)"

fun transport_ok :: "backend_transport \<Rightarrow> bool" where
  "transport_ok (Stdio c a e d) = table e"
| "transport_ok (Http u b x) = True"

lemma opt_of_opt_str [simp]: "opt_of as_str (Some (opt_str s)) = Some s"
  by (cases s) (auto simp: opt_of_def opt_str_def)

lemma all_some_map: "(\<And>x. x \<in> set xs \<Longrightarrow> f (g x) = Some x) \<Longrightarrow> all_some (map (f \<circ> g) xs) = Some xs"
  by (induction xs) auto

lemma str_list_back [simp]: "default_of d as_str_list (Some (str_list ss)) = Some ss"
  using all_some_map [of ss as_str JStr] by (simp add: default_of_def as_str_list_def str_list_def)

lemma as_u16_back [simp]: "as_u16 (JNum (PosInt (ucast (p :: u16)))) = Some p"
proof -
  have l: "unat p < 2 ^ 16" using unsigned_less [of p] by simp
  then have "unat (ucast p :: u64) = unat p" by (simp add: unsigned_ucast_eq take_bit_nat_eq_self)
  moreover note l
  ultimately have "ucast p < (2 ^ 16 :: u64)" by (simp add: word_less_nat_alt)
  moreover have "(ucast (ucast p :: u64) :: u16) = p" by (rule bit_word_eqI) (auto simp: bit_simps)
  ultimately show ?thesis by (simp add: as_u16_def)
qed

lemma oauth2_back [simp]: "oauth2_from_value (oauth2_value o2) = Some o2"
  by (simp add: oauth2_from_value_def oauth2_value_def struct_fields_def jobj_def map_of_obj_of default_of_def)

lemma oauth2_opt: "opt_of oauth2_from_value (Some (case x of Some o2 \<Rightarrow> oauth2_value o2 | None \<Rightarrow> JNull)) = Some x"
proof (cases x)
  case (Some o2)
  have "opt_value (Some (oauth2_value o2)) = Some (oauth2_value o2)" by (simp add: oauth2_value_def jobj_def)
  with Some show ?thesis by (simp add: opt_of_def)
qed (simp add: opt_of_def)

lemma modes_back [simp]:
  "enum_from_value connection_mode_names (connection_mode_value m) = Some m"
  "enum_from_value stderr_mode_names (stderr_mode_value sm) = Some sm"
  by (cases m; simp add: connection_mode_names_def) (cases sm; simp add: stderr_mode_names_def)

lemma set_obj_of: "(k, v) \<in> set (obj_of kvs) \<Longrightarrow> (k, v) \<in> set kvs"
proof -
  assume "(k, v) \<in> set (obj_of kvs)"
  moreover have "distinct (map fst (obj_of kvs))" using sorted_keys_obj_of [of kvs] by (simp add: sorted_keys_def strict_sorted_iff)
  ultimately have "map_of (rev kvs) k = Some v" by (simp flip: map_of_obj_of)
  then show ?thesis by (auto dest: map_of_SomeD)
qed

lemma all_strings:
  assumes "\<forall>(k, x) \<in> set kvs. \<exists>s. x = JStr s"
  shows "\<exists>e. all_some (map (\<lambda>(k, x). map_option (Pair k) (as_str x)) kvs) = Some e \<and> kvs = map (\<lambda>(k, v). (k, JStr v)) e"
  using assms
proof (induction kvs)
  case (Cons a kvs)
  then obtain k s e where "a = (k, JStr s)" "all_some (map (\<lambda>(k, x). map_option (Pair k) (as_str x)) kvs) = Some e"
    "kvs = map (\<lambda>(k, v). (k, JStr v)) e" by (cases a) auto
  then show ?case by (intro exI [of _ "(k, s) # e"]) simp
qed simp

lemma env_back:
  assumes "table env"
  shows "\<exists>e. as_str_map (jobj (map (\<lambda>(k, v). (k, JStr v)) env)) = Some e \<and> map_of e = map_of env"
proof -
  let ?kvs = "map (\<lambda>(k, v). (k, JStr v)) env"
  have "\<forall>(k, x) \<in> set (obj_of ?kvs). \<exists>s. x = JStr s" by (auto dest!: set_obj_of)
  from all_strings [OF this] obtain e where e: "as_str_map (jobj ?kvs) = Some e" "obj_of ?kvs = map (\<lambda>(k, v). (k, JStr v)) e"
    by (auto simp: as_str_map_def jobj_def)
  have "table ?kvs" using assms by (simp add: table_def comp_def case_prod_beta')
  then have "map_of (map (\<lambda>(k, v). (k, JStr v)) e) = map_of ?kvs" using map_of_obj_of [of ?kvs] by (simp add: e(2) map_of_rev_table)
  then have "map_option JStr (map_of e k) = map_option JStr (map_of env k)" for k by (simp add: map_of_map fun_eq_iff comp_def)
  then have "map_of e k = map_of env k" for k
    by (metis json.inject(3) option.inj_map_strong)
  with e(1) show ?thesis by blast
qed

lemma transport_back:
  assumes "transport_ok t" and "\<And>k. map_of kvs k = (case map_of (transport_fields t) k of Some v \<Rightarrow> Some v | None \<Rightarrow> f k)"
  shows "\<exists>t'. transport_from_object kvs = Some t' \<and> same_transport t t'"
proof (cases t)
  case (Stdio c a e d)
  with assms(1) env_back obtain e' where e: "as_str_map (jobj (map (\<lambda>(k, v). (k, JStr v)) e)) = Some e'" "map_of e' = map_of e"
    by auto
  have "transport_from_object kvs = Some (Stdio c a e' d)"
    using e(1) by (simp add: transport_from_object_def Let_def assms(2) Stdio) (simp add: default_of_def)
  with e(2) Stdio show ?thesis by auto
next
  case (Http u b x)
  have "transport_from_object kvs = Some (Http u b x)"
    using oauth2_opt [of x] by (simp add: transport_from_object_def Let_def assms(2) Http)
  with Http show ?thesis by auto
qed

text \<open>
  C39: Every backend definition written as JSON reads back as itself: all its fields, its flattened
  transport with the OAuth2 settings, the modes, the limits and the pinned arguments, with the
  environment of a child as the same map.
\<close>

theorem backend_def_round_trip:
  assumes "transport_ok (def_transport d)"
  shows "\<exists>d'. backend_def_from_value (backend_def_value d) = Some d' \<and> same_transport (def_transport d) (def_transport d') \<and>
    d'\<lparr>def_transport := def_transport d\<rparr> = d"
proof -
  let ?first = "[(''id'', JStr (def_id d)), (''label'', opt_str (def_label d))]"
  let ?last = "[(''namespace'', opt_str (def_namespace d)), (''connection_mode'', connection_mode_value (def_connection_mode d)),
      (''connect_timeout_secs'', JNum (PosInt (def_connect_timeout_secs d))),
      (''call_timeout_secs'', JNum (PosInt (def_call_timeout_secs d))), (''stderr_mode'', stderr_mode_value (def_stderr_mode d)),
      (''tools_allow'', str_list (def_tools_allow d)), (''tools_deny'', str_list (def_tools_deny d)),
      (''unavailable_hint'', opt_str (def_unavailable_hint d)), (''forward_request_meta'', JBool (def_forward_request_meta d)),
      (''pin_args'', JObj (def_pin_args d)), (''deny_args'', str_list (def_deny_args d))]"
  let ?t = "transport_fields (def_transport d)"
  define kvs where "kvs = obj_of (?first @ ?t @ ?last)"
  have "table (?first @ ?t @ ?last)" by (cases "def_transport d") (auto simp: table_def)
  then have "map_of kvs = map_of (?first @ ?t @ ?last)" by (simp only: kvs_def map_of_obj_of map_of_rev_table)
  then have kvs: "map_of kvs k = map_of (?first @ ?t @ ?last) k" for k by simp
  have v: "backend_def_value d = JObj kvs" by (simp add: backend_def_value_def jobj_def kvs_def)
  have tk: "map_of ?t k = None" if "k \<notin> {''transport'', ''command'', ''args'', ''env'', ''cwd'', ''url'', ''bearer_token'', ''oauth2''}" for k
    using that by (cases "def_transport d") auto
  have "map_of kvs k = (case map_of ?t k of Some v \<Rightarrow> Some v | None \<Rightarrow> map_of (?first @ ?last) k)" for k
    using tk [of k] unfolding kvs by (cases "map_of ?t k") (auto simp: map_add_def split: option.splits)
  from transport_back [OF assms this] obtain t' where t: "transport_from_object kvs = Some t'" "same_transport (def_transport d) t'" by blast
  have field: "map_of kvs ''id'' = Some (JStr (def_id d))" "map_of kvs ''label'' = Some (opt_str (def_label d))"
    "map_of kvs ''namespace'' = Some (opt_str (def_namespace d))"
    "map_of kvs ''connection_mode'' = Some (connection_mode_value (def_connection_mode d))"
    "map_of kvs ''connect_timeout_secs'' = Some (JNum (PosInt (def_connect_timeout_secs d)))"
    "map_of kvs ''call_timeout_secs'' = Some (JNum (PosInt (def_call_timeout_secs d)))"
    "map_of kvs ''stderr_mode'' = Some (stderr_mode_value (def_stderr_mode d))"
    "map_of kvs ''tools_allow'' = Some (str_list (def_tools_allow d))" "map_of kvs ''tools_deny'' = Some (str_list (def_tools_deny d))"
    "map_of kvs ''unavailable_hint'' = Some (opt_str (def_unavailable_hint d))"
    "map_of kvs ''forward_request_meta'' = Some (JBool (def_forward_request_meta d))"
    "map_of kvs ''pin_args'' = Some (JObj (def_pin_args d))" "map_of kvs ''deny_args'' = Some (str_list (def_deny_args d))"
    by (simp_all add: kvs tk map_add_def)
  have reads: "Option.bind (Some (JStr x)) as_str = Some x" "default_of m0 f (Some y) = f y" "as_str_list (str_list ss) = Some ss"
    "as_u64 (JNum (PosInt n)) = Some n" "as_bool (JBool b) = Some b" "as_object (JObj o2) = Some o2"
    for x m0 y f ss n b o2
    using str_list_back [of undefined ss] by (simp_all add: default_of_def)
  have "backend_def_from_value (backend_def_value d) = Some (d\<lparr>def_transport := t'\<rparr>)"
    unfolding backend_def_from_value_def v as_object.simps bind.bind_lunit Let_def field t reads option.case prod.case
    by simp
  with t(2) show ?thesis by (intro exI [of _ "d\<lparr>def_transport := t'\<rparr>"]) simp
qed

text \<open>A sample: a child with two variables in its environment.\<close>

definition sample_stdio_def :: backend_def where
  "sample_stdio_def = \<lparr>def_id = ''a'', def_label = None, def_transport = Stdio ''srv'' [''-v''] [(''B'', ''2''), (''A'', ''1'')] None,
     def_namespace = Some ''ns'', def_connection_mode = PerCall, def_connect_timeout_secs = 10, def_call_timeout_secs = 30,
     def_stderr_mode = Silent, def_tools_allow = [''f''], def_tools_deny = [], def_unavailable_hint = None,
     def_forward_request_meta = True, def_pin_args = [(''safe'', JBool True)], def_deny_args = [''force'']\<rparr>"

theorem backend_def_round_trip_witness:
  "\<exists>d'. backend_def_from_value (backend_def_value sample_stdio_def) = Some d' \<and> def_pin_args d' = [(''safe'', JBool True)] \<and>
     def_connection_mode d' = PerCall"
proof -
  have ok: "transport_ok (def_transport sample_stdio_def)" by (simp add: sample_stdio_def_def table_def)
  have p: "def_pin_args sample_stdio_def = [(''safe'', JBool True)]" "def_connection_mode sample_stdio_def = PerCall"
    by (simp_all add: sample_stdio_def_def)
  obtain d' where d: "backend_def_from_value (backend_def_value sample_stdio_def) = Some d'"
      "d'\<lparr>def_transport := def_transport sample_stdio_def\<rparr> = sample_stdio_def"
    using backend_def_round_trip [OF ok] by blast
  have "def_pin_args d' = def_pin_args (d'\<lparr>def_transport := def_transport sample_stdio_def\<rparr>)"
    "def_connection_mode d' = def_connection_mode (d'\<lparr>def_transport := def_transport sample_stdio_def\<rparr>)" by simp_all
  with d p show ?thesis by simp
qed

text \<open>What a server may leave out, and what it may not.\<close>

lemma minimal_def:
  "map_option (\<lambda>d. (def_connect_timeout_secs d, def_call_timeout_secs d, def_connection_mode d, def_stderr_mode d, def_transport d))
     (backend_def_from_value (jobj [(''id'', JStr ''a''), (''transport'', JStr ''stdio''), (''command'', JStr ''srv'')])) =
   Some (10, 30, Eager, LogOnError, Stdio ''srv'' [] [] None)"
  "backend_def_from_value (jobj [(''id'', JStr ''a''), (''transport'', JStr ''sse''), (''command'', JStr ''srv'')]) = None"
  "backend_def_from_value (jobj [(''id'', JStr ''a''), (''transport'', JStr ''http'')]) = None"
  "backend_def_from_value (jobj [(''id'', JStr ''a''), (''transport'', JStr ''stdio''), (''command'', JStr ''srv''), (''connection_mode'', JStr ''per-call'')]) = None"
  by code_simp+

lemma opt_value_Some: "v \<noteq> JNull \<Longrightarrow> opt_value (Some v) = Some v"
  by (cases v) auto

lemma capabilities_back: "sc_events c \<noteq> Some JNull \<Longrightarrow> capabilities_from_value (capabilities_value c) = Some c"
  by (cases c; cases "sc_tools c"; cases "sc_resources c"; cases "sc_prompts c"; cases "sc_events c")
    (auto simp: capabilities_from_value_def capabilities_value_def struct_fields_def opt_of_def opt_json_def
      list_changed_from_value_def list_changed_value_def resources_from_value_def resources_value_def jobj_def map_of_obj_of default_of_def opt_value_Some)

lemma initialize_result_back:
  "sc_events (ir_capabilities r) \<noteq> Some JNull \<Longrightarrow> initialize_result_from_value (initialize_result_value r) = Some r"
  by (simp add: initialize_result_from_value_def initialize_result_value_def struct_fields_def server_info_from_value_def
      info_value_def jobj_def map_of_obj_of) (simp add: capabilities_back)

lemma call_tool_result_back: "call_tool_result_from_value (call_tool_result_value r) = Some r"
proof -
  have "content_block_from_value (content_block_value b) = Some b" for b
    by (cases "cb_text b") (simp_all add: content_block_from_value_def content_block_value_def struct_fields_def jobj_def
        map_of_obj_of opt_of_def)
  then have "all_some (map (content_block_from_value \<circ> content_block_value) bs) = Some bs" for bs by (rule all_some_map)
  then show ?thesis
    by (simp add: call_tool_result_from_value_def call_tool_result_value_def struct_fields_def jobj_def map_of_obj_of default_of_def)
qed

end
