(* ===== verification/Hub_Tasks.thy ===== *)
theory Hub_Tasks
  imports Hub_Prelude
begin

text \<open>
  Concurrent tasks on a shared state, as the models of the shared components use them.  A section of a
  task between two points where it waits is one event; an event that cannot happen in a state gives
  \<open>None\<close>, and carries what the outside decides (a reply, a clock, a granted lock).  The tasks stand in a
  table from their keys to where they are.  The locale \<open>task_system\<close> proves once that tasks that make
  progress come to an end.
\<close>

section \<open>Runs\<close>

fun run_events :: "('e \<Rightarrow> 's \<Rightarrow> 's option) \<Rightarrow> 'e list \<Rightarrow> 's \<Rightarrow> 's option" where
  "run_events step [] s = Some s"
| "run_events step (e # es) s = Option.bind (step e s) (run_events step es)"

inductive reaches :: "('e \<Rightarrow> 's \<Rightarrow> 's option) \<Rightarrow> 's \<Rightarrow> 's \<Rightarrow> bool" for step :: "'e \<Rightarrow> 's \<Rightarrow> 's option" and s0 :: 's where
  reaches_start: "reaches step s0 s0"
| reaches_event: "reaches step s0 s \<Longrightarrow> step e s = Some s' \<Longrightarrow> reaches step s0 s'"

lemma run_events_append:
  "run_events step (es @ fs) s = Option.bind (run_events step es s) (run_events step fs)"
  by (induction es arbitrary: s) (auto split: bind_splits)

lemma run_events_reaches: "reaches step s0 s \<Longrightarrow> run_events step es s = Some s' \<Longrightarrow> reaches step s0 s'"
  by (induction es arbitrary: s) (auto split: bind_splits intro: reaches_event)

lemma reaches_run: "reaches step s0 s \<Longrightarrow> \<exists>es. run_events step es s0 = Some s"
proof (induction rule: reaches.induct)
  case reaches_start
  show ?case by (rule exI [of _ "[]"]) simp
next
  case (reaches_event s e s')
  then obtain es where "run_events step es s0 = Some s" by blast
  with reaches_event have "run_events step (es @ [e]) s0 = Some s'" by (simp add: run_events_append)
  then show ?case by blast
qed

lemma reaches_inv:
  assumes "reaches step s0 s" and "I s0" and "\<And>e s s'. I s \<Longrightarrow> step e s = Some s' \<Longrightarrow> I s'"
  shows "I s"
  using assms(1) by induction (use assms(2,3) in auto)

section \<open>The table of tasks\<close>

definition total_rank :: "('p \<Rightarrow> nat) \<Rightarrow> (nat \<times> 'p) list \<Rightarrow> nat" where
  "total_rank r ts = sum_list (map (r \<circ> snd) ts)"

lemma total_rank_simps [simp]: "total_rank r [] = 0" "total_rank r ((k, p) # ts) = r p + total_rank r ts"
  by (simp_all add: total_rank_def)

lemma total_rank_update:
  "table ts \<Longrightarrow> map_of ts k = Some p \<Longrightarrow> total_rank r (AList.update k q ts) + r p = total_rank r ts + r q"
  by (induction ts) (auto simp: table_def split: if_splits)

lemma total_rank_less:
  "table ts \<Longrightarrow> map_of ts k = Some p \<Longrightarrow> r q < r p \<Longrightarrow> total_rank r (AList.update k q ts) < total_rank r ts"
  using total_rank_update [of ts k p r q] by linarith

section \<open>Coming to an end\<close>

locale task_system =
  fixes step :: "'e \<Rightarrow> 's \<Rightarrow> 's option" and inv :: "'s \<Rightarrow> bool" and progress :: "'e \<Rightarrow> bool"
    and rank :: "'s \<Rightarrow> nat" and settled :: "'s \<Rightarrow> bool"
  assumes inv_step: "inv s \<Longrightarrow> step e s = Some s' \<Longrightarrow> inv s'"
    and rank_step: "inv s \<Longrightarrow> progress e \<Longrightarrow> step e s = Some s' \<Longrightarrow> rank s' < rank s"
    and enabled: "inv s \<Longrightarrow> \<not> settled s \<Longrightarrow> \<exists>e. progress e \<and> step e s \<noteq> None"
begin

lemma inv_reaches: "inv s0 \<Longrightarrow> reaches step s0 s \<Longrightarrow> inv s"
  by (rule reaches_inv [of step s0 s inv]) (auto intro: inv_step)

lemma progress_bounded:
  "inv s \<Longrightarrow> list_all progress es \<Longrightarrow> run_events step es s = Some s' \<Longrightarrow> length es + rank s' \<le> rank s"
proof (induction es arbitrary: s)
  case (Cons e es)
  then obtain s1 where s1: "step e s = Some s1" and r: "run_events step es s1 = Some s'" by (auto split: bind_splits)
  from Cons.IH [OF inv_step [OF Cons.prems(1) s1] _ r] Cons.prems(1,2) rank_step [OF Cons.prems(1) _ s1]
  show ?case by simp
qed simp

lemma settles: "inv s \<Longrightarrow> \<exists>es s'. list_all progress es \<and> run_events step es s = Some s' \<and> settled s'"
proof (induction "rank s" arbitrary: s rule: less_induct)
  case less
  show ?case
  proof (cases "settled s")
    case True
    then show ?thesis by (intro exI [of _ "[]"]) auto
  next
    case False
    with enabled [OF less.prems] obtain e s1 where e: "progress e" "step e s = Some s1" by blast
    from less.hyps [OF rank_step [OF less.prems e] inv_step [OF less.prems e(2)]]
    obtain es s' where "list_all progress es" "run_events step es s1 = Some s'" "settled s'" by blast
    with e show ?thesis by (intro exI [of _ "e # es"]) auto
  qed
qed

text \<open>However progress is scheduled, it ends, and it only stops when everything is settled.\<close>

lemma ends_settled:
  assumes "inv s" and "list_all progress es" and "run_events step es s = Some s'"
    and "\<forall>e. progress e \<longrightarrow> step e s' = None"
  shows "length es \<le> rank s \<and> settled s'"
proof -
  have "inv s'" by (rule inv_reaches [OF assms(1) run_events_reaches [OF reaches_start assms(3)]])
  then have "settled s'" using enabled [of s'] assms(4) by (cases "settled s'") auto
  with progress_bounded [OF assms(1-3)] show ?thesis by simp
qed

end

end
