(* ===== verification/Hub_Registry_Tasks.thy ===== *)
theory Hub_Registry_Tasks
  imports Hub_Registry Hub_Tasks
begin

text \<open>
  The registry (\<open>crates/registry/src/lib.rs\<close>) under concurrent callers: calls, the health rounds,
  reconnects and (un)registrations run as tasks that interleave wherever the code gives up its locks.
  Each constructor of \<open>reg_pc\<close> is such a point; the code between two of them is one section, which runs
  under the locks it takes or touches nothing shared.  What a backend answers comes with the event, so
  nothing at all is assumed of the backends.
\<close>

section \<open>The state\<close>

text \<open>A call that has been resolved: what was asked for, where it goes, and what is sent.\<close>

record 'b planned_call =
  pl_exposed :: string
  pl_given :: "json option"
  pl_backend_id :: string
  pl_backend :: 'b
  pl_name :: string
  pl_mode :: connection_mode
  pl_args :: "json option"
  pl_extra :: jobject
  pl_timeout :: nat

text \<open>What a task goes on with when \<open>connect_backend\<close> returns, one per caller of it in the code.\<close>

datatype 'b then_after =
    ThenCall "'b planned_call"
  | ThenReturn
  | ThenConnect "string list" "(string \<times> (backend_error + unit)) list"
  | ThenCheck "string list"
  | ThenRefresh "string list"

datatype reg_outcome =
    CallDone "backend_error + json"
  | ReconnectDone "backend_error + unit"
  | StartupDone "(string \<times> (backend_error + unit)) list"
  | RoundDone
  | RefreshDone
  | UnregisterDone "backend_error + unit"

datatype 'b reg_pc =
    Resolved "'b planned_call"
  | LookUp string "'b then_after"
  | Connecting string "'b backend_handle" "'b then_after"
  | Listing string "'b backend_handle" "'b then_after"
  | Opening "'b planned_call"
  | Calling "'b planned_call"
  | Closing "'b planned_call" "backend_error + json"
  | Requesting 'b string "json option" nat
  | Dropping string 'b
  | CheckHealth string "string list"
  | Attempting string "string list"
  | Backoff string u64 "string list"
  | FetchBackend string "string list"
  | Checking string 'b "string list"
  | Clearing "string list"
  | Unindexing string 'b
  | Leaving 'b
  | Finished reg_outcome

text \<open>What is asked of a backend.  The state logs it with the task that asks, and each registration.\<close>

datatype backend_use =
    UseConnect
  | UseListTools
  | UseDisconnect
  | UseHealthCheck
  | UseCall string "json option" nat
  | UseRequest string "json option" nat

record 'b reg_sys =
  rs_registry :: "'b registry"
  rs_tasks :: "(nat \<times> 'b reg_pc) list"
  rs_uses :: "(nat \<times> 'b \<times> backend_use) list"
  rs_registered :: "(backend_def \<times> 'b) list"

definition reg_sys_new :: "'b reg_sys" where
  "reg_sys_new = \<lparr>rs_registry = registry_new, rs_tasks = [], rs_uses = [], rs_registered = []\<rparr>"

text \<open>The message of a call, as \<open>perform_call\<close> chooses it.\<close>

definition call_use :: "'b planned_call \<Rightarrow> backend_use" where
  "call_use p =
     (if pl_extra p = [] then UseCall (pl_name p) (pl_args p) (pl_timeout p)
      else UseRequest ''tools/call''
        (Some (JObj (obj_insert ''arguments'' (case pl_args p of Some a \<Rightarrow> a | None \<Rightarrow> JObj [])
           (obj_insert ''name'' (JStr (pl_name p)) (pl_extra p))))) (pl_timeout p))"

text \<open>What a task waits for at a point is what it has asked of a backend there.\<close>

fun use_at :: "'b reg_pc \<Rightarrow> ('b \<times> backend_use) option" where
  "use_at (Connecting i h th) = Some (bh_backend h, UseConnect)"
| "use_at (Listing i h th) = Some (bh_backend h, UseListTools)"
| "use_at (Opening p) = Some (pl_backend p, UseConnect)"
| "use_at (Calling p) = Some (pl_backend p, call_use p)"
| "use_at (Closing p r) = Some (pl_backend p, UseDisconnect)"
| "use_at (Requesting b m params t) = Some (b, UseRequest m params t)"
| "use_at (Dropping i b) = Some (b, UseDisconnect)"
| "use_at (Checking i b is) = Some (b, UseHealthCheck)"
| "use_at (Leaving b) = Some (b, UseDisconnect)"
| "use_at pc = None"

definition reg_goto :: "nat \<Rightarrow> 'b registry \<times> 'b reg_pc \<Rightarrow> 'b reg_sys \<Rightarrow> 'b reg_sys" where
  "reg_goto k = (\<lambda>(reg, pc) sys. sys\<lparr>rs_registry := reg, rs_tasks := AList.update k pc (rs_tasks sys),
     rs_uses := rs_uses sys @ (case use_at pc of Some (b, u) \<Rightarrow> [(k, b, u)] | None \<Rightarrow> [])\<rparr>)"

section \<open>Sections\<close>

definition connect_next :: "string list \<Rightarrow> (string \<times> (backend_error + unit)) list \<Rightarrow> 'b reg_pc" where
  "connect_next ids rs = (case ids of [] \<Rightarrow> Finished (StartupDone rs) | i # is \<Rightarrow> LookUp i (ThenConnect is rs))"

definition check_next :: "string list \<Rightarrow> 'b reg_pc" where
  "check_next ids = (case ids of [] \<Rightarrow> Finished RoundDone | i # is \<Rightarrow> CheckHealth i is)"

definition refresh_next :: "string list \<Rightarrow> 'b reg_pc" where
  "refresh_next ids = (case ids of [] \<Rightarrow> Finished RefreshDone | i # is \<Rightarrow> LookUp i (ThenRefresh is))"

definition call_pc :: "'b planned_call \<Rightarrow> 'b reg_pc" where
  "call_pc p = (if pl_mode p = PerCall then Opening p else Calling p)"

fun after_connect :: "string \<Rightarrow> backend_error + unit \<Rightarrow> 'b then_after \<Rightarrow> 'b reg_pc" where
  "after_connect i r (ThenCall p) = (case r of Inl e \<Rightarrow> Finished (CallDone (Inl e)) | Inr u \<Rightarrow> call_pc p)"
| "after_connect i r ThenReturn = Finished (ReconnectDone r)"
| "after_connect i r (ThenConnect is rs) = connect_next is (rs @ [(i, r)])"
| "after_connect i r (ThenCheck is) = check_next is"
| "after_connect i r (ThenRefresh is) = refresh_next is"

text \<open>The section that indexes the tools of a backend and marks it, under the write lock of the index.\<close>

definition index_section ::
  "string \<Rightarrow> 'b backend_handle \<Rightarrow> tool_descriptor list \<Rightarrow> 'b registry \<Rightarrow> 'b registry \<times> (backend_error + unit)" where
  "index_section i h tools reg =
     (let (r, idx) = index_tools i (def_namespace (bh_def h)) (hidden_args (bh_def h))
            (filter_tools (bh_def h) tools) (drop_tools_of i (rg_tool_index reg));
          reg2 = reg\<lparr>rg_tool_index := idx\<rparr>
      in case r of Inl e \<Rightarrow> (reg2, Inl e) | Inr u \<Rightarrow> (mark_connected i reg2, Inr ()))"

datatype reg_op =
    RouteCall string "json option" jobject nat
  | Reconnect string
  | ConnectAll
  | HealthRound
  | RefreshTools
  | Unregister string
  | BackendRequest string string "json option" nat

fun first_section :: "reg_op \<Rightarrow> 'b registry \<Rightarrow> 'b registry \<times> 'b reg_pc" where
  "first_section (RouteCall exposed_name args extra timeout) reg =
     (reg, case resolve_call exposed_name args reg of
        Inl e \<Rightarrow> Finished (CallDone (Inl e))
      | Inr (routed, h, args') \<Rightarrow>
          Resolved \<lparr>pl_exposed = exposed_name, pl_given = args, pl_backend_id = rt_backend_id routed, pl_backend = bh_backend h, pl_name = rt_downstream_name routed,
            pl_mode = def_connection_mode (bh_def h), pl_args = args', pl_extra = extra, pl_timeout = timeout\<rparr>)"
| "first_section (Reconnect i) reg =
     (reg, case map_of (rg_backends reg) i of Some h \<Rightarrow> Dropping i (bh_backend h) | None \<Rightarrow> LookUp i ThenReturn)"
| "first_section ConnectAll reg =
     (reg, connect_next (map fst (filter (\<lambda>(i, h). def_connection_mode (bh_def h) = Eager) (rg_backends reg))) [])"
| "first_section HealthRound reg =
     (reg, check_next (map fst (filter (\<lambda>(i, h). def_connection_mode (bh_def h) \<noteq> PerCall) (rg_backends reg))))"
| "first_section RefreshTools reg = (reg, Clearing (map fst (filter (\<lambda>(i, h). bh_health h) (rg_backends reg))))"
| "first_section (Unregister i) reg =
     (case map_of (rg_backends reg) i of
        None \<Rightarrow> (reg, Finished (UnregisterDone (Inl (not_registered i))))
      | Some h \<Rightarrow> (reg\<lparr>rg_backends := AList.delete i (rg_backends reg)\<rparr>, Unindexing i (bh_backend h)))"
| "first_section (BackendRequest i m params timeout) reg =
     (reg, case map_of (rg_backends reg) i of
        None \<Rightarrow> Finished (CallDone (Inl (backend_error_new Internal (''unknown backend '' @ sq i))))
      | Some h \<Rightarrow> Requesting (bh_backend h) m params timeout)"

text \<open>What a task that waits is told; \<open>Healthy\<close> carries \<open>take_tools_refresh\<close>, read right after the check.\<close>

datatype reg_reply =
    NoReply
  | Initialized "backend_error + initialize_result"
  | Tools "backend_error + tool_descriptor list"
  | Result "backend_error + json"
  | Disconnected "backend_error + unit"
  | Health "backend_error + bool"
  | Slept

definition when_told :: "(reg_reply \<Rightarrow> 'c option) \<Rightarrow> reg_reply \<Rightarrow> ('c \<Rightarrow> 'd) \<Rightarrow> 'd option" where
  "when_told told reply f = map_option f (told reply)"

fun no_reply :: "reg_reply \<Rightarrow> unit option" where
  "no_reply NoReply = Some ()" | "no_reply r = None"
fun initialized :: "reg_reply \<Rightarrow> (backend_error + initialize_result) option" where
  "initialized (Initialized r) = Some r" | "initialized r = None"
fun tools_told :: "reg_reply \<Rightarrow> (backend_error + tool_descriptor list) option" where
  "tools_told (Tools r) = Some r" | "tools_told r = None"
fun result_told :: "reg_reply \<Rightarrow> (backend_error + json) option" where
  "result_told (Result r) = Some r" | "result_told r = None"
fun disconnected :: "reg_reply \<Rightarrow> (backend_error + unit) option" where
  "disconnected (Disconnected r) = Some r" | "disconnected r = None"
fun health_told :: "reg_reply \<Rightarrow> (backend_error + bool) option" where
  "health_told (Health r) = Some r" | "health_told r = None"
fun slept :: "reg_reply \<Rightarrow> unit option" where
  "slept Slept = Some ()" | "slept r = None"

primrec reg_section :: "'b reg_pc \<Rightarrow> reg_reply \<Rightarrow> 'b registry \<Rightarrow> ('b registry \<times> 'b reg_pc) option" where
  "reg_section (Resolved p) reply reg = when_told no_reply reply (\<lambda>_.
     (reg, if pl_mode p = Lazy \<and> \<not> is_healthy reg (pl_backend_id p) then LookUp (pl_backend_id p) (ThenCall p) else call_pc p))"
| "reg_section (LookUp i th) reply reg = when_told no_reply reply (\<lambda>_.
     (reg, case map_of (rg_backends reg) i of
        None \<Rightarrow> after_connect i (Inl (not_registered i)) th | Some h \<Rightarrow> Connecting i h th))"
| "reg_section (Connecting i h th) reply reg = when_told initialized reply (\<lambda>r.
     case r of Inl e \<Rightarrow> (reg, after_connect i (Inl e) th)
       | Inr init \<Rightarrow> (store_capabilities i (ir_capabilities init) reg, Listing i h th))"
| "reg_section (Listing i h th) reply reg = when_told tools_told reply (\<lambda>r.
     case r of Inl e \<Rightarrow> (reg, after_connect i (Inl e) th)
       | Inr tools \<Rightarrow> (let (reg', r') = index_section i h tools reg in (reg', after_connect i r' th)))"
| "reg_section (Opening p) reply reg = when_told initialized reply (\<lambda>r.
     (reg, case r of Inl e \<Rightarrow> Finished (CallDone (Inl e)) | Inr init \<Rightarrow> Calling p))"
| "reg_section (Calling p) reply reg = when_told result_told reply (\<lambda>r.
     (reg, if pl_mode p = PerCall then Closing p r else Finished (CallDone r)))"
| "reg_section (Closing p result) reply reg = when_told disconnected reply (\<lambda>r.
     (reg, case r of Inl e \<Rightarrow> Finished (CallDone (Inl e)) | Inr u \<Rightarrow> Finished (CallDone result)))"
| "reg_section (Requesting b m params t) reply reg = when_told result_told reply (\<lambda>r. (reg, Finished (CallDone r)))"
| "reg_section (Dropping i b) reply reg = when_told disconnected reply (\<lambda>r. (reg, LookUp i ThenReturn))"
| "reg_section (CheckHealth i is) reply reg = when_told no_reply reply (\<lambda>_.
     (reg, if is_healthy reg i then FetchBackend i is else Attempting i is))"
| "reg_section (Attempting i is) reply reg = when_told no_reply reply (\<lambda>_.
     let reg1 = modify_handle i (\<lambda>h. h\<lparr>bh_reconnect_attempts := bh_reconnect_attempts h + 1\<rparr>) reg;
         attempt = (case map_of (rg_backends reg1) i of Some h \<Rightarrow> bh_reconnect_attempts h | None \<Rightarrow> 0)
     in (reg1, Backoff i (backoff_delay_ms attempt) is))"
| "reg_section (Backoff i delay is) reply reg = when_told slept reply (\<lambda>_. (reg, LookUp i (ThenCheck is)))"
| "reg_section (FetchBackend i is) reply reg = when_told no_reply reply (\<lambda>_.
     (reg, case map_of (rg_backends reg) i of None \<Rightarrow> check_next is | Some h \<Rightarrow> Checking i (bh_backend h) is))"
| "reg_section (Checking i b is) reply reg = when_told health_told reply (\<lambda>r.
     case r of Inr refresh \<Rightarrow> (reg, if refresh then LookUp i (ThenCheck is) else check_next is)
       | Inl e \<Rightarrow> (set_health i False reg, check_next is))"
| "reg_section (Clearing ids) reply reg = when_told no_reply reply (\<lambda>_. (reg\<lparr>rg_tool_index := []\<rparr>, refresh_next ids))"
| "reg_section (Unindexing i b) reply reg = when_told no_reply reply (\<lambda>_.
     (reg\<lparr>rg_tool_index := drop_tools_of i (rg_tool_index reg)\<rparr>, Leaving b))"
| "reg_section (Leaving b) reply reg = when_told disconnected reply (\<lambda>r. (reg, Finished (UnregisterDone r)))"
| "reg_section (Finished out) reply reg = None"

section \<open>The transition system\<close>

text \<open>\<open>unregister\<close> keeps the index locked for writing while its backend disconnects.\<close>

fun leaving :: "'b reg_pc \<Rightarrow> bool" where
  "leaving (Leaving b) = True"
| "leaving pc = False"

definition index_free :: "'b reg_sys \<Rightarrow> bool" where
  "index_free sys \<longleftrightarrow> list_all (\<lambda>(k, pc). \<not> leaving pc) (rs_tasks sys)"

text \<open>The sections that take the lock of the index.\<close>

fun op_takes_index :: "reg_op \<Rightarrow> bool" where
  "op_takes_index (RouteCall n args extra t) = True"
| "op_takes_index op = False"

definition takes_index :: "'b reg_pc \<Rightarrow> reg_reply \<Rightarrow> bool" where
  "takes_index pc reply =
     (case pc of
        Listing i h th \<Rightarrow> (case reply of Tools (Inr tools) \<Rightarrow> True | _ \<Rightarrow> False)
      | Clearing ids \<Rightarrow> True
      | Unindexing i b \<Rightarrow> True
      | _ \<Rightarrow> False)"

datatype 'b reg_event =
    Register backend_def 'b
  | Begin nat reg_op
  | Go nat reg_reply

fun reg_step :: "'b reg_event \<Rightarrow> 'b reg_sys \<Rightarrow> 'b reg_sys option" where
  "reg_step (Register d b) sys =
     Some (case register d b (rs_registry sys) of
        (Inl e, reg) \<Rightarrow> sys | (Inr u, reg) \<Rightarrow> sys\<lparr>rs_registry := reg, rs_registered := rs_registered sys @ [(d, b)]\<rparr>)"
| "reg_step (Begin k op) sys =
     (if map_of (rs_tasks sys) k = None \<and> (op_takes_index op \<longrightarrow> index_free sys)
      then Some (reg_goto k (first_section op (rs_registry sys)) sys) else None)"
| "reg_step (Go k reply) sys =
     (case map_of (rs_tasks sys) k of
        None \<Rightarrow> None
      | Some pc \<Rightarrow>
          (if takes_index pc reply \<and> \<not> index_free sys then None
           else map_option (\<lambda>x. reg_goto k x sys) (reg_section pc reply (rs_registry sys))))"

end
