(* ===== verification/Hub_Registry_Tasks_Facts.thy ===== *)
theory Hub_Registry_Tasks_Facts
  imports Hub_Registry_Tasks Hub_Registry_Calls
begin

text \<open>
  Properties of the registry under concurrent callers: the advertised tools and the calls keep what the
  sequential operations promise in every interleaving, and every task comes to its end.
\<close>

section \<open>Sections\<close>

lemma when_told_Some: "when_told told reply f = Some x \<longleftrightarrow> (\<exists>r. told reply = Some r \<and> x = f r)"
  by (auto simp: when_told_def)

lemma reg_goto_sel [simp]:
  "rs_tasks (reg_goto k x sys) = AList.update k (snd x) (rs_tasks sys)"
  "rs_registry (reg_goto k x sys) = fst x" "rs_registered (reg_goto k x sys) = rs_registered sys"
  by (simp_all add: reg_goto_def split: prod.split)

text \<open>The three kinds of event, as a rule to split on.\<close>

lemma reg_step_cases:
  assumes "reg_step e sys = Some sys'"
  obtains (registered) d b reg where "e = Register d b" "register d b (rs_registry sys) = (Inr (), reg)"
      "sys' = sys\<lparr>rs_registry := reg, rs_registered := rs_registered sys @ [(d, b)]\<rparr>"
  | (refused) d b where "e = Register d b" "sys' = sys"
  | (begun) k op where "e = Begin k op" "map_of (rs_tasks sys) k = None" "sys' = reg_goto k (first_section op (rs_registry sys)) sys"
  | (gone) k reply pc x where "e = Go k reply" "map_of (rs_tasks sys) k = Some pc"
      "takes_index pc reply \<Longrightarrow> index_free sys" "reg_section pc reply (rs_registry sys) = Some x" "sys' = reg_goto k x sys"
proof (cases e)
  case (Register d b)
  obtain r reg where "register d b (rs_registry sys) = (r, reg)" by fastforce
  with Register assms show thesis by (cases r) (auto intro: registered refused)
qed (use assms in \<open>auto split: option.splits if_splits intro: begun gone\<close>)

section \<open>Every task ends\<close>

fun then_rank :: "'b then_after \<Rightarrow> nat" where
  "then_rank (ThenCall p) = 3"
| "then_rank ThenReturn = 0"
| "then_rank (ThenConnect is rs) = 3 * length is"
| "then_rank (ThenCheck is) = 6 * length is"
| "then_rank (ThenRefresh is) = 3 * length is"

fun reg_rank :: "'b reg_pc \<Rightarrow> nat" where
  "reg_rank (Resolved p) = 7"
| "reg_rank (LookUp i th) = 3 + then_rank th"
| "reg_rank (Connecting i h th) = 2 + then_rank th"
| "reg_rank (Listing i h th) = 1 + then_rank th"
| "reg_rank (Opening p) = 3"
| "reg_rank (Calling p) = 2"
| "reg_rank (Closing p r) = 1"
| "reg_rank (Requesting b m params t) = 1"
| "reg_rank (Dropping i b) = 4"
| "reg_rank (CheckHealth i is) = 6 + 6 * length is"
| "reg_rank (Attempting i is) = 5 + 6 * length is"
| "reg_rank (Backoff i d is) = 4 + 6 * length is"
| "reg_rank (FetchBackend i is) = 5 + 6 * length is"
| "reg_rank (Checking i b is) = 4 + 6 * length is"
| "reg_rank (Clearing ids) = 1 + 3 * length ids"
| "reg_rank (Unindexing i b) = 2"
| "reg_rank (Leaving b) = 1"
| "reg_rank (Finished out) = 0"

fun reg_progress :: "'b reg_event \<Rightarrow> bool" where
  "reg_progress (Go k reply) = True"
| "reg_progress e = False"

lemma rank_next:
  "reg_rank (connect_next ids rs) = 3 * length ids" "reg_rank (check_next ids) = 6 * length ids"
  "reg_rank (refresh_next ids) = 3 * length ids" "reg_rank (call_pc p) \<le> 3"
  by (auto simp: connect_next_def check_next_def refresh_next_def call_pc_def split: list.split)

lemma rank_after: "reg_rank (after_connect i r th) \<le> then_rank th"
  by (cases th) (auto simp: rank_next split: sum.split)

lemma rank_section:
  assumes "reg_section pc reply reg = Some x"
  shows "reg_rank (snd x) < reg_rank pc"
proof (cases pc)
  case (Listing i h th)
  with assms obtain r where r: "tools_told reply = Some r" and x: "x = (case r of Inl e \<Rightarrow> (reg, after_connect i (Inl e) th)
       | Inr tools \<Rightarrow> (let (reg', r') = index_section i h tools reg in (reg', after_connect i r' th)))"
    by (auto simp: when_told_Some)
  from x Listing rank_after [of i _ th] show ?thesis
    by (cases r) (auto simp: less_Suc_eq_le split: prod.split)
next
  case (Resolved p)
  with assms rank_next(4) [of p] show ?thesis by (auto simp: when_told_Some)
next
  case (LookUp i th)
  with assms rank_after [of i "Inl (not_registered i)" th] show ?thesis by (auto simp: when_told_Some split: option.splits)
next
  case (Connecting i h th)
  with assms obtain r where "initialized reply = Some r" and x: "x = (case r of Inl e \<Rightarrow> (reg, after_connect i (Inl e) th)
       | Inr init \<Rightarrow> (store_capabilities i (ir_capabilities init) reg, Listing i h th))"
    by (auto simp: when_told_Some)
  from x Connecting rank_after [of i _ th] show ?thesis by (cases r) (auto simp: less_Suc_eq_le le_SucI)
next
  case (Checking i b ids)
  with assms obtain r where "health_told reply = Some r" and x: "x = (case r of Inr refresh \<Rightarrow> (reg, if refresh then LookUp i (ThenCheck ids) else check_next ids)
       | Inl e \<Rightarrow> (set_health i False reg, check_next ids))" by (auto simp: when_told_Some)
  with Checking show ?thesis by (cases r) (auto simp: rank_next)
next
  case (Closing p r)
  with assms obtain q where "disconnected reply = Some q" and x: "x = (reg, case q of Inl e \<Rightarrow> Finished (CallDone (Inl e))
      | Inr u \<Rightarrow> Finished (CallDone r))" by (auto simp: when_told_Some)
  with Closing show ?thesis by (cases q) auto
next
  case (Opening p)
  with assms obtain q where "initialized reply = Some q" and x: "x = (reg, case q of Inl e \<Rightarrow> Finished (CallDone (Inl e))
      | Inr init \<Rightarrow> Calling p)" by (auto simp: when_told_Some)
  with Opening show ?thesis by (cases q) auto
next
  case (FetchBackend i ids)
  with assms show ?thesis by (auto simp: when_told_Some rank_next split: option.splits)
qed (use assms in \<open>auto simp: when_told_Some rank_next Let_def\<close>)

lemma section_enabled:
  assumes "reg_rank pc \<noteq> 0"
  shows "\<exists>reply. reg_section pc reply reg \<noteq> None \<and> (takes_index pc reply \<longrightarrow> \<not> leaving pc)"
proof -
  have ex: "\<exists>reply. P reply" if "\<exists>r. P (c r)" for P c using that by blast
  show ?thesis
  proof (cases pc)
    case (Connecting i h th) then show ?thesis by (intro exI [of _ "Initialized (Inl e)" for e]) (simp add: when_told_def takes_index_def)
  next
    case (Listing i h th) then show ?thesis by (intro exI [of _ "Tools (Inl e)" for e]) (simp add: when_told_def takes_index_def)
  next
    case (Opening p) then show ?thesis by (intro exI [of _ "Initialized (Inl e)" for e]) (simp add: when_told_def takes_index_def)
  next
    case (Calling p) then show ?thesis by (intro exI [of _ "Result (Inl e)" for e]) (simp add: when_told_def takes_index_def)
  next
    case (Closing p r) then show ?thesis by (intro exI [of _ "Disconnected (Inl e)" for e]) (simp add: when_told_def takes_index_def)
  next
    case (Requesting b m params t) then show ?thesis by (intro exI [of _ "Result (Inl e)" for e]) (simp add: when_told_def takes_index_def)
  next
    case (Dropping i b) then show ?thesis by (intro exI [of _ "Disconnected (Inl e)" for e]) (simp add: when_told_def takes_index_def)
  next
    case (Backoff i d ids) then show ?thesis by (intro exI [of _ Slept]) (simp add: when_told_def takes_index_def)
  next
    case (Checking i b ids) then show ?thesis by (intro exI [of _ "Health (Inl e)" for e]) (simp add: when_told_def takes_index_def)
  next
    case (Leaving b) then show ?thesis by (intro exI [of _ "Disconnected (Inl e)" for e]) (simp add: when_told_def takes_index_def)
  qed (use assms in \<open>auto intro!: exI [of _ NoReply] simp: when_told_def Let_def\<close>)
qed

definition reg_settled :: "'b reg_sys \<Rightarrow> bool" where
  "reg_settled sys \<longleftrightarrow> (\<forall>(k, pc) \<in> set (rs_tasks sys). reg_rank pc = 0)"

lemma reg_rank_zero: "reg_rank pc = 0 \<longleftrightarrow> (\<exists>out. pc = Finished out)"
  by (cases pc) auto

lemma reg_tasks_step: "table (rs_tasks sys) \<Longrightarrow> reg_step e sys = Some sys' \<Longrightarrow> table (rs_tasks sys')"
  by (erule reg_step_cases) auto

lemma reg_rank_step:
  assumes "table (rs_tasks sys)" and "reg_progress e" and "reg_step e sys = Some sys'"
  shows "total_rank reg_rank (rs_tasks sys') < total_rank reg_rank (rs_tasks sys)"
  using assms(3)
proof (cases rule: reg_step_cases)
  case (gone k reply pc x)
  from total_rank_less [OF assms(1) gone(2) rank_section [OF gone(4)]] gone(5) show ?thesis by simp
qed (use assms(2) in auto)

lemma reg_enabled:
  assumes t: "table (rs_tasks sys)" and u: "\<not> reg_settled sys"
  shows "\<exists>e. reg_progress e \<and> reg_step e sys \<noteq> None"
proof (cases "index_free sys")
  case True
  from u obtain k pc where "(k, pc) \<in> set (rs_tasks sys)" "reg_rank pc \<noteq> 0" by (auto simp: reg_settled_def)
  with t section_enabled [of pc "rs_registry sys"] obtain reply where
    "map_of (rs_tasks sys) k = Some pc" "reg_section pc reply (rs_registry sys) \<noteq> None" by (auto simp: table_map_of)
  with True show ?thesis by (intro exI [of _ "Go k reply"]) simp
next
  case False
  then obtain k pc where "(k, pc) \<in> set (rs_tasks sys)" "leaving pc" by (auto simp: index_free_def list_all_iff)
  moreover from this obtain b where "pc = Leaving b" by (cases pc) auto
  ultimately have "map_of (rs_tasks sys) k = Some (Leaving b)" using t by (simp add: table_map_of)
  then show ?thesis by (intro exI [of _ "Go k (Disconnected (Inl e))" for e]) (simp add: takes_index_def when_told_def)
qed

interpretation registry_tasks: task_system reg_step "\<lambda>sys. table (rs_tasks sys)" reg_progress
    "\<lambda>sys. total_rank reg_rank (rs_tasks sys)" reg_settled
  by unfold_locales (blast intro: reg_tasks_step reg_rank_step reg_enabled)+

section \<open>What every interleaving keeps\<close>

text \<open>The definition \<open>d\<close> was registered under the id \<open>i\<close>, with the backend \<open>b\<close>.\<close>

definition known :: "(backend_def \<times> 'b) list \<Rightarrow> string \<Rightarrow> backend_def \<Rightarrow> 'b \<Rightarrow> bool" where
  "known rs i d b \<longleftrightarrow> (d, b) \<in> set rs \<and> def_id d = i"

definition planned_ok :: "(backend_def \<times> 'b) list \<Rightarrow> 'b planned_call \<Rightarrow> bool" where
  "planned_ok rs p \<longleftrightarrow>
     (\<exists>d b. known rs (pl_backend_id p) d b \<and> pl_exposed p = compute_exposed_name (def_namespace d) (pl_name p) \<and>
        tool_permitted d (pl_name p)) \<and>
     (\<exists>d. known rs (pl_backend_id p) d (pl_backend p) \<and> apply_arg_policy d (pl_given p) = Inr (pl_args p) \<and>
        pl_mode p = def_connection_mode d)"

fun then_ok :: "(backend_def \<times> 'b) list \<Rightarrow> 'b then_after \<Rightarrow> bool" where
  "then_ok rs (ThenCall p) = planned_ok rs p"
| "then_ok rs th = True"

fun pc_ok :: "(backend_def \<times> 'b) list \<Rightarrow> 'b reg_pc \<Rightarrow> bool" where
  "pc_ok rs (Resolved p) = planned_ok rs p"
| "pc_ok rs (LookUp i th) = then_ok rs th"
| "pc_ok rs (Connecting i h th) = (known rs i (bh_def h) (bh_backend h) \<and> then_ok rs th)"
| "pc_ok rs (Listing i h th) = (known rs i (bh_def h) (bh_backend h) \<and> then_ok rs th)"
| "pc_ok rs (Opening p) = planned_ok rs p"
| "pc_ok rs (Calling p) = planned_ok rs p"
| "pc_ok rs (Closing p r) = planned_ok rs p"
| "pc_ok rs pc = True"

definition tables_ok :: "(backend_def \<times> 'b) list \<Rightarrow> 'b registry \<Rightarrow> bool" where
  "tables_ok rs reg \<longleftrightarrow> table (rg_backends reg) \<and> table (rg_tool_index reg) \<and>
     (\<forall>i h. map_of (rg_backends reg) i = Some h \<longrightarrow> known rs i (bh_def h) (bh_backend h)) \<and>
     (\<forall>k rt. map_of (rg_tool_index reg) k = Some rt \<longrightarrow> (\<exists>d b. known rs (rt_backend_id rt) d b \<and> route_ok d k rt))"

lemma tables_okD:
  assumes "tables_ok rs reg"
  shows "table (rg_backends reg)" "table (rg_tool_index reg)"
    and "map_of (rg_backends reg) i = Some h \<Longrightarrow> known rs i (bh_def h) (bh_backend h)"
    and "map_of (rg_tool_index reg) k = Some rt \<Longrightarrow> \<exists>d b. known rs (rt_backend_id rt) d b \<and> route_ok d k rt"
  using assms by (auto simp: tables_ok_def)

lemma known_more: "known rs i d b \<Longrightarrow> known (rs @ rs') i d b"
  by (simp add: known_def)

lemma pc_ok_more: "pc_ok rs pc \<Longrightarrow> pc_ok (rs @ rs') pc"
proof -
  have p: "planned_ok rs p \<Longrightarrow> planned_ok (rs @ rs') p" for p unfolding planned_ok_def by (blast intro: known_more)
  have "then_ok rs th \<Longrightarrow> then_ok (rs @ rs') th" for th by (cases th) (auto intro: p)
  then show "pc_ok rs pc \<Longrightarrow> pc_ok (rs @ rs') pc" by (cases pc) (auto intro: p known_more)
qed

lemma tables_ok_more: "tables_ok rs reg \<Longrightarrow> tables_ok (rs @ rs') reg"
  unfolding tables_ok_def by (blast intro: known_more)

lemma pc_ok_next [simp]:
  "pc_ok rs (connect_next ids outs)" "pc_ok rs (check_next ids)" "pc_ok rs (refresh_next ids)"
  by (simp_all add: connect_next_def check_next_def refresh_next_def split: list.split)

lemma pc_ok_call [simp]: "pc_ok rs (call_pc p) = planned_ok rs p"
  by (simp add: call_pc_def)

lemma pc_ok_after: "then_ok rs th \<Longrightarrow> pc_ok rs (after_connect i r th)"
  by (cases th) (simp_all split: sum.split)

lemma tables_ok_modify:
  assumes ok: "tables_ok rs reg" and f: "\<And>h. bh_def (f h) = bh_def h \<and> bh_backend (f h) = bh_backend h"
  shows "tables_ok rs (modify_handle i f reg)"
  using tables_okD(3) [OF ok] f ok unfolding tables_ok_def by auto

lemma tables_ok_handle_ops:
  assumes "tables_ok rs reg"
  shows "tables_ok rs (set_health i v reg)" "tables_ok rs (store_capabilities i c reg)" "tables_ok rs (mark_connected i reg)"
    "tables_ok rs (modify_handle i (\<lambda>h. h\<lparr>bh_reconnect_attempts := bh_reconnect_attempts h + 1\<rparr>) reg)"
  unfolding handle_ops by (rule tables_ok_modify [OF assms]; simp)+

lemma tables_ok_dropped:
  "tables_ok rs reg \<Longrightarrow> tables_ok rs (reg\<lparr>rg_tool_index := []\<rparr>)"
  "tables_ok rs reg \<Longrightarrow> tables_ok rs (reg\<lparr>rg_tool_index := drop_tools_of i (rg_tool_index reg)\<rparr>)"
  "tables_ok rs reg \<Longrightarrow> tables_ok rs (reg\<lparr>rg_backends := AList.delete i (rg_backends reg)\<rparr>)"
  by (auto simp: tables_ok_def map_of_drop_tools_of map_of_delete split: if_splits)

lemma tables_ok_index:
  assumes ok: "tables_ok rs reg" and h: "known rs i (bh_def h) (bh_backend h)"
    and x: "index_section i h tools reg = (reg', r)"
  shows "tables_ok rs reg'"
proof -
  let ?tools = "filter_tools (bh_def h) tools"
  obtain q idx where q: "index_tools i (def_namespace (bh_def h)) (hidden_args (bh_def h)) ?tools
      (drop_tools_of i (rg_tool_index reg)) = (q, idx)" by fastforce
  have t: "table (rg_tool_index reg)" by (rule tables_okD(2) [OF ok])
  have "tables_ok rs (reg\<lparr>rg_tool_index := idx\<rparr>)"
    unfolding tables_ok_def
  proof (intro conjI allI impI)
    show "table (rg_tool_index (reg\<lparr>rg_tool_index := idx\<rparr>))"
      using index_tools_table [OF table_drop_tools_of [OF t], of i "def_namespace (bh_def h)" "hidden_args (bh_def h)" ?tools i] q
      by simp
    fix k rt
    assume "map_of (rg_tool_index (reg\<lparr>rg_tool_index := idx\<rparr>)) k = Some rt"
    with q have "map_of (snd (index_tools i (def_namespace (bh_def h)) (hidden_args (bh_def h)) ?tools
        (drop_tools_of i (rg_tool_index reg)))) k = Some rt" by simp
    from index_tools_entries [OF this]
    show "\<exists>d b. known rs (rt_backend_id rt) d b \<and> route_ok d k rt"
    proof
      assume "map_of (drop_tools_of i (rg_tool_index reg)) k = Some rt"
      then show ?thesis by (intro tables_okD(4) [OF ok]) (simp add: map_of_drop_tools_of t)
    next
      assume "\<exists>tool \<in> set ?tools. rt = route_of i (def_namespace (bh_def h)) (hidden_args (bh_def h)) tool \<and>
          k = exposed (def_namespace (bh_def h)) tool"
      then show ?thesis using h route_of_ok [of "bh_def h"]
        by (intro exI [of _ "bh_def h"] exI [of _ "bh_backend h"]) (auto simp: filter_tools_eq)
    qed
  qed (use ok in \<open>auto simp: tables_ok_def\<close>)
  then show ?thesis using x q by (auto simp: index_section_def Let_def intro: tables_ok_handle_ops split: sum.splits)
qed

definition reg_sound :: "'b reg_sys \<Rightarrow> bool" where
  "reg_sound sys \<longleftrightarrow> tables_ok (rs_registered sys) (rs_registry sys) \<and>
     (\<forall>k pc. map_of (rs_tasks sys) k = Some pc \<longrightarrow> pc_ok (rs_registered sys) pc)"

lemma reg_sound_goto:
  "reg_sound sys \<Longrightarrow> tables_ok (rs_registered sys) (fst x) \<Longrightarrow> pc_ok (rs_registered sys) (snd x) \<Longrightarrow> reg_sound (reg_goto k x sys)"
  by (auto simp: reg_sound_def map_of_update)

lemma first_section_sound:
  assumes ok: "tables_ok rs reg" and "first_section op reg = x"
  shows "tables_ok rs (fst x) \<and> pc_ok rs (snd x)"
proof (cases op)
  case (RouteCall n args extra t)
  show ?thesis
  proof (cases "resolve_call n args reg")
    case (Inl e)
    with assms RouteCall show ?thesis by auto
  next
    case (Inr r)
    obtain rt h args' where r: "r = (rt, h, args')" by (cases r)
    with Inr have m: "map_of (rg_tool_index reg) n = Some rt" "map_of (rg_backends reg) (rt_backend_id rt) = Some h"
      "apply_arg_policy (bh_def h) args = Inr args'" by (auto simp: resolve_call_Inr)
    obtain d b where d: "known rs (rt_backend_id rt) d b" "route_ok d n rt" using tables_okD(4) [OF ok m(1)] by blast
    let ?p = "\<lparr>pl_exposed = n, pl_given = args, pl_backend_id = rt_backend_id rt, pl_backend = bh_backend h,
        pl_name = rt_downstream_name rt, pl_mode = def_connection_mode (bh_def h), pl_args = args', pl_extra = extra, pl_timeout = t\<rparr>"
    have "planned_ok rs ?p"
      unfolding planned_ok_def
    proof (intro conjI)
      show "\<exists>d b. known rs (pl_backend_id ?p) d b \<and> pl_exposed ?p = compute_exposed_name (def_namespace d) (pl_name ?p) \<and>
          tool_permitted d (pl_name ?p)"
        by (rule exI [of _ d], rule exI [of _ b]) (use d in \<open>simp add: route_ok_def\<close>)
    qed (use m tables_okD(3) [OF ok m(2)] in auto)
    with Inr r ok assms RouteCall show ?thesis by auto
  qed
next
  case (Unregister i)
  with assms show ?thesis by (auto intro: tables_ok_dropped split: option.splits)
qed (use assms in \<open>auto split: option.splits\<close>)

lemma section_sound:
  assumes ok: "tables_ok rs reg" "pc_ok rs pc" and s: "reg_section pc reply reg = Some x"
  shows "tables_ok rs (fst x) \<and> pc_ok rs (snd x)"
proof (cases pc)
  case (Connecting i h th)
  with s obtain r where "initialized reply = Some r" and x: "x = (case r of Inl e \<Rightarrow> (reg, after_connect i (Inl e) th)
       | Inr init \<Rightarrow> (store_capabilities i (ir_capabilities init) reg, Listing i h th))" by (auto simp: when_told_Some)
  with Connecting ok show ?thesis by (cases r) (auto intro: pc_ok_after tables_ok_handle_ops)
next
  case (Listing i h th)
  with s obtain r where "tools_told reply = Some r" and x: "x = (case r of Inl e \<Rightarrow> (reg, after_connect i (Inl e) th)
       | Inr tools \<Rightarrow> (let (reg', r') = index_section i h tools reg in (reg', after_connect i r' th)))" by (auto simp: when_told_Some)
  with Listing ok tables_ok_index [OF ok(1)] show ?thesis by (cases r) (auto intro: pc_ok_after split: prod.split)
next
  case (Checking i b ids)
  with s obtain r where "health_told reply = Some r" and x: "x = (case r of Inr refresh \<Rightarrow> (reg, if refresh then LookUp i (ThenCheck ids) else check_next ids)
       | Inl e \<Rightarrow> (set_health i False reg, check_next ids))" by (auto simp: when_told_Some)
  with ok show ?thesis by (cases r) (auto intro: tables_ok_handle_ops)
next
  case (LookUp i th)
  with s ok tables_okD(3) [OF ok(1)] show ?thesis by (auto simp: when_told_Some intro: pc_ok_after split: option.splits)
next
  case (Opening p)
  with s obtain q where "initialized reply = Some q" and x: "x = (reg, case q of Inl e \<Rightarrow> Finished (CallDone (Inl e))
      | Inr init \<Rightarrow> Calling p)" by (auto simp: when_told_Some)
  with Opening ok show ?thesis by (cases q) auto
next
  case (Closing p r)
  with s obtain q where "disconnected reply = Some q" and x: "x = (reg, case q of Inl e \<Rightarrow> Finished (CallDone (Inl e))
      | Inr u \<Rightarrow> Finished (CallDone r))" by (auto simp: when_told_Some)
  with ok show ?thesis by (cases q) auto
qed (use s ok in \<open>auto simp: when_told_Some Let_def intro: tables_ok_handle_ops tables_ok_dropped split: option.split_asm\<close>)

lemma reg_sound_step:
  assumes sound: "reg_sound sys" and s: "reg_step e sys = Some sys'"
  shows "reg_sound sys'"
  using s
proof (cases rule: reg_step_cases)
  case (registered d b reg)
  let ?rs = "rs_registered sys @ [(d, b)]"
  have ok: "tables_ok ?rs (rs_registry sys)" using sound by (simp add: reg_sound_def tables_ok_more)
  from registered(2) have new: "\<not> has_key (rg_backends (rs_registry sys)) (def_id d)"
    by (auto simp: register_def Let_def split: if_splits)
  with registered(2) have reg: "reg = (rs_registry sys)\<lparr>rg_backends := AList.update (def_id d)
      \<lparr>bh_def = d, bh_backend = b, bh_health = False, bh_capabilities = None, bh_reconnect_attempts = 0\<rparr> (rg_backends (rs_registry sys))\<rparr>"
    by (simp add: register_def Let_def)
  have "tables_ok ?rs reg"
    using ok by (auto simp: tables_ok_def reg map_of_update known_def)
  with sound registered(3) show ?thesis by (auto simp: reg_sound_def intro: pc_ok_more)
next
  case refused
  with sound show ?thesis by simp
next
  case (begun k op)
  from first_section_sound [of "rs_registered sys" "rs_registry sys" op] sound
  have "reg_sound (reg_goto k (first_section op (rs_registry sys)) sys)"
    by (intro reg_sound_goto) (simp_all add: reg_sound_def)
  with begun show ?thesis by simp
next
  case (gone k reply pc x)
  from section_sound [of "rs_registered sys" "rs_registry sys" pc reply x] gone sound
  have "reg_sound (reg_goto k x sys)" by (intro reg_sound_goto) (simp_all add: reg_sound_def)
  with gone show ?thesis by simp
qed

lemma reg_sound_new: "reg_sound reg_sys_new"
  by (simp add: reg_sound_def reg_sys_new_def registry_new_def tables_ok_def table_def)

section \<open>Properties\<close>

lemma reg_sound_reaches: "reaches reg_step reg_sys_new sys \<Longrightarrow> reg_sound sys"
  by (rule reaches_inv [of reg_step reg_sys_new sys reg_sound]) (auto intro: reg_sound_new reg_sound_step)

text \<open>No backend has been unregistered.\<close>

definition all_present :: "'b reg_sys \<Rightarrow> bool" where
  "all_present sys \<longleftrightarrow>
     list_all (\<lambda>(d, b). case map_of (rg_backends (rs_registry sys)) (def_id d) of Some h \<Rightarrow> bh_def h = d | None \<Rightarrow> False) (rs_registered sys)"

lemma sound_reg_inv:
  assumes "reg_sound sys" and "all_present sys"
  shows "reg_inv (rs_registry sys)"
proof (rule reg_invI)
  have ok: "tables_ok (rs_registered sys) (rs_registry sys)" using assms(1) by (simp add: reg_sound_def)
  show "table (rg_backends (rs_registry sys))" "table (rg_tool_index (rs_registry sys))" by (rule tables_okD [OF ok])+
  show "map_of (rg_backends (rs_registry sys)) i = Some h \<Longrightarrow> def_id (bh_def h) = i" for i h
    using tables_okD(3) [OF ok] by (auto simp: known_def)
  fix k rt
  assume "map_of (rg_tool_index (rs_registry sys)) k = Some rt"
  with tables_okD(4) [OF ok] obtain d b where "known (rs_registered sys) (rt_backend_id rt) d b" "route_ok d k rt" by blast
  with assms(2) show "\<exists>h. map_of (rg_backends (rs_registry sys)) (rt_backend_id rt) = Some h \<and> route_ok (bh_def h) k rt"
    by (auto simp: known_def all_present_def list_all_iff split: option.splits)
qed

text \<open>
  C1: However calls, health rounds, reconnects, refreshes and registrations of one registry interleave,
  and whatever the backends answer, as long as no backend is unregistered the tools that are advertised at
  any moment are sorted by name without duplicates, and they are exactly the tools of registered healthy
  backends, each under the name its backend's namespace gives it, let through by the allow and deny lists,
  and with a schema that shows no pinned or denied argument.
\<close>

theorem advertised_tools_sound_concurrent:
  assumes "reaches reg_step reg_sys_new sys" and "all_present sys" and "reg = rs_registry sys"
  shows "sorted (map td_name (aggregated_tools reg)) \<and> distinct (map td_name (aggregated_tools reg)) \<and>
    set (aggregated_tools reg) =
      {rt_descriptor rt | rt h.
         map_of (rg_tool_index reg) (td_name (rt_descriptor rt)) = Some rt \<and>
         map_of (rg_backends reg) (rt_backend_id rt) = Some h \<and> bh_health h \<and>
         td_name (rt_descriptor rt) = compute_exposed_name (def_namespace (bh_def h)) (rt_downstream_name rt) \<and>
         tool_permitted (bh_def h) (rt_downstream_name rt) \<and>
         schema_hides (map fst (def_pin_args (bh_def h)) @ def_deny_args (bh_def h))
           (td_input_schema (rt_descriptor rt))}"
  unfolding assms(3) by (rule advertised_of_inv [OF sound_reg_inv [OF reg_sound_reaches [OF assms(1)] assms(2)]])



section \<open>Sample runs\<close>

definition sample_initialized :: reg_reply where
  "sample_initialized = Initialized (Inr \<lparr>ir_protocol_version = ''2024-11-05'',
     ir_server_info = \<lparr>si_name = ''s'', si_version = ''1''\<rparr>, ir_capabilities = sample_caps\<rparr>)"

text \<open>A backend is registered and connected; its connection mode is a parameter.\<close>

definition connected_by :: "connection_mode \<Rightarrow> string reg_event list" where
  "connected_by mode = [Register (sample_def ''a'' (Some ''ns'') mode) ''f'', Begin 1 (Reconnect ''a''), Go 1 (Disconnected (Inr ())),
     Go 1 NoReply, Go 1 sample_initialized, Go 1 (Tools (Inr [sample_tool ''f'']))]"

text \<open>Two callers of a lazy backend that is down interleave.\<close>

definition lazy_calls :: "string reg_event list" where
  "lazy_calls = connected_by Lazy @ [Begin 2 HealthRound, Go 2 NoReply, Go 2 NoReply, Go 2 (Health (Inl (not_registered []))),
     Begin 3 (RouteCall ''ns.f'' None [] 30), Begin 4 (RouteCall ''ns.f'' (Some (JObj [])) [] 30), Go 3 NoReply, Go 4 NoReply,
     Go 3 NoReply, Go 4 NoReply, Go 3 sample_initialized, Go 3 (Tools (Inr [sample_tool ''f'', sample_tool ''drop'']))]"

lemma lazy_calls_run:
  "case run_events reg_step lazy_calls reg_sys_new of
     Some sys \<Rightarrow> map td_name (aggregated_tools (rs_registry sys)) = [''ns.f''] \<and> all_present sys \<and>
       map_of (rs_tasks sys) 3 = Some (Calling \<lparr>pl_exposed = ''ns.f'', pl_given = None, pl_backend_id = ''a'', pl_backend = ''f'',
         pl_name = ''f'', pl_mode = Lazy, pl_args = Some (JObj [(''safe'', JBool True)]), pl_extra = [], pl_timeout = 30\<rparr>) \<and>
       map fst (rs_registered sys) = [sample_def ''a'' (Some ''ns'') Lazy]
   | None \<Rightarrow> False"
  by code_simp

theorem advertised_tools_sound_concurrent_witness:
  "\<exists>sys. run_events reg_step lazy_calls reg_sys_new = Some sys \<and> sorted (map td_name (aggregated_tools (rs_registry sys))) \<and>
     map td_name (aggregated_tools (rs_registry sys)) = [''ns.f'']"
proof -
  from lazy_calls_run obtain sys where s: "run_events reg_step lazy_calls reg_sys_new = Some sys"
    and *: "map td_name (aggregated_tools (rs_registry sys)) = [''ns.f'']" "all_present sys" by (auto split: option.splits)
  have "sorted (map td_name (aggregated_tools (rs_registry sys)))"
    by (rule conjunct1 [OF advertised_tools_sound_concurrent [OF run_events_reaches [OF reaches_start s] *(2) refl]])
  with s *(1) show ?thesis by (intro exI [of _ sys] conjI)
qed



text \<open>
  \<open>unregister\<close> during a connect: the connect indexes the tools of a backend that is gone, reports success,
  and their calls then fail as no longer registered.
\<close>

theorem unregister_leaves_routes:
  "case run_events reg_step [Register (sample_def ''a'' (Some ''ns'') Eager) ''f'', Begin 1 (Reconnect ''a''), Go 1 (Disconnected (Inr ())),
       Go 1 NoReply, Go 1 sample_initialized, Begin 2 (Unregister ''a''), Go 2 NoReply, Go 2 (Disconnected (Inr ())),
       Go 1 (Tools (Inr [sample_tool ''f'']))] reg_sys_new of
     Some sys \<Rightarrow> map_of (rs_tasks sys) 1 = Some (Finished (ReconnectDone (Inr ()))) \<and>
       map_of (rs_tasks sys) 2 = Some (Finished (UnregisterDone (Inr ()))) \<and>
       has_tool (rs_registry sys) ''ns.f'' \<and> rg_backends (rs_registry sys) = []
   | None \<Rightarrow> False"
  by code_simp

text \<open>
  While \<open>unregister\<close> waits for its backend to disconnect, it keeps the index locked: a call to any tool
  cannot even begin.
\<close>

theorem unregister_stops_calls:
  "case run_events reg_step (connected_by Eager @ [Begin 2 (Unregister ''a''), Go 2 NoReply]) reg_sys_new of
     Some sys \<Rightarrow> reg_step (Begin 3 (RouteCall ''ns.f'' None [] 30)) sys = None | None \<Rightarrow> False"
  by code_simp

text \<open>
  A health check that began before a reconnect and fails after it takes its verdict to the new connection:
  the backend that has just been connected is marked unhealthy and its tools are not advertised.
\<close>

theorem stale_check_marks_down:
  "case run_events reg_step (connected_by Eager @ [Begin 2 HealthRound, Go 2 NoReply, Go 2 NoReply,
       Begin 3 (Reconnect ''a''), Go 3 (Disconnected (Inr ())), Go 3 NoReply, Go 3 sample_initialized, Go 3 (Tools (Inr [sample_tool ''f''])),
       Go 2 (Health (Inl (not_registered [])))]) reg_sys_new of
     Some sys \<Rightarrow> map_of (rs_tasks sys) 3 = Some (Finished (ReconnectDone (Inr ()))) \<and>
       has_tool (rs_registry sys) ''ns.f'' \<and> aggregated_tools (rs_registry sys) = []
   | None \<Rightarrow> False"
  by code_simp

text \<open>
  Two calls of one per-call backend share its one connection: the second opens it again, the first closes
  it, and the second is sent on the closed connection.
\<close>

theorem per_call_calls_interfere:
  "case run_events reg_step (connected_by PerCall @ [Begin 2 (RouteCall ''ns.f'' None [] 30), Begin 3 (RouteCall ''ns.f'' None [] 30),
       Go 2 NoReply, Go 3 NoReply, Go 2 sample_initialized, Go 2 (Result (Inr JNull)), Go 3 sample_initialized]) reg_sys_new of
     Some sys \<Rightarrow> drop 3 (rs_uses sys) = [(2, ''f'', UseConnect), (3, ''f'', UseConnect), 
       (2, ''f'', UseCall ''f'' (Some (JObj [(''safe'', JBool True)])) 30), (2, ''f'', UseDisconnect),
       (3, ''f'', UseCall ''f'' (Some (JObj [(''safe'', JBool True)])) 30)]
   | None \<Rightarrow> False"
  by code_simp

end
