(* ===== verification/Hub_Registry_Sequential.thy ===== *)
theory Hub_Registry_Sequential
  imports Hub_Registry_Tasks_Facts
begin

text \<open>
  A task of the registry that nothing interrupts does what the sequential operation of \<open>Hub_Registry\<close>
  does: the same outcome, the same registry and the same use of the backends.
\<close>

section \<open>A task on its own\<close>

text \<open>The backends' answer to what a task waits for.\<close>

fun answer_of :: "('b, 'w) backend_ops \<Rightarrow> 'b reg_pc \<Rightarrow> 'w \<Rightarrow> reg_reply \<times> 'w" where
  "answer_of ops (Connecting i h th) w = apfst Initialized (op_connect ops (bh_backend h) w)"
| "answer_of ops (Listing i h th) w = apfst Tools (op_list_tools ops (bh_backend h) w)"
| "answer_of ops (Opening p) w = apfst Initialized (op_connect ops (pl_backend p) w)"
| "answer_of ops (Calling p) w =
     apfst Result (perform_call ops (pl_backend p) (pl_name p) (pl_args p) (pl_extra p) (pl_timeout p) w)"
| "answer_of ops (Closing p r) w = apfst Disconnected (op_disconnect ops (pl_backend p) w)"
| "answer_of ops (Requesting b m params t) w = apfst Result (op_request ops b m params t w)"
| "answer_of ops (Dropping i b) w = apfst Disconnected (op_disconnect ops b w)"
| "answer_of ops (Backoff i delay is) w = (Slept, op_sleep_ms ops delay w)"
| "answer_of ops (Checking i b is) w =
     (case op_health_check ops b w of
        (Inl e, w1) \<Rightarrow> (Health (Inl e), w1)
      | (Inr u, w1) \<Rightarrow> (let (refresh, w2) = op_take_tools_refresh ops b w1 in (Health (Inr refresh), w2)))"
| "answer_of ops (Leaving b) w = apfst Disconnected (op_disconnect ops b w)"
| "answer_of ops pc w = (NoReply, w)"

text \<open>Up to \<open>n\<close> sections of the task \<open>k\<close>, until it cannot go on.\<close>

fun run_alone :: "('b, 'w) backend_ops \<Rightarrow> nat \<Rightarrow> nat \<Rightarrow> 'b reg_sys \<times> 'w \<Rightarrow> 'b reg_sys \<times> 'w" where
  "run_alone ops 0 k c = c"
| "run_alone ops (Suc n) k (sys, w) =
     (case map_of (rs_tasks sys) k of
        None \<Rightarrow> (sys, w)
      | Some pc \<Rightarrow>
          (let (reply, w1) = answer_of ops pc w in
           case reg_step (Go k reply) sys of None \<Rightarrow> (sys, w) | Some sys1 \<Rightarrow> run_alone ops n k (sys1, w1)))"

text \<open>The same without the other tasks.\<close>

fun alone :: "('b, 'w) backend_ops \<Rightarrow> nat \<Rightarrow> 'b reg_pc \<times> 'b registry \<times> 'w \<Rightarrow> 'b reg_pc \<times> 'b registry \<times> 'w" where
  "alone ops 0 c = c"
| "alone ops (Suc n) (pc, reg, w) =
     (let (reply, w1) = answer_of ops pc w in
      case reg_section pc reply reg of None \<Rightarrow> (pc, reg, w) | Some (reg1, pc1) \<Rightarrow> alone ops n (pc1, reg1, w1))"

definition stands :: "nat \<Rightarrow> 'b reg_pc \<Rightarrow> 'b registry \<Rightarrow> 'b reg_sys \<Rightarrow> bool" where
  "stands k pc reg sys \<longleftrightarrow> table (rs_tasks sys) \<and> map_of (rs_tasks sys) k = Some pc \<and> rs_registry sys = reg \<and>
     (\<forall>j pc'. map_of (rs_tasks sys) j = Some pc' \<and> leaving pc' \<longrightarrow> j = k)"

lemma stands_free:
  assumes "stands k pc reg sys" and "\<not> leaving pc"
  shows "index_free sys"
proof -
  have "\<not> leaving pc'" if "(j, pc') \<in> set (rs_tasks sys)" for j pc'
  proof
    assume l: "leaving pc'"
    from that assms(1) have "map_of (rs_tasks sys) j = Some pc'" by (simp add: stands_def table_map_of)
    moreover from this l assms(1) have "j = k" by (simp add: stands_def)
    ultimately show False using l assms by (simp add: stands_def)
  qed
  then show ?thesis by (auto simp: index_free_def list_all_iff)
qed

lemma takes_not_leaving: "takes_index pc reply \<Longrightarrow> \<not> leaving pc"
  by (cases pc) (auto simp: takes_index_def)

lemma stands_step:
  assumes "stands k pc reg sys" and "reg_section pc reply reg = Some (reg1, pc1)"
  shows "\<exists>sys1. reg_step (Go k reply) sys = Some sys1 \<and> stands k pc1 reg1 sys1"
  using assms stands_free [OF assms(1)] takes_not_leaving [of pc reply] by (auto simp: stands_def map_of_update)

lemma run_alone_alone:
  "stands k pc reg sys \<Longrightarrow> alone ops n (pc, reg, w) = (pc', reg', w') \<Longrightarrow>
     \<exists>sys'. run_alone ops n k (sys, w) = (sys', w') \<and> stands k pc' reg' sys'"
proof (induction n arbitrary: pc reg sys w)
  case (Suc n)
  obtain reply w1 where a: "answer_of ops pc w = (reply, w1)" by fastforce
  have k: "map_of (rs_tasks sys) k = Some pc" "rs_registry sys = reg" using Suc.prems(1) by (auto simp: stands_def)
  show ?case
  proof (cases "reg_section pc reply reg")
    case None
    with Suc.prems a k show ?thesis by auto
  next
    case (Some x)
    obtain reg1 pc1 where x: "x = (reg1, pc1)" by fastforce
    with Some stands_step [OF Suc.prems(1)] obtain sys1 where s: "reg_step (Go k reply) sys = Some sys1" "stands k pc1 reg1 sys1" by blast
    from Suc.IH [OF s(2), of w1] Suc.prems(2) a Some x obtain sys' where
      "run_alone ops n k (sys1, w1) = (sys', w')" "stands k pc' reg' sys'" by auto
    with a k s(1) show ?thesis by (simp del: reg_step.simps)
  qed
qed auto

lemma alone_add: "alone ops (n + m) c = alone ops m (alone ops n c)"
proof (induction n arbitrary: c)
  case (Suc n)
  obtain pc reg w where c: "c = (pc, reg, w)" by (cases c)
  obtain reply w1 where a: "answer_of ops pc w = (reply, w1)" by fastforce
  show ?case
  proof (cases "reg_section pc reply reg")
    case None
    with a have "alone ops m (pc, reg, w) = (pc, reg, w)" by (cases m) auto
    with None a c show ?thesis by simp
  next
    case (Some x)
    with a c Suc show ?thesis by (cases x) simp
  qed
qed simp

definition leads :: "('b, 'w) backend_ops \<Rightarrow> 'b reg_pc \<times> 'b registry \<times> 'w \<Rightarrow> 'b reg_pc \<times> 'b registry \<times> 'w \<Rightarrow> bool" where
  "leads ops c c' \<longleftrightarrow> (\<exists>n. alone ops n c = c')"

lemma leads_refl: "leads ops c c"
  unfolding leads_def by (rule exI [of _ 0]) simp

lemma leads_trans [trans]: "leads ops c c1 \<Longrightarrow> leads ops c1 c2 \<Longrightarrow> leads ops c c2"
  unfolding leads_def by (metis alone_add)

lemma leads_step:
  assumes "answer_of ops pc w = (reply, w1)" and "reg_section pc reply reg = Some (reg1, pc1)" and "leads ops (pc1, reg1, w1) c"
  shows "leads ops (pc, reg, w) c"
proof -
  from assms(3) obtain n where "alone ops n (pc1, reg1, w1) = c" by (auto simp: leads_def)
  with assms(1,2) have "alone ops (Suc n) (pc, reg, w) = c" by simp
  then show ?thesis unfolding leads_def by blast
qed

text \<open>A task that ends by itself ends within its rank.\<close>

lemma alone_rank:
  assumes "alone ops n (pc, reg, w) = (Finished out, reg', w')" and "reg_rank pc \<le> m"
  shows "alone ops m (pc, reg, w) = (Finished out, reg', w')"
  using assms
proof (induction n arbitrary: pc reg w m)
  case 0
  then show ?case by (cases m) auto
next
  case (Suc n)
  obtain reply w1 where a: "answer_of ops pc w = (reply, w1)" by fastforce
  show ?case
  proof (cases "reg_section pc reply reg")
    case None
    with Suc.prems a show ?thesis by (cases m) auto
  next
    case (Some x)
    obtain reg1 pc1 where x: "x = (reg1, pc1)" by fastforce
    from rank_section [OF Some] x Suc.prems(2) obtain m' where m: "m = Suc m'" "reg_rank pc1 \<le> m'" by (cases m) auto
    from Suc.IH [OF _ m(2), of reg1 w1] Suc.prems(1) a Some x m(1) show ?thesis by simp
  qed
qed

section \<open>The operations\<close>

lemma leads_connect:
  assumes c: "connect_backend ops i reg w = (r, reg', w')" and n: "leads ops (after_connect i r th, reg', w') z"
  shows "leads ops (LookUp i th, reg, w) z"
  using c
proof (cases rule: connect_backend_cases)
  case unknown
  with n show ?thesis by (intro leads_step [where pc = "LookUp i th"]) (auto simp: when_told_def)
next
  case (refused h e)
  have "leads ops (Connecting i h th, reg, w) z"
    by (rule leads_step [where pc = "Connecting i h th" and reply = "Initialized (Inl e)"])
      (use refused n in \<open>auto simp: when_told_def\<close>)
  with refused show ?thesis by (intro leads_step [where pc = "LookUp i th"]) (auto simp: when_told_def)
next
  case (no_list h init w1 e)
  have "leads ops (Listing i h th, store_capabilities i (ir_capabilities init) reg, w1) z"
    by (rule leads_step [where pc = "Listing i h th" and reply = "Tools (Inl e)"]) (use no_list n in \<open>auto simp: when_told_def\<close>)
  then have "leads ops (Connecting i h th, reg, w) z"
    by (intro leads_step [where pc = "Connecting i h th" and reply = "Initialized (Inr init)"])
      (use no_list in \<open>auto simp: when_told_def\<close>)
  with no_list show ?thesis by (intro leads_step [where pc = "LookUp i th"]) (auto simp: when_told_def)
next
  case (collision h init w1 tools e idx)
  have "leads ops (Listing i h th, store_capabilities i (ir_capabilities init) reg, w1) z"
    by (rule leads_step [where pc = "Listing i h th" and reply = "Tools (Inr tools)"])
      (use collision n in \<open>auto simp: when_told_def index_section_def connect_index_def store_capabilities_def\<close>)
  then have "leads ops (Connecting i h th, reg, w) z"
    by (intro leads_step [where pc = "Connecting i h th" and reply = "Initialized (Inr init)"])
      (use collision in \<open>auto simp: when_told_def\<close>)
  with collision show ?thesis by (intro leads_step [where pc = "LookUp i th"]) (auto simp: when_told_def)
next
  case (connected h init w1 tools idx)
  have "leads ops (Listing i h th, store_capabilities i (ir_capabilities init) reg, w1) z"
    by (rule leads_step [where pc = "Listing i h th" and reply = "Tools (Inr tools)"])
      (use connected n in \<open>auto simp: when_told_def index_section_def connect_index_def store_capabilities_def\<close>)
  then have "leads ops (Connecting i h th, reg, w) z"
    by (intro leads_step [where pc = "Connecting i h th" and reply = "Initialized (Inr init)"])
      (use connected in \<open>auto simp: when_told_def\<close>)
  with connected show ?thesis by (intro leads_step [where pc = "LookUp i th"]) (auto simp: when_told_def)
qed

lemma connect_each_Cons:
  assumes "connect_each ops (i # ids) reg w = (outs, reg', w')"
  obtains r reg1 w1 outs1 where "connect_backend ops i reg w = (r, reg1, w1)"
    and "connect_each ops ids reg1 w1 = (outs1, reg', w')" and "outs = (i, r) # outs1"
  using assms by (auto split: prod.splits)

lemma leads_connect_each:
  "connect_each ops ids reg w = (outs, reg', w') \<Longrightarrow>
     leads ops (connect_next ids rs, reg, w) (Finished (StartupDone (rs @ outs)), reg', w')"
proof (induction ids arbitrary: reg w outs rs)
  case (Cons i ids)
  from Cons.prems obtain r reg1 w1 outs1 where c: "connect_backend ops i reg w = (r, reg1, w1)"
    and e: "connect_each ops ids reg1 w1 = (outs1, reg', w')" and o: "outs = (i, r) # outs1" by (rule connect_each_Cons)
  have "leads ops (connect_next ids (rs @ [(i, r)]), reg1, w1) (Finished (StartupDone (rs @ outs)), reg', w')"
    using Cons.IH [OF e, of "rs @ [(i, r)]"] o by simp
  with leads_connect [OF c, of "ThenConnect ids rs"] show ?case by (simp add: connect_next_def [of "i # ids"])
qed (auto simp: connect_next_def leads_refl)

lemma leads_refresh_each:
  "connect_each ops ids reg w = (outs, reg', w') \<Longrightarrow> leads ops (refresh_next ids, reg, w) (Finished RefreshDone, reg', w')"
proof (induction ids arbitrary: reg w outs)
  case (Cons i ids)
  from Cons.prems obtain r reg1 w1 outs1 where c: "connect_backend ops i reg w = (r, reg1, w1)"
    and e: "connect_each ops ids reg1 w1 = (outs1, reg', w')" by (rule connect_each_Cons)
  from Cons.IH [OF e] leads_connect [OF c, of "ThenRefresh ids"] show ?case by (simp add: refresh_next_def [of "i # ids"])
qed (auto simp: refresh_next_def leads_refl)

lemma leads_health_one:
  assumes "health_check_one ops i reg w = (reg1, w1)" and n: "leads ops (check_next is, reg1, w1) z"
  shows "leads ops (CheckHealth i is, reg, w) z"
proof (cases "is_healthy reg i")
  case False
  let ?reg = "modify_handle i (\<lambda>h. h\<lparr>bh_reconnect_attempts := bh_reconnect_attempts h + 1\<rparr>) reg"
  let ?attempt = "case map_of (rg_backends ?reg) i of Some h \<Rightarrow> bh_reconnect_attempts h | None \<Rightarrow> 0"
  obtain r where c: "connect_backend ops i ?reg (op_sleep_ms ops (backoff_delay_ms ?attempt) w) = (r, reg1, w1)"
    using assms(1) False by (auto simp: health_check_one_def Let_def simp del: modify_handle_sel split: prod.splits)
  have "leads ops (LookUp i (ThenCheck is), ?reg, op_sleep_ms ops (backoff_delay_ms ?attempt) w) z"
    by (rule leads_connect [OF c]) (simp add: n)
  then have "leads ops (Backoff i (backoff_delay_ms ?attempt) is, ?reg, w) z"
    by (intro leads_step [where pc = "Backoff i (backoff_delay_ms ?attempt) is" and reply = Slept]) (auto simp: when_told_def)
  then have "leads ops (Attempting i is, reg, w) z"
    by (intro leads_step [where pc = "Attempting i is" and reply = NoReply]) (auto simp: when_told_def Let_def simp del: modify_handle_sel)
  with False show ?thesis by (intro leads_step [where pc = "CheckHealth i is" and reply = NoReply]) (auto simp: when_told_def)
next
  case True
  then obtain h where h: "map_of (rg_backends reg) i = Some h" by (auto simp: is_healthy_iff)
  obtain r w2 where r: "op_health_check ops (bh_backend h) w = (r, w2)" by fastforce
  have "leads ops (Checking i (bh_backend h) is, reg, w) z"
  proof (cases r)
    case (Inl e)
    with assms(1) True h r n show ?thesis
      by (intro leads_step [where pc = "Checking i (bh_backend h) is" and reply = "Health (Inl e)"])
        (auto simp: when_told_def health_check_one_def)
  next
    case (Inr u)
    obtain refresh w3 where t: "op_take_tools_refresh ops (bh_backend h) w2 = (refresh, w3)" by fastforce
    have "leads ops (if refresh then LookUp i (ThenCheck is) else check_next is, reg, w3) z"
    proof (cases refresh)
      case True
      obtain q where "connect_backend ops i reg w3 = (q, reg1, w1)"
        using assms(1) True \<open>is_healthy reg i\<close> h r Inr t by (auto simp: health_check_one_def Let_def split: prod.splits)
      from leads_connect [OF this, of "ThenCheck is"] n True show ?thesis by simp
    next
      case False
      with assms(1) \<open>is_healthy reg i\<close> h r Inr t n show ?thesis by (auto simp: health_check_one_def Let_def)
    qed
    with r Inr t show ?thesis
      by (intro leads_step [where pc = "Checking i (bh_backend h) is" and reply = "Health (Inr refresh)"]) (auto simp: when_told_def)
  qed
  then have "leads ops (FetchBackend i is, reg, w) z"
    by (intro leads_step [where pc = "FetchBackend i is" and reply = NoReply]) (auto simp: when_told_def h)
  with True show ?thesis by (intro leads_step [where pc = "CheckHealth i is" and reply = NoReply]) (auto simp: when_told_def)
qed

lemma leads_health_each:
  "health_check_each ops ids reg w = (reg', w') \<Longrightarrow> leads ops (check_next ids, reg, w) (Finished RoundDone, reg', w')"
proof (induction ids arbitrary: reg w)
  case (Cons i ids)
  obtain reg1 w1 where c: "health_check_one ops i reg w = (reg1, w1)" by fastforce
  with Cons leads_health_one [OF c] show ?case by (auto simp: check_next_def [of "i # ids"])
qed (auto simp: check_next_def leads_refl)

lemma leads_call:
  assumes p: "pl_name p = rt_downstream_name routed" "pl_backend p = b" "pl_args p = args'" "pl_extra p = extra" "pl_timeout p = t"
    and c: "(if pl_mode p = PerCall then
                     (case op_connect ops b w1 of
                        (Inl e, w2) \<Rightarrow> (Inl e, reg1, w2)
                      | (Inr init, w2) \<Rightarrow>
                          (let (result, w3) = perform_call ops b (rt_downstream_name routed) args' extra t w2
                           in case op_disconnect ops b w3 of
                                (Inl e, w4) \<Rightarrow> (Inl e, reg1, w4)
                              | (Inr v, w4) \<Rightarrow> (result, reg1, w4)))
                   else
                     (let (result, w2) = perform_call ops b (rt_downstream_name routed) args' extra t w1
                      in (result, reg1, w2))) = (r, reg', w')"
  shows "leads ops (call_pc p, reg1, w1) (Finished (CallDone r), reg', w')"
proof (cases "pl_mode p = PerCall")
  case False
  obtain q w2 where q: "perform_call ops b (rt_downstream_name routed) args' extra t w1 = (q, w2)" by fastforce
  with False c have "q = r" "reg' = reg1" "w' = w2" by auto
  with q p False have "leads ops (Calling p, reg1, w1) (Finished (CallDone r), reg', w')"
    by (intro leads_step [where pc = "Calling p" and reply = "Result r"]) (auto simp: when_told_def leads_refl)
  with False show ?thesis by (simp add: call_pc_def)
next
  case True
  obtain o1 w2 where o1: "op_connect ops b w1 = (o1, w2)" by fastforce
  have "leads ops (Opening p, reg1, w1) (Finished (CallDone r), reg', w')"
  proof (cases o1)
    case (Inl e)
    with True c o1 p show ?thesis
      by (intro leads_step [where pc = "Opening p" and reply = "Initialized (Inl e)"]) (auto simp: when_told_def leads_refl)
  next
    case (Inr init)
    obtain q w3 where q: "perform_call ops b (rt_downstream_name routed) args' extra t w2 = (q, w3)" by fastforce
    obtain d w4 where d: "op_disconnect ops b w3 = (d, w4)" by fastforce
    have "leads ops (Closing p q, reg1, w3) (Finished (CallDone r), reg', w')"
      using True c o1 Inr q d p
      by (intro leads_step [where pc = "Closing p q" and reply = "Disconnected d"])
        (auto simp: when_told_def leads_refl split: sum.splits)
    then have "leads ops (Calling p, reg1, w2) (Finished (CallDone r), reg', w')"
      using q p True by (intro leads_step [where pc = "Calling p" and reply = "Result q"]) (auto simp: when_told_def)
    with o1 Inr p show ?thesis
      by (intro leads_step [where pc = "Opening p" and reply = "Initialized (Inr init)"]) (auto simp: when_told_def)
  qed
  with True show ?thesis by (simp add: call_pc_def)
qed

lemma leads_route:
  assumes "route_call_with ops n args extra t reg w = (r, reg', w')"
    and "first_section (RouteCall n args extra t) reg = (reg0, pc)"
  shows "leads ops (pc, reg0, w) (Finished (CallDone r), reg', w')"
proof (cases "resolve_call n args reg")
  case (Inl e)
  with assms show ?thesis by (auto simp: route_call_with_def leads_refl)
next
  case (Inr x)
  obtain routed h args' where x: "x = (routed, h, args')" by (cases x)
  define p where "p = \<lparr>pl_exposed = n, pl_given = args, pl_backend_id = rt_backend_id routed, pl_backend = bh_backend h,
      pl_name = rt_downstream_name routed, pl_mode = def_connection_mode (bh_def h), pl_args = args', pl_extra = extra, pl_timeout = t\<rparr>"
  with assms(2) Inr x have pc: "pc = Resolved p" "reg0 = reg" by auto
  have sel: "pl_name p = rt_downstream_name routed" "pl_backend p = bh_backend h" "pl_args p = args'" "pl_extra p = extra" "pl_timeout p = t"
    "pl_mode p = def_connection_mode (bh_def h)" "pl_backend_id p = rt_backend_id routed" by (simp_all add: p_def)
  note call = leads_call [OF sel(1-5), unfolded sel(6)]
  show ?thesis
  proof (cases "def_connection_mode (bh_def h) = Lazy \<and> \<not> is_healthy reg (rt_backend_id routed)")
    case False
    with assms(1) Inr x have "leads ops (call_pc p, reg, w) (Finished (CallDone r), reg', w')"
      by (intro call) (auto simp: route_call_with_def Let_def)
    with False show ?thesis unfolding pc
      by (intro leads_step [where pc = "Resolved p" and reply = NoReply]) (auto simp: when_told_def sel)
  next
    case True
    obtain q reg1 w1 where c: "connect_backend ops (rt_backend_id routed) reg w = (q, reg1, w1)"
      by (cases "connect_backend ops (rt_backend_id routed) reg w")
    have "leads ops (after_connect (rt_backend_id routed) q (ThenCall p), reg1, w1) (Finished (CallDone r), reg', w')"
    proof (cases q)
      case (Inl e)
      with assms(1) Inr x True c show ?thesis by (auto simp: route_call_with_def Let_def leads_refl)
    next
      case ok: (Inr u)
      have "leads ops (call_pc p, reg1, w1) (Finished (CallDone r), reg', w')"
        using assms(1) Inr x True c ok by (intro call) (auto simp: route_call_with_def Let_def)
      with ok show ?thesis by simp
    qed
    from leads_connect [OF c this] True show ?thesis unfolding pc
      by (intro leads_step [where pc = "Resolved p" and reply = NoReply]) (auto simp: when_told_def sel)
  qed
qed

text \<open>What an operation does in one go.\<close>

fun sequential :: "('b, 'w) backend_ops \<Rightarrow> reg_op \<Rightarrow> 'b registry \<Rightarrow> 'w \<Rightarrow> reg_outcome \<times> 'b registry \<times> 'w" where
  "sequential ops (RouteCall n args extra t) reg w = apfst CallDone (route_call_with ops n args extra t reg w)"
| "sequential ops (Reconnect i) reg w = apfst ReconnectDone (reconnect_backend ops i reg w)"
| "sequential ops ConnectAll reg w = apfst StartupDone (connect_all ops reg w)"
| "sequential ops HealthRound reg w = (RoundDone, run_health_checks ops reg w)"
| "sequential ops RefreshTools reg w = (RefreshDone, snd (refresh_tools ops reg w))"
| "sequential ops (Unregister i) reg w = apfst UnregisterDone (unregister ops i reg w)"
| "sequential ops (BackendRequest i m params t) reg w =
     (let (r, w') = backend_request ops i m params t reg w in (CallDone r, reg, w'))"

lemma leads_sequential:
  assumes s: "sequential ops op reg w = (out, reg', w')" and f: "first_section op reg = (reg0, pc)"
  shows "leads ops (pc, reg0, w) (Finished out, reg', w')"
proof (cases op)
  case (RouteCall n args extra t)
  obtain r where r: "route_call_with ops n args extra t reg w = (r, reg', w')" "out = CallDone r"
    using s RouteCall by (cases "route_call_with ops n args extra t reg w") auto
  show ?thesis unfolding r(2) by (rule leads_route [OF r(1) f [unfolded RouteCall]])
next
  case (Reconnect i)
  show ?thesis
  proof (cases "map_of (rg_backends reg) i")
    case None
    then obtain r where c: "connect_backend ops i reg w = (r, reg', w')" and o: "out = ReconnectDone r"
      using s Reconnect by (cases "connect_backend ops i reg w") (auto simp: reconnect_backend_def)
    have "leads ops (LookUp i ThenReturn, reg, w) (Finished out, reg', w')"
      by (rule leads_connect [OF c]) (simp add: leads_refl o)
    with Reconnect None f show ?thesis by auto
  next
    case (Some h)
    obtain d w1 where d: "op_disconnect ops (bh_backend h) w = (d, w1)" by fastforce
    obtain r where c: "connect_backend ops i reg w1 = (r, reg', w')" and o: "out = ReconnectDone r"
      using s Reconnect Some d by (cases "connect_backend ops i reg w1") (auto simp: reconnect_backend_def)
    have "leads ops (LookUp i ThenReturn, reg, w1) (Finished out, reg', w')"
      by (rule leads_connect [OF c]) (simp add: leads_refl o)
    with d have "leads ops (Dropping i (bh_backend h), reg, w) (Finished out, reg', w')"
      by (intro leads_step [where pc = "Dropping i (bh_backend h)" and reply = "Disconnected d"]) (auto simp: when_told_def)
    with Reconnect Some f show ?thesis by auto
  qed
next
  case ConnectAll
  let ?ids = "map fst (filter (\<lambda>(i, h). def_connection_mode (bh_def h) = Eager) (rg_backends reg))"
  obtain outs where c: "connect_each ops ?ids reg w = (outs, reg', w')" "out = StartupDone outs"
    using s ConnectAll by (cases "connect_each ops ?ids reg w") (auto simp: connect_all_def)
  from leads_connect_each [OF c(1), of "[]"] c(2) ConnectAll f show ?thesis by auto
next
  case HealthRound
  with s f show ?thesis by (auto simp: run_health_checks_def intro!: leads_health_each)
next
  case RefreshTools
  let ?ids = "map fst (filter (\<lambda>(i, h). bh_health h) (rg_backends reg))"
  obtain outs where c: "connect_each ops ?ids (reg\<lparr>rg_tool_index := []\<rparr>) w = (outs, reg', w')" "out = RefreshDone"
    using s RefreshTools by (cases "connect_each ops ?ids (reg\<lparr>rg_tool_index := []\<rparr>) w") (auto simp: refresh_tools_def Let_def)
  from leads_refresh_each [OF c(1)] have "leads ops (Clearing ?ids, reg, w) (Finished RefreshDone, reg', w')"
    by (intro leads_step [where pc = "Clearing ?ids" and reply = NoReply]) (auto simp: when_told_def)
  with c(2) RefreshTools f show ?thesis by auto
next
  case (Unregister i)
  show ?thesis
  proof (cases "map_of (rg_backends reg) i")
    case None
    with s f Unregister show ?thesis by (auto simp: unregister_def leads_refl)
  next
    case (Some h)
    let ?reg0 = "reg\<lparr>rg_backends := AList.delete i (rg_backends reg)\<rparr>"
    let ?reg1 = "reg\<lparr>rg_backends := AList.delete i (rg_backends reg), rg_tool_index := drop_tools_of i (rg_tool_index reg)\<rparr>"
    obtain d w1 where d: "op_disconnect ops (bh_backend h) w = (d, w1)" by fastforce
    with s Unregister Some have o: "out = UnregisterDone d" "reg' = ?reg1" "w' = w1" by (auto simp: unregister_def Let_def)
    have "leads ops (Leaving (bh_backend h), ?reg1, w) (Finished out, reg', w')"
      using d o by (intro leads_step [where pc = "Leaving (bh_backend h)" and reply = "Disconnected d"])
        (auto simp: when_told_def leads_refl)
    then have "leads ops (Unindexing i (bh_backend h), ?reg0, w) (Finished out, reg', w')"
      by (intro leads_step [where pc = "Unindexing i (bh_backend h)" and reply = NoReply]) (auto simp: when_told_def)
    with Unregister Some f show ?thesis by auto
  qed
next
  case (BackendRequest i m params t)
  show ?thesis
  proof (cases "map_of (rg_backends reg) i")
    case None
    with s f BackendRequest show ?thesis by (auto simp: backend_request_def leads_refl)
  next
    case (Some h)
    obtain r w1 where r: "op_request ops (bh_backend h) m params t w = (r, w1)" by fastforce
    with s BackendRequest Some have o: "out = CallDone r" "reg' = reg" "w' = w1" by (auto simp: backend_request_def)
    have "leads ops (Requesting (bh_backend h) m params t, reg, w) (Finished out, reg', w')"
      using r o by (intro leads_step [where pc = "Requesting (bh_backend h) m params t" and reply = "Result r"])
        (auto simp: when_told_def leads_refl)
    with BackendRequest Some f show ?thesis by auto
  qed
qed

section \<open>Property\<close>

text \<open>
  C5: An operation of the registry that begins while no \<open>unregister\<close> holds the index, and is not
  interrupted by other tasks, does what its sequential model does, whatever tasks are under way besides it:
  after at most as many sections as its rank it has the same outcome, the registry is the same, and the
  backends were asked the same things in the same order.
\<close>

theorem task_alone_is_sequential:
  assumes "reaches reg_step reg_sys_new sys" and "index_free sys" and "map_of (rs_tasks sys) k = None"
    and "sequential ops op (rs_registry sys) w = (out, reg', w')"
  shows "\<exists>sys0 sys'. reg_step (Begin k op) sys = Some sys0 \<and>
    run_alone ops (reg_rank (snd (first_section op (rs_registry sys)))) k (sys0, w) = (sys', w') \<and>
    map_of (rs_tasks sys') k = Some (Finished out) \<and> rs_registry sys' = reg'"
proof -
  obtain reg0 pc where f: "first_section op (rs_registry sys) = (reg0, pc)" by fastforce
  have t: "table (rs_tasks sys)"
    by (rule registry_tasks.inv_reaches [OF _ assms(1)]) (simp add: reg_sys_new_def table_def)
  let ?sys0 = "reg_goto k (reg0, pc) sys"
  have b: "reg_step (Begin k op) sys = Some ?sys0" using assms(2,3) f by simp
  have "\<not> leaving pc'" if "map_of (rs_tasks sys) j = Some pc'" for j pc'
    using that assms(2) t by (auto simp: index_free_def list_all_iff table_map_of)
  then have st: "stands k pc reg0 ?sys0" using t by (auto simp: stands_def map_of_update split: if_splits)
  from leads_sequential [OF assms(4) f] obtain n where "alone ops n (pc, reg0, w) = (Finished out, reg', w')" by (auto simp: leads_def)
  from run_alone_alone [OF st alone_rank [OF this le_refl]] b f show ?thesis by (auto simp: stands_def)
qed

text \<open>At the sample: a second call to a lazy backend begins while a first is on its way.\<close>

theorem task_alone_is_sequential_witness:
  "\<exists>sys sys0 (sys' :: string reg_sys) out reg'. run_events reg_step lazy_calls reg_sys_new = Some sys \<and>
     sequential sample_ops (RouteCall ''ns.f'' None [] 30) (rs_registry sys) () = (out, reg', ()) \<and>
     reg_step (Begin 5 (RouteCall ''ns.f'' None [] 30)) sys = Some sys0 \<and>
     map_of (rs_tasks sys') 5 = Some (Finished out) \<and> rs_registry sys' = reg'"
proof -
  from lazy_calls_run obtain sys where s: "run_events reg_step lazy_calls reg_sys_new = Some sys" by (auto split: option.splits)
  have "case run_events reg_step lazy_calls reg_sys_new of Some sys \<Rightarrow> index_free sys \<and> map_of (rs_tasks sys) 5 = None | None \<Rightarrow> False"
    by code_simp
  with s have i: "index_free sys" "map_of (rs_tasks sys) 5 = None" by auto
  obtain out reg' where q: "sequential sample_ops (RouteCall ''ns.f'' None [] 30) (rs_registry sys) () = (out, reg', ())"
    by (cases "sequential sample_ops (RouteCall ''ns.f'' None [] 30) (rs_registry sys) ()") auto
  from task_alone_is_sequential [OF run_events_reaches [OF reaches_start s] i q] obtain sys0 sys' :: "string reg_sys" where
    "reg_step (Begin 5 (RouteCall ''ns.f'' None [] 30)) sys = Some sys0"
    "map_of (rs_tasks sys') 5 = Some (Finished out)" "rs_registry sys' = reg'"
    by (elim exE conjE) (rule that, assumption+)
  with s q show ?thesis by (intro exI [of _ sys] exI [of _ sys0] exI [of _ sys'] exI [of _ out] exI [of _ reg'] conjI)
qed

end
