(* ===== verification/Hub_OAuth2_Facts.thy ===== *)
theory Hub_OAuth2_Facts
  imports Hub_OAuth2
begin

text \<open>
  Properties of the tokens of \<open>Hub_OAuth2\<close>: what every step keeps, that a returned token is the
  cached one, that daemon mode never asks a user, what is lost without a refresh token, and that a token
  survives a restart through the secret store.
\<close>

lemmas case_congs = option.case_cong prod.case_cong sum.case_cong if_cong

section \<open>What every step keeps\<close>

text \<open>
  A step never changes the configuration or the store of its manager, and its errors are all of kind
  \<open>Auth\<close>; a step of the second kind ends, when it succeeds, with its token in the cache.
\<close>

definition cached :: "('n, 'r) oauth_state \<Rightarrow> string option" where
  "cached s = map_option tc_access_token (om_cache (fst s))"

definition auth_step :: "('n, 'r, 'a) oauth \<Rightarrow> bool" where
  "auth_step f \<longleftrightarrow> (\<forall>s r s'. f s = (r, s') \<longrightarrow> om_config (fst s') = om_config (fst s) \<and>
     om_store (fst s') = om_store (fst s) \<and> (\<forall>e :: backend_error. r = Inl e \<longrightarrow> be_kind e = Auth))"

definition caches_token :: "('n, 'r, string) oauth \<Rightarrow> bool" where
  "caches_token f \<longleftrightarrow> (\<forall>s t s'. f s = (Inr t, s') \<longrightarrow> cached s' = Some t)"

named_theorems auth_steps

lemma auth_step_bind [auth_steps]: "auth_step m \<Longrightarrow> (\<And>x. auth_step (f x)) \<Longrightarrow> auth_step (bind_auth m f)"
  unfolding auth_step_def bind_auth_def
  by (clarsimp split: prod.splits sum.splits) (metis fst_conv)+

lemma auth_step_basic [auth_steps]:
  "auth_step (return_auth x)" "auth_step (fail_auth e)" "auth_step (net wrap f)" "auth_step get_state" "auth_step (net_ok g)"
  by (auto simp: auth_step_def return_auth_def fail_auth_def net_def net_ok_def get_state_def auth_error_def Let_def
      split: prod.splits sum.splits)

lemma auth_step_lift [auth_steps]: "(\<And>e. r = Inl e \<Longrightarrow> be_kind e = Auth) \<Longrightarrow> auth_step (lift_auth r)"
  by (auto simp: auth_step_def lift_auth_def)

lemma resolve_token_endpoint_kind [auth_steps]: "resolve_token_endpoint m = Inl e \<Longrightarrow> be_kind e = Auth"
  by (auto simp: resolve_token_endpoint_def auth_error_def split: option.splits list.splits)

lemma auth_step_cache [auth_steps]: "auth_step (cache_token_response lib body backend_id)"
  by (auto simp: auth_step_def cache_token_response_def auth_error_def Let_def split: option.splits)

lemma auth_step_post [auth_steps]: "auth_step (post_json lib a b url body)"
  unfolding post_json_def by (intro auth_steps) (auto intro: auth_steps split: sum.splits)

lemma auth_step_accept [auth_steps]: "auth_step (accept_token lib backend_id x)"
  by (cases x) (auto simp: accept_token_def intro: auth_steps)

lemma auth_step_register [auth_steps]: "auth_step (register_client lib)"
  unfolding register_client_def by (intro auth_steps) (auto intro!: auth_steps split: option.splits)

lemma auth_step_set_dynamic [auth_steps]: "auth_step (\<lambda>(m, w). (Inr x, set_dynamic_client_id lib cid w m, w))"
  by (auto simp: auth_step_def set_dynamic_client_id_def)

lemma auth_step_dynamic [auth_steps]: "auth_step (register_dynamic lib none)"
  unfolding register_dynamic_def by (intro auth_steps) (auto intro!: auth_steps split: option.splits)

lemma auth_step_credentials [auth_steps]: "auth_step (do_client_credentials lib url backend_id)"
  unfolding do_client_credentials_def Let_def
  by (intro auth_steps) (auto intro!: auth_steps split: option.splits prod.splits)

lemma auth_step_code [auth_steps]: "auth_step (receive_callback lib port)" "auth_step (pasted_code lib)"
  unfolding receive_callback_def pasted_code_def by (auto intro!: auth_steps split: option.splits)

lemma auth_step_authorization [auth_steps]: "auth_step (do_authorization_code lib url backend_id)"
  unfolding do_authorization_code_def by (auto intro!: auth_steps split: option.splits prod.splits)

lemma caches_bind [auth_steps]: "(\<And>x. caches_token (f x)) \<Longrightarrow> caches_token (bind_auth m f)"
  unfolding caches_token_def bind_auth_def by (auto split: prod.splits sum.splits)

lemma caches_fail [auth_steps]: "caches_token (fail_auth e)"
  by (simp add: caches_token_def fail_auth_def)

lemma caches_response [auth_steps]: "caches_token (cache_token_response lib body backend_id)"
  by (auto simp: caches_token_def cached_def cache_token_response_def Let_def split: option.splits)

lemma caches_accept [auth_steps]: "caches_token (accept_token lib backend_id x)"
  by (cases x) (auto simp: accept_token_def intro: auth_steps)

lemma caches_grants [auth_steps]:
  "caches_token (do_client_credentials lib url backend_id)" "caches_token (do_authorization_code lib url backend_id)"
  unfolding do_client_credentials_def do_authorization_code_def Let_def
  by (auto intro!: auth_steps split: prod.splits)

lemma auth_step_refresh [auth_steps]: "auth_step (refresh_request lib token)"
  unfolding refresh_request_def by (auto intro!: auth_steps)

definition same_manager :: "('n, 'r) oauth_state \<Rightarrow> ('n, 'r) oauth_state \<Rightarrow> bool" where
  "same_manager s s' \<longleftrightarrow> om_config (fst s') = om_config (fst s) \<and> om_store (fst s') = om_store (fst s)"

lemma same_manager_refl [simp]: "same_manager s s"
  by (simp add: same_manager_def)

lemma same_manager_trans [trans]: "same_manager a b \<Longrightarrow> same_manager b c \<Longrightarrow> same_manager a c"
  by (simp add: same_manager_def)

lemma await_same: "same_manager s (await_refresh_lock lib s)"
  by (auto simp: same_manager_def await_refresh_lock_def split: prod.splits)

lemma auth_stepD: "auth_step f \<Longrightarrow> f s = (r, s') \<Longrightarrow> same_manager s s'"
  unfolding auth_step_def same_manager_def by blast

lemma auth_step_kind: "auth_step f \<Longrightarrow> f s = (Inl e, s') \<Longrightarrow> be_kind (e :: backend_error) = Auth"
  unfolding auth_step_def by blast

lemma caches_tokenD: "caches_token f \<Longrightarrow> f s = (Inr t, s') \<Longrightarrow> cached s' = Some t"
  unfolding caches_token_def by blast

lemma usable_token_cached: "usable_token lib s = Some t \<Longrightarrow> cached s = Some t"
  by (auto simp: usable_token_def cached_def split: option.splits prod.splits if_splits)

lemmas refresh_facts = auth_stepD [OF auth_step_refresh] auth_step_kind [OF auth_step_refresh]
  auth_stepD [OF auth_step_cache] auth_step_kind [OF auth_step_cache] caches_tokenD [OF caches_response]

lemma do_refresh_keeps:
  "do_refresh lib token backend_id s = (r, s') \<Longrightarrow> same_manager s s'"
  "do_refresh lib token backend_id s = (Inl f, s') \<Longrightarrow> be_kind (rf_error f) = Auth"
  "do_refresh lib token backend_id s = (Inr t, s') \<Longrightarrow> cached s' = Some t"
  by (auto simp: do_refresh_def auth_error_def split: prod.splits sum.splits if_splits dest: refresh_facts
      intro: same_manager_trans)

lemma install_persisted_sel [simp]:
  "om_config (install_persisted lib p w m) = om_config m" "om_store (install_persisted lib p w m) = om_store m"
  "cached (install_persisted lib p w m, w') = Some (pt_access_token p)"
  by (simp_all add: install_persisted_def cached_def Let_def)

lemma retry_keeps:
  assumes "retry_with_stored lib token backend_id (m, w) = (r, s')"
  shows "same_manager (m, w) s'" and "r = Some t \<Longrightarrow> cached s' = Some t"
proof -
  from assms show "same_manager (m, w) s'"
    by (auto simp: retry_with_stored_def Let_def split: prod.splits option.splits sum.splits if_splits
        dest!: do_refresh_keeps(1) simp: same_manager_def)
  from assms show "r = Some t \<Longrightarrow> cached s' = Some t"
    by (auto simp: retry_with_stored_def Let_def split: prod.splits option.splits sum.splits if_splits
        dest!: do_refresh_keeps(3))
qed

lemma try_refresh_keeps:
  assumes "try_refresh lib backend_id d s = (r, s')"
  shows "same_manager s s'" and "r = Some (Inr t) \<Longrightarrow> cached s' = Some t"
    and "r = Some (Inl e) \<Longrightarrow> be_kind (e :: backend_error) = Auth"
proof -
  define s1 where "s1 = await_refresh_lock lib s"
  have s1: "same_manager s s1" by (simp add: s1_def await_same)
  have "same_manager s s' \<and> (r = Some (Inr t) \<longrightarrow> cached s' = Some t) \<and> (r = Some (Inl e) \<longrightarrow> be_kind e = Auth)"
  proof (cases "usable_token lib s1")
    case (Some u)
    with assms s1 usable_token_cached [OF Some] show ?thesis by (auto simp: try_refresh_def s1_def)
  next
    case None
    show ?thesis
    proof (cases "Option.bind (om_cache (fst s1)) tc_refresh_token")
      case None
      with \<open>usable_token lib s1 = None\<close> assms s1 show ?thesis by (auto simp: try_refresh_def s1_def)
    next
      case (Some tok)
      obtain x m2 w2 where x: "do_refresh lib tok backend_id s1 = (x, (m2, w2))" by (metis prod.collapse)
      note 2 = same_manager_trans [OF s1 do_refresh_keeps(1) [OF x]]
      obtain y s3 where y: "retry_with_stored lib tok backend_id (m2, w2) = (y, s3)" by (metis prod.collapse)
      note 3 = same_manager_trans [OF 2 retry_keeps(1) [OF y]] retry_keeps(2) [OF y]
      have "x = Inr u \<Longrightarrow> cached (m2, w2) = Some u" for u using do_refresh_keeps(3) x by blast
      with assms None Some 2 3 show ?thesis
        by (auto simp: try_refresh_def s1_def [symmetric] x y auth_error_def
            split: sum.splits option.splits if_splits)
    qed
  qed
  then show "same_manager s s'" and "r = Some (Inr t) \<Longrightarrow> cached s' = Some t" and "r = Some (Inl e) \<Longrightarrow> be_kind e = Auth"
    by blast+
qed

lemma acquire_token_step: "auth_step (acquire_token lib backend_id d)" "caches_token (acquire_token lib backend_id d)"
proof -
  let ?acquire = "bind_auth get_state (\<lambda>m. bind_auth (lift_auth (resolve_token_endpoint m)) (\<lambda>token_endpoint.
      let grant_type = resolve_grant_type m in
      if grant_type = ''client_credentials'' then do_client_credentials lib token_endpoint backend_id
      else if grant_type = ''authorization_code'' then
        (if d then fail_auth ''interactive authorization_code grant blocked in daemon mode''
         else do_authorization_code lib token_endpoint backend_id)
      else if grant_type = ''urn:ietf:params:oauth:grant-type:jwt-bearer'' then
        fail_auth ''JWT bearer grant is not yet supported by headless-mcp''
      else fail_auth (''unsupported OAuth2 grant type: '' @ grant_type)))"
  have a: "auth_step ?acquire" "caches_token ?acquire" by (auto intro!: auth_steps simp: Let_def)
  have e: "acquire_token lib backend_id d s = (case usable_token lib (await_refresh_lock lib s) of
      Some t \<Rightarrow> (Inr t, await_refresh_lock lib s) | None \<Rightarrow> ?acquire (await_refresh_lock lib s))" for s
    by (simp add: acquire_token_def Let_def)
  have "same_manager s s' \<and> (\<forall>e :: backend_error. r = Inl e \<longrightarrow> be_kind e = Auth)"
    if "acquire_token lib backend_id d s = (r, s')" for s r s'
    using that await_same [of s lib] by (auto simp: e split: option.splits dest: auth_stepD [OF a(1)] auth_step_kind [OF a(1)]
        intro: same_manager_trans)
  then show "auth_step (acquire_token lib backend_id d)" unfolding auth_step_def same_manager_def by blast
  show "caches_token (acquire_token lib backend_id d)"
    unfolding caches_token_def by (auto simp: e split: option.splits dest: usable_token_cached caches_tokenD [OF a(2)])
qed


text \<open>
  C33: In daemon mode a token is never got interactively: the result, the cache, the store and the network
  are the same whatever the browser, the callback server, the terminal and the generator of the code
  verifier would do.
\<close>

theorem daemon_never_interactive:
  "get_token (lib\<lparr>ol_open_browser := browser, ol_callback_bind := bind, ol_callback_accept := accept,
      ol_callback_line := line, ol_callback_write := write, ol_read_stdin := stdin, ol_random := random,
      ol_sha256 := sha\<rparr>) backend_id True s = get_token lib backend_id True s"
proof -
  let ?l = "lib\<lparr>ol_open_browser := browser, ol_callback_bind := bind, ol_callback_accept := accept,
      ol_callback_line := line, ol_callback_write := write, ol_read_stdin := stdin, ol_random := random, ol_sha256 := sha\<rparr>"
  have u: "usable_token ?l = usable_token lib" and w: "await_refresh_lock ?l = await_refresh_lock lib"
    by (simp_all add: usable_token_def await_refresh_lock_def fun_eq_iff cong: case_congs)
  have c: "cache_token_response ?l = cache_token_response lib" and p: "post_json ?l = post_json lib"
    and d: "set_dynamic_client_id ?l = set_dynamic_client_id lib" and l: "load_token ?l = load_token lib"
    and i: "install_persisted ?l = install_persisted lib"
    by (simp_all add: fun_eq_iff cache_token_response_def save_token_def post_json_def set_dynamic_client_id_def
        load_token_def install_persisted_def cong: case_congs)
  have r: "do_refresh ?l = do_refresh lib" by (simp add: fun_eq_iff do_refresh_def refresh_request_def c p cong: case_congs)
  have t: "retry_with_stored ?l = retry_with_stored lib" by (simp add: fun_eq_iff retry_with_stored_def r l i cong: case_congs)
  have y: "try_refresh ?l = try_refresh lib" by (simp add: fun_eq_iff try_refresh_def r t u w cong: case_congs)
  have g: "register_client ?l = register_client lib" by (simp add: register_client_def p case_prod_unfold cong: case_congs)
  have b: "do_client_credentials ?l = do_client_credentials lib"
    by (simp add: fun_eq_iff do_client_credentials_def register_dynamic_def accept_token_def c p d g case_prod_unfold cong: case_congs)
  have "acquire_token ?l backend_id True = acquire_token lib backend_id True"
    by (simp add: fun_eq_iff acquire_token_def u w b cong: case_congs)
  then show ?thesis by (simp add: get_token_def u y cong: case_congs)
qed

section \<open>Across a restart\<close>

text \<open>Documented behaviour: the JSON text of a token is UTF-8, and reading it gives the token back.\<close>

definition token_text_ok :: "('n, 'r) oauth_lib \<Rightarrow> bool" where
  "token_text_ok lib \<longleftrightarrow>
     (\<forall>t. valid_utf8 (ol_token_text lib t) \<and> ol_token_parse lib (ol_token_text lib t) = Some t)"

lemma save_load:
  assumes "token_text_ok lib" and "store_usable (ol_secret lib) (ow_secrets w)"
    and "save_token lib store backend_id access refresh life client w = w1"
    and "is_ok (fst (store_set (ol_secret lib) store (token_key backend_id)
      (ol_token_text lib \<lparr>pt_access_token = access, pt_refresh_token = refresh, pt_client_id = client,
         pt_expires_at_unix = ol_unix_secs lib (ow_net w) + life\<rparr>) (ow_secrets w)))"
    and "ow_secrets w2 = ow_secrets w1"
  shows "fst (load_token lib store backend_id w2) =
    Some \<lparr>pt_access_token = access, pt_refresh_token = refresh, pt_client_id = client,
      pt_expires_at_unix = ol_unix_secs lib (ow_net w) + life\<rparr>"
proof -
  let ?t = "\<lparr>pt_access_token = access, pt_refresh_token = refresh, pt_client_id = client,
      pt_expires_at_unix = ol_unix_secs lib (ow_net w) + life\<rparr>"
  obtain sw where set: "store_set (ol_secret lib) store (token_key backend_id) (ol_token_text lib ?t) (ow_secrets w) = (Inr (), sw)"
    using assms(4) by (auto simp: is_ok_iff prod_eq_iff)
  then have "ow_secrets w2 = sw" using assms(3,5) by (auto simp: save_token_def)
  moreover have "fst (store_get (ol_secret lib) store (token_key backend_id) sw) = Inr (Some (ol_token_text lib ?t))"
    using file_store.put_get [OF assms(2) _ set] assms(1) by (auto simp: token_text_ok_def)
  ultimately show ?thesis using assms(1) by (auto simp: load_token_def token_text_ok_def split: prod.splits)
qed

lemma cached_response:
  assumes "cache_token_response lib body backend_id (m, w) = (Inr t, m', w')" and "om_store m = Some store"
    and "om_cache m' = Some c"
  shows "tc_access_token c = t \<and>
    w' = save_token lib store backend_id t (tc_refresh_token c) (token_life body) (tc_client_id c) w"
    and "oc_client_id (om_config m) = Some i \<Longrightarrow> tc_client_id c = Some i"
  using assms by (auto simp: cache_token_response_def Let_def split: option.splits)

lemma secs_left_word:
  fixes a b :: u64
  assumes "b \<le> a" and "unat a + 30 < 2 ^ 64"
  shows "secs_left a b = a - b \<and> (a > b + 30 \<longleftrightarrow> unat (a - b) > 30)"
proof -
  have "unat (a - b) = unat a - unat b" and "unat b \<le> unat a" using assms(1) by (simp_all add: unat_sub word_le_nat_alt)
  moreover from this assms(2) have "unat (b + 30) = unat b + 30" by (simp add: unat_word_ariths)
  ultimately show ?thesis using assms by (auto simp: secs_left_def word_less_nat_alt)
qed

text \<open>
  C32: A token survives a restart.  When a token response was cached by a manager with a store that could
  be written, a new manager with the same configuration that loads from the same disk, before the token
  expires or with a refresh token, has the same access token, refresh token and client id; it offers the
  access token exactly while more than 30 seconds of its life are left on the system clock, and gives it
  that remaining life.
\<close>

theorem token_survives_restart:
  assumes "token_text_ok lib" and "store_usable (ol_secret lib) (ow_secrets w)"
    and "\<forall>text. is_ok (fst (store_set (ol_secret lib) store (token_key backend_id) text (ow_secrets w)))"
    and "om_store m = Some store"
    and "cache_token_response lib body backend_id (m, w) = (Inr t, m', w')"
    and "om_cache m' = Some c"
    and "ol_await_refresh_lock lib (manager_with_store (om_config m) (Some store)) w0 = ((None, None), w2)"
    and "ow_secrets w2 = ow_secrets w'"
    and "expires = ol_unix_secs lib (ow_net w) + token_life body" and "unat expires + 30 < 2 ^ 64"
    and "now = ol_unix_secs lib (ow_net w2)" and "now \<le> expires"
    and "unat (expires - now) > 30 \<or> tc_refresh_token c \<noteq> None"
  shows "\<exists>m2 w3 c2. adopt_persisted lib backend_id (manager_with_store (om_config m) (Some store), w0) =
      (if unat (expires - now) > 30 then Some t else None, m2, w3) \<and>
    om_cache m2 = Some c2 \<and> tc_access_token c2 = t \<and> tc_refresh_token c2 = tc_refresh_token c \<and>
    tc_client_id c2 = tc_client_id c \<and>
    tc_expires_at c2 = ol_mono_ns lib (ow_net w3) + unat (expires - now) * NS_PER_SEC"
proof -
  note r = cached_response [OF assms(5,4,6)]
  let ?t = "\<lparr>pt_access_token = t, pt_refresh_token = tc_refresh_token c, pt_client_id = tc_client_id c,
      pt_expires_at_unix = expires\<rparr>"
  have "fst (load_token lib store backend_id w2) = Some ?t"
    unfolding assms(9) using assms(3,8) conjunct2 [OF r(1)] by (intro save_load [OF assms(1,2)]) auto
  then obtain w3 where l: "load_token lib store backend_id w2 = (Some ?t, w3)" by (metis prod.collapse)
  then have n: "ow_net w3 = ow_net w2" by (auto simp: load_token_def split: prod.splits)
  note s = secs_left_word [OF assms(12,10)]
  have "or_else (oc_client_id (om_config m)) (or_else (tc_client_id c) None) = tc_client_id c"
    using r(2) by (cases "oc_client_id (om_config m)"; cases "tc_client_id c") auto
  then show ?thesis
    using assms(7,13) l s
    by (auto simp: adopt_persisted_def await_refresh_lock_def manager_with_store_def install_persisted_def is_valid_def
        Let_def n assms(11) cached_client_id_def)
qed

section \<open>An instance of the external functions\<close>

definition byte_text :: "string \<Rightarrow> string" where
  "byte_text s = concat (map (\<lambda>c. [char_of (64 + of_char c div 16 :: nat), char_of (64 + of_char c mod 16 :: nat)]) s)"

fun byte_parse :: "string \<Rightarrow> string" where
  "byte_parse (h # l # r) = char_of (16 * (of_char h - 64) + (of_char l - 64) :: nat) # byte_parse r"
| "byte_parse r = []"

lemma nibble_mod [simp]: "(64 + of_char c div 16) mod 256 = 64 + (of_char c div 16 :: nat)"
  using high_nibble [of c] by (intro mod_less) linarith

lemma low_nibble [simp]: "(of_char c :: nat) mod 16 < 64"
  using mod_less_divisor [of 16 "of_char c :: nat"] by linarith

lemma high_nibble_64 [simp]: "(of_char c :: nat) div 16 < 64"
  using high_nibble [of c] by linarith

lemma byte_parse_text: "byte_parse (byte_text s) = s"
  by (induction s) (simp_all add: byte_text_def)

lemma ascii_valid: "ascii s \<Longrightarrow> valid_utf8 s"
  by (induction s) (simp_all add: Let_def)

lemma ascii_byte_text: "ascii (byte_text s)"
  by (induction s) (simp_all add: byte_text_def)

fun opt_text :: "string option \<Rightarrow> string" where
  "opt_text None = []"
| "opt_text (Some s) = CHR ''S'' # s"

fun opt_parse :: "string \<Rightarrow> string option" where
  "opt_parse [] = None"
| "opt_parse (c # s) = Some s"

lemma opt_parse_text [simp]: "opt_parse (opt_text x) = x"
  by (cases x) simp_all

definition sample_token_text :: "persisted_token \<Rightarrow> string" where
  "sample_token_text t = byte_text (frame (pt_access_token t) @ frame (opt_text (pt_refresh_token t)) @
     frame (opt_text (pt_client_id t)) @ frame (replicate (unat (pt_expires_at_unix t)) CHR ''x''))"

definition sample_token_parse :: "string \<Rightarrow> persisted_token option" where
  "sample_token_parse s =
     (case unframe [] (byte_parse s) of
        [a, r, c, e] \<Rightarrow> Some \<lparr>pt_access_token = a, pt_refresh_token = opt_parse r, pt_client_id = opt_parse c,
          pt_expires_at_unix = of_nat (length e)\<rparr>
      | _ \<Rightarrow> None)"

text \<open>A network whose state is the clock, in seconds; it answers every request with an error.\<close>

definition sample_oauth_lib :: "(nat, unit) oauth_lib" where
  "sample_oauth_lib = \<lparr>ol_secret = sample_lib, ol_token_text = sample_token_text, ol_token_parse = sample_token_parse,
     ol_get_json = (\<lambda>url n. (Inl ''offline'', n)), ol_post = (\<lambda>url body n. (Inl ''offline'', n)),
     ol_mono_ns = (\<lambda>n. n * NS_PER_SEC), ol_unix_secs = (\<lambda>n. of_nat n),
     ol_await_refresh_lock = (\<lambda>m w. ((om_cache m, om_discovered m), w)),
     ol_json_text = (\<lambda>v. []), ol_shape_error = (\<lambda>v. []), ol_random = (\<lambda>k n. (replicate k CHR ''r'', n)),
     ol_sha256 = (\<lambda>s. s), ol_b64url = (\<lambda>s. s), ol_open_browser = (\<lambda>url n. (False, n)),
     ol_callback_bind = (\<lambda>p n. (Inr (), n)), ol_callback_accept = (\<lambda>n. (Inr (), n)),
     ol_callback_line = (\<lambda>n. (Inl ''closed'', n)), ol_callback_write = (\<lambda>s n. (Inr (), n)),
     ol_read_stdin = (\<lambda>n. (Inl ''closed'', n))\<rparr>"

lemma sample_token_text_ok: "token_text_ok sample_oauth_lib"
proof -
  have f: "unframe [] (frame a @ r) = a # unframe [] r" for a r by (simp add: unframe_frame)
  have "unframe [] (frame a @ frame b @ frame c @ frame d) = [a, b, c, d]" for a b c d
    using f [of d "[]"] by (simp add: f)
  then show ?thesis
    by (simp add: token_text_ok_def sample_oauth_lib_def sample_token_text_def sample_token_parse_def byte_parse_text
        ascii_valid ascii_byte_text)
qed

definition sample_oauth_config :: oauth2_config where
  "sample_oauth_config = \<lparr>oc_token_endpoint = Some ''https://a/token'', oc_client_id = None, oc_client_secret = None,
     oc_scopes = None, oc_grant_type = ''client_credentials'', oc_callback_port = 8765\<rparr>"

definition sample_oauth_manager :: oauth_manager where
  "sample_oauth_manager = manager_with_store sample_oauth_config (Some \<lparr>fs_key = replicate 32 CHR ''k''\<rparr>)"

definition sample_token_body :: json where
  "sample_token_body = jobj [(''access_token'', JStr ''tok''), (''refresh_token'', JStr ''ref''),
     (''expires_in'', JNum (PosInt 100))]"

lemma sample_store_writes:
  "fst (store_set sample_lib fs (token_key backend_id) text sample_disk) = Inr ()"
  by (simp add: store_set_def sample_disk_def bind_io_def lift_io_def return_io_def validate_key_def token_key_def
      read_file_contents file_contents_def encrypt_def sample_lib_def write_file_def write_atomic_def write_steps
      io_call_def drop_temp_on_error_def Let_def set_owner_only_permissions_def)

theorem token_survives_restart_witness:
  "\<exists>m' w' m2 w3. cache_token_response sample_oauth_lib sample_token_body ''b''
       (sample_oauth_manager, \<lparr>ow_secrets = sample_disk, ow_net = 0\<rparr>) = (Inr ''tok'', m', w') \<and>
     adopt_persisted sample_oauth_lib ''b'' (sample_oauth_manager, w'\<lparr>ow_net := 50\<rparr>) = (Some ''tok'', m2, w3) \<and>
     Option.bind (om_cache m2) tc_refresh_token = Some ''ref''"
proof -
  let ?w = "\<lparr>ow_secrets = sample_disk, ow_net = 0\<rparr>"
  let ?l = "sample_oauth_lib"
  obtain m' w' c where r: "cache_token_response ?l sample_token_body ''b'' (sample_oauth_manager, ?w) = (Inr ''tok'', m', w')"
      and c: "om_cache m' = Some c" "tc_refresh_token c = Some ''ref''"
    by (auto simp: cache_token_response_def sample_token_body_def Let_def)
  have sel: "ol_secret ?l = sample_lib" "ol_unix_secs ?l = of_nat" by (simp_all add: sample_oauth_lib_def)
  have life: "token_life sample_token_body = 100" by (simp add: token_life_def sample_token_body_def)
  have "\<exists>m2 w3 c2. adopt_persisted ?l ''b'' (manager_with_store (om_config sample_oauth_manager)
        (Some \<lparr>fs_key = replicate 32 CHR ''k''\<rparr>), w'\<lparr>ow_net := 50\<rparr>) =
      (if unat ((100 :: u64) - 50) > 30 then Some ''tok'' else None, m2, w3) \<and>
    om_cache m2 = Some c2 \<and> tc_access_token c2 = ''tok'' \<and> tc_refresh_token c2 = tc_refresh_token c \<and>
    tc_client_id c2 = tc_client_id c \<and>
    tc_expires_at c2 = ol_mono_ns ?l (ow_net w3) + unat ((100 :: u64) - 50) * NS_PER_SEC"
    by (rule token_survives_restart [OF sample_token_text_ok _ _ _ r c(1), where ?w0.0 = "w'\<lparr>ow_net := 50\<rparr>" and ?w2.0 = "w'\<lparr>ow_net := 50\<rparr>"])
      (simp_all add: sel life c(2) store_usable_def sample_lib_ok sample_store_writes sample_oauth_manager_def
        manager_with_store_def, simp_all add: sample_oauth_lib_def sample_disk_def)
  then obtain m2 w3 c2 where "adopt_persisted ?l ''b'' (sample_oauth_manager, w'\<lparr>ow_net := 50\<rparr>) = (Some ''tok'', m2, w3)"
      "om_cache m2 = Some c2" "tc_refresh_token c2 = Some ''ref''"
    by (auto simp: c(2) sample_oauth_manager_def manager_with_store_def)
  with r show ?thesis by (metis bind.bind_lunit)
qed

text \<open>
  In daemon mode an expired token without a refresh token is never replaced: every call fails with the
  same error and changes nothing, whatever the grant, so a backend of the client credentials grant,
  which needs no user, stays unusable; outside daemon mode the same manager posts the grant.
\<close>

theorem daemon_cannot_renew:
  assumes "om_cache m = Some c" and "tc_refresh_token c = None"
    and "tc_expires_at c \<le> ol_mono_ns lib (ow_net w) + 30 * NS_PER_SEC"
    and "await_refresh_lock lib (m, w) = (m, w)" and "resolve_grant_type m = ''client_credentials''"
    and "resolve_token_endpoint m = Inr url"
  shows "get_token lib backend_id True (m, w) =
      (Inl (auth_error (''token expired and no refresh token available (daemon mode '' @ em_dash @ '' run '' @ sq ''auth'' @
         '' to re-authenticate)'')), m, w) \<and>
    get_token lib backend_id False (m, w) = do_client_credentials lib url backend_id (m, w)"
  using assms
  by (simp add: get_token_def usable_token_def fail_auth_def acquire_token_def bind_auth_def get_state_def lift_auth_def Let_def)

definition sample_expired_manager :: oauth_manager where
  "sample_expired_manager = sample_oauth_manager\<lparr>om_cache :=
     Some \<lparr>tc_access_token = ''old'', tc_refresh_token = None, tc_client_id = None, tc_expires_at = 0\<rparr>\<rparr>"

theorem daemon_cannot_renew_witness:
  "is_ok (fst (get_token sample_oauth_lib ''b'' True (sample_expired_manager, \<lparr>ow_secrets = sample_disk, ow_net = 50\<rparr>))) = False"
  using daemon_cannot_renew [of sample_expired_manager
      "\<lparr>tc_access_token = ''old'', tc_refresh_token = None, tc_client_id = None, tc_expires_at = 0\<rparr>" sample_oauth_lib
      "\<lparr>ow_secrets = sample_disk, ow_net = 50\<rparr>" "''https://a/token''" "''b''"]
  by (simp add: sample_expired_manager_def sample_oauth_manager_def manager_with_store_def sample_oauth_config_def
      await_refresh_lock_def sample_oauth_lib_def resolve_grant_type_def resolve_token_endpoint_def)

end
