(* ===== verification/Hub_Http_Facts.thy ===== *)
theory Hub_Http_Facts
  imports Hub_Http_Contract Hub_OAuth2_Facts
begin

text \<open>
  Properties of the HTTP backend: the headers of a modern request mirror its body, how a lost session is
  recovered and with which messages, and what a reconnect does to a stale session.
\<close>

section \<open>Header values\<close>

text \<open>
  How a server reads a header value back, and the documented behaviour of base64: the decoder inverts
  the encoder, whose output is printable.
\<close>

definition decode_header_value :: "(string \<Rightarrow> string option) \<Rightarrow> string \<Rightarrow> string option" where
  "decode_header_value unb64 v =
     (case strip_prefix v ''=?base64?'' of
        None \<Rightarrow> Some v
      | Some r \<Rightarrow> (case strip_suffix r ''?='' of None \<Rightarrow> Some v | Some b \<Rightarrow> unb64 b))"

definition b64_ok :: "(string \<Rightarrow> string) \<Rightarrow> (string \<Rightarrow> string option) \<Rightarrow> bool" where
  "b64_ok b64 unb64 \<longleftrightarrow> (\<forall>v. unb64 (b64 v) = Some v \<and> printable (b64 v))"

lemma printable_simps [simp]:
  "printable []" "printable (c # s) \<longleftrightarrow> 32 \<le> (of_char c :: nat) \<and> (of_char c :: nat) \<le> 126 \<and> printable s"
  "printable (a @ b) \<longleftrightarrow> printable a \<and> printable b"
  by (simp_all add: printable_def)

lemma decode_encode:
  assumes "b64_ok b64 unb64"
  shows "decode_header_value unb64 (encode_header_value b64 v) = Some v"
proof (cases "printable v \<and> \<not> starts_with v '' '' \<and> \<not> ends_with v '' '' \<and>
    \<not> (starts_with v ''=?base64?'' \<and> ends_with v ''?='')")
  case True
  have "v \<noteq> ''=?base64?'' @ b @ ''?=''" for b using True by (auto simp: str_simps)
  with True show ?thesis
    by (auto simp: encode_header_value_def decode_header_value_def str_simps split: option.split)
next
  case False
  then have "encode_header_value b64 v = ''=?base64?'' @ (b64 v @ ''?='')"
    unfolding encode_header_value_def Let_def by auto
  moreover have "strip_suffix (b64 v @ ''?='') ''?='' = Some (b64 v)" by (simp add: str_simps)
  ultimately show ?thesis using assms by (simp only: decode_header_value_def strip_prefix_append option.case b64_ok_def)
qed

lemma encode_printable:
  assumes "b64_ok b64 unb64"
  shows "printable (encode_header_value b64 v) \<and> \<not> starts_with (encode_header_value b64 v) '' '' \<and>
    \<not> ends_with (encode_header_value b64 v) '' ''"
  using assms by (auto simp: encode_header_value_def Let_def b64_ok_def str_simps)

text \<open>
  Any text can be put in a header and is read back exactly: the encoded value is printable ASCII
  without a space at either end, and the server that undoes the base64 sentinel gets the original,
  also for a text that itself looks like the sentinel.
\<close>

theorem header_value_round_trip:
  assumes "b64_ok b64 unb64"
  shows "decode_header_value unb64 (encode_header_value b64 v) = Some v \<and>
    printable (encode_header_value b64 v) \<and>
    \<not> starts_with (encode_header_value b64 v) '' '' \<and> \<not> ends_with (encode_header_value b64 v) '' ''"
  using decode_encode [OF assms] encode_printable [OF assms] by blast


lemma byte_text_printable: "printable (byte_text s)"
proof (induction s)
  case (Cons c s)
  have "32 \<le> (64 + of_char c div 16 :: nat)" "(64 + of_char c div 16 :: nat) \<le> 126" using high_nibble [of c] by linarith+
  moreover have "32 \<le> (64 + of_char c mod 16 :: nat)" "(64 + of_char c mod 16 :: nat) \<le> 126"
    using mod_less_divisor [of 16 "of_char c :: nat"] by linarith+
  ultimately show ?case using Cons by (simp add: byte_text_def)
qed (simp add: byte_text_def)

lemma byte_b64_ok: "b64_ok byte_text (Some \<circ> byte_parse)"
  by (simp add: b64_ok_def byte_parse_text byte_text_printable)

theorem header_value_round_trip_witness:
  "decode_header_value (Some \<circ> byte_parse) (encode_header_value byte_text '' padded '') = Some '' padded ''"
  using header_value_round_trip [OF byte_b64_ok] by simp

section \<open>Headers of a modern request\<close>

text \<open>
  What a header of a modern request may say: the version and the method of the request, the tool, prompt
  or resource it names, or an argument of a tool under the name the annotation of the tool gives.
\<close>

definition mirrors :: "('n, 'r) client_lib \<Rightarrow> (string \<Rightarrow> string option) \<Rightarrow> http_backend \<Rightarrow> string \<Rightarrow> json \<Rightarrow> string \<times> string \<Rightarrow> bool" where
  "mirrors lib unb64 hb m p = (\<lambda>(n, v).
     (n = ''mcp-protocol-version'' \<and> modern_version (Some p) = Some v) \<or>
     (n = ''mcp-method'' \<and> v = m) \<or>
     (n = ''mcp-name'' \<and> (\<exists>f s. name_field m = Some f \<and> get_key p f = Some (JStr s) \<and> decode_header_value unb64 v = Some s)) \<or>
     (\<exists>tool path suffix args a. m = ''tools/call'' \<and> get_key p ''name'' = Some (JStr tool) \<and>
        (path, suffix) \<in> set (tool_headers hb (Some tool)) \<and> cl_header_name lib (''Mcp-Param-'' @ suffix) = Some n \<and>
        get_key p ''arguments'' = Some args \<and> arg_at path args = Some a \<and>
        header_text a = decode_header_value unb64 v))"

lemma put_header_set: "x \<in> set (put_header lib n v hs) \<Longrightarrow> x = (n, v) \<or> x \<in> set hs"
proof (cases "cl_header_value lib v")
  case True
  have "x \<in> set (AList.update n v hs) \<Longrightarrow> x = (n, v) \<or> x \<in> set hs" by (induction hs) (auto split: if_splits)
  then show "x \<in> set (put_header lib n v hs) \<Longrightarrow> x = (n, v) \<or> x \<in> set hs" by (simp add: put_header_def True)
qed (simp add: put_header_def)

lemma put_params_set:
  "x \<in> set (fold (put_param lib p) ps hs) \<Longrightarrow> x \<in> set hs \<or>
     (\<exists>path suffix args a t. (path, suffix) \<in> set ps \<and> cl_header_name lib (''Mcp-Param-'' @ suffix) = Some (fst x) \<and>
        get_key p ''arguments'' = Some args \<and> arg_at path args = Some a \<and> header_text a = Some t \<and>
        snd x = encode_header_value (cl_b64 lib) t)"
proof (induction ps arbitrary: hs)
  case (Cons q ps)
  obtain path suffix where q: "q = (path, suffix)" by (metis prod.collapse)
  have "x \<in> set (put_param lib p q hs) \<Longrightarrow> x \<in> set hs \<or>
      (\<exists>args a t. cl_header_name lib (''Mcp-Param-'' @ suffix) = Some (fst x) \<and> get_key p ''arguments'' = Some args \<and>
        arg_at path args = Some a \<and> header_text a = Some t \<and> snd x = encode_header_value (cl_b64 lib) t)"
    by (auto simp: put_param_def q split: option.splits bind_splits dest!: put_header_set)
  moreover from Cons.prems Cons.IH [of "put_param lib p q hs"] have "x \<in> set (put_param lib p q hs) \<or>
     (\<exists>path suffix args a t. (path, suffix) \<in> set ps \<and> cl_header_name lib (''Mcp-Param-'' @ suffix) = Some (fst x) \<and>
        get_key p ''arguments'' = Some args \<and> arg_at path args = Some a \<and> header_text a = Some t \<and>
        snd x = encode_header_value (cl_b64 lib) t)" by simp
  ultimately show ?case unfolding q by fastforce
qed simp

text \<open>
  C14: The headers of a request cannot disagree with its body: a legacy request has none, and every header
  of a modern request decodes to what its body says - the version, the method, the name or URI, or the
  argument that the tool's schema annotates.
\<close>

theorem headers_mirror_body:
  assumes "b64_ok (cl_b64 lib) unb64"
  shows "(modern_version params = None \<longrightarrow> modern_headers lib hb m params = []) \<and>
    (\<forall>p. params = Some p \<longrightarrow> list_all (mirrors lib unb64 hb m p) (modern_headers lib hb m params))"
proof (intro conjI allI impI)
  assume "modern_version params = None"
  then show "modern_headers lib hb m params = []" by (simp add: modern_headers_def split: option.splits)
next
  fix p
  assume p: "params = Some p"
  show "list_all (mirrors lib unb64 hb m p) (modern_headers lib hb m params)"
  proof (cases "modern_version params")
    case None
    then show ?thesis by (simp add: modern_headers_def split: option.splits)
  next
    case (Some ver)
    note d = decode_encode [OF assms]
    define source where "source = Option.bind (Option.bind (name_field m) (get_key p)) as_str"
    have src: "source = Some s \<Longrightarrow> \<exists>f. name_field m = Some f \<and> get_key p f = Some (JStr s)" for s
      by (auto simp: source_def split: bind_splits elim!: as_str.elims)
    define h1 where "h1 = put_header lib ''mcp-method'' m (put_header lib ''mcp-protocol-version'' ver [])"
    define h2 where "h2 = (case source of Some s \<Rightarrow> put_header lib ''mcp-name'' (encode_header_value (cl_b64 lib) s) h1 | None \<Rightarrow> h1)"
    have h: "modern_headers lib hb m params = (if m = ''tools/call'' then fold (put_param lib p) (tool_headers hb source) h2 else h2)"
      using Some unfolding modern_headers_def h2_def h1_def source_def p Let_def by simp
    have 1: "mirrors lib unb64 hb m p x" if "x \<in> set h1" for x
      using that Some p by (auto simp: h1_def mirrors_def dest!: put_header_set)
    have 2: "mirrors lib unb64 hb m p x" if x: "x \<in> set h2" for x
    proof (cases "x \<in> set h1")
      case False
      with x obtain s where "source = Some s" "x = (''mcp-name'', encode_header_value (cl_b64 lib) s)"
        unfolding h2_def by (cases source) (use put_header_set in fastforce)+
      with src d show ?thesis by (simp add: mirrors_def)
    qed (rule 1)
    have 3: "mirrors lib unb64 hb m p x" if m: "m = ''tools/call''" and x: "x \<in> set (fold (put_param lib p) (tool_headers hb source) h2)" for x
    proof (cases "x \<in> set h2")
      case False
      with put_params_set [OF x] obtain path suffix args a t where ps: "(path, suffix) \<in> set (tool_headers hb source)"
          "cl_header_name lib (''Mcp-Param-'' @ suffix) = Some (fst x)" "get_key p ''arguments'' = Some args"
          "arg_at path args = Some a" "header_text a = Some t" "snd x = encode_header_value (cl_b64 lib) t" by blast
      then obtain tool where "source = Some tool" by (cases source) (auto simp: tool_headers_def)
      moreover from src [OF this] m have "get_key p ''name'' = Some (JStr tool)" by (auto simp: name_field_def)
      ultimately show ?thesis using ps d m by (cases x) (auto simp: mirrors_def)
    qed (rule 2)
    show ?thesis unfolding h list_all_iff using 2 3 by auto
  qed
qed


definition sample_modern_params :: json where
  "sample_modern_params = JObj [(''_meta'', JObj [(META_PROTOCOL_VERSION, JStr ''2026-07-28'')]),
     (''arguments'', JObj [(''q'', JStr '' x '')]), (''name'', JStr ''f'')]"

theorem headers_mirror_body_witness:
  "list_all (mirrors (sample_client\<lparr>cl_b64 := byte_text\<rparr>) (Some \<circ> byte_parse)
      (sample_http\<lparr>hb_param_headers := [(''f'', [([''q''], ''Q'')])]\<rparr>) ''tools/call'' sample_modern_params)
    (modern_headers (sample_client\<lparr>cl_b64 := byte_text\<rparr>)
      (sample_http\<lparr>hb_param_headers := [(''f'', [([''q''], ''Q'')])]\<rparr>) ''tools/call'' (Some sample_modern_params)) \<and>
   map fst (modern_headers (sample_client\<lparr>cl_b64 := byte_text\<rparr>)
      (sample_http\<lparr>hb_param_headers := [(''f'', [([''q''], ''Q'')])]\<rparr>) ''tools/call'' (Some sample_modern_params)) =
     [''mcp-protocol-version'', ''mcp-method'', ''mcp-name'', ''Mcp-Param-Q'']"
proof -
  have "b64_ok (cl_b64 (sample_client\<lparr>cl_b64 := byte_text\<rparr>)) (Some \<circ> byte_parse)" by (simp add: byte_b64_ok)
  note headers_mirror_body [OF this, of "Some sample_modern_params" _ "''tools/call''"]
  moreover have "map fst (modern_headers (sample_client\<lparr>cl_b64 := byte_text\<rparr>)
      (sample_http\<lparr>hb_param_headers := [(''f'', [([''q''], ''Q'')])]\<rparr>) ''tools/call'' (Some sample_modern_params)) =
     [''mcp-protocol-version'', ''mcp-method'', ''mcp-name'', ''Mcp-Param-Q'']"
    by (simp add: modern_headers_def modern_version_def sample_modern_params_def put_header_def sample_client_def name_field_def
        tool_headers_def put_param_def META_PROTOCOL_VERSION_def)
  ultimately show ?thesis by blast
qed

section \<open>What a request sends\<close>

text \<open>
  A network whose state is the log of the posts it got: its answers may depend on the whole log, so the
  server is arbitrary.
\<close>

definition logs_posts :: "(post list, 'r) client_lib \<Rightarrow> bool" where
  "logs_posts lib \<longleftrightarrow> (\<forall>p l. snd (cl_send lib p l) = l @ [p])"

definition request_post :: "('n, 'r) client_lib \<Rightarrow> http_backend \<Rightarrow> string \<Rightarrow> json option \<Rightarrow> post" where
  "request_post lib hb m params =
     \<lparr>po_url = hb_url hb, po_bearer = hb_bearer hb,
      po_headers = [(''content-type'', APPLICATION_JSON), (''accept'', APPLICATION_JSON @ '', '' @ SSE_CONTENT_TYPE)] @
        modern_headers lib hb m params @ session_field (hb_session_id hb),
      po_body = to_text (cl_codec lib) (message_value (Request (new_request (IdNumber (hb_counter hb)) m params)))\<rparr>"

definition initialized_post :: "('n, 'r) client_lib \<Rightarrow> http_backend \<Rightarrow> post" where
  "initialized_post lib hb =
     \<lparr>po_url = hb_url hb, po_bearer = hb_bearer hb,
      po_headers = (''content-type'', APPLICATION_JSON) # session_header lib hb,
      po_body = to_text (cl_codec lib) (message_value (Notification (new_notification ''notifications/initialized'' None)))\<rparr>"

lemma legacy_no_headers: "modern_version params = None \<Longrightarrow> modern_headers lib hb m params = []"
  by (simp add: modern_headers_def split: option.splits)

lemma session_of_request:
  "modern_version params = None \<Longrightarrow> session_of (request_post lib hb m params) = hb_session_id hb"
  by (simp add: session_of_def request_post_def legacy_no_headers session_field_def split: option.splits)

lemma initialize_legacy [simp]: "modern_version (Some initialize_params) = None"
  by (simp add: modern_version_def initialize_params_def)

text \<open>The effect of one request of a backend without OAuth2 on the backend itself.\<close>

definition used :: "string option \<Rightarrow> http_backend \<Rightarrow> http_backend" where
  "used sid hb = capture_session sid (hb\<lparr>hb_counter := hb_counter hb + 1\<rparr>)"

lemma used_sel [simp]:
  "hb_def (used sid hb) = hb_def hb" "hb_url (used sid hb) = hb_url hb" "hb_bearer (used sid hb) = hb_bearer hb"
  "hb_oauth (used sid hb) = hb_oauth hb" "hb_init (used sid hb) = hb_init hb" "hb_connected (used sid hb) = hb_connected hb"
  "hb_epoch (used sid hb) = hb_epoch hb" "hb_tools_refresh (used sid hb) = hb_tools_refresh hb"
  "hb_counter (used sid hb) = hb_counter hb + 1" "hb_param_headers (used sid hb) = hb_param_headers hb"
  "hb_session_id (used sid hb) = (case sid of Some s \<Rightarrow> Some s | None \<Rightarrow> hb_session_id hb)"
  by (simp_all add: used_def capture_session_def split: option.split)

lemma tool_headers_counter [simp]: "tool_headers (hb\<lparr>hb_counter := k\<rparr>) = tool_headers hb"
  by (simp add: tool_headers_def fun_eq_iff)

lemma modern_headers_counter [simp]: "modern_headers lib (hb\<lparr>hb_counter := k\<rparr>) m params = modern_headers lib hb m params"
  by (simp add: modern_headers_def Let_def split: option.split)

lemma http_post_plain:
  assumes "hb_oauth hb = None"
  shows "\<exists>r n. cl_send lib \<lparr>po_url = hb_url hb, po_bearer = hb_bearer hb,
      po_headers = [(''content-type'', APPLICATION_JSON), (''accept'', APPLICATION_JSON @ '', '' @ SSE_CONTENT_TYPE)] @
        extra @ session_field sid, po_body = body\<rparr> (ow_net w) = (r, n) \<and>
    http_post lib body extra sid (hb, w) =
      (case r of
         Inl (timeout, e) \<Rightarrow> Inl (backend_error_new (if timeout then Timeout else Connection)
           (''HTTP request to '' @ sq (hb_id hb) @ '' failed: '' @ e))
       | Inr resp \<Rightarrow> (case dr_body resp of
             Inl e \<Rightarrow> Inl (backend_error_new Protocol (''failed to read response from '' @ sq (hb_id hb) @ '': '' @ e))
           | Inr bytes \<Rightarrow> Inr (bytes, dr_status resp, dr_session_id resp)), hb, w\<lparr>ow_net := n\<rparr>)"
  using assms by (auto simp: http_post_def discover_on_401_def Let_def split: prod.splits sum.splits)

text \<open>
  A request without OAuth2: one post, whose answer decides the result; the backend counts it and keeps
  the session the answer carries.
\<close>

lemma inner_plain:
  assumes "hb_oauth hb = None" and "send_request_inner lib m params retry (hb, w) = (r, s')"
  obtains a n sid where "cl_send lib (request_post lib hb m params) (ow_net w) = (a, n)"
    and "s' = (used sid hb, w\<lparr>ow_net := n\<rparr>)"
    and "case a of
      Inr resp \<Rightarrow> (case dr_body resp of
          Inr bytes \<Rightarrow> sid = dr_session_id resp \<and>
            (r, s') = final_reply lib (hb_session_id hb) bytes (dr_status resp) (used sid hb, w\<lparr>ow_net := n\<rparr>)
        | Inl e \<Rightarrow> sid = None \<and> (\<exists>f. r = Inl (plain_failure f)))
    | Inl e \<Rightarrow> sid = None \<and> (\<exists>f. r = Inl (plain_failure f))"
proof -
  let ?hb0 = "hb\<lparr>hb_counter := hb_counter hb + 1\<rparr>"
  let ?body = "to_text (cl_codec lib) (message_value (Request (new_request (IdNumber (hb_counter hb)) m params)))"
  have o: "hb_oauth ?hb0 = None" using assms(1) by simp
  from http_post_plain [OF o, of lib "modern_headers lib hb m params" "hb_session_id hb" ?body w]
  obtain a n where s: "cl_send lib (request_post lib hb m params) (ow_net w) = (a, n)"
    and p: "http_post lib ?body (modern_headers lib hb m params) (hb_session_id hb) (?hb0, w) =
      (case a of
         Inl (timeout, e) \<Rightarrow> Inl (backend_error_new (if timeout then Timeout else Connection)
           (''HTTP request to '' @ sq (hb_id ?hb0) @ '' failed: '' @ e))
       | Inr resp \<Rightarrow> (case dr_body resp of
             Inl e \<Rightarrow> Inl (backend_error_new Protocol (''failed to read response from '' @ sq (hb_id ?hb0) @ '': '' @ e))
           | Inr bytes \<Rightarrow> Inr (bytes, dr_status resp, dr_session_id resp)), ?hb0, w\<lparr>ow_net := n\<rparr>)"
    by (auto simp: request_post_def)
  have c: "capture_session sid ?hb0 = used sid hb" for sid by (simp add: used_def)
  have n: "used None hb = ?hb0" by (simp add: used_def capture_session_def)
  show thesis
  proof (cases a)
    case (Inl e)
    with p assms(2) have "s' = (used None hb, w\<lparr>ow_net := n\<rparr>) \<and> (\<exists>f. r = Inl (plain_failure f))"
      by (auto simp: send_request_inner_def Let_def n simp del: message_value.simps split: prod.splits)
    with s Inl show thesis by (intro that [of a n None]) auto
  next
    case (Inr resp)
    show thesis
    proof (cases "dr_body resp")
      case (Inl e)
      with Inr p assms(2) have "s' = (used None hb, w\<lparr>ow_net := n\<rparr>) \<and> (\<exists>f. r = Inl (plain_failure f))"
        by (auto simp: send_request_inner_def Let_def n simp del: message_value.simps)
      with s Inr Inl show thesis by (intro that [of a n None]) auto
    next
      case b: (Inr bytes)
      with Inr p assms have f: "(r, s') = final_reply lib (hb_session_id hb) bytes (dr_status resp)
          (used (dr_session_id resp) hb, w\<lparr>ow_net := n\<rparr>)"
        by (auto simp: send_request_inner_def Let_def c simp del: message_value.simps cong: if_cong)
      then have "s' = (used (dr_session_id resp) hb, w\<lparr>ow_net := n\<rparr>)" by (simp add: final_reply_def)
      with s Inr b f show thesis by (intro that [of a n "dr_session_id resp"]) auto
    qed
  qed
qed

lemma notification_plain:
  "send_notification lib ''notifications/initialized'' None (hb, w) = (r, s') \<Longrightarrow>
     s' = (hb, w\<lparr>ow_net := snd (cl_send lib (initialized_post lib hb) (ow_net w))\<rparr>)"
  by (auto simp: send_notification_def initialized_post_def Let_def split: prod.splits sum.splits)

lemma handshake_plain:
  assumes "hb_oauth hb = None" and "handshake lib (hb, w) = (r, s')"
  obtains sid n where "n = snd (cl_send lib (request_post lib hb ''initialize'' (Some initialize_params)) (ow_net w))"
    and "s' = (used sid hb, w\<lparr>ow_net := if is_ok r then snd (cl_send lib (initialized_post lib (used sid hb)) n) else n\<rparr>)"
proof -
  let ?m = "''initialize''" and ?p = "Some initialize_params"
  obtain r1 s1 where i: "send_request_inner lib ?m ?p True (hb, w) = (r1, s1)" by (metis prod.collapse)
  obtain a n sid where
      h: "cl_send lib (request_post lib hb ?m ?p) (ow_net w) = (a, n)" and s1: "s1 = (used sid hb, w\<lparr>ow_net := n\<rparr>)"
    by (rule inner_plain [OF assms(1) i])
  obtain rn sn where nt: "send_notification lib ''notifications/initialized'' None s1 = (rn, sn)" by (metis prod.collapse)
  from notification_plain [OF nt [unfolded s1]] have sn: "sn = (used sid hb, w\<lparr>ow_net := snd (cl_send lib (initialized_post lib (used sid hb)) n)\<rparr>)"
    by simp
  from assms(2) have "s' = (if is_ok r then sn else s1)"
    by (auto simp: handshake_def i nt split: sum.splits option.splits)
  with sn s1 h show thesis by (intro that [of n sid]) auto
qed

text \<open>A backend whose session was taken for the handshake, and the one after it.\<close>

definition without_session :: "http_backend \<Rightarrow> http_backend" where
  "without_session hb = hb\<lparr>hb_session_id := None\<rparr>"

lemma reinitialize_plain:
  assumes "logs_posts lib" and "hb_oauth hb = None" and "\<forall>hb w. cl_await_reinit lib hb w = (hb, w)"
    and "reinitialize lib (hb_epoch hb) (hb, w) = (r, hb', w')"
  obtains (renewed) sid where "r = Inr ()"
      and "ow_net w' = ow_net w @ [request_post lib (without_session hb) ''initialize'' (Some initialize_params), initialized_post lib hb']"
      and "hb_epoch hb' = hb_epoch hb + 1" and "hb_tools_refresh hb'" and "hb_init hb' \<noteq> None"
      and "hb_oauth hb' = None" and "hb_session_id hb' = sid"
    | (failed) e where "r = Inl e"
      and "ow_net w' = ow_net w @ [request_post lib (without_session hb) ''initialize'' (Some initialize_params)]"
      and "hb_epoch hb' = hb_epoch hb + 1" and "hb_tools_refresh hb' = hb_tools_refresh hb"
      and "hb_session_id hb \<noteq> None \<Longrightarrow> hb_session_id hb' \<noteq> None"
proof -
  let ?hb = "without_session hb"
  obtain o1 hb1 w1 where h: "handshake lib (?hb, w) = (o1, hb1, w1)" by (metis prod_cases3)
  have o: "hb_oauth ?hb = None" using assms(2) by (simp add: without_session_def)
  from o h obtain sid n where n: "n = snd (cl_send lib (request_post lib ?hb ''initialize'' (Some initialize_params)) (ow_net w))"
    and s: "(hb1, w1) = (used sid ?hb, w\<lparr>ow_net := if is_ok o1 then snd (cl_send lib (initialized_post lib (used sid ?hb)) n) else n\<rparr>)"
    by (rule handshake_plain)
  have log: "n = ow_net w @ [request_post lib ?hb ''initialize'' (Some initialize_params)]"
    using n assms(1) by (simp add: logs_posts_def)
  have w: "hb_session_id ?hb = None" "hb_epoch ?hb = hb_epoch hb" "hb_tools_refresh ?hb = hb_tools_refresh hb"
    by (simp_all add: without_session_def)
  from assms(3,4) have d: "(r, hb', w') =
      (case o1 of
         Inr init \<Rightarrow> (Inr (), hb1\<lparr>hb_epoch := hb_epoch hb1 + 1, hb_init := Some init, hb_tools_refresh := True\<rparr>, w1)
       | Inl e \<Rightarrow> (Inl e, (if hb_session_id hb1 = None then hb1\<lparr>hb_epoch := hb_epoch hb1 + 1, hb_session_id := hb_session_id hb\<rparr>
            else hb1\<lparr>hb_epoch := hb_epoch hb1 + 1\<rparr>), w1))"
    by (auto simp: reinitialize_def h [unfolded without_session_def] Let_def split: sum.splits)
  show thesis
  proof (cases o1)
    case (Inr init)
    with d have hb': "hb' = hb1\<lparr>hb_epoch := hb_epoch hb1 + 1, hb_init := Some init, hb_tools_refresh := True\<rparr>" and r: "r = Inr ()" "w' = w1"
      by simp_all
    have "initialized_post lib hb' = initialized_post lib (used sid ?hb)"
      using s by (simp add: hb' initialized_post_def session_header_def)
    with s Inr log assms(1) r have "ow_net w' = ow_net w @ [request_post lib ?hb ''initialize'' (Some initialize_params), initialized_post lib hb']"
      by (simp add: logs_posts_def)
    with r hb' s w o show thesis by (intro renewed) auto
  next
    case (Inl e)
    with d s log w show thesis by (intro failed [of e]) (auto split: if_splits)
  qed
qed



definition stale_http :: http_backend where "stale_http = sample_http\<lparr>hb_session_id := Some ''gone''\<rparr>"

lemma sample_client_sends: "fst (cl_send sample_client p l) =
    Inr \<lparr>dr_status = (if session_of p = Some ''gone'' then 404 else 200), dr_www_authenticate = None,
      dr_session_id = None, dr_body = Inr ''r0''\<rparr>" "snd (cl_send sample_client p l) = l @ [p]"
  by (simp_all add: sample_client_def)


section \<open>Reconnecting\<close>

text \<open>What the registry does to reconnect: \<open>disconnect\<close>, then \<open>connect\<close>.\<close>

definition http_reconnect :: "('n, 'r) client_lib \<Rightarrow> ('n, 'r) http_state \<Rightarrow> (backend_error + initialize_result) \<times> ('n, 'r) http_state" where
  "http_reconnect lib s = http_connect lib (snd (http_disconnect s))"

definition refuses_session :: "('n, 'r) client_lib \<Rightarrow> string \<Rightarrow> bool" where
  "refuses_session lib sid \<longleftrightarrow> (\<forall>p n. session_of p = Some sid \<longrightarrow>
     (\<exists>resp. fst (cl_send lib p n) = Inr resp \<and> \<not> ok_status (dr_status resp) \<and> dr_session_id resp = None))"

lemma inner_refused:
  assumes "refuses_session lib sid" and "hb_oauth hb = None" and "hb_session_id hb = Some sid"
    and "modern_version params = None" and "send_request_inner lib m params retry (hb, w) = (r, s')"
  shows "(\<exists>f. r = Inl f) \<and> fst s' = used None hb"
proof -
  obtain a n sid' where h: "cl_send lib (request_post lib hb m params) (ow_net w) = (a, n)"
      and s: "s' = (used sid' hb, w\<lparr>ow_net := n\<rparr>)"
      and c: "case a of
          Inr resp \<Rightarrow> (case dr_body resp of
              Inr bytes \<Rightarrow> sid' = dr_session_id resp \<and>
                (r, s') = final_reply lib (hb_session_id hb) bytes (dr_status resp) (used sid' hb, w\<lparr>ow_net := n\<rparr>)
            | Inl e \<Rightarrow> sid' = None \<and> (\<exists>f. r = Inl (plain_failure f)))
        | Inl e \<Rightarrow> sid' = None \<and> (\<exists>f. r = Inl (plain_failure f))"
    by (rule inner_plain [OF assms(2,5)])
  have "session_of (request_post lib hb m params) = Some sid" using assms(3,4) by (simp add: session_of_request)
  with assms(1) h obtain resp where "a = Inr resp" "\<not> ok_status (dr_status resp)" "dr_session_id resp = None"
    unfolding refuses_session_def by (metis fst_conv)
  then have "(\<exists>f. r = Inl f) \<and> sid' = None" using c by (cases "dr_body resp") (auto simp: final_reply_def)
  with s show ?thesis by simp
qed

lemma reconnect_fails:
  assumes "refuses_session lib sid" and "hb_oauth hb = None" and "hb_session_id hb = Some sid"
    and "http_reconnect lib (hb, w) = (r, hb', w')"
  shows "(\<exists>e. r = Inl e) \<and> hb_oauth hb' = None \<and> hb_session_id hb' = Some sid"
proof -
  let ?hb = "hb\<lparr>hb_connected := False\<rparr>"
  obtain r1 s1 where i: "send_request_inner lib ''initialize'' (Some initialize_params) True (?hb, w) = (r1, s1)"
    by (metis prod.collapse)
  from inner_refused [OF assms(1) _ _ _ i] assms(2,3) obtain f where f: "r1 = Inl f" "fst s1 = used None ?hb" by auto
  have "http_reconnect lib (hb, w) = (Inl (fl_error f), s1)"
    using assms(2) by (simp add: http_reconnect_def http_disconnect_def http_connect_def adopt_token_def handshake_def i f)
  with assms f show ?thesis by (cases s1) auto
qed

text \<open>
  \<open>connect\<close> sends the session id of the connection before: after \<open>disconnect\<close> the \<open>initialize\<close> still
  carries it, so against a server that has lost that session and refuses its id, reconnecting fails
  however often it is tried.
\<close>

theorem reconnect_keeps_stale_session:
  assumes "refuses_session lib sid" and "hb_oauth hb = None" and "hb_session_id hb = Some sid"
  shows "\<exists>e. fst (http_reconnect lib (((\<lambda>s. snd (http_reconnect lib s)) ^^ k) (hb, w))) = Inl e"
proof -
  let ?inv = "\<lambda>s :: ('a, 'b) http_state. hb_oauth (fst s) = None \<and> hb_session_id (fst s) = Some sid"
  have step: "?inv s \<Longrightarrow> (\<exists>e. fst (http_reconnect lib s) = Inl e) \<and> ?inv (snd (http_reconnect lib s))" for s
    using reconnect_fails [OF assms(1), of "fst s" "snd s"] by (metis prod.collapse)
  have "?inv (((\<lambda>s. snd (http_reconnect lib s)) ^^ k) (hb, w))"
    by (induction k) (use assms step in auto)
  with step show ?thesis by blast
qed

theorem reconnect_keeps_stale_session_witness:
  "\<exists>e. fst (http_reconnect sample_client (((\<lambda>s. snd (http_reconnect sample_client s)) ^^ 3) (stale_http, sample_http_world))) = Inl e"
proof (rule reconnect_keeps_stale_session [where sid = "''gone''"])
  show "refuses_session sample_client ''gone''"
    by (simp add: refuses_session_def sample_client_sends ok_status_def)
qed (simp_all add: stale_http_def)

end
