(* ===== verification/Hub_Http_Tasks.thy ===== *)
theory Hub_Http_Tasks
  imports Hub_Http_Facts Hub_Tasks
begin

text \<open>
  The HTTP backend (\<open>crates/backends/backend-http/src/lib.rs\<close>) under concurrent callers.  One backend is
  shared by all sessions of the hub, so requests, connects and re-initialisations of different callers
  interleave wherever the code awaits: at a post, at the acquisition of a token, at the lock
  \<open>reinit_lock\<close>, at a notification.  A section between two such points is one event; replies, tokens and
  grants of the lock come with the events, so the server, the token manager and the scheduler are
  arbitrary.  Two fields are logs for the statements: the posts, and who re-initialised.
\<close>

section \<open>One request\<close>

text \<open>Where a request of \<open>send_request_inner\<close> waits: for its reply, for a token, for the second reply.\<close>

datatype inner_phase = Awaiting | Fetching string nat | Retrying

record inner_call =
  ic_method :: string
  ic_params :: "json option"
  ic_retry :: bool
  ic_body :: string
  ic_headers :: "(string \<times> string) list"
  ic_session :: "string option"
  ic_phase :: inner_phase

definition begin_inner ::
  "('n, 'r) client_lib \<Rightarrow> string \<Rightarrow> json option \<Rightarrow> bool \<Rightarrow> http_backend \<Rightarrow> inner_call \<times> http_backend" where
  "begin_inner lib m params retry hb =
     (let request_id = hb_counter hb; hb0 = hb\<lparr>hb_counter := request_id + 1\<rparr> in
      (\<lparr>ic_method = m, ic_params = params, ic_retry = retry,
        ic_body = to_text (cl_codec lib) (message_value (Request (new_request (IdNumber request_id) m params))),
        ic_headers = modern_headers lib hb0 m params, ic_session = hb_session_id hb0, ic_phase = Awaiting\<rparr>, hb0))"

definition call_post :: "http_backend \<Rightarrow> inner_call \<Rightarrow> post" where
  "call_post hb ic =
     \<lparr>po_url = hb_url hb, po_bearer = hb_bearer hb,
      po_headers = [(''content-type'', APPLICATION_JSON), (''accept'', APPLICATION_JSON @ '', '' @ SSE_CONTENT_TYPE)] @
        ic_headers ic @ session_field (ic_session ic),
      po_body = ic_body ic\<rparr>"

definition post_outcome ::
  "http_backend \<Rightarrow> (bool \<times> string) + downstream_reply \<Rightarrow> backend_error + string \<times> nat \<times> string option" where
  "post_outcome hb r =
     (case r of
        Inl (timeout, e) \<Rightarrow> Inl (backend_error_new (if timeout then Timeout else Connection)
          (''HTTP request to '' @ sq (hb_id hb) @ '' failed: '' @ e))
      | Inr resp \<Rightarrow>
          (case dr_body resp of
             Inl e \<Rightarrow> Inl (backend_error_new Protocol (''failed to read response from '' @ sq (hb_id hb) @ '': '' @ e))
           | Inr bytes \<Rightarrow> Inr (bytes, dr_status resp, dr_session_id resp)))"

definition final_result :: "('n, 'r) client_lib \<Rightarrow> string option \<Rightarrow> string \<Rightarrow> nat \<Rightarrow> http_backend \<Rightarrow> failure + json" where
  "final_result lib sent_session bytes status hb =
     (if \<not> ok_status status then
        Inl \<lparr>fl_error = backend_error_new (if 500 \<le> status \<and> status \<le> 599 then Connection else Protocol)
               (''HTTP '' @ digits_of status @ '' from '' @ sq (hb_id hb) @ '': '' @ from_utf8_lossy bytes),
             fl_session_lost =
               (if status = 404 \<and> sent_session \<noteq> None then Some ''HTTP 404 for the session''
                else session_not_initialized (cl_codec lib) bytes)\<rparr>
      else (case parse_response (cl_codec lib) bytes (hb_id hb) of
              Inr v \<Rightarrow> Inr v
            | Inl e \<Rightarrow> Inl \<lparr>fl_error = e, fl_session_lost = session_not_initialized (cl_codec lib) bytes\<rparr>))"

definition retry_result :: "('n, 'r) client_lib \<Rightarrow> string \<Rightarrow> nat \<Rightarrow> http_backend \<Rightarrow> failure + json" where
  "retry_result lib bytes status hb =
     (if ok_status status then
        (case parse_response (cl_codec lib) bytes (hb_id hb) of Inr v \<Rightarrow> Inr v | Inl e \<Rightarrow> Inl (plain_failure e))
      else Inl (plain_failure (backend_error_new Auth
        (''HTTP '' @ digits_of status @ '' after OAuth2: '' @ from_utf8_lossy bytes))))"

datatype inner_next = Waits inner_call | Ends "failure + json"

definition inner_reply ::
  "('n, 'r) client_lib \<Rightarrow> inner_call \<Rightarrow> (bool \<times> string) + downstream_reply \<Rightarrow> http_backend \<Rightarrow> inner_next \<times> http_backend" where
  "inner_reply lib ic r hb =
     (case post_outcome hb r of
        Inl e \<Rightarrow> (Ends (Inl (plain_failure e)), hb)
      | Inr (bytes, status, sid) \<Rightarrow>
          (let hb1 = capture_session sid hb in
           if ic_phase ic = Retrying then (Ends (retry_result lib bytes status hb1), hb1)
           else if status = 401 \<and> ic_retry ic \<and> hb_oauth hb1 \<noteq> None then
             (Waits (ic\<lparr>ic_phase := Fetching bytes status\<rparr>), hb1)
           else (Ends (final_result lib (ic_session ic) bytes status hb1), hb1)))"

definition inner_token ::
  "('n, 'r) client_lib \<Rightarrow> inner_call \<Rightarrow> string \<Rightarrow> nat \<Rightarrow> backend_error + string \<Rightarrow> http_backend \<Rightarrow> inner_next \<times> http_backend" where
  "inner_token lib ic bytes status token hb =
     (case token of
        Inr t \<Rightarrow> (Waits (ic\<lparr>ic_phase := Retrying\<rparr>), rebuild_client_with_token lib t hb)
      | Inl e \<Rightarrow> (Ends (final_result lib (ic_session ic) bytes status hb), hb))"

section \<open>Callers\<close>

datatype http_op = OpenConnection | ListTools | CallTool string "json option" | PlainRequest string "json option" | HealthCheck

fun op_call :: "http_op \<Rightarrow> string \<times> json option" where
  "op_call OpenConnection = (''initialize'', Some initialize_params)"
| "op_call ListTools = (''tools/list'', None)"
| "op_call (CallTool name arguments) = (''tools/call'',
     Some (jobj [(''name'', JStr name), (''arguments'', case arguments of Some a \<Rightarrow> a | None \<Rightarrow> JObj [])]))"
| "op_call (PlainRequest m params) = (m, params)"
| "op_call HealthCheck = (''tools/list'', None)"

text \<open>
  Where a caller is: before its request with the epoch it read, in its first request, waiting for
  \<open>reinit_lock\<close> with the error of the first, in the handshake of a re-initialisation or its notification
  (with the session id it put aside), in its second request; or in a connect.
\<close>

datatype http_pc =
    Entered u64
  | First u64 inner_call
  | LockWait u64 backend_error
  | Renewing backend_error "string option" inner_call
  | Announcing backend_error "string option" initialize_result
  | Second inner_call
  | Adopting
  | Greeting inner_call
  | GreetingNotice initialize_result
  | Answered "backend_error + json"
  | Joined "backend_error + initialize_result"

record http_sys =
  hy_backend :: http_backend
  hy_lock :: "nat option"
  hy_tasks :: "(nat \<times> http_op \<times> http_pc) list"
  hy_posts :: "(nat \<times> post) list"
  hy_renewals :: "(nat \<times> u64) list"

definition http_sys_new :: "http_backend \<Rightarrow> http_sys" where
  "http_sys_new hb = \<lparr>hy_backend = hb, hy_lock = None, hy_tasks = [], hy_posts = [], hy_renewals = []\<rparr>"

definition goto :: "nat \<Rightarrow> http_op \<Rightarrow> http_pc \<Rightarrow> http_sys \<Rightarrow> http_sys" where
  "goto k op pc sys = sys\<lparr>hy_tasks := AList.update k (op, pc) (hy_tasks sys)\<rparr>"

definition log_post :: "nat \<Rightarrow> inner_call \<Rightarrow> http_sys \<Rightarrow> http_sys" where
  "log_post k ic sys = sys\<lparr>hy_posts := hy_posts sys @ [(k, call_post (hy_backend sys) ic)]\<rparr>"

definition begin_call ::
  "('n, 'r) client_lib \<Rightarrow> nat \<Rightarrow> http_op \<Rightarrow> (inner_call \<Rightarrow> http_pc) \<Rightarrow> string \<Rightarrow> json option \<Rightarrow> http_sys \<Rightarrow> http_sys" where
  "begin_call lib k op at m params sys =
     (let (ic, hb) = begin_inner lib m params True (hy_backend sys)
      in log_post k ic (goto k op (at ic) (sys\<lparr>hy_backend := hb\<rparr>)))"

text \<open>The last part of \<open>list_tools\<close>: the annotations of the tools just listed.\<close>

definition note_tools :: "('n, 'r) client_lib \<Rightarrow> http_op \<Rightarrow> backend_error + json \<Rightarrow> http_backend \<Rightarrow> http_backend" where
  "note_tools lib op r hb =
     (case (op, r) of
        (ListTools, Inr v) \<Rightarrow>
          (case Option.bind (get_key v ''tools'') as_array of
             Some ts \<Rightarrow>
               (case read_tools lib ts of
                  Inr tools \<Rightarrow> hb\<lparr>hb_param_headers :=
                    filter (\<lambda>(n, paths). paths \<noteq> []) (map (\<lambda>t. (td_name t, param_header_paths (td_input_schema t))) tools)\<rparr>
                | Inl e \<Rightarrow> hb)
           | None \<Rightarrow> hb)
      | _ \<Rightarrow> hb)"

definition answer :: "('n, 'r) client_lib \<Rightarrow> nat \<Rightarrow> http_op \<Rightarrow> backend_error + json \<Rightarrow> http_sys \<Rightarrow> http_sys" where
  "answer lib k op r sys = goto k op (Answered r) (sys\<lparr>hy_backend := note_tools lib op r (hy_backend sys)\<rparr>)"

definition first_ends :: "('n, 'r) client_lib \<Rightarrow> nat \<Rightarrow> http_op \<Rightarrow> u64 \<Rightarrow> failure + json \<Rightarrow> http_sys \<Rightarrow> http_sys" where
  "first_ends lib k op seen r sys =
     (case r of
        Inr v \<Rightarrow> answer lib k op (Inr v) sys
      | Inl f \<Rightarrow>
          (if fl_session_lost f = None \<or> fst (op_call op) = ''initialize'' \<or> modern_version (snd (op_call op)) \<noteq> None
           then answer lib k op (Inl (fl_error f)) sys
           else goto k op (LockWait seen (fl_error f)) sys))"

definition handshake_result :: "('n, 'r) client_lib \<Rightarrow> failure + json \<Rightarrow> backend_error + initialize_result" where
  "handshake_result lib r =
     (case r of
        Inl f \<Rightarrow> Inl (fl_error f)
      | Inr result \<Rightarrow>
          (case initialize_result_from_value result of
             None \<Rightarrow> Inl (backend_error_new Protocol (''bad init result: '' @ shape_msg (cl_codec lib) result))
           | Some init \<Rightarrow> Inr init))"

text \<open>The end of a re-initialisation: the epoch moves on in any case, and the lock is released.\<close>

definition renewal_ends ::
  "('n, 'r) client_lib \<Rightarrow> nat \<Rightarrow> http_op \<Rightarrow> backend_error \<Rightarrow> string option \<Rightarrow> backend_error + initialize_result \<Rightarrow> http_sys \<Rightarrow> http_sys" where
  "renewal_ends lib k op err stale outcome sys =
     (let hb = hy_backend sys; hb2 = hb\<lparr>hb_epoch := hb_epoch hb + 1\<rparr> in
      case outcome of
        Inr init \<Rightarrow>
          begin_call lib k op Second (fst (op_call op)) (snd (op_call op))
            (sys\<lparr>hy_backend := hb2\<lparr>hb_init := Some init, hb_tools_refresh := True\<rparr>, hy_lock := None\<rparr>)
      | Inl e \<Rightarrow>
          answer lib k op (Inl err)
            (sys\<lparr>hy_backend := (if hb_session_id hb2 = None then hb2\<lparr>hb_session_id := stale\<rparr> else hb2), hy_lock := None\<rparr>))"

definition notify :: "('n, 'r) client_lib \<Rightarrow> nat \<Rightarrow> http_sys \<Rightarrow> http_sys" where
  "notify lib k sys = sys\<lparr>hy_posts := hy_posts sys @ [(k, initialized_post lib (hy_backend sys))]\<rparr>"

definition inner_done :: "('n, 'r) client_lib \<Rightarrow> nat \<Rightarrow> http_op \<Rightarrow> http_pc \<Rightarrow> failure + json \<Rightarrow> http_sys \<Rightarrow> http_sys" where
  "inner_done lib k op pc r sys =
     (case pc of
        First seen ic \<Rightarrow> first_ends lib k op seen r sys
      | Renewing err stale ic \<Rightarrow>
          (case handshake_result lib r of
             Inl e \<Rightarrow> renewal_ends lib k op err stale (Inl e) sys
           | Inr init \<Rightarrow> notify lib k (goto k op (Announcing err stale init) sys))
      | Second ic \<Rightarrow> answer lib k op (case r of Inr v \<Rightarrow> Inr v | Inl f \<Rightarrow> Inl (fl_error f)) sys
      | Greeting ic \<Rightarrow>
          (case handshake_result lib r of
             Inl e \<Rightarrow> goto k op (Joined (Inl e)) sys
           | Inr init \<Rightarrow> notify lib k (goto k op (GreetingNotice init) sys))
      | _ \<Rightarrow> sys)"

fun inner_of :: "http_pc \<Rightarrow> inner_call option" where
  "inner_of (First seen ic) = Some ic"
| "inner_of (Renewing err stale ic) = Some ic"
| "inner_of (Second ic) = Some ic"
| "inner_of (Greeting ic) = Some ic"
| "inner_of pc = None"

fun with_inner :: "http_pc \<Rightarrow> inner_call \<Rightarrow> http_pc" where
  "with_inner (First seen ic0) ic = First seen ic"
| "with_inner (Renewing err stale ic0) ic = Renewing err stale ic"
| "with_inner (Second ic0) ic = Second ic"
| "with_inner (Greeting ic0) ic = Greeting ic"
| "with_inner pc ic = pc"

definition move_inner ::
  "('n, 'r) client_lib \<Rightarrow> nat \<Rightarrow> http_op \<Rightarrow> http_pc \<Rightarrow> inner_next \<times> http_backend \<Rightarrow> http_sys \<Rightarrow> http_sys" where
  "move_inner lib k op pc nx sys =
     (let sys1 = sys\<lparr>hy_backend := snd nx\<rparr> in
      case fst nx of
        Ends r \<Rightarrow> inner_done lib k op pc r sys1
      | Waits ic \<Rightarrow>
          (let sys2 = goto k op (with_inner pc ic) sys1
           in if ic_phase ic = Retrying then log_post k ic sys2 else sys2))"

section \<open>The transition system\<close>

datatype http_event =
    Enter nat http_op
  | Proceed nat
  | ReplyIn nat "(bool \<times> string) + downstream_reply"
  | TokenIn nat "backend_error + string"
  | LockGranted nat
  | NoticeDone nat
  | AdoptDone nat "string option"
  | Disconnected
  | RefreshTaken

definition enter :: "('n, 'r) client_lib \<Rightarrow> nat \<Rightarrow> http_op \<Rightarrow> http_sys \<Rightarrow> http_sys" where
  "enter lib k op sys =
     (let hb = hy_backend sys in
      if op = OpenConnection then
        (if hb_connected hb then
           goto k op (Joined (case hb_init hb of
               Some i \<Rightarrow> Inr i | None \<Rightarrow> Inl (backend_error_new Internal ''no cached init result''))) sys
         else if hb_oauth hb = None then begin_call lib k op Greeting ''initialize'' (Some initialize_params) sys
         else goto k op Adopting sys)
      else (case check_connected hb of
              Inl e \<Rightarrow> goto k op (Answered (Inl e)) sys
            | Inr u \<Rightarrow> goto k op (Entered (hb_epoch hb)) sys))"

text \<open>Past \<open>reinit_lock\<close>: the epoch says whether another caller already re-initialised.\<close>

definition lock_granted :: "('n, 'r) client_lib \<Rightarrow> nat \<Rightarrow> http_op \<Rightarrow> u64 \<Rightarrow> backend_error \<Rightarrow> http_sys \<Rightarrow> http_sys" where
  "lock_granted lib k op seen err sys =
     (let hb = hy_backend sys in
      if hb_epoch hb \<noteq> seen then begin_call lib k op Second (fst (op_call op)) (snd (op_call op)) sys
      else begin_call lib k op (Renewing err (hb_session_id hb)) ''initialize'' (Some initialize_params)
             (sys\<lparr>hy_backend := hb\<lparr>hb_session_id := None\<rparr>, hy_lock := Some k, hy_renewals := hy_renewals sys @ [(k, seen)]\<rparr>))"

fun http_step :: "('n, 'r) client_lib \<Rightarrow> http_event \<Rightarrow> http_sys \<Rightarrow> http_sys option" where
  "http_step lib (Enter k op) sys =
     (if map_of (hy_tasks sys) k = None then Some (enter lib k op sys) else None)"
| "http_step lib (Proceed k) sys =
     (case map_of (hy_tasks sys) k of
        Some (op, Entered seen) \<Rightarrow> Some (begin_call lib k op (First seen) (fst (op_call op)) (snd (op_call op)) sys)
      | _ \<Rightarrow> None)"
| "http_step lib (ReplyIn k r) sys =
     (case map_of (hy_tasks sys) k of
        Some (op, pc) \<Rightarrow>
          (case inner_of pc of
             Some ic \<Rightarrow> (case ic_phase ic of
                 Fetching bytes status \<Rightarrow> None
               | _ \<Rightarrow> Some (move_inner lib k op pc (inner_reply lib ic r (hy_backend sys)) sys))
           | None \<Rightarrow> None)
      | None \<Rightarrow> None)"
| "http_step lib (TokenIn k token) sys =
     (case map_of (hy_tasks sys) k of
        Some (op, pc) \<Rightarrow>
          (case inner_of pc of
             Some ic \<Rightarrow> (case ic_phase ic of
                 Fetching bytes status \<Rightarrow> Some (move_inner lib k op pc (inner_token lib ic bytes status token (hy_backend sys)) sys)
               | _ \<Rightarrow> None)
           | None \<Rightarrow> None)
      | None \<Rightarrow> None)"
| "http_step lib (LockGranted k) sys =
     (case map_of (hy_tasks sys) k of
        Some (op, LockWait seen err) \<Rightarrow> (if hy_lock sys = None then Some (lock_granted lib k op seen err sys) else None)
      | _ \<Rightarrow> None)"
| "http_step lib (NoticeDone k) sys =
     (case map_of (hy_tasks sys) k of
        Some (op, Announcing err stale init) \<Rightarrow> Some (renewal_ends lib k op err stale (Inr init) sys)
      | Some (op, GreetingNotice init) \<Rightarrow>
          Some (goto k op (Joined (Inr init))
            (sys\<lparr>hy_backend := (hy_backend sys)\<lparr>hb_init := Some init, hb_connected := True\<rparr>\<rparr>))
      | _ \<Rightarrow> None)"
| "http_step lib (AdoptDone k token) sys =
     (case map_of (hy_tasks sys) k of
        Some (op, Adopting) \<Rightarrow>
          Some (begin_call lib k op Greeting ''initialize'' (Some initialize_params)
            (case token of
               Some t \<Rightarrow> sys\<lparr>hy_backend := rebuild_client_with_token lib t (hy_backend sys)\<rparr>
             | None \<Rightarrow> sys))
      | _ \<Rightarrow> None)"
| "http_step lib Disconnected sys = Some (sys\<lparr>hy_backend := (hy_backend sys)\<lparr>hb_connected := False\<rparr>\<rparr>)"
| "http_step lib RefreshTaken sys = Some (sys\<lparr>hy_backend := (hy_backend sys)\<lparr>hb_tools_refresh := False\<rparr>\<rparr>)"

end
