(* ===== verification/Hub_Http_Tasks_Facts.thy ===== *)
theory Hub_Http_Tasks_Facts
  imports Hub_Http_Tasks
begin

text \<open>
  Properties of concurrent callers of one HTTP backend: one handshake per lost session however many
  callers lost it, no caller left waiting, and that a caller that runs alone does what the sequential
  model of the backend does.
\<close>

section \<open>What an event changes\<close>

named_theorems http_simps

text \<open>What the lock is about: its holder, the epoch, and the log of re-initialisations.\<close>

definition lock_view :: "http_sys \<Rightarrow> nat option \<times> u64 \<times> (nat \<times> u64) list" where
  "lock_view sys = (hy_lock sys, hb_epoch (hy_backend sys), hy_renewals sys)"

fun renewing :: "http_pc \<Rightarrow> bool" where
  "renewing (Renewing err stale ic) = True"
| "renewing (Announcing err stale init) = True"
| "renewing pc = False"

fun renewed :: "http_pc \<Rightarrow> bool" where
  "renewed (Renewing err stale ic) = True"
| "renewed (Announcing err stale init) = True"
| "renewed (Second ic) = True"
| "renewed (Answered r) = True"
| "renewed pc = False"

fun phase_rank :: "inner_phase \<Rightarrow> nat" where
  "phase_rank Awaiting = 3"
| "phase_rank (Fetching bytes status) = 2"
| "phase_rank Retrying = 1"

fun pc_rank :: "http_pc \<Rightarrow> nat" where
  "pc_rank (Entered seen) = 12"
| "pc_rank (First seen ic) = 8 + phase_rank (ic_phase ic)"
| "pc_rank (LockWait seen err) = 8"
| "pc_rank (Renewing err stale ic) = 4 + phase_rank (ic_phase ic)"
| "pc_rank (Announcing err stale init) = 4"
| "pc_rank (Second ic) = phase_rank (ic_phase ic)"
| "pc_rank Adopting = 5"
| "pc_rank (Greeting ic) = 1 + phase_rank (ic_phase ic)"
| "pc_rank (GreetingNotice init) = 1"
| "pc_rank (Answered r) = 0"
| "pc_rank (Joined r) = 0"

fun progress :: "http_event \<Rightarrow> bool" where
  "progress (Enter k op) = False"
| "progress Disconnected = False"
| "progress RefreshTaken = False"
| "progress e = True"

lemma lock_view_iff:
  "lock_view sys = (l, n, rs) \<longleftrightarrow> hy_lock sys = l \<and> hb_epoch (hy_backend sys) = n \<and> hy_renewals sys = rs"
  by (auto simp: lock_view_def)

lemma lock_view_eq:
  "lock_view sys = lock_view sys1 \<longleftrightarrow>
     hy_lock sys = hy_lock sys1 \<and> hb_epoch (hy_backend sys) = hb_epoch (hy_backend sys1) \<and> hy_renewals sys = hy_renewals sys1"
  by (auto simp: lock_view_def)

lemma begin_inner_sel [http_simps]:
  "ic_phase (fst (begin_inner lib m params retry hb)) = Awaiting"
  "hb_epoch (snd (begin_inner lib m params retry hb)) = hb_epoch hb"
  by (simp_all add: begin_inner_def Let_def del: message_value.simps)

lemma note_tools_epoch [http_simps]: "hb_epoch (note_tools lib op r hb) = hb_epoch hb"
  by (auto simp: note_tools_def split: http_op.split sum.split option.split)

lemma goto_sel [http_simps]:
  "lock_view (goto k op pc sys) = lock_view sys" "hy_tasks (goto k op pc sys) = AList.update k (op, pc) (hy_tasks sys)"
  by (simp_all add: goto_def lock_view_def)

lemma log_sel [http_simps]:
  "lock_view (log_post k ic sys) = lock_view sys" "hy_tasks (log_post k ic sys) = hy_tasks sys"
  "lock_view (notify lib k sys) = lock_view sys" "hy_tasks (notify lib k sys) = hy_tasks sys"
  by (simp_all add: log_post_def notify_def lock_view_def)

lemma begin_call_sel [http_simps]:
  "lock_view (begin_call lib k op at m params sys) = lock_view sys"
  "hy_tasks (begin_call lib k op at m params sys) =
     AList.update k (op, at (fst (begin_inner lib m params True (hy_backend sys)))) (hy_tasks sys)"
  by (simp_all add: begin_call_def case_prod_beta http_simps) (simp add: lock_view_def http_simps)

lemma answer_sel [http_simps]:
  "lock_view (answer lib k op r sys) = lock_view sys"
  "hy_tasks (answer lib k op r sys) = AList.update k (op, Answered r) (hy_tasks sys)"
  by (simp_all add: answer_def http_simps) (simp add: lock_view_def http_simps)

lemma inner_epoch [http_simps]:
  "hb_epoch (snd (inner_reply lib ic r hb)) = hb_epoch hb"
  "hb_epoch (snd (inner_token lib ic bytes status token hb)) = hb_epoch hb"
  by (auto simp: inner_reply_def inner_token_def Let_def capture_session_def rebuild_client_with_token_def
      split: sum.split option.split)

lemma inner_reply_waits:
  "fst (inner_reply lib ic r hb) = Waits ic' \<Longrightarrow> (\<And>bytes status. ic_phase ic \<noteq> Fetching bytes status) \<Longrightarrow>
     phase_rank (ic_phase ic') < phase_rank (ic_phase ic)"
  by (cases "ic_phase ic") (auto simp: inner_reply_def Let_def split: sum.splits if_splits)

lemma inner_token_waits:
  "fst (inner_token lib ic bytes status token hb) = Waits ic' \<Longrightarrow> ic_phase ic = Fetching bytes' status' \<Longrightarrow>
     phase_rank (ic_phase ic') < phase_rank (ic_phase ic)"
  by (auto simp: inner_token_def split: sum.splits)

lemma phase_rank_pos [simp]: "0 < phase_rank p"
  by (cases p) auto

section \<open>The kinds of events\<close>

text \<open>A caller moves without touching the lock, takes it, or releases it; or something else happens.\<close>

inductive http_effect :: "http_event \<Rightarrow> http_sys \<Rightarrow> http_sys \<Rightarrow> bool" where
  aside: "\<not> progress e \<Longrightarrow> hy_tasks sys' = hy_tasks sys \<Longrightarrow> lock_view sys' = lock_view sys \<Longrightarrow> http_effect e sys sys'"
| entered: "\<not> progress e \<Longrightarrow> map_of (hy_tasks sys) k = None \<Longrightarrow> hy_tasks sys' = AList.update k (op, pc) (hy_tasks sys) \<Longrightarrow>
    \<not> renewing pc \<Longrightarrow> lock_view sys' = lock_view sys \<Longrightarrow> http_effect e sys sys'"
| moved: "map_of (hy_tasks sys) k = Some (op, pc) \<Longrightarrow> hy_tasks sys' = AList.update k (op, pc') (hy_tasks sys) \<Longrightarrow>
    pc_rank pc' < pc_rank pc \<Longrightarrow> renewing pc' = renewing pc \<Longrightarrow> renewed pc \<longrightarrow> renewed pc' \<Longrightarrow>
    lock_view sys' = lock_view sys \<Longrightarrow> http_effect e sys sys'"
| acquired: "map_of (hy_tasks sys) k = Some (op, LockWait seen err) \<Longrightarrow>
    hy_tasks sys' = AList.update k (op, Renewing err stale ic) (hy_tasks sys) \<Longrightarrow> ic_phase ic = Awaiting \<Longrightarrow>
    lock_view sys = (None, seen, rs) \<Longrightarrow> lock_view sys' = (Some k, seen, rs @ [(k, seen)]) \<Longrightarrow> http_effect e sys sys'"
| released: "map_of (hy_tasks sys) k = Some (op, pc) \<Longrightarrow> renewing pc \<Longrightarrow>
    hy_tasks sys' = AList.update k (op, pc') (hy_tasks sys) \<Longrightarrow> pc_rank pc' < pc_rank pc \<Longrightarrow> \<not> renewing pc' \<Longrightarrow> renewed pc' \<Longrightarrow>
    lock_view sys = (l, n, rs) \<Longrightarrow> lock_view sys' = (None, n + 1, rs) \<Longrightarrow> http_effect e sys sys'"

lemma renewal_ends_sel:
  "lock_view sys = (l, n, rs) \<Longrightarrow> lock_view (renewal_ends lib k op err stale outcome sys) = (None, n + 1, rs)"
  "\<exists>pc'. hy_tasks (renewal_ends lib k op err stale outcome sys) = AList.update k (op, pc') (hy_tasks sys) \<and>
     \<not> renewing pc' \<and> renewed pc' \<and> pc_rank pc' \<le> 3"
  by (auto simp: renewal_ends_def Let_def http_simps split: sum.split) (auto simp: lock_view_def)

lemma effect_renewal_ends:
  assumes "map_of (hy_tasks sys) k = Some (op, pc)" and "renewing pc" and "4 \<le> pc_rank pc"
    and "hy_tasks sys1 = hy_tasks sys" and "lock_view sys1 = lock_view sys"
  shows "http_effect e sys (renewal_ends lib k op err stale outcome sys1)"
proof -
  obtain l n rs where v: "lock_view sys = (l, n, rs)" by (metis prod_cases3)
  obtain pc' where "hy_tasks (renewal_ends lib k op err stale outcome sys1) = AList.update k (op, pc') (hy_tasks sys)"
      "\<not> renewing pc'" "renewed pc'" "pc_rank pc' \<le> 3"
    using renewal_ends_sel(2) [of lib k op err stale outcome sys1] assms(4) by auto
  with assms renewal_ends_sel(1) [of sys1 l n rs lib k op err stale outcome] v show ?thesis
    by (intro released [of sys k op pc _ pc' l n rs]) auto
qed

lemma effect_inner_done:
  assumes k: "map_of (hy_tasks sys) k = Some (op, pc)" and "inner_of pc = Some ic"
    and t: "hy_tasks sys1 = hy_tasks sys" and v: "lock_view sys1 = lock_view sys"
  shows "http_effect e sys (inner_done lib k op pc r sys1)"
proof (cases pc)
  case (Renewing err stale ic')
  show ?thesis
  proof (cases "handshake_result lib r")
    case (Inl x)
    have "http_effect e sys (renewal_ends lib k op err stale (Inl x) sys1)"
      by (rule effect_renewal_ends [OF k _ _ t v]) (simp_all add: Renewing)
    with Inl show ?thesis by (simp add: inner_done_def Renewing)
  next
    case (Inr init)
    with Renewing t v k show ?thesis
      by (intro moved [of sys k op pc _ "Announcing err stale init"]) (simp_all add: inner_done_def http_simps)
  qed
next
  case (First seen ic')
  then show ?thesis using k t v
    by (cases r; cases "case r of Inl f \<Rightarrow> fl_session_lost f = None \<or> fst (op_call op) = ''initialize'' \<or> modern_version (snd (op_call op)) \<noteq> None | _ \<Rightarrow> True")
      (auto simp: inner_done_def first_ends_def http_simps intro!: moved [of sys k op pc])
next
  case (Second ic')
  then show ?thesis using k t v
    by (auto simp: inner_done_def http_simps intro!: moved [of sys k op pc])
next
  case (Greeting ic')
  then show ?thesis using k t v
    by (auto simp: inner_done_def http_simps intro!: moved [of sys k op pc] split: sum.split)
qed (use assms in auto)

lemma effect_move_inner:
  assumes k: "map_of (hy_tasks sys) k = Some (op, pc)" and i: "inner_of pc = Some ic"
    and n: "hb_epoch (snd nx) = hb_epoch (hy_backend sys)"
    and r: "\<And>ic'. fst nx = Waits ic' \<Longrightarrow> phase_rank (ic_phase ic') < phase_rank (ic_phase ic)"
  shows "http_effect e sys (move_inner lib k op pc nx sys)"
proof (cases "fst nx")
  case (Ends x)
  have "http_effect e sys (inner_done lib k op pc x (sys\<lparr>hy_backend := snd nx\<rparr>))"
    by (rule effect_inner_done [OF k i]) (simp_all add: lock_view_def n)
  with Ends show ?thesis by (simp add: move_inner_def)
next
  case (Waits ic')
  let ?sys1 = "sys\<lparr>hy_backend := snd nx\<rparr>"
  have "hy_tasks (move_inner lib k op pc nx sys) = AList.update k (op, with_inner pc ic') (hy_tasks sys)"
      "lock_view (move_inner lib k op pc nx sys) = lock_view ?sys1"
    by (simp_all add: move_inner_def Waits Let_def http_simps)
  moreover have "lock_view ?sys1 = lock_view sys" by (simp add: lock_view_def n)
  moreover have "pc_rank (with_inner pc ic') < pc_rank pc" "renewing (with_inner pc ic') = renewing pc"
      "renewed pc \<longrightarrow> renewed (with_inner pc ic')"
    using i r [OF Waits] by (cases pc; simp)+
  ultimately show ?thesis using k by (intro moved [of sys k op pc]) auto
qed

lemma enter_sel:
  "\<exists>pc. hy_tasks (enter lib k op sys) = AList.update k (op, pc) (hy_tasks sys) \<and> \<not> renewing pc \<and>
     lock_view (enter lib k op sys) = lock_view sys"
  by (auto simp: enter_def Let_def http_simps split: sum.split)

lemma http_step_effect:
  assumes "http_step lib e sys = Some sys'"
  shows "http_effect e sys sys'"
proof (cases e)
  case (Enter k op)
  with assms have k: "map_of (hy_tasks sys) k = None" and s: "sys' = enter lib k op sys" by (auto split: if_splits)
  from enter_sel [of lib k op sys] obtain pc where "hy_tasks sys' = AList.update k (op, pc) (hy_tasks sys)" "\<not> renewing pc"
      "lock_view sys' = lock_view sys" unfolding s by blast
  with k show ?thesis unfolding Enter by (intro entered) auto
next
  case (Proceed k)
  with assms obtain op seen where k: "map_of (hy_tasks sys) k = Some (op, Entered seen)"
      and "sys' = begin_call lib k op (First seen) (fst (op_call op)) (snd (op_call op)) sys"
    by (auto split: option.splits prod.splits http_pc.splits)
  then show ?thesis by (intro moved [OF k]) (auto simp: http_simps)
next
  case (ReplyIn k r)
  with assms obtain op pc ic where k: "map_of (hy_tasks sys) k = Some (op, pc)" and i: "inner_of pc = Some ic"
      and p: "\<And>bytes status. ic_phase ic \<noteq> Fetching bytes status"
      and s: "sys' = move_inner lib k op pc (inner_reply lib ic r (hy_backend sys)) sys"
    by (auto split: option.splits prod.splits inner_phase.splits)
  show ?thesis unfolding s
    by (rule effect_move_inner [OF k i _ inner_reply_waits [OF _ p]]) (simp_all add: http_simps)
next
  case (TokenIn k token)
  with assms obtain op pc ic bytes status where k: "map_of (hy_tasks sys) k = Some (op, pc)" and i: "inner_of pc = Some ic"
      and p: "ic_phase ic = Fetching bytes status"
      and s: "sys' = move_inner lib k op pc (inner_token lib ic bytes status token (hy_backend sys)) sys"
    by (auto split: option.splits prod.splits inner_phase.splits)
  show ?thesis unfolding s
    by (rule effect_move_inner [OF k i _ inner_token_waits [OF _ p]]) (simp_all add: http_simps)
next
  case (LockGranted k)
  with assms obtain op seen err where k: "map_of (hy_tasks sys) k = Some (op, LockWait seen err)" and l: "hy_lock sys = None"
      and s: "sys' = lock_granted lib k op seen err sys"
    by (auto split: option.splits prod.splits http_pc.splits if_splits)
  show ?thesis
  proof (cases "hb_epoch (hy_backend sys) = seen")
    case True
    have "lock_view sys' = (Some k, seen, hy_renewals sys @ [(k, seen)])"
      by (simp add: s lock_granted_def True Let_def http_simps) (simp add: lock_view_def True)
    with True l show ?thesis
      by (intro acquired [OF k]) (auto simp: s lock_granted_def Let_def http_simps lock_view_def)
  next
    case False
    then show ?thesis unfolding s by (intro moved [OF k]) (auto simp: lock_granted_def Let_def http_simps)
  qed
next
  case (NoticeDone k)
  with assms obtain op pc where k: "map_of (hy_tasks sys) k = Some (op, pc)" by (auto split: option.splits)
  show ?thesis
  proof (cases pc)
    case (Announcing err stale init)
    with NoticeDone assms k have s: "sys' = renewal_ends lib k op err stale (Inr init) sys" by simp
    show ?thesis unfolding s by (rule effect_renewal_ends [OF k]) (simp_all add: Announcing)
  next
    case (GreetingNotice init)
    with NoticeDone assms k show ?thesis
      by (intro moved [OF k]) (auto simp: goto_def lock_view_def)
  qed (use NoticeDone assms k in auto)
next
  case (AdoptDone k token)
  define sys1 where "sys1 = (case token of Some t \<Rightarrow> sys\<lparr>hy_backend := rebuild_client_with_token lib t (hy_backend sys)\<rparr> | None \<Rightarrow> sys)"
  from AdoptDone assms obtain op where k: "map_of (hy_tasks sys) k = Some (op, Adopting)"
      and s: "sys' = begin_call lib k op Greeting ''initialize'' (Some initialize_params) sys1"
    by (auto simp: sys1_def split: option.splits prod.splits http_pc.splits)
  have "hy_tasks sys1 = hy_tasks sys" "lock_view sys1 = lock_view sys"
    by (auto simp: sys1_def lock_view_def rebuild_client_with_token_def split: option.split)
  then show ?thesis unfolding s
    by (intro moved [OF k, of _ "Greeting (fst (begin_inner lib ''initialize'' (Some initialize_params) True (hy_backend sys1)))"])
      (simp_all add: http_simps)
qed (use assms in \<open>auto simp: lock_view_def intro!: aside\<close>)

section \<open>The invariant of the lock\<close>

text \<open>
  The lock is held exactly by the one caller that re-initialises; the callers that did so saw the
  consecutive epochs from the start \<open>n0\<close>, each caller once; the epoch counts those that are finished.
\<close>

definition http_inv :: "u64 \<Rightarrow> http_sys \<Rightarrow> bool" where
  "http_inv n0 sys \<longleftrightarrow>
     table (hy_tasks sys) \<and>
     (\<forall>k. hy_lock sys = Some k \<longleftrightarrow> (\<exists>op pc. map_of (hy_tasks sys) k = Some (op, pc) \<and> renewing pc)) \<and>
     map snd (hy_renewals sys) = map (\<lambda>n. n0 + of_nat n) [0 ..< length (hy_renewals sys)] \<and>
     hb_epoch (hy_backend sys) + (if hy_lock sys = None then 0 else 1) = n0 + of_nat (length (hy_renewals sys)) \<and>
     distinct (map fst (hy_renewals sys)) \<and>
     (\<forall>k \<in> fst ` set (hy_renewals sys). \<exists>op pc. map_of (hy_tasks sys) k = Some (op, pc) \<and> renewed pc)"

lemma http_inv_new: "http_inv (hb_epoch hb) (http_sys_new hb)"
  by (simp add: http_inv_def http_sys_new_def)

lemma http_inv_step:
  assumes inv: "http_inv n0 sys" and s: "http_step lib e sys = Some sys'"
  shows "http_inv n0 sys'"
  using http_step_effect [OF s]
proof cases
  case aside
  with inv show ?thesis by (simp add: http_inv_def lock_view_eq)
next
  case (entered k op pc)
  with inv show ?thesis by (fastforce simp: http_inv_def lock_view_eq map_of_update)
next
  case (moved k op pc pc')
  with inv show ?thesis by (fastforce simp: http_inv_def lock_view_eq map_of_update)
next
  case (acquired k op seen err stale ic rs)
  then have "k \<notin> fst ` set rs" using inv by (force simp: http_inv_def lock_view_iff)
  with acquired inv show ?thesis
    by (auto simp: http_inv_def lock_view_iff map_of_update)
next
  case (released k op pc pc' l n rs)
  then have "l = Some k" using inv by (auto simp: http_inv_def lock_view_iff)
  with released inv show ?thesis
    by (auto simp: http_inv_def lock_view_iff map_of_update)
qed

definition http_settled :: "http_sys \<Rightarrow> bool" where
  "http_settled sys \<longleftrightarrow> (\<forall>(k, op, pc) \<in> set (hy_tasks sys). pc_rank pc = 0)"

lemma pc_rank_zero: "pc_rank pc = 0 \<longleftrightarrow> (\<exists>r. pc = Answered r) \<or> (\<exists>r. pc = Joined r)"
  by (cases pc) auto

lemma http_enabled:
  assumes inv: "http_inv n0 sys" and u: "\<not> http_settled sys"
  shows "\<exists>e. progress e \<and> http_step lib e sys \<noteq> None"
proof -
  have lock: "hy_lock sys = Some k \<longleftrightarrow> (\<exists>op pc. map_of (hy_tasks sys) k = Some (op, pc) \<and> renewing pc)" for k
    using inv by (simp add: http_inv_def)
  have go: "\<exists>e. progress e \<and> http_step lib e sys \<noteq> None"
    if k: "map_of (hy_tasks sys) k = Some (op, pc)" and r: "pc_rank pc \<noteq> 0" and f: "\<And>seen err. pc \<noteq> LockWait seen err" for k op pc
  proof (cases "inner_of pc")
    case (Some ic)
    show ?thesis
    proof (cases "ic_phase ic")
      case (Fetching bytes status)
      with Some k show ?thesis by (intro exI [of _ "TokenIn k (Inr [])"]) simp
    qed (use Some k in \<open>auto intro!: exI [of _ "ReplyIn k (Inl (True, []))"]\<close>)
  next
    case None
    with r f consider seen where "pc = Entered seen" | err stale init where "pc = Announcing err stale init"
      | "pc = Adopting" | init where "pc = GreetingNotice init" by (cases pc) auto
    then show ?thesis
    proof cases
      case 1 with k show ?thesis by (intro exI [of _ "Proceed k"]) simp
    next
      case 2 with k show ?thesis by (intro exI [of _ "NoticeDone k"]) simp
    next
      case 3 with k show ?thesis by (intro exI [of _ "AdoptDone k None"]) simp
    next
      case 4 with k show ?thesis by (intro exI [of _ "NoticeDone k"]) simp
    qed
  qed
  from u obtain k op pc where "(k, op, pc) \<in> set (hy_tasks sys)" and r: "pc_rank pc \<noteq> 0"
    by (auto simp: http_settled_def)
  then have k: "map_of (hy_tasks sys) k = Some (op, pc)" using inv by (simp add: http_inv_def table_map_of)
  show ?thesis
  proof (cases "\<exists>seen err. pc = LockWait seen err")
    case False
    with go [OF k r] show ?thesis by auto
  next
    case True
    then obtain seen err where pc: "pc = LockWait seen err" by blast
    show ?thesis
    proof (cases "hy_lock sys")
      case None
      with pc k show ?thesis by (intro exI [of _ "LockGranted k"]) simp
    next
      case (Some j)
      with lock obtain op' pc' where j: "map_of (hy_tasks sys) j = Some (op', pc')" "renewing pc'" by blast
      have "pc_rank pc' \<noteq> 0" "pc' \<noteq> LockWait seen' err'" for seen' err' using j(2) by (cases pc'; simp)+
      with go [OF j(1)] show ?thesis by blast
    qed
  qed
qed

lemma http_rank_step:
  assumes inv: "http_inv n0 sys" and p: "progress e" and s: "http_step lib e sys = Some sys'"
  shows "total_rank (pc_rank \<circ> snd) (hy_tasks sys') < total_rank (pc_rank \<circ> snd) (hy_tasks sys)"
proof -
  have t: "table (hy_tasks sys)" using inv by (simp add: http_inv_def)
  show ?thesis using http_step_effect [OF s] p
    by cases (auto intro!: total_rank_less [OF t])
qed

interpretation http_callers: task_system "http_step lib" "http_inv n0" progress
    "\<lambda>sys. total_rank (pc_rank \<circ> snd) (hy_tasks sys)" http_settled for lib n0
  by unfold_locales (blast intro: http_inv_step http_rank_step http_enabled)+

section \<open>Properties\<close>

text \<open>
  C3: However many callers of one HTTP backend lose its session at the same time, and however they
  interleave with each other, with connects and with disconnects, the session is renewed once: the
  callers that re-initialise had read consecutive epochs, so no two of them the same one until the
  64-bit counter has gone round; no caller does so twice; and no two do so at the same time.
\<close>

theorem one_renewal_per_lost_session:
  assumes "reaches (http_step lib) (http_sys_new hb) sys"
  shows "map snd (hy_renewals sys) = map (\<lambda>n. hb_epoch hb + of_nat n) [0 ..< length (hy_renewals sys)] \<and>
    (length (hy_renewals sys) \<le> 2 ^ 64 \<longrightarrow> distinct (map snd (hy_renewals sys))) \<and>
    distinct (map fst (hy_renewals sys)) \<and>
    (\<forall>k k' op op' pc pc'. map_of (hy_tasks sys) k = Some (op, pc) \<and> map_of (hy_tasks sys) k' = Some (op', pc') \<and>
       renewing pc \<and> renewing pc' \<longrightarrow> k = k')"
proof -
  have inv: "http_inv (hb_epoch hb) sys" by (rule http_callers.inv_reaches [OF http_inv_new assms])
  then have r: "map snd (hy_renewals sys) = map (\<lambda>n. hb_epoch hb + of_nat n) [0 ..< length (hy_renewals sys)]"
    by (simp add: http_inv_def)
  have "distinct (map (\<lambda>n. hb_epoch hb + of_nat n :: u64) [0 ..< l])" if "l \<le> 2 ^ 64" for l
  proof -
    have "inj_on (\<lambda>n. hb_epoch hb + of_nat n :: u64) {0 ..< l}"
    proof (rule inj_onI)
      fix x y
      assume xy: "x \<in> {0 ..< l}" "y \<in> {0 ..< l}" "hb_epoch hb + of_nat x = hb_epoch hb + of_nat y"
      then have "unat (of_nat x :: u64) = unat (of_nat y :: u64)" by simp
      moreover have "unat (of_nat z :: u64) = z" if "z < l" for z
        by (rule of_nat_inverse [OF refl]) (use that \<open>l \<le> 2 ^ 64\<close> in simp)
      ultimately show "x = y" using xy(1,2) by (metis atLeastLessThan_iff)
    qed
    then show ?thesis by (simp add: distinct_map)
  qed
  note distinct_epochs = this
  show ?thesis
  proof (intro conjI allI impI)
    show "distinct (map snd (hy_renewals sys))" if "length (hy_renewals sys) \<le> 2 ^ 64"
      unfolding r by (rule distinct_epochs [OF that])
    show "distinct (map fst (hy_renewals sys))" using inv by (simp only: http_inv_def)
    fix k k' op op' pc pc'
    assume *: "map_of (hy_tasks sys) k = Some (op, pc) \<and> map_of (hy_tasks sys) k' = Some (op', pc') \<and> renewing pc \<and> renewing pc'"
    have lock: "hy_lock sys = Some j \<longleftrightarrow> (\<exists>op pc. map_of (hy_tasks sys) j = Some (op, pc) \<and> renewing pc)" for j
      using inv by (simp add: http_inv_def)
    with * have "hy_lock sys = Some k" "hy_lock sys = Some k'" by blast+
    then show "k = k'" by simp
  qed (rule r)
qed


section \<open>A sample run\<close>

text \<open>Two callers find the session gone; the first re-initialises, the second only sends again.\<close>

definition lost_backend :: http_backend where
  "lost_backend = sample_http\<lparr>hb_connected := True, hb_session_id := Some ''gone''\<rparr>"

definition sample_answer :: "nat \<Rightarrow> string option \<Rightarrow> (bool \<times> string) + downstream_reply" where
  "sample_answer status sid = Inr \<lparr>dr_status = status, dr_www_authenticate = None, dr_session_id = sid, dr_body = Inr ''r0''\<rparr>"

definition two_losers :: "http_event list" where
  "two_losers = [Enter 1 ListTools, Enter 2 HealthCheck, Proceed 1, Proceed 2,
     ReplyIn 1 (sample_answer 404 None), ReplyIn 2 (sample_answer 404 None),
     LockGranted 2, ReplyIn 2 (sample_answer 200 (Some ''new'')), NoticeDone 2, LockGranted 1]"

lemma two_losers_run:
  "map_option (\<lambda>sys. (hy_renewals sys, hy_lock sys, hb_session_id (hy_backend sys), map (\<lambda>(k, p). (k, session_of p)) (hy_posts sys)))
     (run_events (http_step sample_client) two_losers (http_sys_new lost_backend)) =
   Some ([(2, 0)], None, Some ''new'', [(1, Some ''gone''), (2, Some ''gone''), (2, None), (2, Some ''new''), (2, Some ''new''), (1, Some ''new'')])"
  by code_simp

text \<open>
  A reply that was on its way when the session was renewed puts the lost session back: the id of a
  response is kept whatever session its request was sent under.
\<close>

theorem late_reply_restores_lost_session:
  "map_option (\<lambda>sys. (hb_epoch (hy_backend sys), hb_session_id (hy_backend sys)))
     (run_events (http_step sample_client)
       [Enter 1 ListTools, Enter 2 HealthCheck, Proceed 1, Proceed 2, ReplyIn 1 (sample_answer 404 None), LockGranted 1,
        ReplyIn 1 (sample_answer 200 (Some ''new'')), NoticeDone 1, ReplyIn 2 (sample_answer 200 (Some ''gone''))]
       (http_sys_new lost_backend)) = Some (1, Some ''gone'')"
  by code_simp

theorem one_renewal_per_lost_session_witness:
  "\<exists>sys. run_events (http_step sample_client) two_losers (http_sys_new lost_backend) = Some sys \<and>
     length (hy_renewals sys) = 1 \<and> distinct (map snd (hy_renewals sys)) \<and> hy_renewals sys = [(2, 0)]"
proof -
  from two_losers_run obtain sys where s: "run_events (http_step sample_client) two_losers (http_sys_new lost_backend) = Some sys"
      and r: "hy_renewals sys = [(2, 0)]" by auto
  from one_renewal_per_lost_session [OF run_events_reaches [OF reaches_start s]] s r show ?thesis by auto
qed


end
