(* ===== verification/Hub_Http_Sequential.thy ===== *)
theory Hub_Http_Sequential
  imports Hub_Http_Tasks_Facts
begin

text \<open>
  The two models of the HTTP backend agree: the sequential \<open>send_request\<close>, which takes a request as one
  step, is the concurrent transition system when only one caller runs.  The token manager is outside of
  the transition system, so the two backends agree but for their managers.
\<close>

section \<open>Backends that agree\<close>


definition same_but_oauth :: "http_backend \<Rightarrow> http_backend \<Rightarrow> bool" where
  "same_but_oauth a b \<longleftrightarrow> a = b\<lparr>hb_oauth := hb_oauth a\<rparr> \<and> (hb_oauth a = None \<longleftrightarrow> hb_oauth b = None)"

lemma same_iff: "same_but_oauth a b \<longleftrightarrow>
    hb_def a = hb_def b \<and> hb_url a = hb_url b \<and> hb_bearer a = hb_bearer b \<and> hb_init a = hb_init b \<and>
    hb_connected a = hb_connected b \<and> hb_counter a = hb_counter b \<and> hb_daemon a = hb_daemon b \<and>
    hb_session_id a = hb_session_id b \<and> hb_param_headers a = hb_param_headers b \<and> hb_epoch a = hb_epoch b \<and>
    hb_tools_refresh a = hb_tools_refresh b \<and> (hb_oauth a = None \<longleftrightarrow> hb_oauth b = None)"
  by (cases a, cases b) (auto simp: same_but_oauth_def)

lemma same_refl [simp]: "same_but_oauth a a"
  by (simp add: same_iff)

lemma same_headers: "same_but_oauth a b \<Longrightarrow> modern_headers lib a m params = modern_headers lib b m params"
  by (simp add: same_iff modern_headers_def tool_headers_def Let_def split: option.split)

lemma same_keeps:
  "same_but_oauth a b \<Longrightarrow> same_but_oauth (capture_session sid a) (capture_session sid b)"
  "same_but_oauth a b \<Longrightarrow> same_but_oauth (rebuild_client_with_token lib t a) (rebuild_client_with_token lib t b)"
  by (auto simp: same_iff capture_session_def rebuild_client_with_token_def split: option.split)

lemma same_id: "same_but_oauth a b \<Longrightarrow> hb_id a = hb_id b"
  by (simp add: same_iff hb_id_def)

lemma discover_same: "discover_on_401 lib resp (hb, w) = (hb', w') \<Longrightarrow> same_but_oauth hb hb'"
  by (auto simp: discover_on_401_def same_iff split: option.splits if_splits prod.splits)

text \<open>The sequential operations in terms of what comes back.\<close>

lemma http_post_run:
  assumes "http_post lib body extra sid (hb, w) = (r, hb', w')"
  obtains a where "r = post_outcome hb a" and "same_but_oauth hb hb'"
proof -
  let ?p = "\<lparr>po_url = hb_url hb, po_bearer = hb_bearer hb,
      po_headers = [(''content-type'', APPLICATION_JSON), (''accept'', APPLICATION_JSON @ '', '' @ SSE_CONTENT_TYPE)] @
        extra @ session_field sid, po_body = body\<rparr>"
  obtain a n where s: "cl_send lib ?p (ow_net w) = (a, n)" by fastforce
  show thesis
  proof (cases a)
    case (Inl x)
    with assms s show thesis by (intro that [of a]) (auto simp: http_post_def Let_def post_outcome_def split: prod.splits)
  next
    case (Inr resp)
    obtain hb1 w1 where d: "discover_on_401 lib resp (hb, w\<lparr>ow_net := n\<rparr>) = (hb1, w1)" by fastforce
    with assms s Inr have "r = post_outcome hb a" "hb' = hb1"
      by (auto simp: http_post_def Let_def post_outcome_def split: sum.splits)
    with discover_same [OF d] show thesis by (intro that [of a]) auto
  qed
qed

lemma final_reply_eq: "final_reply lib ss bytes status (hb, w) = (final_result lib ss bytes status hb, hb, w)"
  by (simp add: final_reply_def final_result_def)

lemma authorized_retry_eq:
  "authorized_retry lib body extra ss s =
     (case http_post lib body extra ss s of
        (Inl e, s') \<Rightarrow> (Inl (plain_failure e), s')
      | (Inr (bytes, status, sid), hb, w) \<Rightarrow> (retry_result lib bytes status hb, capture_session sid hb, w))"
  by (simp add: authorized_retry_def retry_result_def split: sum.split prod.split)

lemma same_results:
  assumes "same_but_oauth a b"
  shows "post_outcome a r = post_outcome b r" "final_result lib ss bytes status a = final_result lib ss bytes status b"
    "retry_result lib bytes status a = retry_result lib bytes status b"
  using same_id [OF assms] by (simp_all add: post_outcome_def final_result_def retry_result_def split: sum.split prod.split)

lemma capture_id [simp]: "hb_id (capture_session sid hb) = hb_id hb"
  by (simp add: capture_session_def hb_id_def split: option.split)

lemma capture_results [simp]:
  "final_result lib ss bytes status (capture_session sid hb) = final_result lib ss bytes status hb"
  "retry_result lib bytes status (capture_session sid hb) = retry_result lib bytes status hb"
  by (simp_all add: final_result_def retry_result_def)

lemma begin_call_backend: "hy_backend (begin_call lib k op at m params sys) = snd (begin_inner lib m params True (hy_backend sys))"
  "hy_lock (begin_call lib k op at m params sys) = hy_lock sys"
  by (simp_all add: begin_call_def case_prod_beta log_post_def goto_def)

lemma move_waits:
  assumes "fst nx = Waits ic'"
  shows "hy_backend (move_inner lib k op pc nx sys) = snd nx" "hy_lock (move_inner lib k op pc nx sys) = hy_lock sys"
    "hy_tasks (move_inner lib k op pc nx sys) = AList.update k (op, with_inner pc ic') (hy_tasks sys)"
  using assms by (simp_all add: move_inner_def Let_def log_post_def goto_def)

lemma move_ends: "fst nx = Ends r \<Longrightarrow> move_inner lib k op pc nx sys = inner_done lib k op pc r (sys\<lparr>hy_backend := snd nx\<rparr>)"
  by (simp add: move_inner_def)

section \<open>One request\<close>

text \<open>The rest of a run, from where the call stands: the events, and the state when the request ends.\<close>

definition inner_runs :: "('n, 'r) client_lib \<Rightarrow> nat \<Rightarrow> http_op \<Rightarrow> (inner_call \<Rightarrow> http_pc) \<Rightarrow> http_sys \<Rightarrow> failure + json \<Rightarrow> http_backend \<Rightarrow> bool" where
  "inner_runs lib k op at sys r hb' \<longleftrightarrow>
     (\<exists>es ic sys1. list_all progress es \<and> run_events (http_step lib) es sys = Some (inner_done lib k op (at ic) r sys1) \<and>
        same_but_oauth (hy_backend sys1) hb' \<and> hy_lock sys1 = hy_lock sys \<and>
        (\<forall>j. j \<noteq> k \<longrightarrow> map_of (hy_tasks sys1) j = map_of (hy_tasks sys) j))"

lemma inner_runs_end:
  assumes "progress e" and "http_step lib e sys = Some (move_inner lib k op (at ic) nx sys)"
    and "fst nx = Ends r" and "same_but_oauth (snd nx) hb'"
  shows "inner_runs lib k op at sys r hb'"
  unfolding inner_runs_def
  by (rule exI [of _ "[e]"], rule exI [of _ ic], rule exI [of _ "sys\<lparr>hy_backend := snd nx\<rparr>"])
    (use assms in \<open>simp add: move_ends\<close>)

lemma inner_runs_step:
  assumes "progress e" and "http_step lib e sys = Some (move_inner lib k op (at ic) nx sys)"
    and "fst nx = Waits ic'" and "inner_runs lib k op at (move_inner lib k op (at ic) nx sys) r hb'"
  shows "inner_runs lib k op at sys r hb'"
proof -
  from assms(4) obtain es ic1 sys1 where r: "list_all progress es"
      "run_events (http_step lib) es (move_inner lib k op (at ic) nx sys) = Some (inner_done lib k op (at ic1) r sys1)"
      "same_but_oauth (hy_backend sys1) hb'" "hy_lock sys1 = hy_lock (move_inner lib k op (at ic) nx sys)"
      "\<forall>j. j \<noteq> k \<longrightarrow> map_of (hy_tasks sys1) j = map_of (hy_tasks (move_inner lib k op (at ic) nx sys)) j"
    unfolding inner_runs_def by blast
  then show ?thesis unfolding inner_runs_def
    by (intro exI [of _ "e # es"] exI [of _ ic1] exI [of _ sys1])
      (use assms(1,2) move_waits [OF assms(3), of lib k op "at ic" sys] in \<open>simp add: map_of_update\<close>)
qed

lemma reply_event:
  "map_of (hy_tasks sys) k = Some (op, pc) \<Longrightarrow> inner_of pc = Some ic \<Longrightarrow> ic_phase ic = Awaiting \<or> ic_phase ic = Retrying \<Longrightarrow>
     http_step lib (ReplyIn k a) sys = Some (move_inner lib k op pc (inner_reply lib ic a (hy_backend sys)) sys)"
  by auto

lemma token_in_event:
  "map_of (hy_tasks sys) k = Some (op, pc) \<Longrightarrow> inner_of pc = Some ic \<Longrightarrow> ic_phase ic = Fetching bytes status \<Longrightarrow>
     http_step lib (TokenIn k t) sys = Some (move_inner lib k op pc (inner_token lib ic bytes status t (hy_backend sys)) sys)"
  by auto

text \<open>The second post, after a token.\<close>

lemma retry_runs:
  assumes k: "map_of (hy_tasks sys) k = Some (op, at ic)" and i: "\<And>ic. inner_of (at ic) = Some ic"
    and p: "ic_phase ic = Retrying" and same: "same_but_oauth (hy_backend sys) hb"
    and seq: "authorized_retry lib (ic_body ic) (ic_headers ic) (ic_session ic) (hb, w) = (r, hb', w')"
  shows "inner_runs lib k op at sys r hb'"
proof -
  obtain q hb1 w1 where q: "http_post lib (ic_body ic) (ic_headers ic) (ic_session ic) (hb, w) = (q, hb1, w1)"
    by (metis prod_cases3)
  from http_post_run [OF q] obtain a where a: "q = post_outcome hb a" and h1: "same_but_oauth hb hb1" by blast
  let ?nx = "inner_reply lib ic a (hy_backend sys)"
  have s1: "same_but_oauth (hy_backend sys) hb1" using same h1 by (simp add: same_iff)
  have o: "post_outcome (hy_backend sys) a = q" using same_results(1) [OF same] a by simp
  have "fst ?nx = Ends r \<and> same_but_oauth (snd ?nx) hb'"
  proof (cases q)
    case (Inl e)
    with seq q s1 o show ?thesis by (auto simp: authorized_retry_eq inner_reply_def)
  next
    case (Inr x)
    then obtain bytes status sid where x: "q = Inr (bytes, status, sid)" by (metis prod_cases3)
    with seq q have "r = retry_result lib bytes status hb1" "hb' = capture_session sid hb1"
      by (auto simp: authorized_retry_eq)
    with s1 o x p same_keeps(1) [OF s1] same_results(3) [OF s1] show ?thesis
      by (simp add: inner_reply_def Let_def)
  qed
  then show ?thesis
    by (intro inner_runs_end [where at = at and e = "ReplyIn k a" and ic = ic and nx = ?nx]) (use reply_event [OF k i] p in auto)
qed

lemma inner_is_a_run:
  assumes i: "\<And>ic. inner_of (at ic) = Some ic" and n: "\<And>ic ic'. with_inner (at ic) ic' = at ic'"
    and same: "same_but_oauth (hy_backend sys) hb"
    and seq: "send_request_inner lib m params True (hb, w) = (r, hb', w')"
  shows "inner_runs lib k op at (begin_call lib k op at m params sys) r hb'"
proof -
  let ?hb0 = "hb\<lparr>hb_counter := hb_counter hb + 1\<rparr>"
  define sys0 where "sys0 = begin_call lib k op at m params sys"
  define ic where "ic = fst (begin_inner lib m params True (hy_backend sys))"
  have k: "map_of (hy_tasks sys0) k = Some (op, at ic)" by (simp add: sys0_def ic_def http_simps map_of_update)
  have s0: "same_but_oauth (hy_backend sys0) ?hb0"
    using same by (simp add: sys0_def begin_call_backend begin_inner_def Let_def same_iff del: message_value.simps)
  let ?body = "to_text (cl_codec lib) (message_value (Request (new_request (IdNumber (hb_counter hb)) m params)))"
  have c: "ic_body ic = ?body" "ic_headers ic = modern_headers lib ?hb0 m params" "ic_session ic = hb_session_id hb"
      "ic_phase ic = Awaiting" "ic_retry ic"
    using same same_headers [OF same, of lib m params] same_headers [OF s0, of lib m params]
    by (simp_all add: ic_def begin_inner_def Let_def same_iff del: message_value.simps)
  obtain q hb1 w1 where q: "http_post lib ?body (modern_headers lib ?hb0 m params) (hb_session_id hb) (?hb0, w) = (q, hb1, w1)"
    by (metis prod_cases3)
  from http_post_run [OF q] obtain a where a: "q = post_outcome ?hb0 a" and h1: "same_but_oauth ?hb0 hb1" by blast
  let ?nx = "inner_reply lib ic a (hy_backend sys0)"
  have s1: "same_but_oauth (hy_backend sys0) hb1" using s0 h1 by (simp add: same_iff)
  have o: "post_outcome (hy_backend sys0) a = q" using same_results(1) [OF s0] a by simp
  have e: "http_step lib (ReplyIn k a) sys0 = Some (move_inner lib k op (at ic) ?nx sys0)"
    using reply_event [OF k i] c by simp
  have "inner_runs lib k op at sys0 r hb'"
  proof (cases q)
    case (Inl x)
    with seq q s1 o show ?thesis
      by (intro inner_runs_end [where at = at and ic = ic, OF _ e])
        (auto simp: send_request_inner_def Let_def inner_reply_def simp del: message_value.simps)
  next
    case (Inr x)
    then obtain bytes status sid where x: "q = Inr (bytes, status, sid)" by (metis prod_cases3)
    let ?hb2 = "capture_session sid hb1"
    have s2: "same_but_oauth (capture_session sid (hy_backend sys0)) ?hb2" by (rule same_keeps(1) [OF s1])
    show ?thesis
    proof (cases "if status = 401 then hb_oauth ?hb2 else None")
      case None
      with seq q x have "r = final_result lib (hb_session_id hb) bytes status hb1" "hb' = ?hb2"
        by (simp_all add: send_request_inner_def Let_def final_reply_eq del: message_value.simps cong: if_cong)
      with None s2 x o c show ?thesis
        by (intro inner_runs_end [where at = at and ic = ic, OF _ e])
          (auto simp: inner_reply_def Let_def same_iff same_results(2) [OF s1] split: if_splits)
    next
      case (Some mgr)
      then have st: "status = 401" "hb_oauth ?hb2 = Some mgr" by (auto split: if_splits)
      obtain g mgr' w2 where g: "get_token (cl_oauth lib) (hb_id ?hb2) (hb_daemon ?hb2) (mgr, w1) = (g, mgr', w2)"
        by (metis prod_cases3)
      let ?ic1 = "ic\<lparr>ic_phase := Fetching bytes status\<rparr>"
      have nx: "?nx = (Waits ?ic1, capture_session sid (hy_backend sys0))"
        using o x c st s2 by (simp add: inner_reply_def Let_def same_iff)
      let ?sys1 = "move_inner lib k op (at ic) ?nx sys0"
      have m1: "map_of (hy_tasks ?sys1) k = Some (op, at ?ic1)" "hy_backend ?sys1 = capture_session sid (hy_backend sys0)"
        using move_waits [of ?nx ?ic1 lib k op "at ic" sys0] by (simp_all add: nx n map_of_update)
      have sg: "(r, hb', w') = (case g of
           Inr token \<Rightarrow> authorized_retry lib (ic_body ?ic1) (ic_headers ?ic1) (ic_session ?ic1)
              (rebuild_client_with_token lib token (?hb2\<lparr>hb_oauth := Some mgr'\<rparr>), w2)
         | Inl e \<Rightarrow> final_reply lib (hb_session_id hb) bytes status (?hb2\<lparr>hb_oauth := Some mgr'\<rparr>, w2))"
        using seq q x st g c
        by (simp add: send_request_inner_def Let_def del: message_value.simps cong: if_cong split: sum.splits)
      have s3: "same_but_oauth (hy_backend ?sys1) (?hb2\<lparr>hb_oauth := Some mgr'\<rparr>)"
        using s2 st m1(2) by (simp add: same_iff)
      let ?nx1 = "inner_token lib ?ic1 bytes status g (hy_backend ?sys1)"
      have e1: "http_step lib (TokenIn k g) ?sys1 = Some (move_inner lib k op (at ?ic1) ?nx1 ?sys1)"
        by (rule token_in_event [OF m1(1) i]) simp
      have "inner_runs lib k op at ?sys1 r hb'"
      proof (cases g)
        case (Inl x)
        with sg have "r = final_result lib (ic_session ?ic1) bytes status (?hb2\<lparr>hb_oauth := Some mgr'\<rparr>)"
            "hb' = ?hb2\<lparr>hb_oauth := Some mgr'\<rparr>" using c by (auto simp: final_reply_eq)
        with Inl s3 same_results(2) [OF s3] show ?thesis
          by (intro inner_runs_end [where at = at and ic = ?ic1, OF _ e1]) (simp_all add: inner_token_def)
      next
        case (Inr t)
        let ?sys2 = "move_inner lib k op (at ?ic1) ?nx1 ?sys1" and ?ic2 = "?ic1\<lparr>ic_phase := Retrying\<rparr>"
        have nx1: "fst ?nx1 = Waits ?ic2" "snd ?nx1 = rebuild_client_with_token lib t (hy_backend ?sys1)"
          by (simp_all add: inner_token_def Inr)
        have m2: "map_of (hy_tasks ?sys2) k = Some (op, at ?ic2)"
          using move_waits(3) [OF nx1(1), of lib k op "at ?ic1" ?sys1] by (simp add: n map_of_update)
        have s4: "same_but_oauth (hy_backend ?sys2) (rebuild_client_with_token lib t (?hb2\<lparr>hb_oauth := Some mgr'\<rparr>))"
          using move_waits(1) [OF nx1(1), of lib k op "at ?ic1" ?sys1] nx1(2) same_keeps(2) [OF s3] by simp
        have "inner_runs lib k op at ?sys2 r hb'"
          by (rule retry_runs [OF m2 i _ s4, where w = w2 and w' = w']) (use sg Inr in simp_all)
        then show ?thesis by (intro inner_runs_step [where at = at and ic = ?ic1, OF _ e1 nx1(1)]) simp_all
      qed
      then show ?thesis by (intro inner_runs_step [where at = at and ic = ic and ic' = ?ic1, OF _ e]) (simp_all add: nx)
    qed
  qed
  then show ?thesis by (simp add: sys0_def)
qed

section \<open>A whole call\<close>

text \<open>How a whole call comes out, when only its own caller runs.\<close>

definition call_runs :: "('n, 'r) client_lib \<Rightarrow> nat \<Rightarrow> http_op \<Rightarrow> http_sys \<Rightarrow> backend_error + json \<Rightarrow> http_backend \<Rightarrow> bool" where
  "call_runs lib k op sys r hb' \<longleftrightarrow>
     (\<exists>es sys'. list_all progress es \<and> run_events (http_step lib) es sys = Some sys' \<and>
        map_of (hy_tasks sys') k = Some (op, Answered r) \<and> same_but_oauth (hy_backend sys') hb' \<and> hy_lock sys' = None \<and>
        (\<forall>j. j \<noteq> k \<longrightarrow> map_of (hy_tasks sys') j = map_of (hy_tasks sys) j))"

lemma same_note: "same_but_oauth a b \<Longrightarrow> same_but_oauth (note_tools lib op r a) (note_tools lib op r b)"
  by (auto simp: note_tools_def same_iff split: http_op.split sum.split option.split)

lemma call_runs_answer:
  assumes "same_but_oauth (hy_backend sys) hb" and "hy_lock sys = None"
  shows "call_runs lib k op (answer lib k op r sys) r (note_tools lib op r hb)"
proof -
  have "hy_backend (answer lib k op r sys) = note_tools lib op r (hy_backend sys)" "hy_lock (answer lib k op r sys) = None"
    by (simp_all add: answer_def goto_def assms(2))
  then show ?thesis unfolding call_runs_def
    by (intro exI [of _ "[]"] exI [of _ "answer lib k op r sys"]) (simp add: http_simps map_of_update same_note [OF assms(1)])
qed

lemma call_runs_step:
  assumes "call_runs lib k op sys1 r hb'" and "list_all progress es" and "run_events (http_step lib) es sys = Some sys1"
    and "\<And>j. j \<noteq> k \<Longrightarrow> map_of (hy_tasks sys1) j = map_of (hy_tasks sys) j"
  shows "call_runs lib k op sys r hb'"
proof -
  from assms(1) obtain fs sys' where "list_all progress fs" "run_events (http_step lib) fs sys1 = Some sys'"
      "map_of (hy_tasks sys') k = Some (op, Answered r)" "same_but_oauth (hy_backend sys') hb'" "hy_lock sys' = None"
      "\<forall>j. j \<noteq> k \<longrightarrow> map_of (hy_tasks sys') j = map_of (hy_tasks sys1) j" unfolding call_runs_def by blast
  with assms(2-) show ?thesis unfolding call_runs_def
    by (intro exI [of _ "es @ fs"] exI [of _ sys']) (simp add: run_events_append)
qed

lemma call_runs_inner:
  assumes "inner_runs lib k op at sys r0 hb1"
    and "\<And>ic sys1. same_but_oauth (hy_backend sys1) hb1 \<Longrightarrow> hy_lock sys1 = hy_lock sys \<Longrightarrow>
        call_runs lib k op (inner_done lib k op (at ic) r0 sys1) r hb' \<and>
        (\<forall>j. j \<noteq> k \<longrightarrow> map_of (hy_tasks (inner_done lib k op (at ic) r0 sys1)) j = map_of (hy_tasks sys1) j)"
  shows "call_runs lib k op sys r hb'"
proof -
  from assms(1) obtain es ic sys1 where es: "list_all progress es"
      "run_events (http_step lib) es sys = Some (inner_done lib k op (at ic) r0 sys1)"
      "same_but_oauth (hy_backend sys1) hb1" "hy_lock sys1 = hy_lock sys"
      "\<forall>j. j \<noteq> k \<longrightarrow> map_of (hy_tasks sys1) j = map_of (hy_tasks sys) j" unfolding inner_runs_def by blast
  note d = assms(2) [OF es(3,4), of ic]
  show ?thesis
  proof (rule call_runs_step [OF conjunct1 [OF d] es(1,2)])
    show "map_of (hy_tasks (inner_done lib k op (at ic) r0 sys1)) j = map_of (hy_tasks sys) j" if "j \<noteq> k" for j
      using conjunct2 [OF d] es(5) that by simp
  qed
qed

text \<open>The last request of a call.\<close>

lemma second_runs:
  assumes "same_but_oauth (hy_backend sys) hb" and "hy_lock sys = None"
    and "send_request_inner lib (fst (op_call op)) (snd (op_call op)) True (hb, w) = (r0, hb', w')"
    and "r = (case r0 of Inr v \<Rightarrow> Inr v | Inl f \<Rightarrow> Inl (fl_error f))"
  shows "call_runs lib k op (begin_call lib k op Second (fst (op_call op)) (snd (op_call op)) sys) r (note_tools lib op r hb')"
proof (rule call_runs_inner)
  show "inner_runs lib k op Second (begin_call lib k op Second (fst (op_call op)) (snd (op_call op)) sys) r0 hb'"
    by (rule inner_is_a_run [OF _ _ assms(1,3)]) simp_all
next
  fix ic and sys1 :: http_sys
  assume "same_but_oauth (hy_backend sys1) hb'" "hy_lock sys1 = hy_lock (begin_call lib k op Second (fst (op_call op)) (snd (op_call op)) sys)"
  then show "call_runs lib k op (inner_done lib k op (Second ic) r0 sys1) r (note_tools lib op r hb') \<and>
      (\<forall>j. j \<noteq> k \<longrightarrow> map_of (hy_tasks (inner_done lib k op (Second ic) r0 sys1)) j = map_of (hy_tasks sys1) j)"
    using call_runs_answer [of sys1 hb' lib k op r]
    by (simp add: inner_done_def assms(2,4) begin_call_backend answer_sel map_of_update)
qed

text \<open>The re-initialisation and what follows it.\<close>

lemma handshake_cases:
  assumes "handshake lib s = (o', hb', w')"
  obtains r0 hb1 w1 where "send_request_inner lib ''initialize'' (Some initialize_params) True s = (r0, hb1, w1)"
    and "o' = handshake_result lib r0" and "hb' = hb1"
proof -
  obtain r0 hb1 w1 where i: "send_request_inner lib ''initialize'' (Some initialize_params) True s = (r0, hb1, w1)"
    by (metis prod_cases3)
  have "fst (snd (send_notification lib ''notifications/initialized'' None (hb1, w1))) = hb1"
    by (cases "send_notification lib ''notifications/initialized'' None (hb1, w1)") (auto dest!: notification_plain)
  with assms i have "o' = handshake_result lib r0" "hb' = hb1"
    by (auto simp: handshake_def handshake_result_def split: sum.splits option.splits)
  with i show thesis by (rule that)
qed

lemma renewal_runs:
  assumes k: "map_of (hy_tasks sys) k = Some (op, LockWait seen err)" and l: "hy_lock sys = None"
    and same: "same_but_oauth (hy_backend sys) hb" and pair: "cl_await_reinit lib = Pair"
    and seq: "(r, hb', w') = (case reinitialize lib seen (hb, w) of
          (Inl e, s2) \<Rightarrow> (Inl err, s2)
        | (Inr u, s2) \<Rightarrow> (case send_request_inner lib (fst (op_call op)) (snd (op_call op)) True s2 of
            (Inl f', s3) \<Rightarrow> (Inl (fl_error f'), s3) | (Inr v, s3) \<Rightarrow> (Inr v, s3)))"
  shows "call_runs lib k op sys r (note_tools lib op r hb')"
proof -
  have ep: "hb_epoch (hy_backend sys) = hb_epoch hb" using same by (simp add: same_iff)
  have g: "run_events (http_step lib) [LockGranted k] sys = Some (lock_granted lib k op seen err sys)"
    using k l by simp
  have oth: "map_of (hy_tasks (lock_granted lib k op seen err sys)) j = map_of (hy_tasks sys) j" if "j \<noteq> k" for j
    using that by (simp add: lock_granted_def Let_def http_simps map_of_update)
  have "call_runs lib k op (lock_granted lib k op seen err sys) r (note_tools lib op r hb')"
  proof (cases "hb_epoch hb = seen")
    case False
    obtain r0 hb1 w1 where i: "send_request_inner lib (fst (op_call op)) (snd (op_call op)) True (hb, w) = (r0, hb1, w1)"
      by (metis prod_cases3)
    with seq False pair have "r = (case r0 of Inr v \<Rightarrow> Inr v | Inl f \<Rightarrow> Inl (fl_error f))" "hb' = hb1"
      by (auto simp: reinitialize_def split: sum.splits)
    with second_runs [OF same l i] False ep show ?thesis by (simp add: lock_granted_def Let_def)
  next
    case True
    let ?hb0 = "hb\<lparr>hb_session_id := None\<rparr>" and ?stale = "hb_session_id (hy_backend sys)"
    let ?sys0 = "sys\<lparr>hy_backend := (hy_backend sys)\<lparr>hb_session_id := None\<rparr>, hy_lock := Some k, hy_renewals := hy_renewals sys @ [(k, seen)]\<rparr>"
    obtain out hb1 w1 where h: "handshake lib (?hb0, w) = (out, hb1, w1)" by (metis prod_cases3)
    from handshake_cases [OF h] obtain r0 w0 where i: "send_request_inner lib ''initialize'' (Some initialize_params) True (?hb0, w) = (r0, hb1, w0)"
        and out: "out = handshake_result lib r0" by metis
    let ?hb2 = "hb1\<lparr>hb_epoch := hb_epoch hb1 + 1\<rparr>"
    have s0: "same_but_oauth (hy_backend ?sys0) ?hb0" and st: "?stale = hb_session_id hb" using same by (simp_all add: same_iff)
    have lg: "lock_granted lib k op seen err sys = begin_call lib k op (Renewing err ?stale) ''initialize'' (Some initialize_params) ?sys0"
      using True ep by (simp add: lock_granted_def Let_def)
    have ends: "call_runs lib k op (renewal_ends lib k op err ?stale out sys1) r (note_tools lib op r hb')"
      if s1: "same_but_oauth (hy_backend sys1) hb1" for sys1
    proof (cases out)
      case (Inl e)
      with seq True pair h st have "r = Inl err" "hb' = (if hb_session_id ?hb2 = None then ?hb2\<lparr>hb_session_id := ?stale\<rparr> else ?hb2)"
        by (auto simp: reinitialize_def Let_def split: if_splits)
      with s1 Inl show ?thesis
        by (auto simp: renewal_ends_def Let_def same_iff intro!: call_runs_answer)
    next
      case (Inr init)
      let ?hb3 = "?hb2\<lparr>hb_init := Some init, hb_tools_refresh := True\<rparr>"
      obtain r2 hb3 w3 where i2: "send_request_inner lib (fst (op_call op)) (snd (op_call op)) True (?hb3, w1) = (r2, hb3, w3)"
        by (metis prod_cases3)
      with seq True pair h Inr have "r = (case r2 of Inr v \<Rightarrow> Inr v | Inl f \<Rightarrow> Inl (fl_error f))" "hb' = hb3"
        by (auto simp: reinitialize_def Let_def split: sum.splits)
      with Inr s1 show ?thesis
        by (auto simp: renewal_ends_def Let_def same_iff intro!: second_runs [OF _ _ i2])
    qed
    show ?thesis unfolding lg
    proof (rule call_runs_inner)
      show "inner_runs lib k op (Renewing err ?stale)
          (begin_call lib k op (Renewing err ?stale) ''initialize'' (Some initialize_params) ?sys0) r0 hb1"
        by (rule inner_is_a_run [OF _ _ s0 i]) simp_all
    next
      fix ic and sys1 :: http_sys
      assume s1: "same_but_oauth (hy_backend sys1) hb1"
      let ?done = "inner_done lib k op (Renewing err ?stale ic) r0 sys1"
      show "call_runs lib k op ?done r (note_tools lib op r hb') \<and>
          (\<forall>j. j \<noteq> k \<longrightarrow> map_of (hy_tasks ?done) j = map_of (hy_tasks sys1) j)"
      proof (cases "handshake_result lib r0")
        case (Inl e)
        with ends [OF s1] out renewal_ends_sel(2) [of lib k op err ?stale out sys1] show ?thesis
          by (auto simp: inner_done_def map_of_update)
      next
        case (Inr init)
        let ?sys2 = "notify lib k (goto k op (Announcing err ?stale init) sys1)"
        have d: "?done = ?sys2" by (simp add: inner_done_def Inr)
        have b: "hy_backend ?sys2 = hy_backend sys1" by (simp add: notify_def goto_def)
        have t: "hy_tasks ?sys2 = AList.update k (op, Announcing err ?stale init) (hy_tasks sys1)" by (simp add: http_simps)
        then have e: "run_events (http_step lib) [NoticeDone k] ?sys2 = Some (renewal_ends lib k op err ?stale (Inr init) ?sys2)"
          by (simp add: map_of_update)
        have "call_runs lib k op ?sys2 r (note_tools lib op r hb')"
        proof (rule call_runs_step [OF _ _ e])
          show "call_runs lib k op (renewal_ends lib k op err ?stale (Inr init) ?sys2) r (note_tools lib op r hb')"
            using ends [of ?sys2] b s1 out Inr by simp
          show "map_of (hy_tasks (renewal_ends lib k op err ?stale (Inr init) ?sys2)) j = map_of (hy_tasks ?sys2) j" if "j \<noteq> k" for j
            using renewal_ends_sel(2) [of lib k op err ?stale "Inr init" ?sys2] that by (auto simp: map_of_update)
        qed simp
        with d t show ?thesis by (simp add: map_of_update)
      qed
    qed
  qed
  then show ?thesis by (rule call_runs_step [OF _ _ g]) (simp_all add: oth)
qed

text \<open>
  C6: The sequential model of the HTTP backend is a scheduling of the concurrent one: when only one caller
  runs, it can return exactly the result of the sequential request, with the same effect on the backend
  (the token manager, which events stand for, aside), through sections of its own only, and it gives the
  lock back.
\<close>

theorem sequential_call_is_a_run:
  assumes "map_of (hy_tasks sys) k = Some (op, Entered (hb_epoch hb))" and "hy_lock sys = None"
    and "same_but_oauth (hy_backend sys) hb" and "cl_await_reinit lib = Pair"
    and "send_request lib (fst (op_call op)) (snd (op_call op)) True (hb, w) = (r, hb', w')"
  shows "\<exists>es sys'. list_all progress es \<and> run_events (http_step lib) es sys = Some sys' \<and>
    map_of (hy_tasks sys') k = Some (op, Answered r) \<and>
    same_but_oauth (hy_backend sys') (note_tools lib op r hb') \<and> hy_lock sys' = None \<and>
    (\<forall>j. j \<noteq> k \<longrightarrow> map_of (hy_tasks sys') j = map_of (hy_tasks sys) j)"
proof -
  let ?m = "fst (op_call op)" and ?p = "snd (op_call op)" and ?seen = "hb_epoch hb"
  obtain r0 hb1 w1 where i: "send_request_inner lib ?m ?p True (hb, w) = (r0, hb1, w1)" by (metis prod_cases3)
  let ?sys0 = "begin_call lib k op (First ?seen) ?m ?p sys"
  have p: "run_events (http_step lib) [Proceed k] sys = Some ?sys0" using assms(1) by simp
  have "call_runs lib k op ?sys0 r (note_tools lib op r hb')"
  proof (rule call_runs_inner)
    show "inner_runs lib k op (First ?seen) ?sys0 r0 hb1" by (rule inner_is_a_run [OF _ _ assms(3) i]) simp_all
  next
    fix ic and sys1 :: http_sys
    assume s1: "same_but_oauth (hy_backend sys1) hb1" and "hy_lock sys1 = hy_lock ?sys0"
    then have l1: "hy_lock sys1 = None" by (simp add: begin_call_backend assms(2))
    let ?done = "inner_done lib k op (First ?seen ic) r0 sys1"
    show "call_runs lib k op ?done r (note_tools lib op r hb') \<and>
        (\<forall>j. j \<noteq> k \<longrightarrow> map_of (hy_tasks ?done) j = map_of (hy_tasks sys1) j)"
    proof (cases "\<exists>f reason. r0 = Inl f \<and> fl_session_lost f = Some reason \<and> ?m \<noteq> ''initialize'' \<and> modern_version ?p = None")
      case False
      then have "r = (case r0 of Inr v \<Rightarrow> Inr v | Inl f \<Rightarrow> Inl (fl_error f)) \<and> hb' = hb1" and "?done = answer lib k op r sys1"
        using assms(5) i
        by (auto simp: send_request_def Let_def inner_done_def first_ends_def split: sum.splits option.splits if_splits)
      with call_runs_answer [OF s1 l1, of lib k op r] show ?thesis by (simp add: answer_sel map_of_update)
    next
      case True
      then obtain f reason where f: "r0 = Inl f" "fl_session_lost f = Some reason" "?m \<noteq> ''initialize''" "modern_version ?p = None"
        by blast
      let ?sys2 = "goto k op (LockWait ?seen (fl_error f)) sys1"
      have d: "?done = ?sys2" using f by (simp add: inner_done_def first_ends_def)
      have "(r, hb', w') = (case reinitialize lib ?seen (hb1, w1) of
          (Inl e, s2) \<Rightarrow> (Inl (fl_error f), s2)
        | (Inr u, s2) \<Rightarrow> (case send_request_inner lib ?m ?p True s2 of
            (Inl f', s3) \<Rightarrow> (Inl (fl_error f'), s3) | (Inr v, s3) \<Rightarrow> (Inr v, s3)))"
        using assms(5) i f by (simp add: send_request_def Let_def split: prod.splits sum.splits)
      then have "call_runs lib k op ?sys2 r (note_tools lib op r hb')"
        by (intro renewal_runs [OF _ _ _ assms(4)]) (use s1 l1 in \<open>simp_all add: goto_def map_of_update\<close>)
      with d show ?thesis by (simp add: goto_sel map_of_update)
    qed
  qed
  then have "call_runs lib k op sys r (note_tools lib op r hb')"
    by (rule call_runs_step [OF _ _ p]) (simp_all add: begin_call_sel map_of_update)
  then show ?thesis unfolding call_runs_def .
qed

theorem sequential_call_is_a_run_witness:
  "\<exists>sys es sys' r. run_events (http_step sample_client) [Enter 1 HealthCheck] (http_sys_new lost_backend) = Some sys \<and>
     fst (send_request sample_client ''tools/list'' None True (lost_backend, sample_http_world)) = r \<and>
     list_all progress es \<and> run_events (http_step sample_client) es sys = Some sys' \<and>
     map_of (hy_tasks sys') 1 = Some (HealthCheck, Answered r)"
proof -
  let ?sys = "goto 1 HealthCheck (Entered (hb_epoch lost_backend)) (http_sys_new lost_backend)"
  have s: "run_events (http_step sample_client) [Enter 1 HealthCheck] (http_sys_new lost_backend) = Some ?sys"
    by (simp add: http_sys_new_def enter_def Let_def check_connected_def lost_backend_def)
  obtain r hb' w' where q: "send_request sample_client ''tools/list'' None True (lost_backend, sample_http_world) = (r, hb', w')"
    by (metis prod_cases3)
  have "cl_await_reinit sample_client = Pair" by (simp add: sample_client_def)
  from sequential_call_is_a_run [OF _ _ _ this, of ?sys 1 HealthCheck lost_backend sample_http_world r hb' w'] q s show ?thesis
    by (auto simp: goto_def http_sys_new_def)
qed

end
