(* ===== verification/Hub_OAuth2_Tasks.thy ===== *)
theory Hub_OAuth2_Tasks
  imports Hub_OAuth2 Hub_Tasks
begin

text \<open>
  The token manager (\<open>crates/backends/backend-http/src/oauth2.rs\<close>) under concurrent callers: all backends
  of one id share one manager, so \<open>get_token\<close> and \<open>adopt_persisted\<close> of different callers interleave at
  every await: at \<open>refresh_lock\<close>, while a token request is on its way, while the store is read.  The
  sections between are events; replies of the token endpoint come with them.  Everything else outside
  (clocks, the secret file, other processes that store a token) is the world of the sequential model and
  may change between any two events.
\<close>

section \<open>The state\<close>

text \<open>
  Where a caller is: before it looks at the cache; waiting for the lock to refresh; with a refresh on its
  way; with the stored token to read after a rejected refresh, or its refresh on its way (with the first
  error); waiting for the lock to acquire; with a grant on its way; or in \<open>adopt_persisted\<close>.
\<close>

datatype token_pc =
    Asking bool
  | RefreshWait bool
  | Refreshing bool string
  | Reloading bool backend_error string
  | Rerefreshing bool backend_error
  | AcquireWait bool
  | Acquiring bool
  | AdoptWait
  | AdoptLoading
  | GotToken "backend_error + string"
  | AdoptedToken "string option"

text \<open>The log: requests with the time they were sent at, and the tokens that came in, with their end.\<close>

datatype token_log =
    SentRefresh nat string
  | SentGrant nat
  | Obtained "string option" nat

record ('n, 'r) token_sys =
  ts_state :: "('n, 'r) oauth_state"
  ts_lock :: "nat option"
  ts_tasks :: "(nat \<times> token_pc) list"
  ts_log :: "token_log list"

definition token_sys_new :: "oauth2_config \<Rightarrow> file_store option \<Rightarrow> ('n, 'r) oauth_world \<Rightarrow> ('n, 'r) token_sys" where
  "token_sys_new config store w =
     \<lparr>ts_state = (manager_with_store config store, w), ts_lock = None, ts_tasks = [], ts_log = []\<rparr>"

definition at_pc :: "nat \<Rightarrow> token_pc \<Rightarrow> ('n, 'r) token_sys \<Rightarrow> ('n, 'r) token_sys" where
  "at_pc k pc sys = sys\<lparr>ts_tasks := AList.update k pc (ts_tasks sys)\<rparr>"

definition now_ns :: "('n, 'r) oauth_lib \<Rightarrow> ('n, 'r) token_sys \<Rightarrow> nat" where
  "now_ns lib sys = ol_mono_ns lib (ow_net (snd (ts_state sys)))"

definition log_token :: "token_log \<Rightarrow> ('n, 'r) token_sys \<Rightarrow> ('n, 'r) token_sys" where
  "log_token x sys = sys\<lparr>ts_log := ts_log sys @ [x]\<rparr>"

text \<open>A new cache entry, noted in the log.\<close>

definition obtained :: "('n, 'r) token_sys \<Rightarrow> ('n, 'r) token_sys" where
  "obtained sys =
     (case om_cache (fst (ts_state sys)) of
        Some c \<Rightarrow> log_token (Obtained (tc_refresh_token c) (tc_expires_at c)) sys
      | None \<Rightarrow> sys)"

section \<open>Sections\<close>

text \<open>The guard of the lock goes out of scope and the caller returns, or goes on to acquire a token.\<close>

definition release_to :: "nat \<Rightarrow> token_pc \<Rightarrow> ('n, 'r) token_sys \<Rightarrow> ('n, 'r) token_sys" where
  "release_to k pc sys = at_pc k pc (sys\<lparr>ts_lock := None\<rparr>)"

text \<open>A refresh that is over without a token: in daemon mode that is the answer.\<close>

definition refresh_failed :: "nat \<Rightarrow> bool \<Rightarrow> backend_error \<Rightarrow> ('n, 'r) token_sys \<Rightarrow> ('n, 'r) token_sys" where
  "refresh_failed k daemon_mode e sys =
     (if daemon_mode
      then release_to k (GotToken (Inl (auth_error (''token refresh failed (daemon mode): '' @ be_message e)))) sys
      else release_to k (AcquireWait daemon_mode) sys)"

text \<open>What \<open>do_refresh\<close> makes of the reply.\<close>

definition refresh_answer ::
  "('n, 'r) oauth_lib \<Rightarrow> string \<Rightarrow> backend_error + http_reply \<times> json \<Rightarrow> ('n, 'r) oauth_state
     \<Rightarrow> (refresh_failure + string) \<times> ('n, 'r) oauth_state" where
  "refresh_answer lib backend_id reply s =
     (case reply of
        Inl e \<Rightarrow> (Inl \<lparr>rf_error = e, rf_rejected = False\<rparr>, s)
      | Inr (r, body) \<Rightarrow>
          (if \<not> is_success r then
             (Inl \<lparr>rf_error = auth_error (''refresh failed ('' @ hp_status_text r @ ''): '' @ error_description body),
                   rf_rejected = (hp_status r = 400 \<or> hp_status r = 401)\<rparr>, s)
           else (case cache_token_response lib body backend_id s of
               (Inl e, s2) \<Rightarrow> (Inl \<lparr>rf_error = e, rf_rejected = False\<rparr>, s2)
             | (Inr t, s2) \<Rightarrow> (Inr t, s2))))"

definition first_refresh_ends ::
  "('n, 'r) oauth_lib \<Rightarrow> string \<Rightarrow> nat \<Rightarrow> bool \<Rightarrow> string \<Rightarrow> (refresh_failure + string) \<times> ('n, 'r) oauth_state
     \<Rightarrow> ('n, 'r) token_sys \<Rightarrow> ('n, 'r) token_sys" where
  "first_refresh_ends lib backend_id k daemon_mode sent = (\<lambda>(r, s) sys.
     let sys1 = sys\<lparr>ts_state := s\<rparr> in
     case r of
       Inr t \<Rightarrow> release_to k (GotToken (Inr t)) (obtained sys1)
     | Inl failure \<Rightarrow>
         (if rf_rejected failure \<and> om_store (fst s) \<noteq> None then at_pc k (Reloading daemon_mode (rf_error failure) sent) sys1
          else refresh_failed k daemon_mode (rf_error failure) sys1))"

definition second_refresh_ends ::
  "nat \<Rightarrow> bool \<Rightarrow> backend_error \<Rightarrow> (refresh_failure + string) \<times> ('n, 'r) oauth_state
     \<Rightarrow> ('n, 'r) token_sys \<Rightarrow> ('n, 'r) token_sys" where
  "second_refresh_ends k daemon_mode e = (\<lambda>(r, s) sys.
     let sys1 = sys\<lparr>ts_state := s\<rparr> in
     case r of
       Inr t \<Rightarrow> release_to k (GotToken (Inr t)) (obtained sys1)
     | Inl failure \<Rightarrow> refresh_failed k daemon_mode e sys1)"

definition look :: "('n, 'r) oauth_lib \<Rightarrow> nat \<Rightarrow> bool \<Rightarrow> ('n, 'r) token_sys \<Rightarrow> ('n, 'r) token_sys" where
  "look lib k daemon_mode sys =
     (case om_cache (fst (ts_state sys)) of
        None \<Rightarrow> at_pc k (AcquireWait daemon_mode) sys
      | Some cached \<Rightarrow>
          (case usable_token lib (ts_state sys) of
             Some t \<Rightarrow> at_pc k (GotToken (Inr t)) sys
           | None \<Rightarrow>
               (if tc_refresh_token cached \<noteq> None then at_pc k (RefreshWait daemon_mode) sys
                else if daemon_mode then
                  at_pc k (GotToken (Inl (auth_error (''token expired and no refresh token available (daemon mode '' @ em_dash @
                    '' run '' @ sq ''auth'' @ '' to re-authenticate)'')))) sys
                else at_pc k (AcquireWait daemon_mode) sys)))"

text \<open>Past the lock to refresh: the cache is read again, since its last holder may have refreshed.\<close>

definition refresh_locked :: "('n, 'r) oauth_lib \<Rightarrow> string \<Rightarrow> nat \<Rightarrow> bool \<Rightarrow> ('n, 'r) token_sys \<Rightarrow> ('n, 'r) token_sys" where
  "refresh_locked lib backend_id k daemon_mode sys =
     (case usable_token lib (ts_state sys) of
        Some t \<Rightarrow> at_pc k (GotToken (Inr t)) sys
      | None \<Rightarrow>
          (case Option.bind (om_cache (fst (ts_state sys))) tc_refresh_token of
             None \<Rightarrow> at_pc k (AcquireWait daemon_mode) sys
           | Some refresh_token \<Rightarrow>
               (case resolve_token_endpoint (fst (ts_state sys)) of
                  Inl e \<Rightarrow> first_refresh_ends lib backend_id k daemon_mode refresh_token
                     (refresh_answer lib backend_id (Inl e) (ts_state sys)) sys
                | Inr url \<Rightarrow>
                    log_token (SentRefresh (now_ns lib sys) refresh_token)
                      (at_pc k (Refreshing daemon_mode refresh_token) (sys\<lparr>ts_lock := Some k\<rparr>)))))"

text \<open>\<open>retry_with_stored\<close>: the stored token is read, and used if it is not the rejected one.\<close>

definition reload :: "('n, 'r) oauth_lib \<Rightarrow> string \<Rightarrow> nat \<Rightarrow> bool \<Rightarrow> backend_error \<Rightarrow> string \<Rightarrow> ('n, 'r) token_sys \<Rightarrow> ('n, 'r) token_sys" where
  "reload lib backend_id k daemon_mode e rejected sys =
     (case om_store (fst (ts_state sys)) of
        None \<Rightarrow> refresh_failed k daemon_mode e sys
      | Some store \<Rightarrow>
          (case load_token lib store backend_id (snd (ts_state sys)) of
             (None, w1) \<Rightarrow> refresh_failed k daemon_mode e (sys\<lparr>ts_state := (fst (ts_state sys), w1)\<rparr>)
           | (Some stored, w1) \<Rightarrow>
               (if pt_refresh_token stored = Some rejected then
                  refresh_failed k daemon_mode e (sys\<lparr>ts_state := (fst (ts_state sys), w1)\<rparr>)
                else
                  (let sys1 = obtained (sys\<lparr>ts_state := (install_persisted lib stored w1 (fst (ts_state sys)), w1)\<rparr>) in
                   if is_valid (ol_unix_secs lib (ow_net w1)) stored then
                     release_to k (GotToken (Inr (pt_access_token stored))) sys1
                   else (case pt_refresh_token stored of
                     None \<Rightarrow> refresh_failed k daemon_mode e sys1
                   | Some refresh_token \<Rightarrow>
                       (case resolve_token_endpoint (fst (ts_state sys1)) of
                          Inl e1 \<Rightarrow> second_refresh_ends k daemon_mode e (refresh_answer lib backend_id (Inl e1) (ts_state sys1)) sys1
                        | Inr url \<Rightarrow>
                            log_token (SentRefresh (now_ns lib sys1) refresh_token)
                              (at_pc k (Rerefreshing daemon_mode e) sys1)))))))"

text \<open>Past the lock to acquire: \<open>Inl\<close> is an answer without a request.\<close>

definition grant_of :: "oauth_manager \<Rightarrow> bool \<Rightarrow> backend_error + unit" where
  "grant_of m daemon_mode =
     bind_res (resolve_token_endpoint m) (\<lambda>token_endpoint.
       let grant_type = resolve_grant_type m in
       if grant_type = ''client_credentials'' then Inr ()
       else if grant_type = ''authorization_code'' then
         (if daemon_mode then Inl (auth_error ''interactive authorization_code grant blocked in daemon mode'') else Inr ())
       else if grant_type = ''urn:ietf:params:oauth:grant-type:jwt-bearer'' then
         Inl (auth_error ''JWT bearer grant is not yet supported by headless-mcp'')
       else Inl (auth_error (''unsupported OAuth2 grant type: '' @ grant_type)))"

definition acquire_locked :: "('n, 'r) oauth_lib \<Rightarrow> nat \<Rightarrow> bool \<Rightarrow> ('n, 'r) token_sys \<Rightarrow> ('n, 'r) token_sys" where
  "acquire_locked lib k daemon_mode sys =
     (case usable_token lib (ts_state sys) of
        Some t \<Rightarrow> at_pc k (GotToken (Inr t)) sys
      | None \<Rightarrow>
          (case grant_of (fst (ts_state sys)) daemon_mode of
             Inl e \<Rightarrow> at_pc k (GotToken (Inl e)) sys
           | Inr u \<Rightarrow> log_token (SentGrant (now_ns lib sys)) (at_pc k (Acquiring daemon_mode) (sys\<lparr>ts_lock := Some k\<rparr>))))"

definition grant_ends ::
  "('n, 'r) oauth_lib \<Rightarrow> string \<Rightarrow> nat \<Rightarrow> backend_error + http_reply \<times> json \<Rightarrow> ('n, 'r) token_sys \<Rightarrow> ('n, 'r) token_sys" where
  "grant_ends lib backend_id k reply sys =
     (case bind_auth (lift_auth reply) (accept_token lib backend_id) (ts_state sys) of
        (Inl e, s) \<Rightarrow> release_to k (GotToken (Inl e)) (sys\<lparr>ts_state := s\<rparr>)
      | (Inr t, s) \<Rightarrow> release_to k (GotToken (Inr t)) (obtained (sys\<lparr>ts_state := s\<rparr>)))"

definition adopt_locked :: "nat \<Rightarrow> ('n, 'r) token_sys \<Rightarrow> ('n, 'r) token_sys" where
  "adopt_locked k sys =
     (if (case om_cache (fst (ts_state sys)) of Some c \<Rightarrow> tc_access_token c \<noteq> [] | None \<Rightarrow> False)
      then at_pc k (AdoptedToken None) sys
      else at_pc k AdoptLoading (sys\<lparr>ts_lock := Some k\<rparr>))"

definition adopt_load :: "('n, 'r) oauth_lib \<Rightarrow> string \<Rightarrow> nat \<Rightarrow> ('n, 'r) token_sys \<Rightarrow> ('n, 'r) token_sys" where
  "adopt_load lib backend_id k sys =
     (case om_store (fst (ts_state sys)) of
        None \<Rightarrow> release_to k (AdoptedToken None) sys
      | Some store \<Rightarrow>
          (case load_token lib store backend_id (snd (ts_state sys)) of
             (None, w1) \<Rightarrow> release_to k (AdoptedToken None) (sys\<lparr>ts_state := (fst (ts_state sys), w1)\<rparr>)
           | (Some p, w1) \<Rightarrow>
               (let valid = is_valid (ol_unix_secs lib (ow_net w1)) p in
                if \<not> valid \<and> pt_refresh_token p = None then
                  release_to k (AdoptedToken None) (sys\<lparr>ts_state := (fst (ts_state sys), w1)\<rparr>)
                else release_to k (AdoptedToken (if valid then Some (pt_access_token p) else None))
                  (obtained (sys\<lparr>ts_state := (install_persisted lib p w1 (fst (ts_state sys)), w1)\<rparr>)))))"

section \<open>The transition system\<close>

datatype ('n, 'r) token_event =
    AskToken nat bool
  | AskAdopt nat
  | Look nat
  | LockIn nat
  | RefreshIn nat "backend_error + http_reply \<times> json"
  | StoreIn nat
  | RegisteredIn nat string
  | GrantIn nat "backend_error + http_reply \<times> json"
  | DiscoveredIn auth_server_metadata
  | Outside "('n, 'r) oauth_world"

text \<open>The monotonic clock of the world never goes back.\<close>

fun token_step :: "('n, 'r) oauth_lib \<Rightarrow> string \<Rightarrow> ('n, 'r) token_event \<Rightarrow> ('n, 'r) token_sys \<Rightarrow> ('n, 'r) token_sys option" where
  "token_step lib i (AskToken k daemon_mode) sys =
     (if map_of (ts_tasks sys) k = None then Some (at_pc k (Asking daemon_mode) sys) else None)"
| "token_step lib i (AskAdopt k) sys =
     (if map_of (ts_tasks sys) k = None then
        Some (at_pc k (if om_store (fst (ts_state sys)) = None then AdoptedToken None else AdoptWait) sys)
      else None)"
| "token_step lib i (Look k) sys =
     (case map_of (ts_tasks sys) k of Some (Asking daemon_mode) \<Rightarrow> Some (look lib k daemon_mode sys) | _ \<Rightarrow> None)"
| "token_step lib i (LockIn k) sys =
     (if ts_lock sys \<noteq> None then None
      else (case map_of (ts_tasks sys) k of
              Some (RefreshWait daemon_mode) \<Rightarrow> Some (refresh_locked lib i k daemon_mode sys)
            | Some (AcquireWait daemon_mode) \<Rightarrow> Some (acquire_locked lib k daemon_mode sys)
            | Some AdoptWait \<Rightarrow> Some (adopt_locked k sys)
            | _ \<Rightarrow> None))"
| "token_step lib i (RefreshIn k reply) sys =
     (case map_of (ts_tasks sys) k of
        Some (Refreshing daemon_mode sent) \<Rightarrow>
          Some (first_refresh_ends lib i k daemon_mode sent (refresh_answer lib i reply (ts_state sys)) sys)
      | Some (Rerefreshing daemon_mode e) \<Rightarrow>
          Some (second_refresh_ends k daemon_mode e (refresh_answer lib i reply (ts_state sys)) sys)
      | _ \<Rightarrow> None)"
| "token_step lib i (StoreIn k) sys =
     (case map_of (ts_tasks sys) k of
        Some (Reloading daemon_mode e rejected) \<Rightarrow> Some (reload lib i k daemon_mode e rejected sys)
      | Some AdoptLoading \<Rightarrow> Some (adopt_load lib i k sys)
      | _ \<Rightarrow> None)"
| "token_step lib i (RegisteredIn k client_id) sys =
     (case map_of (ts_tasks sys) k of
        Some (Acquiring daemon_mode) \<Rightarrow>
          Some (sys\<lparr>ts_state := (set_dynamic_client_id lib client_id (snd (ts_state sys)) (fst (ts_state sys)), snd (ts_state sys))\<rparr>)
      | _ \<Rightarrow> None)"
| "token_step lib i (GrantIn k reply) sys =
     (case map_of (ts_tasks sys) k of Some (Acquiring daemon_mode) \<Rightarrow> Some (grant_ends lib i k reply sys) | _ \<Rightarrow> None)"
| "token_step lib i (DiscoveredIn am) sys =
     Some (sys\<lparr>ts_state := ((fst (ts_state sys))\<lparr>om_discovered := Some am\<rparr>, snd (ts_state sys))\<rparr>)"
| "token_step lib i (Outside w) sys =
     (if now_ns lib sys \<le> ol_mono_ns lib (ow_net w) then Some (sys\<lparr>ts_state := (fst (ts_state sys), w)\<rparr>) else None)"

end
