(* ===== verification/Hub_OAuth2_Tasks_Facts.thy ===== *)
theory Hub_OAuth2_Tasks_Facts
  imports Hub_OAuth2_Tasks Hub_OAuth2_Facts
begin

text \<open>
  Properties of concurrent callers of one token manager: at most one token request is on its way, none is
  sent while a token is good, a refresh always sends the newest refresh token, and no caller waits for
  ever.
\<close>

section \<open>The lock and the tasks\<close>

fun holds_lock :: "token_pc \<Rightarrow> bool" where
  "holds_lock (Refreshing d sent) = True"
| "holds_lock (Reloading d e sent) = True"
| "holds_lock (Rerefreshing d e) = True"
| "holds_lock (Acquiring d) = True"
| "holds_lock AdoptLoading = True"
| "holds_lock pc = False"

fun token_rank :: "token_pc \<Rightarrow> nat" where
  "token_rank (Asking d) = 7"
| "token_rank (RefreshWait d) = 6"
| "token_rank (Refreshing d sent) = 5"
| "token_rank (Reloading d e sent) = 4"
| "token_rank (Rerefreshing d e) = 3"
| "token_rank (AcquireWait d) = 2"
| "token_rank (Acquiring d) = 1"
| "token_rank AdoptWait = 2"
| "token_rank AdoptLoading = 1"
| "token_rank (GotToken r) = 0"
| "token_rank (AdoptedToken r) = 0"

fun token_progress :: "('n, 'r) token_event \<Rightarrow> bool" where
  "token_progress (Look k) = True"
| "token_progress (LockIn k) = True"
| "token_progress (RefreshIn k r) = True"
| "token_progress (StoreIn k) = True"
| "token_progress (GrantIn k r) = True"
| "token_progress e = False"

text \<open>The caller \<open>k\<close> moves from \<open>pc\<close> to \<open>pc'\<close>, with what that means for the lock.\<close>

definition moves :: "nat \<Rightarrow> token_pc \<Rightarrow> ('n, 'r) token_sys \<Rightarrow> ('n, 'r) token_sys \<Rightarrow> bool" where
  "moves k pc sys sys' \<longleftrightarrow>
     (\<exists>pc'. ts_tasks sys' = AList.update k pc' (ts_tasks sys) \<and> token_rank pc' < token_rank pc \<and>
        ts_lock sys' = (if holds_lock pc' then Some k else if holds_lock pc then None else ts_lock sys))"

named_theorems token_simps

lemma helper_sel [token_simps]:
  "ts_tasks (at_pc k pc sys) = AList.update k pc (ts_tasks sys)" "ts_lock (at_pc k pc sys) = ts_lock sys"
  "ts_state (at_pc k pc sys) = ts_state sys" "ts_log (at_pc k pc sys) = ts_log sys"
  "ts_tasks (release_to k pc sys) = AList.update k pc (ts_tasks sys)" "ts_lock (release_to k pc sys) = None"
  "ts_state (release_to k pc sys) = ts_state sys" "ts_log (release_to k pc sys) = ts_log sys"
  "ts_tasks (log_token x sys) = ts_tasks sys" "ts_lock (log_token x sys) = ts_lock sys"
  "ts_state (log_token x sys) = ts_state sys" "ts_log (log_token x sys) = ts_log sys @ [x]"
  "ts_tasks (obtained sys) = ts_tasks sys" "ts_lock (obtained sys) = ts_lock sys" "ts_state (obtained sys) = ts_state sys"
  by (simp_all add: at_pc_def release_to_def log_token_def obtained_def split: option.split)

lemma movesI:
  "ts_tasks sys' = AList.update k pc' (ts_tasks sys) \<Longrightarrow> token_rank pc' < token_rank pc \<Longrightarrow>
     ts_lock sys' = (if holds_lock pc' then Some k else if holds_lock pc then None else ts_lock sys) \<Longrightarrow> moves k pc sys sys'"
  by (auto simp: moves_def)

lemma moves_at:
  "ts_tasks sys1 = ts_tasks sys \<Longrightarrow> token_rank pc' < token_rank pc \<Longrightarrow>
     ts_lock sys1 = (if holds_lock pc' then Some k else if holds_lock pc then None else ts_lock sys) \<Longrightarrow>
     moves k pc sys (at_pc k pc' sys1)"
  by (rule movesI [of _ k pc']) (simp_all add: token_simps)

lemma moves_release:
  "ts_tasks sys1 = ts_tasks sys \<Longrightarrow> token_rank pc' < token_rank pc \<Longrightarrow> \<not> holds_lock pc' \<Longrightarrow>
     ts_lock sys = None \<or> holds_lock pc \<Longrightarrow> moves k pc sys (release_to k pc' sys1)"
  by (rule movesI [of _ k pc']) (auto simp: token_simps)

lemma moves_log: "moves k pc sys (log_token x sys1) \<longleftrightarrow> moves k pc sys sys1"
  by (simp add: moves_def token_simps)

lemma moves_refresh_failed:
  assumes "ts_tasks sys1 = ts_tasks sys" and "2 < token_rank pc" and "ts_lock sys = None \<or> holds_lock pc"
  shows "moves k pc sys (refresh_failed k d e sys1)"
  using assms unfolding refresh_failed_def by (auto intro!: moves_release)

lemma moves_first:
  assumes "ts_tasks sys1 = ts_tasks sys" and "4 < token_rank pc" and "ts_lock sys = None \<or> holds_lock pc"
    and "holds_lock pc \<Longrightarrow> ts_lock sys1 = Some k" and "\<not> holds_lock pc \<Longrightarrow> \<exists>e. r = Inl e \<and> \<not> rf_rejected e"
  shows "moves k pc sys (first_refresh_ends lib i k d sent (r, s) sys1)"
proof (cases r)
  case (Inr t)
  with assms show ?thesis by (auto simp: first_refresh_ends_def Let_def token_simps intro!: moves_release)
next
  case (Inl f)
  show ?thesis
  proof (cases "rf_rejected f \<and> om_store (fst s) \<noteq> None")
    case True
    with Inl assms have "holds_lock pc" by auto
    with True Inl assms show ?thesis by (auto simp: first_refresh_ends_def Let_def intro!: moves_at)
  next
    case False
    with Inl moves_refresh_failed [of "sys1\<lparr>ts_state := s\<rparr>" sys pc k d "rf_error f"] assms show ?thesis
      by (auto simp: first_refresh_ends_def Let_def)
  qed
qed

lemma moves_second:
  assumes "ts_tasks sys1 = ts_tasks sys" and "2 < token_rank pc" and "holds_lock pc"
  shows "moves k pc sys (second_refresh_ends k d e (r, s) sys1)"
proof (cases r)
  case (Inr t)
  with assms show ?thesis by (auto simp: second_refresh_ends_def Let_def token_simps intro!: moves_release)
next
  case (Inl f)
  with moves_refresh_failed [of "sys1\<lparr>ts_state := s\<rparr>" sys pc k d e] assms show ?thesis
    by (auto simp: second_refresh_ends_def Let_def)
qed

lemma moves_refresh_locked:
  "ts_lock sys = None \<Longrightarrow> moves k (RefreshWait d) sys (refresh_locked lib i k d sys)"
proof (cases "usable_token lib (ts_state sys)")
  case (Some t)
  assume "ts_lock sys = None"
  with Some show ?thesis by (simp add: refresh_locked_def moves_def token_simps exI [of _ "GotToken (Inr t)"])
next
  case None
  assume l: "ts_lock sys = None"
  show ?thesis
  proof (cases "Option.bind (om_cache (fst (ts_state sys))) tc_refresh_token")
    case c: None
    with None l show ?thesis by (simp add: refresh_locked_def moves_def token_simps exI [of _ "AcquireWait d"])
  next
    case (Some rt)
    show ?thesis
    proof (cases "resolve_token_endpoint (fst (ts_state sys))")
      case (Inr url)
      with None Some show ?thesis by (simp add: refresh_locked_def moves_def token_simps exI [of _ "Refreshing d rt"])
    next
      case (Inl e)
      have "moves k (RefreshWait d) sys
          (first_refresh_ends lib i k d rt (Inl \<lparr>rf_error = e, rf_rejected = False\<rparr>, ts_state sys) sys)"
        by (rule moves_first) (simp_all add: l)
      with None Some Inl show ?thesis by (simp add: refresh_locked_def refresh_answer_def)
    qed
  qed
qed

lemma moves_reload:
  assumes l: "ts_lock sys = Some k"
  shows "moves k (Reloading d e sent) sys (reload lib i k d e sent sys)"
proof -
  note fail = moves_refresh_failed [where pc = "Reloading d e sent" and k = k and d = d and e = e]
  show ?thesis
  proof (cases "om_store (fst (ts_state sys))")
    case None
    with fail [of sys sys] show ?thesis by (simp add: reload_def)
  next
    case (Some store)
    obtain p w1 where p: "load_token lib store i (snd (ts_state sys)) = (p, w1)" by fastforce
    show ?thesis
    proof (cases p)
      case None
      with Some p fail [of "sys\<lparr>ts_state := (fst (ts_state sys), w1)\<rparr>" sys] show ?thesis by (simp add: reload_def)
    next
      case stored: (Some stored)
      let ?sys1 = "obtained (sys\<lparr>ts_state := (install_persisted lib stored w1 (fst (ts_state sys)), w1)\<rparr>)"
      have t: "ts_tasks ?sys1 = ts_tasks sys" "ts_lock ?sys1 = Some k" by (simp_all add: token_simps l)
      show ?thesis
      proof (cases "pt_refresh_token stored = Some sent")
        case True
        with Some p stored fail [of "sys\<lparr>ts_state := (fst (ts_state sys), w1)\<rparr>" sys] show ?thesis by (simp add: reload_def)
      next
        case other: False
        show ?thesis
        proof (cases "is_valid (ol_unix_secs lib (ow_net w1)) stored")
          case True
          with Some p stored other t show ?thesis
            by (simp add: reload_def Let_def moves_def token_simps exI [of _ "GotToken (Inr (pt_access_token stored))"])
        next
          case invalid: False
          show ?thesis
          proof (cases "pt_refresh_token stored")
            case None
            with Some p stored other invalid t fail [of ?sys1 sys] show ?thesis by (simp add: reload_def Let_def)
          next
            case rt: (Some rt)
            show ?thesis
            proof (cases "resolve_token_endpoint (fst (ts_state ?sys1))")
              case (Inr url)
              with Some p stored other invalid rt t show ?thesis
                by (simp add: reload_def Let_def moves_def token_simps exI [of _ "Rerefreshing d e"])
            next
              case (Inl e1)
              have "moves k (Reloading d e sent) sys
                  (second_refresh_ends k d e (Inl \<lparr>rf_error = e1, rf_rejected = False\<rparr>, ts_state ?sys1) ?sys1)"
                by (rule moves_second) (simp_all add: t)
              with Some p stored other invalid rt Inl show ?thesis by (simp add: reload_def Let_def refresh_answer_def)
            qed
          qed
        qed
      qed
    qed
  qed
qed

lemma moves_rest:
  "moves k (Asking d) sys (look lib k d sys)"
  "ts_lock sys = None \<Longrightarrow> moves k (AcquireWait d) sys (acquire_locked lib k d sys)"
  "ts_lock sys = None \<Longrightarrow> moves k AdoptWait sys (adopt_locked k sys)"
  "moves k (Acquiring d) sys (grant_ends lib i k reply sys)"
  "moves k AdoptLoading sys (adopt_load lib i k sys)"
  by (auto simp: look_def acquire_locked_def adopt_locked_def grant_ends_def adopt_load_def Let_def token_simps moves_log
      intro!: moves_at moves_release split: option.split sum.split prod.split)

text \<open>What an event does to the tasks: nothing, a new caller, or a move of one.\<close>

inductive token_effect :: "('n, 'r) token_event \<Rightarrow> ('n, 'r) token_sys \<Rightarrow> ('n, 'r) token_sys \<Rightarrow> bool" where
  unmoved: "\<not> token_progress e \<Longrightarrow> ts_tasks sys' = ts_tasks sys \<Longrightarrow> ts_lock sys' = ts_lock sys \<Longrightarrow> token_effect e sys sys'"
| arrived: "\<not> token_progress e \<Longrightarrow> map_of (ts_tasks sys) k = None \<Longrightarrow> ts_tasks sys' = AList.update k pc (ts_tasks sys) \<Longrightarrow>
    \<not> holds_lock pc \<Longrightarrow> ts_lock sys' = ts_lock sys \<Longrightarrow> token_effect e sys sys'"
| moved: "map_of (ts_tasks sys) k = Some pc \<Longrightarrow> moves k pc sys sys' \<Longrightarrow> ts_lock sys = None \<or> ts_lock sys = Some k \<or> \<not> holds_lock pc \<and> (\<forall>pc'. map_of (ts_tasks sys') k = Some pc' \<longrightarrow> \<not> holds_lock pc') \<Longrightarrow>
    token_effect e sys sys'"

definition lock_inv :: "('n, 'r) token_sys \<Rightarrow> bool" where
  "lock_inv sys \<longleftrightarrow> table (ts_tasks sys) \<and>
     (\<forall>k. ts_lock sys = Some k \<longleftrightarrow> (\<exists>pc. map_of (ts_tasks sys) k = Some pc \<and> holds_lock pc))"

lemma lock_invD: "lock_inv sys \<Longrightarrow> map_of (ts_tasks sys) k = Some pc \<Longrightarrow> holds_lock pc \<Longrightarrow> ts_lock sys = Some k"
  by (auto simp: lock_inv_def)

lemma token_step_effect:
  assumes inv: "lock_inv sys" and s: "token_step lib i e sys = Some sys'"
  shows "token_effect e sys sys'"
proof (cases e)
  case (AskToken k d)
  with s show ?thesis by (auto simp: token_simps intro: arrived split: if_splits)
next
  case (AskAdopt k)
  with s show ?thesis by (auto simp: token_simps intro: arrived split: if_splits)
next
  case (Look k)
  with s obtain d where k: "map_of (ts_tasks sys) k = Some (Asking d)" and s': "sys' = look lib k d sys"
    by (auto split: option.splits token_pc.splits)
  have "\<not> holds_lock pc'" if "map_of (ts_tasks sys') k = Some pc'" for pc'
    using that by (auto simp: s' look_def token_simps map_of_update split: option.splits if_splits)
  with k s' moves_rest(1) show ?thesis by (intro moved [OF k]) auto
next
  case (LockIn k)
  with s have l: "ts_lock sys = None" by (auto split: if_splits)
  from LockIn s obtain pc where k: "map_of (ts_tasks sys) k = Some pc" by (auto split: if_splits option.splits)
  have "moves k pc sys sys'"
    using LockIn s l k moves_refresh_locked moves_rest(2,3) by (auto split: token_pc.splits)
  with l k show ?thesis by (intro moved [OF k]) auto
next
  case (RefreshIn k reply)
  obtain r st where a: "refresh_answer lib i reply (ts_state sys) = (r, st)" by (cases "refresh_answer lib i reply (ts_state sys)")
  from RefreshIn s obtain pc where k: "map_of (ts_tasks sys) k = Some pc" by (auto split: option.splits)
  show ?thesis
  proof (cases pc)
    case (Refreshing d sent)
    with lock_invD [OF inv k] have l: "ts_lock sys = Some k" by simp
    have "moves k pc sys (first_refresh_ends lib i k d sent (r, st) sys)"
      by (rule moves_first) (simp_all add: Refreshing l)
    with RefreshIn s k a l Refreshing show ?thesis by (intro moved [OF k]) auto
  next
    case (Rerefreshing d e1)
    with lock_invD [OF inv k] have l: "ts_lock sys = Some k" by simp
    have "moves k pc sys (second_refresh_ends k d e1 (r, st) sys)"
      by (rule moves_second) (simp_all add: Rerefreshing)
    with RefreshIn s k a l Rerefreshing show ?thesis by (intro moved [OF k]) auto
  qed (use RefreshIn s k in auto)
next
  case (StoreIn k)
  then obtain pc where k: "map_of (ts_tasks sys) k = Some pc" using s by (auto split: option.splits)
  show ?thesis
  proof (cases pc)
    case (Reloading d e1 sent)
    with lock_invD [OF inv k] have l: "ts_lock sys = Some k" by simp
    from moves_reload [OF l] StoreIn s k l Reloading show ?thesis by (intro moved [OF k]) auto
  next
    case AdoptLoading
    with lock_invD [OF inv k] have l: "ts_lock sys = Some k" by simp
    with moves_rest(5) StoreIn s k AdoptLoading show ?thesis by (intro moved [OF k]) auto
  qed (use StoreIn s k in auto)
next
  case (GrantIn k reply)
  then obtain d where k: "map_of (ts_tasks sys) k = Some (Acquiring d)" and s': "sys' = grant_ends lib i k reply sys"
    using s by (auto split: option.splits token_pc.splits)
  with lock_invD [OF inv k] moves_rest(4) show ?thesis by (intro moved [OF k]) auto
qed (use s in \<open>auto intro!: unmoved split: option.splits token_pc.splits if_splits\<close>)

lemma lock_inv_step:
  assumes inv: "lock_inv sys" and s: "token_step lib i e sys = Some sys'"
  shows "lock_inv sys'"
  using token_step_effect [OF assms]
proof cases
  case unmoved
  with inv show ?thesis by (simp add: lock_inv_def)
next
  case (arrived k pc)
  then have "ts_lock sys \<noteq> Some k" using inv by (auto simp: lock_inv_def)
  with arrived inv show ?thesis by (auto simp: lock_inv_def map_of_update)
next
  case (moved k pc)
  from moved(2) obtain pc' where m: "ts_tasks sys' = AList.update k pc' (ts_tasks sys)"
      "ts_lock sys' = (if holds_lock pc' then Some k else if holds_lock pc then None else ts_lock sys)" by (auto simp: moves_def)
  with moved(3) have "holds_lock pc' \<or> holds_lock pc \<Longrightarrow> ts_lock sys = None \<or> ts_lock sys = Some k" by (auto simp: map_of_update)
  moreover have "holds_lock pc \<Longrightarrow> ts_lock sys = Some k" using lock_invD [OF inv moved(1)] .
  moreover have "ts_lock sys = Some k \<Longrightarrow> holds_lock pc" using inv moved(1) unfolding lock_inv_def by (metis option.inject)
  ultimately have l: "ts_lock sys' = Some j \<longleftrightarrow> (if j = k then holds_lock pc' else ts_lock sys = Some j)" for j
    using m(2) by (cases "holds_lock pc'"; cases "holds_lock pc") auto
  show ?thesis unfolding lock_inv_def l
    using inv by (auto simp: m(1) map_of_update lock_inv_def)
qed

lemma token_rank_step:
  assumes "lock_inv sys" and "token_progress e" and "token_step lib i e sys = Some sys'"
  shows "total_rank token_rank (ts_tasks sys') < total_rank token_rank (ts_tasks sys)"
  using token_step_effect [OF assms(1,3)]
proof cases
  case (moved k pc)
  then obtain pc' where "ts_tasks sys' = AList.update k pc' (ts_tasks sys)" "token_rank pc' < token_rank pc" by (auto simp: moves_def)
  with moved(1) assms(1) show ?thesis by (auto simp: lock_inv_def intro!: total_rank_less)
qed (use assms(2) in auto)

definition token_settled :: "('n, 'r) token_sys \<Rightarrow> bool" where
  "token_settled sys \<longleftrightarrow> (\<forall>(k, pc) \<in> set (ts_tasks sys). token_rank pc = 0)"

lemma token_rank_zero: "token_rank pc = 0 \<longleftrightarrow> (\<exists>r. pc = GotToken r) \<or> (\<exists>r. pc = AdoptedToken r)"
  by (cases pc) auto

lemma token_enabled:
  assumes inv: "lock_inv sys" and u: "\<not> token_settled sys"
  shows "\<exists>e. token_progress e \<and> token_step lib i e sys \<noteq> None"
proof -
  have hold: "\<exists>e. token_progress e \<and> token_step lib i e sys \<noteq> None"
    if k: "map_of (ts_tasks sys) k = Some pc" and h: "holds_lock pc" for k pc
  proof (cases pc)
    case (Refreshing d sent) with k show ?thesis by (intro exI [of _ "RefreshIn k (Inl e)" for e]) simp
  next
    case (Reloading d e sent) with k show ?thesis by (intro exI [of _ "StoreIn k"]) simp
  next
    case (Rerefreshing d e) with k show ?thesis by (intro exI [of _ "RefreshIn k (Inl e)"]) simp
  next
    case (Acquiring d) with k show ?thesis by (intro exI [of _ "GrantIn k (Inl e)" for e]) simp
  next
    case AdoptLoading with k show ?thesis by (intro exI [of _ "StoreIn k"]) simp
  qed (use h in auto)
  from u obtain k pc where "(k, pc) \<in> set (ts_tasks sys)" and r: "token_rank pc \<noteq> 0" by (auto simp: token_settled_def)
  then have k: "map_of (ts_tasks sys) k = Some pc" using inv by (simp add: lock_inv_def table_map_of)
  show ?thesis
  proof (cases "holds_lock pc \<or> ts_lock sys = None")
    case True
    show ?thesis
    proof (cases "holds_lock pc")
      case True with hold [OF k] show ?thesis by simp
    next
      case False
      with True have l: "ts_lock sys = None" by simp
      show ?thesis
      proof (cases "\<exists>d. pc = Asking d")
        case True with k show ?thesis by (intro exI [of _ "Look k"]) auto
      next
        case a: False
        have "token_step lib i (LockIn k) sys \<noteq> None" using False a k l r by (cases pc) auto
        then show ?thesis by (intro exI [of _ "LockIn k"]) simp
      qed
    qed
  next
    case False
    then obtain j where "ts_lock sys = Some j" by blast
    with inv obtain pc' where "map_of (ts_tasks sys) j = Some pc'" "holds_lock pc'" by (auto simp: lock_inv_def)
    with hold show ?thesis by blast
  qed
qed

interpretation token_callers: task_system "token_step lib i" lock_inv token_progress
    "\<lambda>sys. total_rank token_rank (ts_tasks sys)" token_settled for lib i
  by unfold_locales (blast intro: lock_inv_step token_rank_step token_enabled)+

section \<open>The log\<close>

text \<open>The refresh token and the end of the last token that came in.\<close>

fun newest :: "token_log list \<Rightarrow> (string option \<times> nat) option" where
  "newest [] = None"
| "newest (Obtained r e # l) = (case newest l of None \<Rightarrow> Some (r, e) | Some x \<Rightarrow> Some x)"
| "newest (x # l) = newest l"

lemma newest_append: "newest (l @ m) = (case newest m of None \<Rightarrow> newest l | Some x \<Rightarrow> Some x)"
  by (induction l rule: newest.induct) (auto split: option.split)

lemma newest_in: "newest l = Some (r, e) \<Longrightarrow> Obtained r e \<in> set l"
  by (induction l rule: newest.induct) (auto split: option.splits)

fun entry_ok :: "token_log list \<Rightarrow> token_log \<Rightarrow> bool" where
  "entry_ok l (SentRefresh t r) = (\<exists>e. newest l = Some (Some r, e) \<and> e \<le> t + 30 * NS_PER_SEC)"
| "entry_ok l (SentGrant t) = (\<forall>r e. newest l = Some (r, e) \<longrightarrow> e \<le> t + 30 * NS_PER_SEC)"
| "entry_ok l (Obtained r e) = True"

definition log_ok :: "token_log list \<Rightarrow> bool" where
  "log_ok l \<longleftrightarrow> (\<forall>pre x post. l = pre @ x # post \<longrightarrow> entry_ok pre x)"

lemma log_ok_Nil [simp]: "log_ok []"
  by (simp add: log_ok_def)

lemma log_ok_snoc [simp]: "log_ok (l @ [x]) \<longleftrightarrow> log_ok l \<and> entry_ok l x"
proof
  assume a: "log_ok (l @ [x])"
  have "entry_ok pre y" if "l = pre @ y # post" for pre y post
    using a [unfolded log_ok_def] that by (metis append_Cons append_assoc)
  moreover have "entry_ok l x" using a by (simp add: log_ok_def)
  ultimately show "log_ok l \<and> entry_ok l x" by (simp add: log_ok_def)
next
  assume a: "log_ok l \<and> entry_ok l x"
  show "log_ok (l @ [x])" unfolding log_ok_def
  proof (intro allI impI)
    fix pre y post
    assume e: "l @ [x] = pre @ y # post"
    show "entry_ok pre y"
    proof (cases post rule: rev_cases)
      case Nil
      with e a show ?thesis by simp
    next
      case (snoc post' z)
      with e have "l = pre @ y # post'" by simp
      with a show ?thesis by (simp add: log_ok_def)
    qed
  qed
qed

text \<open>The cache is the last token that came in; before the first it can only hold a registered client.\<close>

definition cache_inv :: "('n, 'r) oauth_lib \<Rightarrow> ('n, 'r) token_sys \<Rightarrow> bool" where
  "cache_inv lib sys \<longleftrightarrow> log_ok (ts_log sys) \<and>
     (case newest (ts_log sys) of
        Some (r, e) \<Rightarrow> \<exists>c. om_cache (fst (ts_state sys)) = Some c \<and> tc_refresh_token c = r \<and> tc_expires_at c = e
      | None \<Rightarrow> \<forall>c. om_cache (fst (ts_state sys)) = Some c \<longrightarrow> tc_refresh_token c = None \<and> tc_expires_at c \<le> now_ns lib sys)"

lemma cache_inv_same:
  assumes "cache_inv lib sys" and "ts_log sys' = ts_log sys" and "om_cache (fst (ts_state sys')) = om_cache (fst (ts_state sys))"
    and "now_ns lib sys \<le> now_ns lib sys'"
  shows "cache_inv lib sys'"
  using assms by (fastforce simp: cache_inv_def split: option.splits)

lemma cache_inv_helpers [simp]:
  "cache_inv lib (at_pc k pc sys) = cache_inv lib sys" "cache_inv lib (release_to k pc sys) = cache_inv lib sys"
  "cache_inv lib (sys\<lparr>ts_lock := l\<rparr>) = cache_inv lib sys"
  by (simp_all add: cache_inv_def now_ns_def token_simps cong: option.case_cong)

lemma cache_inv_refresh_failed [simp]: "cache_inv lib (refresh_failed k d e sys) = cache_inv lib sys"
  by (simp add: refresh_failed_def)

lemma cache_inv_obtained:
  assumes "log_ok (ts_log sys)" and "om_cache (fst (ts_state sys)) \<noteq> None"
  shows "cache_inv lib (obtained sys)"
  using assms by (auto simp: cache_inv_def obtained_def token_simps newest_append)

lemma usable_None:
  "usable_token lib (m, w) = None \<longleftrightarrow> (\<forall>c. om_cache m = Some c \<longrightarrow> tc_expires_at c \<le> ol_mono_ns lib (ow_net w) + 30 * NS_PER_SEC)"
  by (auto simp: usable_token_def split: option.splits)

lemma cache_inv_sent:
  assumes "cache_inv lib sys" and "usable_token lib (ts_state sys) = None"
    and "\<forall>r. x = SentRefresh (now_ns lib sys) r \<longrightarrow> Option.bind (om_cache (fst (ts_state sys))) tc_refresh_token = Some r"
    and "x = SentGrant (now_ns lib sys) \<or> (\<exists>r. x = SentRefresh (now_ns lib sys) r)"
  shows "cache_inv lib (log_token x sys)"
proof -
  obtain m w where s: "ts_state sys = (m, w)" by fastforce
  with assms(2) have u: "om_cache m = Some c \<Longrightarrow> tc_expires_at c \<le> now_ns lib sys + 30 * NS_PER_SEC" for c
    by (auto simp: usable_None now_ns_def)
  have "entry_ok (ts_log sys) x"
    using assms(1,3,4) u s by (cases "newest (ts_log sys)") (auto simp: cache_inv_def bind_eq_Some_conv)
  moreover have "newest (ts_log sys @ [x]) = newest (ts_log sys)" using assms(4) by (auto simp: newest_append)
  ultimately show ?thesis using assms(1) by (simp add: cache_inv_def token_simps now_ns_def cong: option.case_cong)
qed

lemma load_token_net: "load_token lib store i w = (p, w1) \<Longrightarrow> ow_net w1 = ow_net w"
  by (auto simp: load_token_def Let_def split: prod.splits)

lemma refresh_answer_cases:
  assumes "refresh_answer lib i reply s = (r, s')"
  shows "(\<exists>f. r = Inl f) \<and> s' = s \<or> (\<exists>t c. r = Inr t \<and> om_cache (fst s') = Some c)"
  using assms by (auto simp: refresh_answer_def cache_token_response_def Let_def split: sum.splits if_splits prod.splits option.splits)

lemma cache_inv_first:
  assumes "cache_inv lib sys" and "refresh_answer lib i reply (ts_state sys) = (r, s)"
  shows "cache_inv lib (first_refresh_ends lib i k d sent (r, s) sys)"
  using refresh_answer_cases [OF assms(2)]
proof
  assume "(\<exists>f. r = Inl f) \<and> s = ts_state sys"
  with assms(1) show ?thesis by (auto simp: first_refresh_ends_def Let_def)
next
  assume "\<exists>t c. r = Inr t \<and> om_cache (fst s) = Some c"
  with assms(1) show ?thesis by (auto simp: first_refresh_ends_def Let_def cache_inv_def [of lib sys] intro!: cache_inv_obtained)
qed

lemma cache_inv_second:
  assumes "cache_inv lib sys" and "refresh_answer lib i reply (ts_state sys) = (r, s)"
  shows "cache_inv lib (second_refresh_ends k d e (r, s) sys)"
  using refresh_answer_cases [OF assms(2)]
proof
  assume "(\<exists>f. r = Inl f) \<and> s = ts_state sys"
  with assms(1) show ?thesis by (auto simp: second_refresh_ends_def Let_def)
next
  assume "\<exists>t c. r = Inr t \<and> om_cache (fst s) = Some c"
  with assms(1) show ?thesis by (auto simp: second_refresh_ends_def Let_def cache_inv_def [of lib sys] intro!: cache_inv_obtained)
qed

lemma cache_inv_state:
  "cache_inv lib sys \<Longrightarrow> om_cache (fst s) = om_cache (fst (ts_state sys)) \<Longrightarrow> ow_net (snd s) = ow_net (snd (ts_state sys)) \<Longrightarrow>
     cache_inv lib (sys\<lparr>ts_state := s\<rparr>)"
  by (erule cache_inv_same) (simp_all add: now_ns_def)

lemma secs_left_invalid: "pt_expires_at_unix p \<le> now + 30 \<Longrightarrow> unat (secs_left (pt_expires_at_unix p) now) \<le> 30"
  for now :: u64
proof -
  assume a: "pt_expires_at_unix p \<le> now + 30"
  show ?thesis
  proof (cases "now \<le> pt_expires_at_unix p")
    case True
    have "unat (now + 30) \<le> unat now + 30"
      by (simp add: unat_word_ariths)
    with a True have "unat (pt_expires_at_unix p) \<le> unat now + 30" by (simp add: word_le_nat_alt)
    with True show ?thesis by (simp add: secs_left_def unat_sub)
  qed (simp add: secs_left_def)
qed

lemma cache_inv_reload:
  assumes inv: "cache_inv lib sys"
  shows "cache_inv lib (reload lib i k d e sent sys)"
proof (cases "om_store (fst (ts_state sys))")
  case None
  with inv show ?thesis by (simp add: reload_def)
next
  case (Some store)
  obtain p w1 where p: "load_token lib store i (snd (ts_state sys)) = (p, w1)" by fastforce
  have same: "cache_inv lib (sys\<lparr>ts_state := (fst (ts_state sys), w1)\<rparr>)"
    by (rule cache_inv_state [OF inv]) (simp_all add: load_token_net [OF p])
  show ?thesis
  proof (cases p)
    case None
    with Some p same show ?thesis by (simp add: reload_def)
  next
    case stored: (Some stored)
    let ?sys0 = "sys\<lparr>ts_state := (install_persisted lib stored w1 (fst (ts_state sys)), w1)\<rparr>"
    have new: "cache_inv lib (obtained ?sys0)"
      using inv by (intro cache_inv_obtained) (auto simp: cache_inv_def install_persisted_def Let_def)
    show ?thesis
    proof (cases "pt_refresh_token stored = Some sent \<or> is_valid (ol_unix_secs lib (ow_net w1)) stored \<or> pt_refresh_token stored = None")
      case True
      with Some p stored same new show ?thesis by (auto simp: reload_def Let_def)
    next
      case False
      then obtain rt where rt: "pt_refresh_token stored = Some rt" "rt \<noteq> sent" and
        late: "pt_expires_at_unix stored \<le> ol_unix_secs lib (ow_net w1) + 30"
        by (auto simp: is_valid_def not_less)
      have now: "now_ns lib (obtained ?sys0) = ol_mono_ns lib (ow_net w1)" by (simp add: now_ns_def token_simps)
      have "usable_token lib (ts_state (obtained ?sys0)) = None"
        using secs_left_invalid [OF late] by (simp add: token_simps usable_None install_persisted_def Let_def NS_PER_SEC_def)
      then have "cache_inv lib (log_token (SentRefresh (now_ns lib (obtained ?sys0)) rt) (obtained ?sys0))"
        by (intro cache_inv_sent [OF new]) (auto simp: token_simps install_persisted_def Let_def rt)
      moreover have "cache_inv lib (log_token x (at_pc k pc sys2)) = cache_inv lib (log_token x sys2)" for x pc and sys2 :: "('a, 'b) token_sys"
        by (simp add: cache_inv_def token_simps now_ns_def cong: option.case_cong)
      ultimately show ?thesis
        using False Some p stored rt cache_inv_second [OF new, of i]
        by (auto simp: reload_def Let_def token_simps split: sum.split
            simp del: cache_inv_helpers) (metis surj_pair)
    qed
  qed
qed

lemma cache_inv_log_at [simp]:
  "cache_inv lib (log_token x (at_pc k pc sys)) = cache_inv lib (log_token x sys)"
  "cache_inv lib (log_token x (sys\<lparr>ts_lock := l\<rparr>)) = cache_inv lib (log_token x sys)"
  by (simp_all add: cache_inv_def token_simps now_ns_def cong: option.case_cong)

lemma cache_inv_refresh_locked:
  assumes inv: "cache_inv lib sys"
  shows "cache_inv lib (refresh_locked lib i k d sys)"
proof (cases "usable_token lib (ts_state sys)")
  case None
  show ?thesis
  proof (cases "Option.bind (om_cache (fst (ts_state sys))) tc_refresh_token")
    case (Some rt)
    have "cache_inv lib (log_token (SentRefresh (now_ns lib sys) rt) sys)"
      by (rule cache_inv_sent [OF inv None]) (simp_all add: Some)
    moreover have "cache_inv lib (first_refresh_ends lib i k d rt (refresh_answer lib i (Inl e) (ts_state sys)) sys)" for e
      using cache_inv_first [OF inv, of i "Inl e"] by (metis surj_pair)
    ultimately show ?thesis using None Some by (simp add: refresh_locked_def split: sum.split)
  qed (use inv None in \<open>simp add: refresh_locked_def\<close>)
qed (use inv in \<open>simp add: refresh_locked_def\<close>)

lemma cache_inv_acquire_locked:
  assumes inv: "cache_inv lib sys"
  shows "cache_inv lib (acquire_locked lib k d sys)"
proof (cases "usable_token lib (ts_state sys)")
  case None
  have "cache_inv lib (log_token (SentGrant (now_ns lib sys)) sys)" by (rule cache_inv_sent [OF inv None]) simp_all
  with None inv show ?thesis by (simp add: acquire_locked_def split: sum.split)
qed (use inv in \<open>simp add: acquire_locked_def\<close>)

lemma cache_inv_grant_ends:
  assumes inv: "cache_inv lib sys"
  shows "cache_inv lib (grant_ends lib i k reply sys)"
proof -
  obtain r s where a: "bind_auth (lift_auth reply) (accept_token lib i) (ts_state sys) = (r, s)"
    by (cases "bind_auth (lift_auth reply) (accept_token lib i) (ts_state sys)")
  then have "(\<exists>e. r = Inl e) \<and> s = ts_state sys \<or> (\<exists>t c. r = Inr t \<and> om_cache (fst s) = Some c)"
    by (auto simp: bind_auth_def lift_auth_def accept_token_def fail_auth_def cache_token_response_def Let_def
        split: sum.splits if_splits prod.splits option.splits)
  then show ?thesis
  proof
    assume "(\<exists>e. r = Inl e) \<and> s = ts_state sys"
    with a inv show ?thesis by (auto simp: grant_ends_def)
  next
    assume "\<exists>t c. r = Inr t \<and> om_cache (fst s) = Some c"
    with a inv show ?thesis by (auto simp: grant_ends_def cache_inv_def [of lib sys] intro!: cache_inv_obtained)
  qed
qed

lemma cache_inv_adopt_load:
  assumes inv: "cache_inv lib sys"
  shows "cache_inv lib (adopt_load lib i k sys)"
proof (cases "om_store (fst (ts_state sys))")
  case None
  with inv show ?thesis by (simp add: adopt_load_def)
next
  case (Some store)
  obtain p w1 where p: "load_token lib store i (snd (ts_state sys)) = (p, w1)" by fastforce
  have same: "cache_inv lib (sys\<lparr>ts_state := (fst (ts_state sys), w1)\<rparr>)"
    by (rule cache_inv_state [OF inv]) (simp_all add: load_token_net [OF p])
  have new: "cache_inv lib (obtained (sys\<lparr>ts_state := (install_persisted lib stored w1 (fst (ts_state sys)), w1)\<rparr>))" for stored
    using inv by (intro cache_inv_obtained) (auto simp: cache_inv_def install_persisted_def Let_def)
  show ?thesis using Some p same new by (cases p) (simp_all add: adopt_load_def Let_def)
qed

lemma cache_inv_registered:
  assumes inv: "cache_inv lib sys"
  shows "cache_inv lib (sys\<lparr>ts_state := (set_dynamic_client_id lib c (snd (ts_state sys)) (fst (ts_state sys)), snd (ts_state sys))\<rparr>)"
  using inv by (auto simp: cache_inv_def set_dynamic_client_id_def now_ns_def split: option.splits)

lemma cache_inv_step:
  assumes inv: "cache_inv lib sys" and s: "token_step lib i e sys = Some sys'"
  shows "cache_inv lib sys'"
proof (cases e)
  case (Look k)
  with s inv show ?thesis by (auto simp: look_def split: option.splits token_pc.splits if_splits)
next
  case (LockIn k)
  with s obtain pc where k: "map_of (ts_tasks sys) k = Some pc" by (auto split: if_splits option.splits)
  with s LockIn cache_inv_refresh_locked [OF inv] cache_inv_acquire_locked [OF inv] inv show ?thesis
    by (cases pc) (auto simp: adopt_locked_def split: if_splits)
next
  case (RefreshIn k reply)
  obtain r st where a: "refresh_answer lib i reply (ts_state sys) = (r, st)" by (cases "refresh_answer lib i reply (ts_state sys)")
  from RefreshIn s obtain pc where k: "map_of (ts_tasks sys) k = Some pc" by (auto split: option.splits)
  with s RefreshIn a cache_inv_first [OF inv a] cache_inv_second [OF inv a] show ?thesis by (cases pc) auto
next
  case (StoreIn k)
  then obtain pc where k: "map_of (ts_tasks sys) k = Some pc" using s by (auto split: option.splits)
  with s StoreIn cache_inv_reload [OF inv] cache_inv_adopt_load [OF inv] show ?thesis by (cases pc) auto
next
  case (RegisteredIn k c)
  with s cache_inv_registered [OF inv] show ?thesis by (auto split: option.splits token_pc.splits)
next
  case (GrantIn k reply)
  with s cache_inv_grant_ends [OF inv] show ?thesis by (auto split: option.splits token_pc.splits)
next
  case (DiscoveredIn am)
  with s have "sys' = sys\<lparr>ts_state := ((fst (ts_state sys))\<lparr>om_discovered := Some am\<rparr>, snd (ts_state sys))\<rparr>" by simp
  then show ?thesis by (simp add: cache_inv_state [OF inv])
next
  case (Outside w)
  with s have "sys' = sys\<lparr>ts_state := (fst (ts_state sys), w)\<rparr>" "now_ns lib sys \<le> ol_mono_ns lib (ow_net w)"
    by (auto split: if_splits)
  then show ?thesis by (auto intro!: cache_inv_same [OF inv] simp: now_ns_def)
qed (use s inv in \<open>auto split: if_splits\<close>)

section \<open>Properties\<close>

lemma lock_inv_new: "lock_inv (token_sys_new config store w)"
  by (simp add: lock_inv_def token_sys_new_def table_def)

lemma cache_inv_new: "cache_inv lib (token_sys_new config store w)"
  by (simp add: cache_inv_def token_sys_new_def manager_with_store_def)

text \<open>
  C4: However the callers of one token manager interleave, and whatever the token endpoint, the secret
  store and other processes do in between: at most one of them at a time has a token request on its way
  or replaces the cached token; a refresh is only sent when the newest token the manager has obtained is
  within thirty seconds of its end, and always carries that token's refresh token, so a refresh token that
  was rotated is not sent again; and no grant is requested while the newest token is good.
\<close>

theorem token_requests_single_flight:
  assumes "reaches (token_step lib i) (token_sys_new config store w) sys"
  shows "(\<forall>k k' pc pc'. map_of (ts_tasks sys) k = Some pc \<and> map_of (ts_tasks sys) k' = Some pc' \<and>
       holds_lock pc \<and> holds_lock pc' \<longrightarrow> k = k') \<and>
    (\<forall>pre post t r. ts_log sys = pre @ SentRefresh t r # post \<longrightarrow>
       (\<exists>e. newest pre = Some (Some r, e) \<and> e \<le> t + 30 * NS_PER_SEC)) \<and>
    (\<forall>pre post t r e. ts_log sys = pre @ SentGrant t # post \<and> newest pre = Some (r, e) \<longrightarrow> e \<le> t + 30 * NS_PER_SEC)"
proof -
  have lock: "lock_inv sys" by (rule token_callers.inv_reaches [OF lock_inv_new assms])
  have "cache_inv lib sys"
    by (rule reaches_inv [OF assms, where I = "cache_inv lib"]) (rule cache_inv_new, rule cache_inv_step)
  then have log: "ts_log sys = pre @ x # post \<Longrightarrow> entry_ok pre x" for pre x post by (simp add: cache_inv_def log_ok_def)
  show ?thesis
  proof (intro conjI allI impI)
    fix k k' pc pc'
    assume "map_of (ts_tasks sys) k = Some pc \<and> map_of (ts_tasks sys) k' = Some pc' \<and> holds_lock pc \<and> holds_lock pc'"
    then have "ts_lock sys = Some k" "ts_lock sys = Some k'" by (auto intro: lock_invD [OF lock])
    then show "k = k'" by simp
  qed (use log in force)+
qed


section \<open>A sample run\<close>

definition token_reply :: "string \<Rightarrow> string \<Rightarrow> backend_error + http_reply \<times> json" where
  "token_reply token refresh = Inr (\<lparr>hp_status = 200, hp_status_text = ''200 OK'', hp_body = Inr JNull\<rparr>,
     jobj [(''access_token'', JStr token), (''refresh_token'', JStr refresh), (''expires_in'', JNum (PosInt 100))])"

definition token_world :: "nat \<Rightarrow> (nat, unit) oauth_world" where
  "token_world t = \<lparr>ow_secrets = sample_disk, ow_net = t\<rparr>"

text \<open>The first token has run out when two callers ask; one refreshes, the other finds the new token.\<close>

definition two_askers :: "(nat, unit) token_event list" where
  "two_askers = [AskToken 1 True, Look 1, LockIn 1, GrantIn 1 (token_reply ''t1'' ''r1''), Outside (token_world 200),
     AskToken 2 True, AskToken 3 True, Look 2, Look 3, LockIn 3, RefreshIn 3 (token_reply ''t2'' ''r2''), LockIn 2]"

lemma two_askers_run:
  "map_option (\<lambda>sys. (ts_tasks sys, ts_log sys)) (run_events (token_step sample_oauth_lib ''b'') two_askers
     (token_sys_new sample_oauth_config None (token_world 0))) =
   Some ([(1, GotToken (Inr ''t1'')), (2, GotToken (Inr ''t2'')), (3, GotToken (Inr ''t2''))],
     [SentGrant 0, Obtained (Some ''r1'') (100 * NS_PER_SEC), SentRefresh (200 * NS_PER_SEC) ''r1'',
      Obtained (Some ''r2'') (300 * NS_PER_SEC)])"
  by (simp add: two_askers_def token_sys_new_def manager_with_store_def token_world_def look_def refresh_locked_def
      acquire_locked_def grant_ends_def grant_of_def refresh_answer_def first_refresh_ends_def token_reply_def
      at_pc_def release_to_def log_token_def obtained_def usable_token_def resolve_token_endpoint_def resolve_grant_type_def
      sample_oauth_config_def now_ns_def bind_auth_def lift_auth_def accept_token_def cache_token_response_def Let_def
      is_success_def sample_oauth_lib_def token_life_def NS_PER_SEC_def)

theorem token_requests_single_flight_witness:
  "\<exists>sys. run_events (token_step sample_oauth_lib ''b'') two_askers (token_sys_new sample_oauth_config None (token_world 0)) = Some sys \<and>
     ts_log sys = [SentGrant 0, Obtained (Some ''r1'') (100 * NS_PER_SEC)] @ SentRefresh (200 * NS_PER_SEC) ''r1'' #
       [Obtained (Some ''r2'') (300 * NS_PER_SEC)] \<and>
     (\<exists>e. newest [SentGrant 0, Obtained (Some ''r1'') (100 * NS_PER_SEC)] = Some (Some ''r1'', e) \<and>
        e \<le> 200 * NS_PER_SEC + 30 * NS_PER_SEC)"
proof -
  from two_askers_run obtain sys where s: "run_events (token_step sample_oauth_lib ''b'') two_askers
        (token_sys_new sample_oauth_config None (token_world 0)) = Some sys"
    and l: "ts_log sys = [SentGrant 0, Obtained (Some ''r1'') (100 * NS_PER_SEC)] @ SentRefresh (200 * NS_PER_SEC) ''r1'' #
       [Obtained (Some ''r2'') (300 * NS_PER_SEC)]" by auto
  from token_requests_single_flight [OF run_events_reaches [OF reaches_start s]] l s show ?thesis by blast
qed


end
