(* ===== verification/Hub_Json_Text.thy ===== *)
theory Hub_Json_Text
  imports Hub_JsonRpc
begin

text \<open>
  An instance of the parameter \<open>codec\<close>: JSON text as \<open>serde_json\<close> documents it, read and written.  The
  models never use it; it shows that the hypothesis \<open>codec_ok\<close> can hold, and lets the examples of the
  repository's unit tests be evaluated on the bytes they give.  Two things are left out: escapes of
  characters above ASCII are not read (\<open>serde_json\<close> never writes them), and a float is written as its
  bits behind a mark that no JSON text has.
\<close>

section \<open>Writing\<close>

text \<open>The decimal digits of a number that is not negative, on \<open>int\<close>, where they are quick to evaluate.\<close>

function int_digits :: "int \<Rightarrow> string" where
  "int_digits n =
     (if n < 10 then [char_of (48 + nat n)] else int_digits (n div 10) @ [char_of (48 + nat (n mod 10))])"
  by pat_completeness auto
termination
  by (relation "measure nat") auto

declare int_digits.simps [simp del]

fun number_text :: "number \<Rightarrow> string" where
  "number_text (PosInt w) = int_digits (uint w)"
| "number_text (NegInt w) = CHR ''-'' # int_digits (- sint w)"
| "number_text (Float b) = CHR ''#'' # int_digits (uint b)"

section \<open>Reading\<close>

definition json_ws :: "char \<Rightarrow> bool" where
  "json_ws c \<longleftrightarrow> c = CHR '' '' \<or> c = CHR 0x09 \<or> c = CHR 0x0A \<or> c = CHR 0x0D"

fun skip_ws :: "string \<Rightarrow> string" where
  "skip_ws [] = []"
| "skip_ws (c # s) = (if json_ws c then skip_ws s else c # s)"

definition is_digit :: "char \<Rightarrow> bool" where
  "is_digit c \<longleftrightarrow> 48 \<le> (of_char c :: nat) \<and> of_char c \<le> (57 :: nat)"

definition digits_value :: "string \<Rightarrow> int" where
  "digits_value ds = foldl (\<lambda>n c. 10 * n + (of_char c - 48)) 0 ds"

text \<open>The digits of a number: none of it, or a leading zero, is not a number; nor is a float read.\<close>

definition read_digits :: "string \<Rightarrow> (int \<times> string) option" where
  "read_digits s =
     (let ds = takeWhile is_digit s; r = dropWhile is_digit s in
      if ds = [] \<or> (hd ds = CHR ''0'' \<and> length ds \<noteq> 1) then None
      else if r \<noteq> [] \<and> (hd r = CHR ''.'' \<or> hd r = CHR ''e'' \<or> hd r = CHR ''E'') then None
      else Some (digits_value ds, r))"

definition read_number :: "string \<Rightarrow> (number \<times> string) option" where
  "read_number s =
     (case s of
        [] \<Rightarrow> None
      | c # r \<Rightarrow>
          if c = CHR ''-'' then
            (case read_digits r of None \<Rightarrow> None
             | Some (n, r') \<Rightarrow> if 0 < n \<and> n \<le> 2 ^ 63 then Some (NegInt (word_of_int (- n)), r') else None)
          else if c = CHR ''#'' then map_option (apfst (\<lambda>n. Float (word_of_int n))) (read_digits r)
          else (case read_digits s of None \<Rightarrow> None
             | Some (n, r') \<Rightarrow> if n < 2 ^ 64 then Some (PosInt (word_of_int n), r') else None))"

definition hex_value :: "char \<Rightarrow> nat option" where
  "hex_value c =
     (let n = of_char c in
      if 48 \<le> n \<and> n \<le> 57 then Some (n - 48)
      else if 97 \<le> n \<and> n \<le> 102 then Some (n - 87)
      else if 65 \<le> n \<and> n \<le> 70 then Some (n - 55) else None)"

definition hex4_char :: "char \<Rightarrow> char \<Rightarrow> char \<Rightarrow> char \<Rightarrow> char option" where
  "hex4_char a b c d =
     (case all_some (map hex_value [a, b, c, d]) of
        Some [w, x, y, z] \<Rightarrow>
          (let n = ((w * 16 + x) * 16 + y) * 16 + z in if n < 128 then Some (char_of n) else None)
      | _ \<Rightarrow> None)"

definition read_escapes :: "(char \<times> char) list" where
  "read_escapes = (CHR 0x2F, CHR 0x2F) # map (\<lambda>(c, e). (e, c)) short_escapes"

text \<open>The rest of a string, behind its opening quote.\<close>

fun string_body :: "string \<Rightarrow> (string \<times> string) option" where
  "string_body [] = None"
| "string_body (c # s) =
     (if c = CHR 0x22 then Some ([], s)
      else if c = CHR 0x5C then
        (case s of
           [] \<Rightarrow> None
         | e # r \<Rightarrow>
             if e = CHR ''u'' then
               (case r of
                  c1 # c2 # c3 # c4 # r' \<Rightarrow>
                    (case hex4_char c1 c2 c3 c4 of None \<Rightarrow> None | Some x \<Rightarrow> map_option (apfst ((#) x)) (string_body r'))
                | _ \<Rightarrow> None)
             else (case map_of read_escapes e of None \<Rightarrow> None | Some x \<Rightarrow> map_option (apfst ((#) x)) (string_body r)))
      else if of_char c < (32 :: nat) then None
      else map_option (apfst ((#) c)) (string_body s))"

text \<open>Values; the first argument bounds the recursion, and the length of the text is enough for it.\<close>

fun read_value :: "nat \<Rightarrow> string \<Rightarrow> (json \<times> string) option"
  and read_elems :: "nat \<Rightarrow> string \<Rightarrow> (json list \<times> string) option"
  and read_members :: "nat \<Rightarrow> string \<Rightarrow> ((string \<times> json) list \<times> string) option" where
  "read_value 0 s = None"
| "read_value (Suc n) s =
     (case skip_ws s of
        [] \<Rightarrow> None
      | c # r \<Rightarrow>
          if c = CHR 0x22 then map_option (apfst JStr) (string_body r)
          else if c = CHR 0x5B then
            (if skip_ws r \<noteq> [] \<and> hd (skip_ws r) = CHR 0x5D then Some (JArr [], tl (skip_ws r))
             else map_option (apfst JArr) (read_elems n r))
          else if c = CHR 0x7B then
            (if skip_ws r \<noteq> [] \<and> hd (skip_ws r) = CHR 0x7D then Some (JObj [], tl (skip_ws r))
             else map_option (apfst (\<lambda>kvs. JObj (obj_of kvs))) (read_members n r))
          else if c = CHR ''n'' then map_option (Pair JNull) (strip_prefix (c # r) ''null'')
          else if c = CHR ''t'' then map_option (Pair (JBool True)) (strip_prefix (c # r) ''true'')
          else if c = CHR ''f'' then map_option (Pair (JBool False)) (strip_prefix (c # r) ''false'')
          else map_option (apfst JNum) (read_number (c # r)))"
| "read_elems 0 s = None"
| "read_elems (Suc n) s =
     (case read_value n s of
        None \<Rightarrow> None
      | Some (v, r) \<Rightarrow>
          (case skip_ws r of
             [] \<Rightarrow> None
           | c # r' \<Rightarrow>
               if c = CHR 0x2C then map_option (apfst ((#) v)) (read_elems n r')
               else if c = CHR 0x5D then Some ([v], r') else None))"
| "read_members 0 s = None"
| "read_members (Suc n) s =
     (case skip_ws s of
        [] \<Rightarrow> None
      | q # s' \<Rightarrow>
          if q \<noteq> CHR 0x22 then None
          else (case string_body s' of
             None \<Rightarrow> None
           | Some (k, r) \<Rightarrow>
               (case skip_ws r of
                  [] \<Rightarrow> None
                | d # r1 \<Rightarrow>
                    if d \<noteq> CHR 0x3A then None
                    else (case read_value n r1 of
                       None \<Rightarrow> None
                     | Some (v, r2) \<Rightarrow>
                         (case skip_ws r2 of
                            [] \<Rightarrow> None
                          | c # r' \<Rightarrow>
                              if c = CHR 0x2C then map_option (apfst ((#) (k, v))) (read_members n r')
                              else if c = CHR 0x7D then Some ([(k, v)], r') else None)))))"

definition read_text :: "string \<Rightarrow> json option" where
  "read_text s =
     (case read_value (Suc (length s)) s of
        Some (v, r) \<Rightarrow> if skip_ws r = [] then Some v else None
      | None \<Rightarrow> None)"

definition text_codec :: codec where
  "text_codec = \<lparr>parse = read_text, to_text = render number_text, pretty = render number_text,
     parse_msg = (\<lambda>s. ''not JSON''), shape_msg = (\<lambda>v. ''unexpected shape'')\<rparr>"

lemma text_codec_simps [simp]:
  "parse text_codec = read_text" "to_text text_codec = render number_text"
  by (simp_all add: text_codec_def)

section \<open>Strings read back\<close>

lemma hex_value_digit: "n < 16 \<Longrightarrow> hex_value (hex_digit n) = Some n"
  by (simp add: hex_value_def code_hex_digit Let_def)

lemma hex4_escape: "n < 32 \<Longrightarrow> hex4_char CHR ''0'' CHR ''0'' (hex_digit (n div 16)) (hex_digit (n mod 16)) = Some (char_of n)"
proof -
  assume n: "n < 32"
  have z: "hex_value CHR ''0'' = Some 0" by (simp add: hex_value_def)
  have "hex_value (hex_digit (n div 16)) = Some (n div 16)" "hex_value (hex_digit (n mod 16)) = Some (n mod 16)"
    using n by (simp_all add: hex_value_digit)
  with z n show ?thesis by (simp add: hex4_char_def Let_def)
qed

lemma short_escape_char: "map_of short_escapes c = Some e \<Longrightarrow>
    c \<noteq> CHR ''u'' \<and> e \<noteq> CHR ''u'' \<and> map_of read_escapes e = Some c"
  by (auto simp: short_escapes_def read_escapes_def split: if_splits)

lemma string_body_escape: "string_body (escape_char c @ t) = map_option (apfst ((#) c)) (string_body t)"
proof (cases "map_of short_escapes c")
  case (Some e)
  with short_escape_char [OF Some] show ?thesis by (simp add: escape_char_def)
next
  case None
  then have c: "c \<noteq> CHR 0x22" "c \<noteq> CHR 0x5C" by (auto simp: short_escapes_def)
  show ?thesis
  proof (cases "of_char c < (32 :: nat)")
    case True
    from hex4_escape [OF True] None True show ?thesis by (simp add: escape_char_def)
  next
    case False
    with None c show ?thesis by (simp add: escape_char_def)
  qed
qed

lemma string_body_text: "string_body (escape_text s @ CHR 0x22 # r) = Some (s, r)"
  by (induction s) (simp_all add: string_body_escape)

section \<open>Numbers read back\<close>

lemma digit_code: "n < 10 \<Longrightarrow> of_char (char_of (48 + n) :: char) = (48 + n :: nat)"
  by (simp add: of_char_of)

lemma int_digits_digits: "0 \<le> n \<Longrightarrow> c \<in> set (int_digits n) \<Longrightarrow> is_digit c"
proof (induction n rule: int_digits.induct)
  case (1 n)
  have "nat n < 10 \<or> \<not> n < 10" "nat (n mod 10) < 10" by auto
  with 1 show ?case
    by (subst (asm) (2) int_digits.simps) (auto simp: is_digit_def digit_code split: if_splits)
qed

lemma digits_value_snoc: "digits_value (ds @ [c]) = 10 * digits_value ds + (of_char c - 48)"
  by (simp add: digits_value_def)

lemma int_digit_code: "0 \<le> n \<Longrightarrow> n < 10 \<Longrightarrow> of_char (char_of (48 + nat n) :: char) = 48 + n" for n :: int
  using digit_code [of "nat n"] by (metis int_nat_eq nat_less_iff of_nat_add of_nat_numeral of_nat_of_char zero_less_numeral)

lemma digits_value_of: "0 \<le> n \<Longrightarrow> digits_value (int_digits n) = n"
proof (induction n rule: int_digits.induct)
  case (1 n)
  show ?case
  proof (cases "n < 10")
    case True
    with 1 show ?thesis by (simp add: int_digits.simps [of n] digits_value_def int_digit_code)
  next
    case False
    with 1 show ?thesis by (simp add: int_digits.simps [of n] digits_value_snoc int_digit_code)
  qed
qed

lemma int_digits_start: "0 \<le> n \<Longrightarrow> int_digits n \<noteq> [] \<and> (hd (int_digits n) = CHR ''0'' \<longrightarrow> n = 0)"
proof (induction n rule: int_digits.induct)
  case (1 n)
  show ?case
  proof (cases "n < 10")
    case True
    have "of_char CHR ''0'' = (48 :: int)" by simp
    with int_digit_code [OF 1(2) True] have "char_of (48 + nat n) = CHR ''0'' \<Longrightarrow> n = 0" by auto
    with True show ?thesis by (simp add: int_digits.simps [of n])
  next
    case False
    then have "n div 10 \<noteq> 0" by auto
    with 1 False show ?thesis by (simp add: int_digits.simps [of n])
  qed
qed

text \<open>What may follow a value inside another.\<close>

definition closes :: "string \<Rightarrow> bool" where
  "closes r \<longleftrightarrow> r = [] \<or> hd r = CHR 0x2C \<or> hd r = CHR 0x5D \<or> hd r = CHR 0x7D"

lemma closes_simps [simp]: "closes []" "closes (c # r) \<longleftrightarrow> c = CHR 0x2C \<or> c = CHR 0x5D \<or> c = CHR 0x7D"
  by (simp_all add: closes_def)

lemma closes_no_digit: "closes r \<Longrightarrow> takeWhile is_digit r = [] \<and> dropWhile is_digit r = r"
  by (cases r) (auto simp: is_digit_def)

lemma read_digits_of:
  assumes r: "closes r" and n: "0 \<le> n"
  shows "read_digits (int_digits n @ r) = Some (n, r)"
proof -
  have "takeWhile is_digit (int_digits n @ r) = int_digits n" "dropWhile is_digit (int_digits n @ r) = r"
    using closes_no_digit [OF r] int_digits_digits [OF n] by (simp_all add: takeWhile_append dropWhile_append)
  then have "read_digits (int_digits n @ r) =
      (if int_digits n = [] \<or> (hd (int_digits n) = CHR ''0'' \<and> length (int_digits n) \<noteq> 1) then None
       else if r \<noteq> [] \<and> (hd r = CHR ''.'' \<or> hd r = CHR ''e'' \<or> hd r = CHR ''E'') then None
       else Some (digits_value (int_digits n), r))" by (simp only: read_digits_def Let_def)
  moreover have "length (int_digits 0) = 1" by (simp add: int_digits.simps)
  ultimately show ?thesis using int_digits_start [OF n] r
    by (auto simp: digits_value_of [OF n] closes_def)
qed

lemma digit_chars: "is_digit c \<Longrightarrow> c \<noteq> CHR ''-'' \<and> c \<noteq> CHR ''#'' \<and> c \<noteq> CHR 0x22 \<and> c \<noteq> CHR 0x5B \<and> c \<noteq> CHR 0x5D
    \<and> c \<noteq> CHR 0x7B \<and> c \<noteq> CHR ''n'' \<and> c \<noteq> CHR ''t'' \<and> c \<noteq> CHR ''f'' \<and> \<not> json_ws c"
  by (auto simp: is_digit_def json_ws_def)

lemma int_digits_Cons:
  assumes "0 \<le> n" obtains c t where "int_digits n = c # t" "is_digit c"
  using int_digits_start [OF assms] int_digits_digits [OF assms] by (cases "int_digits n") auto

lemma read_number_text:
  assumes "wf_number n" and "closes r"
  shows "read_number (number_text n @ r) = Some (n, r)"
proof (cases n)
  case (PosInt w)
  obtain c t where d: "int_digits (uint w) = c # t" "is_digit c" by (rule int_digits_Cons [of "uint w"]) simp
  have "uint w < 2 ^ 64" using unsigned_less [of w] by simp
  with read_digits_of [OF assms(2), of "uint w"] d digit_chars [OF d(2)] PosInt show ?thesis
    by (simp add: read_number_def)
next
  case (NegInt w)
  with assms(1) have s: "sint w < 0" by simp
  have "- (2 ^ 63) \<le> sint w" using sint_range_size [of w] by (simp add: word_size)
  with s read_digits_of [OF assms(2), of "- sint w"] NegInt show ?thesis
    by (simp add: read_number_def)
next
  case (Float b)
  with read_digits_of [OF assms(2), of "uint b"] show ?thesis by (simp add: read_number_def)
qed

section \<open>Values read back\<close>

declare read_value.simps [simp del] read_elems.simps [simp del] read_members.simps [simp del]

definition number_start :: "char \<Rightarrow> bool" where
  "number_start c \<longleftrightarrow> is_digit c \<or> c = CHR ''-'' \<or> c = CHR ''#''"

lemma number_start_chars:
  assumes "number_start c"
  shows "\<not> json_ws c" "c \<noteq> CHR 0x22" "c \<noteq> CHR 0x5B" "c \<noteq> CHR 0x5D" "c \<noteq> CHR 0x7B"
    "c \<noteq> CHR ''n''" "c \<noteq> CHR ''t''" "c \<noteq> CHR ''f''"
proof -
  consider "is_digit c" | "c = CHR ''-''" | "c = CHR ''#''" using assms by (auto simp: number_start_def)
  then have "\<not> json_ws c \<and> c \<noteq> CHR 0x22 \<and> c \<noteq> CHR 0x5B \<and> c \<noteq> CHR 0x5D \<and> c \<noteq> CHR 0x7B
      \<and> c \<noteq> CHR ''n'' \<and> c \<noteq> CHR ''t'' \<and> c \<noteq> CHR ''f''"
  proof cases
    case 1
    from digit_chars [OF this] show ?thesis by blast
  qed (simp_all add: json_ws_def)
  then show "\<not> json_ws c" "c \<noteq> CHR 0x22" "c \<noteq> CHR 0x5B" "c \<noteq> CHR 0x5D" "c \<noteq> CHR 0x7B"
    "c \<noteq> CHR ''n''" "c \<noteq> CHR ''t''" "c \<noteq> CHR ''f''" by blast+
qed

lemma number_text_start: obtains c t where "number_text n = c # t" "number_start c"
proof (cases n)
  case (PosInt w)
  obtain c t where "int_digits (uint w) = c # t" "is_digit c" by (rule int_digits_Cons [of "uint w"]) simp
  with PosInt that show ?thesis by (simp add: number_start_def)
qed (auto simp: number_start_def intro: that)

lemma read_value_number:
  assumes "wf_number n" and "closes r"
  shows "read_value (Suc m) (number_text n @ r) = Some (JNum n, r)"
proof -
  obtain c t where t: "number_text n = c # t" "number_start c" by (rule number_text_start)
  from read_number_text [OF assms] t(1) have "read_number (c # t @ r) = Some (n, r)" by simp
  with t(1) number_start_chars [OF t(2)] show ?thesis by (simp add: read_value.simps)
qed

lemma render_start: obtains c t where "render number_text v = c # t" "\<not> json_ws c" "c \<noteq> CHR 0x5D"
proof (cases v)
  case (JNum n)
  obtain c t where "number_text n = c # t" "number_start c" by (rule number_text_start)
  with JNum that number_start_chars [of c] show ?thesis by simp
next
  case (JBool b)
  with that show ?thesis by (cases b) (simp_all add: json_ws_def)
qed (simp_all add: quoted_def json_ws_def that)

lemma skip_render [simp]: "skip_ws (render number_text v @ r) = render number_text v @ r"
  by (rule render_start [of v]) simp

lemma comma_list_Cons: "ss \<noteq> [] \<Longrightarrow> comma_list (s # ss) = s @ '','' @ comma_list ss"
  by simp

definition reads_back :: "json \<Rightarrow> bool" where
  "reads_back v \<longleftrightarrow> (\<forall>n r. length (render number_text v) \<le> n \<longrightarrow> closes r \<longrightarrow>
     read_value n (render number_text v @ r) = Some (v, r))"

lemma reads_backD:
  "reads_back v \<Longrightarrow> length (render number_text v) \<le> n \<Longrightarrow> closes r \<Longrightarrow>
   read_value n (render number_text v @ r) = Some (v, r)"
  by (simp add: reads_back_def)

lemma read_elems_back:
  assumes "vs \<noteq> []" and "list_all reads_back vs" and "length (comma_list (map (render number_text) vs)) < n"
  shows "read_elems n (comma_list (map (render number_text) vs) @ CHR 0x5D # r) = Some (vs, r)"
  using assms
proof (induction vs arbitrary: n)
  case (Cons v vs)
  then obtain m where n: "n = Suc m" by (cases n) auto
  show ?case
  proof (cases "vs = []")
    case True
    with Cons.prems n reads_backD [of v m "CHR 0x5D # r"] show ?thesis by (simp add: json_ws_def read_elems.simps)
  next
    case False
    let ?rest = "comma_list (map (render number_text) vs) @ CHR 0x5D # r"
    from False Cons.prems n have "read_value m (render number_text v @ CHR 0x2C # ?rest) = Some (v, CHR 0x2C # ?rest)"
      by (intro reads_backD) (auto simp: comma_list_Cons)
    moreover from False Cons.prems n have "read_elems m ?rest = Some (vs, r)"
      by (intro Cons.IH) (auto simp: comma_list_Cons)
    ultimately show ?thesis using n False by (simp add: comma_list_Cons json_ws_def read_elems.simps)
  qed
qed simp

abbreviation member_text :: "string \<times> json \<Rightarrow> string" where
  "member_text \<equiv> \<lambda>(k, v). (quoted k @ '':'') @ render number_text v"

lemma read_members_back:
  assumes "kvs \<noteq> []" and "list_all (reads_back \<circ> snd) kvs" and "length (comma_list (map member_text kvs)) < n"
  shows "read_members n (comma_list (map member_text kvs) @ CHR 0x7D # r) = Some (kvs, r)"
  using assms
proof (induction kvs arbitrary: n)
  case (Cons kv kvs)
  obtain k v where kv: "kv = (k, v)" by (cases kv)
  from Cons.prems obtain m where n: "n = Suc m" by (cases n) auto
  show ?case
  proof (cases "kvs = []")
    case True
    with Cons.prems n kv reads_backD [of v m "CHR 0x7D # r"] show ?thesis
      by (simp add: quoted_def json_ws_def string_body_text read_members.simps)
  next
    case False
    let ?rest = "comma_list (map member_text kvs) @ CHR 0x7D # r"
    from False Cons.prems n kv have "read_value m (render number_text v @ CHR 0x2C # ?rest) = Some (v, CHR 0x2C # ?rest)"
      by (intro reads_backD) (auto simp: comma_list_Cons)
    moreover from False Cons.prems n kv have "read_members m ?rest = Some (kvs, r)"
      by (intro Cons.IH) (auto simp: comma_list_Cons)
    ultimately show ?thesis using n False kv
      by (simp add: comma_list_Cons quoted_def json_ws_def string_body_text read_members.simps)
  qed
qed simp

lemma obj_of_sorted: "sorted_keys kvs \<Longrightarrow> obj_of kvs = kvs"
  by (rule sorted_keys_eqI) (simp_all add: map_of_obj_of map_of_rev_table sorted_keys_table)

lemma render_reads_back: "wf_json v \<Longrightarrow> reads_back v"
proof (induction v rule: wf_json.induct)
  case (5 vs)
  then have l: "list_all reads_back vs" by (auto simp: list_all_iff)
  show ?case unfolding reads_back_def
  proof (intro allI impI)
    fix n r assume n: "length (render number_text (JArr vs)) \<le> n" and "closes r"
    then obtain m where m: "n = Suc m" by (cases n) auto
    show "read_value n (render number_text (JArr vs) @ r) = Some (JArr vs, r)"
    proof (cases vs)
      case Nil
      with m show ?thesis by (simp add: json_ws_def read_value.simps)
    next
      case (Cons w ws)
      obtain c t where "render number_text w = c # t" "\<not> json_ws c" "c \<noteq> CHR 0x5D" by (rule render_start)
      moreover have "read_elems m (comma_list (map (render number_text) vs) @ CHR 0x5D # r) = Some (vs, r)"
        using n m Cons by (intro read_elems_back [OF _ l]) auto
      ultimately show ?thesis using m Cons by (simp add: json_ws_def read_value.simps)
    qed
  qed
next
  case (6 kvs)
  then have l: "list_all (reads_back \<circ> snd) kvs" and s: "sorted_keys kvs" by (auto simp: list_all_iff)
  show ?case unfolding reads_back_def
  proof (intro allI impI)
    fix n r assume n: "length (render number_text (JObj kvs)) \<le> n" and "closes r"
    then obtain m where m: "n = Suc m" by (cases n) auto
    show "read_value n (render number_text (JObj kvs) @ r) = Some (JObj kvs, r)"
    proof (cases kvs)
      case Nil
      with m show ?thesis by (simp add: json_ws_def read_value.simps)
    next
      case (Cons w ws)
      have "read_members m (comma_list (map member_text kvs) @ CHR 0x7D # r) = Some (kvs, r)"
        using n m Cons by (intro read_members_back [OF _ l]) auto
      then show ?thesis using m Cons obj_of_sorted [OF s]
        by (cases w) (simp add: json_ws_def quoted_def read_value.simps)
    qed
  qed
next
  case (3 n)
  show ?case unfolding reads_back_def
  proof (intro allI impI)
    fix m r assume m: "length (render number_text (JNum n)) \<le> m" and "closes r"
    obtain c t where "number_text n = c # t" by (rule number_text_start)
    with m obtain k where "m = Suc k" by (cases m) auto
    with read_value_number [of n r k] 3 \<open>closes r\<close>
    show "read_value m (render number_text (JNum n) @ r) = Some (JNum n, r)" by simp
  qed
qed (auto simp: reads_back_def read_value.simps quoted_def json_ws_def string_body_text Suc_le_eq less_iff_Suc_add)

theorem text_codec_ok: "codec_ok text_codec"
  unfolding codec_ok_def
proof (intro allI impI)
  fix v assume "wf_json v"
  from reads_backD [OF render_reads_back [OF this], of "Suc (length (render number_text v))" "[]"]
  show "parse text_codec (to_text text_codec v) = Some v" by (simp add: read_text_def del: read_value.simps)
qed

section \<open>Messages as text\<close>


definition sample_request :: jsonrpc_message where
  "sample_request = Request (new_request (IdNumber 1) ''tools/call'' (Some (jobj
     [(''name'', JStr ''list''), (''arguments'', JArr [JNum (PosInt 7), JStr [CHR 0x22, CHR 0x0A], JNull])])))"


end
