(* ===== verification/Hub_Wire_Tests.thy ===== *)
theory Hub_Wire_Tests
  imports Hub_Json_Text Hub_Sse
begin

text \<open>
  The unit tests of \<open>crates/mcp-wire\<close>, translated: each test is a definition that is true when its
  assertions hold, and a lemma that the model passes it.  JSON text is read and written by
  \<open>text_codec\<close>; a panic of a test (an \<open>unwrap\<close> of the wrong kind of result) makes its definition false.
\<close>

section \<open>Messages\<close>

definition message_text :: "jsonrpc_message \<Rightarrow> string" where
  "message_text m = to_text text_codec (message_value m)"

text \<open>\<open>roundtrip\<close> panics unless the bytes are a message; \<open>unwrap_err().code\<close> unless they are not.\<close>

definition roundtrip :: "string \<Rightarrow> jsonrpc_message option" where
  "roundtrip bytes = (case decode_message text_codec bytes of Inr m \<Rightarrow> Some m | Inl e \<Rightarrow> None)"

definition err_code :: "string \<Rightarrow> i64 option" where
  "err_code bytes = (case decode_message text_codec bytes of Inl e \<Rightarrow> Some (rpc_code e) | Inr m \<Rightarrow> None)"

definition roundtrips_a_request :: bool where
  "roundtrips_a_request =
     (let request = Request (new_request (IdNumber 1) ''tools/call'' (Some (jobj [(''name'', JStr ''list_tables'')])));
          encoded = message_text request
      in roundtrip encoded = Some request)"

definition roundtrips_a_notification :: bool where
  "roundtrips_a_notification =
     (let notification = Notification (new_notification ''notifications/progress'' (Some (jobj [(''pct'', JNum (PosInt 50))])));
          encoded = message_text notification
      in roundtrip encoded = Some notification)"

definition roundtrips_a_success_response :: bool where
  "roundtrips_a_success_response =
     (let response = SuccessResponse (new_success (IdString ''abc'') (jobj [(''rows'', JArr [])]));
          encoded = message_text response
      in roundtrip encoded = Some response)"

definition roundtrips_an_error_response :: bool where
  "roundtrips_an_error_response =
     (let response = ErrorResponse (new_failure (Some (IdNumber 7)) (invalid_params ''missing \"table\" argument''));
          encoded = message_text response
      in roundtrip encoded = Some response)"

definition error_response_with_null_id_roundtrips :: bool where
  "error_response_with_null_id_roundtrips =
     (let response = ErrorResponse (new_failure None (parse_error ''bad json''));
          encoded = message_text response
      in roundtrip encoded = Some response)"

definition notification_serializes_without_an_id_key :: bool where
  "notification_serializes_without_an_id_key =
     (let notification = Notification (new_notification ''ping'' None);
          encoded = message_text notification
      in \<not> contains_sub encoded ''\"id\"'')"

definition empty_input_is_a_parse_error :: bool where
  "empty_input_is_a_parse_error =
     (err_code '''' = Some PARSE_ERROR)"

definition garbage_bytes_are_a_parse_error :: bool where
  "garbage_bytes_are_a_parse_error =
     (err_code ''not json at all {{{'' = Some PARSE_ERROR)"

definition bare_number_is_invalid_request :: bool where
  "bare_number_is_invalid_request =
     (err_code ''42'' = Some INVALID_REQUEST)"

definition bare_string_is_invalid_request :: bool where
  "bare_string_is_invalid_request =
     (err_code ''\"hello\"'' = Some INVALID_REQUEST)"

definition bare_array_is_invalid_request :: bool where
  "bare_array_is_invalid_request =
     (err_code ''[1,2,3]'' = Some INVALID_REQUEST)"

definition wrong_jsonrpc_version_is_invalid_request :: bool where
  "wrong_jsonrpc_version_is_invalid_request =
     (err_code ''{\"jsonrpc\":\"1.0\",\"id\":1,\"method\":\"ping\"}'' = Some INVALID_REQUEST)"

definition method_with_wrong_type_is_invalid_request :: bool where
  "method_with_wrong_type_is_invalid_request =
     (err_code ''{\"jsonrpc\":\"2.0\",\"id\":1,\"method\":123}'' = Some INVALID_REQUEST)"

definition boolean_id_is_invalid_request :: bool where
  "boolean_id_is_invalid_request =
     (err_code ''{\"jsonrpc\":\"2.0\",\"id\":true,\"method\":\"ping\"}'' = Some INVALID_REQUEST)"

definition response_with_both_result_and_error_is_invalid_request :: bool where
  "response_with_both_result_and_error_is_invalid_request =
     (err_code ''{\"jsonrpc\":\"2.0\",\"id\":1,\"result\":1,\"error\":{\"code\":-32603,\"message\":\"x\"}}'' = Some INVALID_REQUEST)"

definition missing_method_result_and_error_is_invalid_request :: bool where
  "missing_method_result_and_error_is_invalid_request =
     (err_code ''{\"jsonrpc\":\"2.0\",\"id\":1}'' = Some INVALID_REQUEST)"

definition notification_has_no_id_key_when_decoded :: bool where
  "notification_has_no_id_key_when_decoded =
     (case roundtrip ''{\"jsonrpc\":\"2.0\",\"method\":\"ping\"}'' of Some (Notification n) \<Rightarrow> True | _ \<Rightarrow> False)"

definition deeply_nested_json_does_not_panic_or_hang :: bool where
  "deeply_nested_json_does_not_panic_or_hang =
     (let depth = 10000;
          input = ''{\"jsonrpc\":\"2.0\",\"id\":1,\"method\":\"x\",\"params\":'' @ replicate depth (CHR ''['')
            @ replicate depth (CHR '']'') @ ''}''
      in err_code input = Some INVALID_REQUEST)"

definition deeply_nested_object_does_not_panic_or_hang :: bool where
  "deeply_nested_object_does_not_panic_or_hang =
     (let depth = 5000;
          input = concat (replicate depth ''{\"a\":'') @ ''null'' @ replicate depth (CHR ''}'')
      in err_code input = Some INVALID_REQUEST)"

text \<open>
  The two deep inputs are not scanned byte by byte: the guard gives up at the first bracket over the limit.
\<close>

lemma nesting_too_deep_array:
  "m < d + k \<Longrightarrow> d \<le> m \<Longrightarrow> nesting_loop m d False False (replicate k (CHR ''['') @ r)"
  by (induction k arbitrary: d) auto

lemma nesting_too_deep_object:
  "m < d + k \<Longrightarrow> d \<le> m \<Longrightarrow> nesting_loop m d False False (concat (replicate k ''{\"a\":'') @ r)"
  by (induction k arbitrary: d) auto

lemma err_code_too_deep: "exceeds_max_nesting bytes MAX_JSON_NESTING_DEPTH \<Longrightarrow> err_code bytes = Some INVALID_REQUEST"
  by (simp add: err_code_def decode_message_def invalid_request_def rpc_error_def)

lemma deep_inputs_are_refused:
  "deeply_nested_json_does_not_panic_or_hang" "deeply_nested_object_does_not_panic_or_hang"
  unfolding deeply_nested_json_does_not_panic_or_hang_def deeply_nested_object_does_not_panic_or_hang_def Let_def
  by (rule err_code_too_deep,
      simp add: exceeds_max_nesting_def MAX_JSON_NESTING_DEPTH_def nesting_too_deep_array nesting_too_deep_object
        del: replicate.simps)+

lemma jsonrpc_tests_pass:
  "roundtrips_a_request"
  "roundtrips_a_notification"
  "roundtrips_a_success_response"
  "roundtrips_an_error_response"
  "error_response_with_null_id_roundtrips"
  "notification_serializes_without_an_id_key"
  "empty_input_is_a_parse_error"
  "garbage_bytes_are_a_parse_error"
  "bare_number_is_invalid_request"
  "bare_string_is_invalid_request"
  "bare_array_is_invalid_request"
  "wrong_jsonrpc_version_is_invalid_request"
  "method_with_wrong_type_is_invalid_request"
  "boolean_id_is_invalid_request"
  "response_with_both_result_and_error_is_invalid_request"
  "missing_method_result_and_error_is_invalid_request"
  "notification_has_no_id_key_when_decoded"
  by code_simp+

section \<open>Server-sent events\<close>

definition data_event :: "string \<Rightarrow> sse_event" where
  "data_event d = \<lparr>ev_event = None, ev_data = d, ev_id = None\<rparr>"

definition roundtrips_multiline_data :: bool where
  "roundtrips_multiline_data =
     (let event = \<lparr>ev_event = Some ''update'', ev_data = ''line1'' @ [NL] @ ''line2'' @ [NL] @ ''line3'', ev_id = Some ''42''\<rparr>;
          encoded = encode_sse_event event; (decoder, decoded) = feed sse_new encoded
      in length decoded = 1 \<and> decoded ! 0 = event)"

definition encode_uses_one_data_line_per_segment :: bool where
  "encode_uses_one_data_line_per_segment =
     (encode_sse_event (data_event (''a'' @ [NL] @ ''b'')) = ''data: a'' @ [NL] @ ''data: b'' @ [NL, NL])"

definition feed_handles_a_chunk_boundary_mid_line :: bool where
  "feed_handles_a_chunk_boundary_mid_line =
     (let full = encode_sse_event \<lparr>ev_event = Some ''msg'', ev_data = ''hello world'', ev_id = None\<rparr> in
      case find_sub ''hello'' full of
        None \<Rightarrow> False
      | Some i \<Rightarrow>
          (let (decoder, from_first) = feed sse_new (take (i + 2) full);
               (decoder, from_second) = feed decoder (drop (i + 2) full)
           in from_first = [] \<and> length from_second = 1 \<and> ev_data (from_second ! 0) = ''hello world''
              \<and> ev_event (from_second ! 0) = Some ''msg''))"

definition feed_handles_multiple_events_in_one_call :: bool where
  "feed_handles_multiple_events_in_one_call =
     (let combined = encode_sse_event (data_event ''first'') @ encode_sse_event (data_event ''second'')
            @ encode_sse_event (data_event ''third'');
          (decoder, events) = feed sse_new combined
      in length events = 3 \<and> ev_data (events ! 0) = ''first'' \<and> ev_data (events ! 1) = ''second''
         \<and> ev_data (events ! 2) = ''third'')"

definition blank_line_with_no_data_does_not_dispatch :: bool where
  "blank_line_with_no_data_does_not_dispatch = (snd (feed sse_new (''id: 1'' @ [NL] @ ''event: ping'' @ [NL, NL])) = [])"

definition crlf_line_endings_are_supported :: bool where
  "crlf_line_endings_are_supported =
     (let (decoder, events) = feed sse_new (''data: hello'' @ [CR, NL, CR, NL])
      in length events = 1 \<and> ev_data (events ! 0) = ''hello'')"

definition comment_lines_are_ignored :: bool where
  "comment_lines_are_ignored =
     (let (decoder, events) = feed sse_new ('': this is a comment'' @ [NL] @ ''data: hello'' @ [NL, NL])
      in length events = 1 \<and> ev_data (events ! 0) = ''hello'')"

definition empty_feed_does_not_panic :: bool where
  "empty_feed_does_not_panic = (snd (feed sse_new []) = [])"

definition garbage_without_blank_line_never_emits :: bool where
  "garbage_without_blank_line_never_emits =
     (snd (feed sse_new ''not really sse data at all, no newline terminator'') = [])"

lemma sse_tests_pass:
  "roundtrips_multiline_data"
  "encode_uses_one_data_line_per_segment"
  "feed_handles_a_chunk_boundary_mid_line"
  "feed_handles_multiple_events_in_one_call"
  "blank_line_with_no_data_does_not_dispatch"
  "crlf_line_endings_are_supported"
  "comment_lines_are_ignored"
  "empty_feed_does_not_panic"
  "garbage_without_blank_line_never_emits"
  by code_simp+

end
