(* ===== verification/Hub_Config_Tests.thy ===== *)
theory Hub_Config_Tests
  imports Hub_Json_Text Hub_Protocol Hub_Main
begin

text \<open>
  The unit tests of \<open>crates/server/src/config.rs\<close>, of \<open>crates/server/src/main.rs\<close> and of
  \<open>crates/mcp-server/src/protocol.rs\<close>, translated as those of \<open>Hub_Wire_Tests\<close> are.
\<close>

section \<open>Placeholders\<close>

text \<open>The process environment with some variables set, and the upper case of ASCII names.\<close>

definition upper_char :: "char \<Rightarrow> char" where
  "upper_char c = (let n = of_char c in if 97 \<le> n \<and> n \<le> (122 :: nat) then char_of (n - 32) else c)"

definition env_with :: "(string \<times> string) list \<Rightarrow> config_env" where
  "env_with vars = \<lparr>ce_var = map_of vars, ce_uppercase = map upper_char, ce_exists = (\<lambda>p. False), ce_read = Inl,
     ce_toml = Inl, ce_toml_msg = id, ce_order = id\<rparr>"

definition env_placeholder_resolves :: bool where
  "env_placeholder_resolves =
     (resolve_value (env_with [(''HMCP_TEST_PLAIN'', ''sekrit'')]) ''{{env:HMCP_TEST_PLAIN}}'' = ''sekrit'')"

definition secret_placeholder_keeps_the_first_letter_of_the_name :: bool where
  "secret_placeholder_keeps_the_first_letter_of_the_name =
     (resolve_value (env_with [(''HEADLESS_MCP_SECRET_HMCPNOTION'', ''notion-secret'')]) ''{{secret:HmcpNotion}}'' =
      ''notion-secret'')"

definition unset_env_var_is_reported_not_blanked :: bool where
  "unset_env_var_is_reported_not_blanked =
     (resolve_value (env_with []) ''{{env:HMCP_TEST_DEFINITELY_UNSET}}'' = ''{{unresolved:HMCP_TEST_DEFINITELY_UNSET}}'')"

definition placeholder_inside_surrounding_text_is_substituted_in_place :: bool where
  "placeholder_inside_surrounding_text_is_substituted_in_place =
     (resolve_value (env_with [(''HMCP_TEST_MID'', ''xyz'')]) ''a-{{env:HMCP_TEST_MID}}-b'' = ''a-xyz-b'')"

definition self_referential_placeholder_terminates :: bool where
  "self_referential_placeholder_terminates =
     (resolve_value (env_with [(''HMCP_TEST_LOOP'', ''{{env:HMCP_TEST_LOOP}}'')]) ''{{env:HMCP_TEST_LOOP}}'' =
      ''{{env:HMCP_TEST_LOOP}}'')"

definition a_value_with_no_placeholder_is_untouched :: bool where
  "a_value_with_no_placeholder_is_untouched = (resolve_value (env_with []) ''literal-token'' = ''literal-token'')"

lemma config_tests_pass:
  "env_placeholder_resolves"
  "secret_placeholder_keeps_the_first_letter_of_the_name"
  "unset_env_var_is_reported_not_blanked"
  "placeholder_inside_surrounding_text_is_substituted_in_place"
  "self_referential_placeholder_terminates"
  "a_value_with_no_placeholder_is_untouched"
  by code_simp+

section \<open>Addresses\<close>

text \<open>
  The IPv4 part of the address parser and printer of the standard library, an instance of the parameter
  \<open>net_lib\<close>: octets are decimal without leading zeros.
\<close>

definition read_octet :: "string \<Rightarrow> int option" where
  "read_octet s =
     (if s \<noteq> [] \<and> list_all is_digit s \<and> length s \<le> 3 \<and> (hd s = CHR ''0'' \<longrightarrow> length s = 1) \<and> digits_value s \<le> 255
      then Some (digits_value s) else None)"

definition read_ipv4 :: "string \<Rightarrow> int list option" where
  "read_ipv4 s = (let parts = split_on (CHR ''.'') s in if length parts = 4 then all_some (map read_octet parts) else None)"

definition read_port :: "string \<Rightarrow> u16 option" where
  "read_port s =
     (if s \<noteq> [] \<and> list_all is_digit s \<and> digits_value s < 65536 then Some (word_of_int (digits_value s)) else None)"

definition read_socket_v4 :: "string \<Rightarrow> int list sock_addr option" where
  "read_socket_v4 s =
     (case split_once (CHR '':'') s of
        None \<Rightarrow> None
      | Some (a, b) \<Rightarrow>
          (case (read_ipv4 a, read_port b) of (Some ip, Some port) \<Rightarrow> Some (SockAddr ip port) | _ \<Rightarrow> None))"

definition ipv4_lib :: "int list net_lib" where
  "ipv4_lib = \<lparr>nl_socket = read_socket_v4, nl_ip = read_ipv4, nl_loopback = [127, 0, 0, 1]\<rparr>"

fun socket_text :: "int list sock_addr \<Rightarrow> string" where
  "socket_text (SockAddr ip port) = join_with ''.'' (map int_digits ip) @ '':'' @ int_digits (uint port)"

definition bound_to :: "string option \<Rightarrow> u16 \<Rightarrow> string + string" where
  "bound_to bind port = map_sum id socket_text (bind_addr ipv4_lib bind port)"

definition bind_accepts_host_and_port :: bool where
  "bind_accepts_host_and_port = (bound_to (Some ''0.0.0.0:1234'') 9797 = Inr ''0.0.0.0:1234'')"

definition bind_accepts_a_bare_ip_and_takes_the_port_from_the_flag :: bool where
  "bind_accepts_a_bare_ip_and_takes_the_port_from_the_flag = (bound_to (Some ''0.0.0.0'') 9797 = Inr ''0.0.0.0:9797'')"

definition an_unparseable_bind_is_an_error_not_a_downgrade_to_loopback :: bool where
  "an_unparseable_bind_is_an_error_not_a_downgrade_to_loopback =
     (case bound_to (Some ''not-an-address'') 9797 of
        Inl err \<Rightarrow> contains_sub err ''not a valid address'' | Inr a \<Rightarrow> False)"

definition no_bind_flag_means_loopback :: bool where
  "no_bind_flag_means_loopback = (bound_to None 9797 = Inr ''127.0.0.1:9797'')"

lemma bind_tests_pass:
  "bind_accepts_host_and_port"
  "bind_accepts_a_bare_ip_and_takes_the_port_from_the_flag"
  "no_bind_flag_means_loopback"
  by code_simp+

text \<open>Here the number of the port in the message is not evaluated.\<close>

lemma contains_sub_in_prefix: "contains_sub a p \<Longrightarrow> contains_sub (a @ b) p"
  unfolding contains_sub_iff by (metis append.assoc)

lemma unparseable_bind_test_passes: "an_unparseable_bind_is_an_error_not_a_downgrade_to_loopback"
proof -
  have "nl_socket ipv4_lib ''not-an-address'' = None" "nl_ip ipv4_lib ''not-an-address'' = None" by code_simp+
  moreover have "contains_sub (''--bind '' @ sq ''not-an-address'' @ '' is not a valid address'') ''not a valid address''"
    by code_simp
  from contains_sub_in_prefix [OF this] have "contains_sub (''--bind '' @ sq ''not-an-address'' @
      '' is not a valid address; expected HOST:PORT (e.g. 0.0.0.0:'' @ r) ''not a valid address''" for r
    by (simp add: contains_sub_iff)
  ultimately show ?thesis
    by (simp add: an_unparseable_bind_is_an_error_not_a_downgrade_to_loopback_def bound_to_def bind_addr_def
        del: append_assoc append_Cons)
qed

section \<open>Cache hints\<close>

definition cache_hints_skip_input_required_and_other_methods :: bool where
  "cache_hints_skip_input_required_and_other_methods =
     (let interim = mark_cacheable ''resources/read'' (jobj [(''resultType'', JStr ''input_required'')]);
          call = mark_cacheable ''tools/call'' (jobj [(''resultType'', JStr ''complete''), (''content'', JArr [])])
      in interim = jobj [(''resultType'', JStr ''input_required'')]
         \<and> get_key call ''ttlMs'' = None \<and> get_key call ''cacheScope'' = None)"

definition backend_cache_scope_never_widens :: bool where
  "backend_cache_scope_never_widens =
     (let read = mark_cacheable ''resources/read'' (jobj
            [(''resultType'', JStr ''complete''), (''ttlMs'', JNum (PosInt 5000)), (''cacheScope'', JStr ''public''),
             (''contents'', JArr [])])
      in get_key read ''ttlMs'' = Some (JNum (PosInt 5000)) \<and> get_key read ''cacheScope'' = Some (JStr ''private''))"

lemma cache_tests_pass:
  "cache_hints_skip_input_required_and_other_methods"
  "backend_cache_scope_never_widens"
  by code_simp+

end
