(* ===== verification/Hub_Test_Tools.thy ===== *)
theory Hub_Test_Tools
  imports Hub_Json_Text Hub_Core "HOL-Library.Monad_Syntax"
begin

text \<open>
  What the unit tests of several crates share: indexing of JSON values as \<open>value[\"key\"][0]\<close> writes it,
  and results whose unwrapping may panic.  A panic of a test is \<open>None\<close>, and makes its definition false.
\<close>

text \<open>\<open>Index\<close> on a shared value: \<open>null\<close> for what is not there.\<close>

definition at_key :: "json \<Rightarrow> string \<Rightarrow> json" where
  "at_key v k = (case get_key v k of Some x \<Rightarrow> x | None \<Rightarrow> JNull)"

definition at_index :: "json \<Rightarrow> nat \<Rightarrow> json" where
  "at_index v i = (case v of JArr vs \<Rightarrow> if i < length vs then vs ! i else JNull | _ \<Rightarrow> JNull)"

fun at_keys :: "json \<Rightarrow> string list \<Rightarrow> json" where
  "at_keys v [] = v"
| "at_keys v (k # ks) = at_keys (at_key v k) ks"

text \<open>\<open>as_array().unwrap().is_empty()\<close>, and \<open>json!\<close> of a natural number and of an option.\<close>

definition is_empty_array :: "json \<Rightarrow> bool" where
  "is_empty_array v = (v = JArr [])"

definition jnat :: "u64 \<Rightarrow> json" where
  "jnat n = JNum (PosInt n)"

definition jopt :: "json option \<Rightarrow> json" where
  "jopt v = (case v of Some x \<Rightarrow> x | None \<Rightarrow> JNull)"

text \<open>\<open>unwrap\<close> and \<open>unwrap_err\<close>.\<close>

definition unwrap :: "'e + 'a \<Rightarrow> 'a option" where
  "unwrap r = (case r of Inr x \<Rightarrow> Some x | Inl e \<Rightarrow> None)"

definition unwrap_err :: "'e + 'a \<Rightarrow> 'e option" where
  "unwrap_err r = (case r of Inl e \<Rightarrow> Some e | Inr x \<Rightarrow> None)"

text \<open>A test that goes on with what it unwrapped.\<close>

fun passes :: "'a option \<Rightarrow> ('a \<Rightarrow> bool) \<Rightarrow> bool" where
  "passes None test = False"
| "passes (Some x) test = test x"

text \<open>
  \<open>assert!\<close> in the middle of a test, which is written in the option monad: it passes if it gets to its end.
\<close>

definition check :: "bool \<Rightarrow> unit option" where
  "check b = (if b then Some () else None)"

definition succeeds :: "unit option \<Rightarrow> bool" where
  "succeeds test = (test \<noteq> None)"

end
