(* ===== verification/Hub_Registry_Tests.thy ===== *)
theory Hub_Registry_Tests
  imports Hub_Test_Tools Hub_Registry
begin

text \<open>
  The unit tests of \<open>crates/registry/src/lib.rs\<close> with their two mock backends, translated as those of
  \<open>Hub_Wire_Tests\<close> are.  The fields of a mock that change during a test are the world.
\<close>

section \<open>The mock backend\<close>

record mock_backend =
  mb_id :: string
  mb_tools :: "tool_descriptor list"

text \<open>The world: the ids of the mocks whose flag \<open>connected\<close> is set.\<close>

type_synonym mock_world = "string list"

definition mock_connect :: "mock_backend \<Rightarrow> mock_world \<Rightarrow> (backend_error + initialize_result) \<times> mock_world" where
  "mock_connect b w =
     (Inr \<lparr>ir_protocol_version = ''2024-11-05'', ir_server_info = \<lparr>si_name = mb_id b, si_version = ''1.0''\<rparr>,
        ir_capabilities = \<lparr>sc_tools = None, sc_resources = None, sc_prompts = None, sc_events = None\<rparr>\<rparr>,
      List.insert (mb_id b) w)"

definition mock_list_tools :: "mock_backend \<Rightarrow> mock_world \<Rightarrow> (backend_error + tool_descriptor list) \<times> mock_world" where
  "mock_list_tools b w = (Inr (mb_tools b), w)"

definition mock_call_tool ::
  "mock_backend \<Rightarrow> string \<Rightarrow> json option \<Rightarrow> nat \<Rightarrow> mock_world \<Rightarrow> (backend_error + json) \<times> mock_world" where
  "mock_call_tool b name arguments timeout w =
     (Inr (jobj [(''called'', JStr name), (''backend'', JStr (mb_id b)), (''args'', jopt arguments)]), w)"

definition mock_disconnect :: "mock_backend \<Rightarrow> mock_world \<Rightarrow> (backend_error + unit) \<times> mock_world" where
  "mock_disconnect b w = (Inr (), removeAll (mb_id b) w)"

definition mock_health_check :: "mock_backend \<Rightarrow> mock_world \<Rightarrow> (backend_error + unit) \<times> mock_world" where
  "mock_health_check b w =
     (if mb_id b \<in> set w then Inr () else Inl (backend_error_new Connection ''not connected''), w)"

definition mock_ops :: "(mock_backend, mock_world) backend_ops" where
  "mock_ops = \<lparr>op_connect = mock_connect, op_list_tools = mock_list_tools, op_call_tool = mock_call_tool,
     op_disconnect = mock_disconnect, op_health_check = mock_health_check,
     op_request = (\<lambda>b. default_request (mb_id b)), op_take_tools_refresh = (\<lambda>b w. (False, w)),
     op_sleep_ms = (\<lambda>ms w. w)\<rparr>"

definition make_tool :: "string \<Rightarrow> tool_descriptor" where
  "make_tool name = \<lparr>td_name = name, td_description = name @ '' tool'', td_input_schema = jobj [(''type'', JStr ''object'')]\<rparr>"

definition make_def :: "string \<Rightarrow> string option \<Rightarrow> backend_def" where
  "make_def i ns = \<lparr>def_id = i, def_label = None, def_transport = Stdio ''echo'' [] [] None, def_namespace = ns,
     def_connection_mode = Eager, def_connect_timeout_secs = 10, def_call_timeout_secs = 30,
     def_stderr_mode = LogOnError, def_tools_allow = [], def_tools_deny = [], def_unavailable_hint = None,
     def_forward_request_meta = False, def_pin_args = [], def_deny_args = []\<rparr>"

text \<open>A new registry with one backend registered and connected, both unwrapped.\<close>

definition connected_registry :: "('b, 'w) backend_ops \<Rightarrow> backend_def \<Rightarrow> 'b \<Rightarrow> 'w \<Rightarrow> ('b registry \<times> 'w) option" where
  "connected_registry ops d b w =
     (case register d b registry_new of
        (Inl e, reg) \<Rightarrow> None
      | (Inr u, reg) \<Rightarrow>
          (case connect_backend ops (def_id d) reg w of (Inl e, reg', w') \<Rightarrow> None | (Inr u, reg', w') \<Rightarrow> Some (reg', w')))"

section \<open>The backend that is re-initialized\<close>

record reinit_world =
  rw_tools :: "tool_descriptor list"
  rw_refresh :: bool

definition reinit_ops :: "(unit, reinit_world) backend_ops" where
  "reinit_ops =
     \<lparr>op_connect = (\<lambda>b w. (fst (mock_connect \<lparr>mb_id = ''re'', mb_tools = []\<rparr> []), w)),
      op_list_tools = (\<lambda>b w. (Inr (rw_tools w), w)), op_call_tool = (\<lambda>b name args timeout w. (Inr JNull, w)),
      op_disconnect = (\<lambda>b w. (Inr (), w)), op_health_check = (\<lambda>b w. (Inr (), w)),
      op_request = (\<lambda>b. default_request ''re''), op_take_tools_refresh = (\<lambda>b w. (rw_refresh w, w\<lparr>rw_refresh := False\<rparr>)),
      op_sleep_ms = (\<lambda>ms w. w)\<rparr>"

section \<open>The tests\<close>

definition first_tool_name :: "'b registry \<Rightarrow> string" where
  "first_tool_name reg = td_name (aggregated_tools reg ! 0)"

definition a_health_check_relists_tools_after_the_backend_re_initialized :: bool where
  "a_health_check_relists_tools_after_the_backend_re_initialized =
     passes (connected_registry reinit_ops (make_def ''re'' None) () \<lparr>rw_tools = [make_tool ''old''], rw_refresh = False\<rparr>)
       (\<lambda>(registry, w).
         let (registry, w) = run_health_checks reinit_ops registry (w\<lparr>rw_tools := [make_tool ''new'']\<rparr>);
             before = first_tool_name registry;
             (registry, w) = run_health_checks reinit_ops registry (w\<lparr>rw_refresh := True\<rparr>);
             after = first_tool_name registry
         in before = ''old'' \<and> after = ''new'')"

definition namespacing_prefixes_tools :: bool where
  "namespacing_prefixes_tools =
     passes (connected_registry mock_ops (make_def ''slack'' (Some ''slack''))
              \<lparr>mb_id = ''slack'', mb_tools = [make_tool ''send_message'']\<rparr> [])
       (\<lambda>(registry, w).
         let tools = aggregated_tools registry in length tools = 1 \<and> td_name (tools ! 0) = ''slack.send_message'')"

definition route_call_dispatches_to_correct_backend :: bool where
  "route_call_dispatches_to_correct_backend =
     passes (connected_registry mock_ops (make_def ''slack'' (Some ''slack''))
              \<lparr>mb_id = ''slack'', mb_tools = [make_tool ''send_message'']\<rparr> [])
       (\<lambda>(registry, w).
         passes (unwrap (fst (route_call mock_ops ''slack.send_message'' None 5 registry w)))
           (\<lambda>result. at_key result ''called'' = JStr ''send_message'' \<and> at_key result ''backend'' = JStr ''slack''))"

definition list_buckets :: tool_descriptor where
  "list_buckets = (make_tool ''list_buckets'')\<lparr>td_input_schema := jobj
     [(''type'', JStr ''object''),
      (''properties'', jobj [(''profile'', jobj [(''type'', JStr ''string'')]), (''account_id'', jobj [(''type'', JStr ''string'')]),
         (''prefix'', jobj [(''type'', JStr ''string'')])]),
      (''required'', JArr [JStr ''profile'', JStr ''prefix''])]\<rparr>"

definition pinned_and_denied_args_are_enforced_and_hidden :: bool where
  "pinned_and_denied_args_are_enforced_and_hidden =
     (let d = (make_def ''aws'' (Some ''aws''))\<lparr>def_pin_args := obj_insert ''profile'' (JStr ''prod'') [],
                def_deny_args := [''account_id'']\<rparr> in
      passes (connected_registry mock_ops d \<lparr>mb_id = ''aws'', mb_tools = [list_buckets]\<rparr> [])
        (\<lambda>(registry, w).
          let schema = td_input_schema (aggregated_tools registry ! 0);
              (result, registry, w) = route_call mock_ops ''aws.list_buckets''
                (Some (jobj [(''profile'', JStr ''admin''), (''prefix'', JStr ''x'')])) 5 registry w;
              (denied, registry, w) = route_call mock_ops ''aws.list_buckets''
                (Some (jobj [(''account_id'', JStr ''123'')])) 5 registry w
          in passes (as_object (at_key schema ''properties'')) (\<lambda>kvs. length kvs = 1)
             \<and> at_key schema ''required'' = JArr [JStr ''prefix'']
             \<and> passes (unwrap result)
                 (\<lambda>v. at_key v ''args'' = jobj [(''profile'', JStr ''prod''), (''prefix'', JStr ''x'')])
             \<and> \<not> is_ok denied))"

lemma registry_tests_pass:
  "a_health_check_relists_tools_after_the_backend_re_initialized"
  "namespacing_prefixes_tools"
  "route_call_dispatches_to_correct_backend"
  "pinned_and_denied_args_are_enforced_and_hidden"
  by code_simp+

end
