(* ===== verification/Hub_Session_Tests.thy ===== *)
theory Hub_Session_Tests
  imports Hub_Test_Tools Hub_Session Hub_Core_Serde
begin

text \<open>
  The unit tests of \<open>crates/mcp-server/src/session.rs\<close> with their fake backends, translated as those of
  \<open>Hub_Wire_Tests\<close> are.  A session is passed from step to step; the fakes have no state of their own.
\<close>

section \<open>Requests\<close>

definition request :: "i64 \<Rightarrow> string \<Rightarrow> json option \<Rightarrow> jsonrpc_message" where
  "request i m params = Request (new_request (IdNumber i) m params)"

definition ok :: "('b, unit) backend_ops \<Rightarrow> 'b session \<Rightarrow> jsonrpc_message \<Rightarrow> (json \<times> 'b session) option" where
  "ok ops session message =
     (case handle_message text_codec ops message session () of
        (Some (SuccessResponse r), session', w) \<Rightarrow> Some (ok_result r, session') | _ \<Rightarrow> None)"

definition err :: "('b, unit) backend_ops \<Rightarrow> 'b session \<Rightarrow> jsonrpc_message \<Rightarrow> (jsonrpc_error \<times> 'b session) option" where
  "err ops session message =
     (case handle_message text_codec ops message session () of
        (Some (ErrorResponse r), session', w) \<Rightarrow> Some (err_error r, session') | _ \<Rightarrow> None)"

definition version_key :: string where "version_key = ''io.modelcontextprotocol/protocolVersion''"

definition modern :: "(string \<times> json) list \<Rightarrow> json" where
  "modern extra =
     JObj (fold (\<lambda>(k, v). obj_insert k v) extra (obj_of [(''_meta'', jobj
       [(version_key, JStr ''2026-07-28''),
        (''io.modelcontextprotocol/clientCapabilities'', jobj [(''elicitation'', jobj [(''url'', jobj [])])])])]))"

definition assert_cacheable :: "json \<Rightarrow> u64 \<Rightarrow> unit option" where
  "assert_cacheable r ttl_ms =
     check (at_key r ''resultType'' = JStr ''complete'' \<and> as_u64 (at_key r ''ttlMs'') = Some ttl_ms \<and>
       at_key r ''cacheScope'' = JStr ''private'')"

section \<open>The fake backend\<close>

definition text_content :: "string \<Rightarrow> json" where
  "text_content text = JArr [jobj [(''type'', JStr ''text''), (''text'', JStr text)]]"

definition fake_connect :: "'b \<Rightarrow> unit \<Rightarrow> (backend_error + initialize_result) \<times> unit" where
  "fake_connect b w =
     (Inr \<lparr>ir_protocol_version = ''2025-06-18'', ir_server_info = \<lparr>si_name = ''mcp-cli'', si_version = ''1''\<rparr>,
        ir_capabilities = \<lparr>sc_tools = None, sc_resources = Some \<lparr>rc_subscribe = True, rc_list_changed = False\<rparr>,
          sc_prompts = None, sc_events = Some (jobj [])\<rparr>\<rparr>, w)"

definition fake_list_tools :: "'b \<Rightarrow> unit \<Rightarrow> (backend_error + tool_descriptor list) \<times> unit" where
  "fake_list_tools b w =
     (Inr [\<lparr>td_name = ''peers'', td_description = ''peers'', td_input_schema = jobj [(''type'', JStr ''object'')]\<rparr>], w)"

definition fake_call_tool :: "'b \<Rightarrow> string \<Rightarrow> json option \<Rightarrow> nat \<Rightarrow> unit \<Rightarrow> (backend_error + json) \<times> unit" where
  "fake_call_tool b name args timeout w =
     (Inr (jobj [(''content'', text_content ''LOGIN_REQUIRED''), (''isError'', JBool True)]), w)"

definition fake_request :: "'b \<Rightarrow> string \<Rightarrow> json option \<Rightarrow> nat \<Rightarrow> unit \<Rightarrow> (backend_error + json) \<times> unit" where
  "fake_request b m params_opt timeout w =
     (let params = jopt params_opt in
      (Inr (if m = ''tools/call'' \<and> get_key params ''requestState'' \<noteq> None then
              jobj [(''content'', text_content ''peer-a''), (''isError'', JBool False)]
            else if m = ''tools/call'' then
              jobj [(''resultType'', JStr ''input_required''),
                (''inputRequests'', jobj [(''login'', jobj [(''method'', JStr ''elicitation/create''),
                   (''params'', jobj [(''mode'', JStr ''url''), (''url'', JStr ''https://idp.example/d''),
                      (''message'', JStr ''sign in'')])])]),
                (''requestState'', JStr ''opaque''), (''echo'', params)]
            else if m = ''resources/list'' then
              jobj [(''resources'', JArr [jobj [(''uri'', JStr ''cli://netbird/state''), (''name'', JStr ''netbird'')]])]
            else if m = ''resources/read'' then
              jobj [(''contents'', JArr [jobj [(''uri'', at_key params ''uri''), (''text'', JStr ''ready'')]])]
            else if m = ''events/list'' then
              jobj [(''events'', JArr [jobj [(''name'', JStr ''cli.state_changed'')]])]
            else if m = ''events/subscribe'' then
              jobj [(''id'', JStr ''sub_1''), (''name'', at_key params ''name'')]
            else jobj [(''unexpected'', JStr m)]), w))"

definition fake_ops :: "(unit, unit) backend_ops" where
  "fake_ops = \<lparr>op_connect = fake_connect, op_list_tools = fake_list_tools, op_call_tool = fake_call_tool,
     op_disconnect = (\<lambda>b w. (Inr (), w)), op_health_check = (\<lambda>b w. (Inr (), w)), op_request = fake_request,
     op_take_tools_refresh = (\<lambda>b w. (False, w)), op_sleep_ms = (\<lambda>ms w. w)\<rparr>"

definition empty_session :: "unit session" where
  "empty_session = session_new registry_new"

text \<open>A session over one registered backend, connected, behind its handshake.\<close>

definition initialized_session :: "('b, unit) backend_ops \<Rightarrow> backend_def \<Rightarrow> 'b \<Rightarrow> 'b session option" where
  "initialized_session ops d b =
     (case register d b registry_new of
        (Inl e, reg) \<Rightarrow> None
      | (Inr u, reg) \<Rightarrow>
          (let (results, reg', w) = connect_all ops reg () in
           map_option snd (ok ops (session_new reg') (request 1 ''initialize'' None))))"

definition cli_def :: "bool \<Rightarrow> backend_def" where
  "cli_def forward = \<lparr>def_id = ''cli'', def_label = None, def_transport = Stdio ''unused'' [] [] None,
     def_namespace = Some ''vpn'', def_connection_mode = Eager, def_connect_timeout_secs = 5, def_call_timeout_secs = 5,
     def_stderr_mode = Silent, def_tools_allow = [], def_tools_deny = [], def_unavailable_hint = None,
     def_forward_request_meta = forward, def_pin_args = [], def_deny_args = []\<rparr>"

definition forwarding_session :: "bool \<Rightarrow> unit session option" where
  "forwarding_session forward_request_meta = initialized_session fake_ops (cli_def forward_request_meta) ()"

section \<open>Without backends\<close>

definition legacy_requests_need_initialize :: bool where
  "legacy_requests_need_initialize = succeeds (do {
     (e, s) \<leftarrow> err fake_ops empty_session (request 1 ''tools/list'' None);
     check (rpc_code e = INVALID_REQUEST);
     (r, s) \<leftarrow> ok fake_ops s (request 2 ''initialize'' None);
     (r, s) \<leftarrow> ok fake_ops s (request 3 ''tools/list'' None);
     check (is_empty_array (at_key r ''tools''));
     (e, s) \<leftarrow> err fake_ops s (request 4 ''nonexistent/method'' None);
     check (rpc_code e = METHOD_NOT_FOUND) })"

definition discover_and_stateless_modern_requests :: bool where
  "discover_and_stateless_modern_requests = succeeds (do {
     (r, s) \<leftarrow> ok fake_ops empty_session (request 1 ''server/discover'' (Some (modern [])));
     check (at_key r ''supportedVersions'' = JArr [JStr ''2026-07-28'']);
     check (at_key r ''resultType'' = JStr ''complete'');
     check (as_str (at_keys r [''_meta'', ''io.modelcontextprotocol/serverInfo'', ''name'']) \<noteq> None);
     (r, s) \<leftarrow> ok fake_ops s (request 2 ''tools/list'' (Some (modern [])));
     check (at_key r ''resultType'' = JStr ''complete'');
     let params = jobj [(''_meta'', jobj [(version_key, JStr ''1900-01-01'')])];
     (e, s) \<leftarrow> err fake_ops s (request 3 ''tools/list'' (Some params));
     check (rpc_code e = UNSUPPORTED_PROTOCOL_VERSION);
     data \<leftarrow> rpc_data e;
     check (at_key data ''supported'' = JArr [JStr ''2026-07-28'']) })"

definition modern_tools_list_carries_cache_hints :: bool where
  "modern_tools_list_carries_cache_hints = succeeds (do {
     (r, s) \<leftarrow> ok fake_ops empty_session (request 1 ''tools/list'' (Some (modern [])));
     assert_cacheable r 60000;
     check (is_empty_array (at_key r ''tools''));
     (r, s) \<leftarrow> ok fake_ops s (request 2 ''server/discover'' (Some (modern [])));
     assert_cacheable r 60000 })"

definition legacy_tools_list_is_unchanged :: bool where
  "legacy_tools_list_is_unchanged = succeeds (do {
     (r, s) \<leftarrow> ok fake_ops empty_session (request 1 ''initialize'' None);
     check (get_key r ''resultType'' = None \<and> get_key r ''ttlMs'' = None);
     (r, s) \<leftarrow> ok fake_ops s (request 2 ''tools/list'' None);
     check (r = jobj [(''tools'', JArr [])]) })"

definition notification_never_produces_a_reply :: bool where
  "notification_never_produces_a_reply =
     (fst (handle_message text_codec fake_ops (Notification (new_notification ''notifications/initialized'' None))
        empty_session ()) = None)"

lemma plain_session_tests_pass:
  "legacy_requests_need_initialize"
  "discover_and_stateless_modern_requests"
  "modern_tools_list_carries_cache_hints"
  "legacy_tools_list_is_unchanged"
  "notification_never_produces_a_reply"
  by code_simp+

section \<open>Resources\<close>

definition state_uri :: "string \<times> json" where
  "state_uri = (''uri'', JStr ''cli://netbird/state'')"

definition modern_resources_carry_cache_hints :: bool where
  "modern_resources_carry_cache_hints = succeeds (do {
     s \<leftarrow> forwarding_session False;
     (r, s) \<leftarrow> ok fake_ops s (request 2 ''resources/list'' (Some (modern [])));
     assert_cacheable r 60000;
     check (at_key (at_index (at_key r ''resources'') 0) ''uri'' = JStr ''cli://netbird/state'');
     (r, s) \<leftarrow> ok fake_ops s (request 3 ''resources/read'' (Some (modern [state_uri])));
     assert_cacheable r 0;
     check (at_key (at_index (at_key r ''contents'') 0) ''text'' = JStr ''ready'') })"

definition legacy_resources_are_unchanged :: bool where
  "legacy_resources_are_unchanged = succeeds (do {
     s \<leftarrow> forwarding_session False;
     (r, s) \<leftarrow> ok fake_ops s (request 2 ''resources/list'' None);
     check (r = jobj [(''resources'', JArr [jobj [state_uri, (''name'', JStr ''netbird'')]])]);
     (r, s) \<leftarrow> ok fake_ops s (request 3 ''resources/read'' (Some (jobj [state_uri])));
     check (r = jobj [(''contents'', JArr [jobj [state_uri, (''text'', JStr ''ready'')]])]) })"

definition resources_are_forwarded :: bool where
  "resources_are_forwarded = succeeds (do {
     s \<leftarrow> forwarding_session False;
     (r, s) \<leftarrow> ok fake_ops s (request 2 ''initialize'' None);
     check (as_object (at_keys r [''capabilities'', ''resources'']) \<noteq> None);
     (r, s) \<leftarrow> ok fake_ops s (request 3 ''resources/list'' None);
     check (at_key (at_index (at_key r ''resources'') 0) ''uri'' = JStr ''cli://netbird/state'');
     (r, s) \<leftarrow> ok fake_ops s (request 4 ''resources/read'' (Some (jobj [state_uri])));
     check (at_key (at_index (at_key r ''contents'') 0) ''text'' = JStr ''ready'');
     (e, s) \<leftarrow> err fake_ops s (request 5 ''resources/read'' (Some (jobj [(''uri'', JStr ''cli://other'')])));
     check (rpc_code e = INVALID_PARAMS) })"

lemma resource_tests_pass:
  "modern_resources_carry_cache_hints"
  "legacy_resources_are_unchanged"
  "resources_are_forwarded"
  by code_simp+

section \<open>Calls and events\<close>

definition backend_call_results_pass_through :: bool where
  "backend_call_results_pass_through = succeeds (do {
     s \<leftarrow> forwarding_session False;
     (r, s) \<leftarrow> ok fake_ops s (request 2 ''tools/call'' (Some (jobj [(''name'', JStr ''vpn.peers'')])));
     check (at_key r ''isError'' = JBool True);
     check (at_key (at_index (at_key r ''content'') 0) ''text'' = JStr ''LOGIN_REQUIRED'') })"

definition login_prompt_round_trips_through_backend :: bool where
  "login_prompt_round_trips_through_backend = succeeds (do {
     s \<leftarrow> forwarding_session True;
     (first, s) \<leftarrow> ok fake_ops s (request 2 ''tools/call'' (Some (modern [(''name'', JStr ''vpn.peers'')])));
     check (at_key first ''resultType'' = JStr ''input_required'');
     check (at_keys first [''inputRequests'', ''login'', ''params'', ''url''] = JStr ''https://idp.example/d'');
     check (at_keys first [''echo'', ''name''] = JStr ''peers'');
     check (at_keys first [''echo'', ''_meta'', version_key] = JStr ''2026-07-28'');
     let retry = modern [(''name'', JStr ''vpn.peers''), (''requestState'', JStr ''opaque''),
        (''inputResponses'', jobj [(''login'', jobj [(''action'', JStr ''accept'')])])];
     (done, s) \<leftarrow> ok fake_ops s (request 3 ''tools/call'' (Some retry));
     check (at_key (at_index (at_key done ''content'') 0) ''text'' = JStr ''peer-a'');
     check (at_key done ''resultType'' = JStr ''complete'');
     (legacy, s) \<leftarrow> ok fake_ops s (request 4 ''tools/call'' (Some (jobj [(''name'', JStr ''vpn.peers'')])));
     check (at_key (at_index (at_key legacy ''content'') 0) ''text'' = JStr ''LOGIN_REQUIRED'') })"

definition events_are_namespaced_and_routed :: bool where
  "events_are_namespaced_and_routed = succeeds (do {
     s \<leftarrow> forwarding_session False;
     (r, s) \<leftarrow> ok fake_ops s (request 2 ''events/list'' None);
     check (at_key (at_index (at_key r ''events'') 0) ''name'' = JStr ''vpn.cli.state_changed'');
     let params = jobj [(''name'', JStr ''vpn.cli.state_changed''), (''delivery'', jobj [(''mode'', JStr ''webhook'')])];
     (r, s) \<leftarrow> ok fake_ops s (request 3 ''events/subscribe'' (Some params));
     check (at_key r ''id'' = JStr ''sub_1'');
     check (at_key r ''name'' = JStr ''cli.state_changed'');
     (e, s) \<leftarrow> err fake_ops s (request 4 ''events/subscribe'' (Some (jobj [(''name'', JStr ''other.event'')])));
     check (rpc_code e = INVALID_PARAMS) })"

lemma forwarding_tests_pass:
  "backend_call_results_pass_through"
  "login_prompt_round_trips_through_backend"
  "events_are_namespaced_and_routed"
  by code_simp+

section \<open>A backend that fails\<close>

text \<open>The backend is the kind of its error.\<close>

definition failing_ops :: "(backend_error_kind, unit) backend_ops" where
  "failing_ops = \<lparr>op_connect = fake_connect, op_list_tools = fake_list_tools,
     op_call_tool = (\<lambda>kind name args timeout w. (Inl (backend_error_new kind ''boom''), w)),
     op_disconnect = (\<lambda>b w. (Inr (), w)), op_health_check = (\<lambda>b w. (Inr (), w)),
     op_request = (\<lambda>b. default_request ''down''), op_take_tools_refresh = (\<lambda>b w. (False, w)),
     op_sleep_ms = (\<lambda>ms w. w)\<rparr>"

definition call_failing :: "backend_error_kind \<Rightarrow> string option" where
  "call_failing kind = do {
     d \<leftarrow> backend_def_from_value (jobj [(''id'', JStr ''down''), (''transport'', JStr ''stdio''),
        (''command'', JStr ''unused''), (''namespace'', JStr ''vpn''), (''unavailable_hint'', JStr ''Needs the VPN'')]);
     s \<leftarrow> initialized_session failing_ops d kind;
     (r, s) \<leftarrow> ok failing_ops s (request 2 ''tools/call'' (Some (jobj [(''name'', JStr ''vpn.peers'')])));
     as_str (at_key (at_index (at_key r ''content'') 0) ''text'') }"

definition unavailable_hint_is_only_for_an_unreachable_backend :: bool where
  "unavailable_hint_is_only_for_an_unreachable_backend =
     (list_all (\<lambda>kind. passes (call_failing kind) (\<lambda>text. ends_with text ''Needs the VPN'')) [Connection, Timeout] \<and>
      list_all (\<lambda>kind. call_failing kind = Some ''boom'') [Protocol, Auth, Internal])"

lemma failing_backend_test_passes: "unavailable_hint_is_only_for_an_unreachable_backend"
  by code_simp

end
