(* ===== verification/Hub_Stdio_Tests.thy ===== *)
theory Hub_Stdio_Tests
  imports Hub_Session_Tests Hub_Stdio_Transport
begin

text \<open>
  The unit tests of \<open>crates/transport-stdio/src/lib.rs\<close>, translated as those of \<open>Hub_Wire_Tests\<close> are:
  bytes go in and bytes come out.  A test that sleeps gives the tasks of the transport time to forward
  what they have.
\<close>

section \<open>Driving the transport\<close>

definition test_session :: "unit session" where
  "test_session = session_new registry_new"

definition initialize_line :: "i64 \<Rightarrow> string" where
  "initialize_line i = to_text text_codec (jobj [(''jsonrpc'', JStr ''2.0''), (''id'', JNum (number_of_i64 i)),
     (''method'', JStr ''initialize'')])"

text \<open>\<open>lines\<close>: what stands between line feeds, a carriage return at its end aside; nothing behind the last.\<close>

definition lines_of :: "string \<Rightarrow> string list" where
  "lines_of input =
     (let pieces = split_on (CHR 0x0A) input;
          whole = (if last pieces = [] then butlast pieces else pieces)
      in map (\<lambda>l. case strip_suffix l [CHR 0x0D] of Some r \<Rightarrow> r | None \<Rightarrow> l) whole)"

definition written :: "string \<Rightarrow> unit stdio \<Rightarrow> unit stdio" where
  "written input st = fst (run_lines text_codec fake_ops (map InputLine (lines_of input)) st ())"

text \<open>The end of the input: the transport must return, with what it has written.\<close>

definition closed :: "unit stdio \<Rightarrow> string option" where
  "closed st = (if run_returns st then Some (stdout_text text_codec st) else None)"

definition drive :: "unit session \<Rightarrow> string \<Rightarrow> string option" where
  "drive session input = closed (written input (stdio_new session))"

definition parse_lines :: "string \<Rightarrow> json list option" where
  "parse_lines output = all_some (map read_text (filter (\<lambda>line. trim line \<noteq> []) (lines_of output)))"

section \<open>The tests\<close>

definition valid_initialize_request_produces_a_success_response :: bool where
  "valid_initialize_request_produces_a_success_response = succeeds (do {
     output \<leftarrow> drive test_session (initialize_line 1 @ [CHR 0x0A]);
     replies \<leftarrow> parse_lines output;
     check (length replies = 1);
     check (at_keys (replies ! 0) [''result'', ''serverInfo'', ''name''] = JStr ''headless-mcp'');
     check (get_key (replies ! 0) ''error'' = None) })"

definition garbage_line_gets_a_null_id_error_and_the_transport_keeps_running :: bool where
  "garbage_line_gets_a_null_id_error_and_the_transport_keeps_running = succeeds (do {
     output \<leftarrow> drive test_session (''not json at all {{'' @ [CHR 0x0A] @ initialize_line 1 @ [CHR 0x0A]);
     replies \<leftarrow> parse_lines output;
     check (length replies = 2);
     check (at_key (replies ! 0) ''id'' = JNull);
     check (as_object (at_key (replies ! 0) ''error'') \<noteq> None);
     check (at_key (replies ! 1) ''id'' = jnat 1);
     check (get_key (replies ! 1) ''result'' \<noteq> None) })"

definition notification_produces_no_output_line :: bool where
  "notification_produces_no_output_line =
     (let notification = to_text text_codec (jobj [(''jsonrpc'', JStr ''2.0''), (''method'', JStr ''notifications/initialized'')])
      in drive test_session (notification @ [CHR 0x0A]) = Some [])"

definition eof_on_empty_input_returns_ok_cleanly :: bool where
  "eof_on_empty_input_returns_ok_cleanly = (drive test_session [] = Some [])"

definition messages_sent_across_separate_writes_are_each_handled_in_order :: bool where
  "messages_sent_across_separate_writes_are_each_handled_in_order = succeeds (do {
     let st = written (initialize_line 1 @ [CHR 0x0A]) (stdio_new test_session);
     let st = written (initialize_line 2 @ [CHR 0x0A]) st;
     collected \<leftarrow> closed st;
     replies \<leftarrow> parse_lines collected;
     check (length replies = 2);
     check (at_key (replies ! 0) ''id'' = jnat 1);
     check (at_key (replies ! 1) ''id'' = jnat 2) })"

text \<open>A sleep of the test: every task forwards all it has queued.\<close>

definition after_sleep :: "unit stdio \<Rightarrow> unit stdio" where
  "after_sleep st = fold (\<lambda>(n, t) s. (forward_one n ^^ length (sk_queue t)) s) (sd_tasks st) st"

text \<open>\<open>session.notify_tools_list_changed()\<close> from outside: the change is sent to every open subscription.\<close>

definition after_change :: "unit stdio \<Rightarrow> unit stdio" where
  "after_change st = fold deliver_change (map fst (sd_tasks st))
     (st\<lparr>sd_session := notify_tools_list_changed (sd_session st)\<rparr>)"

definition listen_line :: string where
  "listen_line = to_text text_codec (jobj
     [(''jsonrpc'', JStr ''2.0''), (''id'', jnat 7), (''method'', JStr ''subscriptions/listen''),
      (''params'', jobj
         [(''_meta'', jobj [(version_key, JStr ''2026-07-28'')]),
          (''notifications'', jobj [(''toolsListChanged'', JBool True), (''promptsListChanged'', JBool True)])])])"

definition cancel_line :: string where
  "cancel_line = to_text text_codec (jobj
     [(''jsonrpc'', JStr ''2.0''), (''method'', JStr ''notifications/cancelled''), (''params'', jobj [(''requestId'', jnat 7)])])"

definition listen_stream_interleaves_notifications_until_cancelled :: bool where
  "listen_stream_interleaves_notifications_until_cancelled = succeeds (do {
     let st = after_sleep (written (listen_line @ [CHR 0x0A]) (stdio_new test_session));
     let st = after_sleep (after_change st);
     let st = after_sleep (written (cancel_line @ [CHR 0x0A]) st);
     let st = after_change st;
     collected \<leftarrow> closed st;
     lines \<leftarrow> parse_lines collected;
     check (length lines = 2);
     check (at_key (lines ! 0) ''method'' = JStr ''notifications/subscriptions/acknowledged'');
     check (at_keys (lines ! 0) [''params'', ''notifications''] = jobj [(''toolsListChanged'', JBool True)]);
     check (at_key (lines ! 1) ''method'' = JStr ''notifications/tools/list_changed'');
     check (at_keys (lines ! 1) [''params'', ''_meta'', ''io.modelcontextprotocol/subscriptionId''] = jnat 7) })"

lemma stdio_tests_pass:
  "valid_initialize_request_produces_a_success_response"
  "garbage_line_gets_a_null_id_error_and_the_transport_keeps_running"
  "notification_produces_no_output_line"
  "eof_on_empty_input_returns_ok_cleanly"
  "messages_sent_across_separate_writes_are_each_handled_in_order"
  "listen_stream_interleaves_notifications_until_cancelled"
  by code_simp+

end
