(* ===== verification/Hub_Secrets_Tests.thy ===== *)
theory Hub_Secrets_Tests
  imports Hub_Test_Tools Hub_Secrets
begin

text \<open>
  The unit tests of \<open>crates/secrets/src/file_store.rs\<close>, translated as those of \<open>Hub_Wire_Tests\<close> are.
  The external functions are an instance for tests: hexadecimal, base64 and the JSON of the file are the
  real formats; the cipher only mixes the nonce into the text, and the generator counts.
\<close>

section \<open>Formats\<close>

fun hex_decode :: "string \<Rightarrow> string option" where
  "hex_decode [] = Some []"
| "hex_decode [c] = None"
| "hex_decode (a # b # r) =
     (case (hex_value a, hex_value b, hex_decode r) of
        (Some x, Some y, Some s) \<Rightarrow> Some (char_of (16 * int x + int y) # s) | _ \<Rightarrow> None)"

definition b64_char :: "int \<Rightarrow> char" where
  "b64_char i =
     (if i < 26 then char_of (65 + i) else if i < 52 then char_of (71 + i) else if i < 62 then char_of (i - 4)
      else if i = 62 then CHR ''+'' else CHR ''/'')"

fun b64_encode :: "string \<Rightarrow> string" where
  "b64_encode [] = []"
| "b64_encode [a] = (let n = of_char a * 16 in [b64_char (n div 64), b64_char (n mod 64), CHR ''='', CHR ''=''])"
| "b64_encode [a, b] =
     (let n = (of_char a * 256 + of_char b) * 4
      in [b64_char (n div 4096), b64_char (n div 64 mod 64), b64_char (n mod 64), CHR ''=''])"
| "b64_encode (a # b # c # r) =
     (let n = (of_char a * 256 + of_char b) * 256 + of_char c
      in [b64_char (n div 262144), b64_char (n div 4096 mod 64), b64_char (n div 64 mod 64), b64_char (n mod 64)]
         @ b64_encode r)"

definition b64_value :: "char \<Rightarrow> int option" where
  "b64_value c =
     (let n = of_char c :: int in
      if 65 \<le> n \<and> n \<le> 90 then Some (n - 65)
      else if 97 \<le> n \<and> n \<le> 122 then Some (n - 71)
      else if 48 \<le> n \<and> n \<le> 57 then Some (n + 4)
      else if n = 43 then Some 62 else if n = 47 then Some 63 else None)"

definition byte_char :: "int \<Rightarrow> char" where
  "byte_char n = char_of n"

text \<open>Padding is required, and the bits it leaves over are zero.\<close>

fun b64_decode :: "string \<Rightarrow> string option" where
  "b64_decode [] = Some []"
| "b64_decode (a # b # c # d # r) =
     (case (b64_value a, b64_value b) of
        (Some w, Some x) \<Rightarrow>
          (if c = CHR ''='' \<and> d = CHR ''='' then
             (if r = [] \<and> x mod 16 = 0 then Some [byte_char (w * 4 + x div 16)] else None)
           else (case b64_value c of
             None \<Rightarrow> None
           | Some y \<Rightarrow>
               (if d = CHR ''='' then
                  (if r = [] \<and> y mod 4 = 0 then Some [byte_char (w * 4 + x div 16), byte_char (x * 16 + y div 4)] else None)
                else (case (b64_value d, b64_decode r) of
                  (Some z, Some s) \<Rightarrow>
                    Some (byte_char (w * 4 + x div 16) # byte_char (x * 16 + y div 4) # byte_char (y * 64 + z) # s)
                | _ \<Rightarrow> None))))
      | _ \<Rightarrow> None)"
| "b64_decode s = None"

definition store_json :: "store_file \<Rightarrow> string" where
  "store_json file = to_text text_codec (jobj (map (\<lambda>(k, st). (k, jobj
     [(''nonce'', JStr (st_nonce st)), (''ciphertext'', JStr (st_ciphertext st))])) file))"

definition stored_secret_from :: "json \<Rightarrow> stored_secret option" where
  "stored_secret_from v =
     (case (Option.bind (get_key v ''nonce'') as_str, Option.bind (get_key v ''ciphertext'') as_str) of
        (Some n, Some c) \<Rightarrow> Some \<lparr>st_nonce = n, st_ciphertext = c\<rparr> | _ \<Rightarrow> None)"

definition store_from_json :: "string \<Rightarrow> string + store_file" where
  "store_from_json text =
     (case Option.bind (read_text text) as_object of
        None \<Rightarrow> Inl ''not a JSON object''
      | Some kvs \<Rightarrow>
          (case all_some (map (\<lambda>(k, v). map_option (Pair k) (stored_secret_from v)) kvs) of
             None \<Rightarrow> Inl ''not a stored secret'' | Some file \<Rightarrow> Inr file))"

definition mixed :: "string \<Rightarrow> string \<Rightarrow> string" where
  "mixed nonce text = nonce @ rev text"

definition unmixed :: "string \<Rightarrow> string \<Rightarrow> string option" where
  "unmixed nonce text = map_option rev (strip_prefix text nonce)"

definition counting_bytes :: "nat \<Rightarrow> nat \<Rightarrow> string \<times> nat" where
  "counting_bytes n r = (map (\<lambda>i. char_of (r + i)) [0..<n], r + 1)"

definition test_secret_lib :: "nat secret_lib" where
  "test_secret_lib = \<lparr>sl_hex_decode = hex_decode, sl_encrypt = (\<lambda>k n p. Some (mixed n p)), sl_decrypt = (\<lambda>k. unmixed),
     sl_b64_encode = b64_encode, sl_b64_decode = b64_decode, sl_random = counting_bytes,
     sl_store_text = store_json, sl_store_parse = store_from_json\<rparr>"

text \<open>The sequencing of the store by cases, so that what follows a step is evaluated once the step has a result.\<close>

fun continue_io :: "('a \<Rightarrow> ('r, 'b) io) \<Rightarrow> (secret_error + 'a) \<times> 'r secret_world \<Rightarrow> (secret_error + 'b) \<times> 'r secret_world" where
  "continue_io f (Inl e, w) = (Inl e, w)"
| "continue_io f (Inr x, w) = f x w"

lemma bind_io_code [code]: "bind_io m f w = continue_io f (m w)"
  by (cases "m w"; cases "fst (m w)") (auto simp: bind_io_def)

section \<open>The tests\<close>

definition TEST_KEY_HEX :: string where
  "TEST_KEY_HEX = ''0123456789abcdef0123456789abcdef0123456789abcdef0123456789abcdef''"

definition empty_dir :: "nat secret_world" where
  "empty_dir = \<lparr>sw_file = None, sw_temp = None, sw_faults = [], sw_rng = 0\<rparr>"

definition store_in :: "file_store option" where
  "store_in = unwrap (with_master_key_hex test_secret_lib TEST_KEY_HEX)"

text \<open>An operation of the store that must succeed, in the test's own monad.\<close>

fun expect :: "(secret_error + 'a) \<times> 'r secret_world \<Rightarrow> ('a \<times> 'r secret_world) option" where
  "expect (Inr x, w) = Some (x, w)"
| "expect (Inl e, w) = None"

definition round_trip_set_get_delete :: bool where
  "round_trip_set_get_delete = succeeds (do {
     store \<leftarrow> store_in;
     let key = ''test-key:password'';
     (u, dir) \<leftarrow> expect (store_set test_secret_lib store key ''hunter2'' empty_dir);
     (fetched, dir) \<leftarrow> expect (store_get test_secret_lib store key dir);
     check (fetched = Some ''hunter2'');
     (u, dir) \<leftarrow> expect (store_delete test_secret_lib store key dir);
     (after_delete, dir) \<leftarrow> expect (store_get test_secret_lib store key dir);
     check (after_delete = None) })"

definition get_on_never_set_key_returns_none_not_error :: bool where
  "get_on_never_set_key_returns_none_not_error = succeeds (do {
     store \<leftarrow> store_in;
     check (fst (store_get test_secret_lib store ''never-set:password'' empty_dir) = Inr None) })"

definition empty_key_is_rejected :: bool where
  "empty_key_is_rejected = succeeds (do {
     store \<leftarrow> store_in;
     check (fst (store_set test_secret_lib store [] ''value'' empty_dir) = Inl EmptyKey) })"

definition identical_plaintext_produces_different_ciphertext_each_write :: bool where
  "identical_plaintext_produces_different_ciphertext_each_write = succeeds (do {
     store \<leftarrow> store_in;
     (u, dir) \<leftarrow> expect (store_set test_secret_lib store ''uuid-a:password'' ''same-secret'' empty_dir);
     (u, dir) \<leftarrow> expect (store_set test_secret_lib store ''uuid-b:password'' ''same-secret'' dir);
     (raw, mode) \<leftarrow> sw_file dir;
     file \<leftarrow> unwrap (store_from_json raw);
     a \<leftarrow> map_of file ''uuid-a:password'';
     b \<leftarrow> map_of file ''uuid-b:password'';
     check (st_nonce a \<noteq> st_nonce b);
     check (st_ciphertext a \<noteq> st_ciphertext b) })"

lemma secret_tests_pass:
  "round_trip_set_get_delete"
  "get_on_never_set_key_returns_none_not_error"
  "empty_key_is_rejected"
  "identical_plaintext_produces_different_ciphertext_each_write"
  by code_simp+

end
