(* ===== verification/Hub_Http_Tests.thy ===== *)
theory Hub_Http_Tests
  imports Hub_Secrets_Tests Hub_Core_Serde Hub_Http_Backend
begin

text \<open>
  The unit tests of \<open>crates/backends/backend-http/src/lib.rs\<close> and their mock servers, translated as those of
  \<open>Hub_Wire_Tests\<close> are.  A mock server is a function of the method and the head of a request with a state
  of its own; what it has seen is the network part of the world.  Delays of a mock only order the answers
  to different callers.
\<close>

section \<open>The mock servers\<close>

record reply =
  rp_status :: nat
  rp_body :: string
  rp_session :: "string option"

definition reply_new :: "nat \<Rightarrow> string \<Rightarrow> reply" where
  "reply_new status body = \<lparr>rp_status = status, rp_body = body, rp_session = None\<rparr>"

record 'x mock_net =
  mn_seen :: "(string \<times> string) list"
  mn_state :: 'x

type_synonym 'x responder = "string \<Rightarrow> string \<Rightarrow> 'x \<Rightarrow> reply \<times> 'x"

definition CRLF :: string where "CRLF = [CHR 0x0D, CHR 0x0A]"

text \<open>The header lines of a request as the mock reads them: in lower case.\<close>

definition head_text :: "post \<Rightarrow> string" where
  "head_text p = ascii_lower (concat (map (\<lambda>(k, v). k @ '': '' @ v @ CRLF)
     ((case po_bearer p of Some t \<Rightarrow> [(''authorization'', ''Bearer '' @ t)] | None \<Rightarrow> []) @ po_headers p)))"

definition rpc_method :: "string \<Rightarrow> string" where
  "rpc_method body =
     (case Option.bind (read_text body) (\<lambda>v. as_str (at_key v ''method'')) of Some m \<Rightarrow> m | None \<Rightarrow> [])"

definition answered :: "string \<times> string \<Rightarrow> 'x mock_net \<Rightarrow> reply \<times> 'x
    \<Rightarrow> (bool \<times> string + downstream_reply) \<times> 'x mock_net" where
  "answered entry n = (\<lambda>(r, x).
     (Inr \<lparr>dr_status = rp_status r, dr_www_authenticate = None, dr_session_id = rp_session r, dr_body = Inr (rp_body r)\<rparr>,
      \<lparr>mn_seen = mn_seen n @ [entry], mn_state = x\<rparr>))"

definition mock_entry :: "post \<Rightarrow> string \<times> string" where
  "mock_entry p = (rpc_method (po_body p), head_text p)"

definition respond_to :: "'x responder \<Rightarrow> string \<times> string \<Rightarrow> 'x mock_net
    \<Rightarrow> (bool \<times> string + downstream_reply) \<times> 'x mock_net" where
  "respond_to respond entry n = answered entry n (respond (fst entry) (snd entry) (mn_state n))"

definition mock_send :: "'x responder \<Rightarrow> post \<Rightarrow> 'x mock_net \<Rightarrow> (bool \<times> string + downstream_reply) \<times> 'x mock_net" where
  "mock_send respond p n = respond_to respond (mock_entry p) n"

text \<open>\<open>HeaderValue::from_str\<close> takes visible ASCII, spaces and tabs; \<open>HeaderName\<close> is in lower case.\<close>

definition header_char :: "char \<Rightarrow> bool" where
  "header_char c \<longleftrightarrow> c = CHR 0x09 \<or> (32 \<le> (of_char c :: int) \<and> (of_char c :: int) \<le> 126)"

definition no_oauth_lib :: "('n, nat) oauth_lib" where
  "no_oauth_lib = \<lparr>ol_secret = test_secret_lib, ol_token_text = (\<lambda>t. []), ol_token_parse = (\<lambda>s. None),
     ol_get_json = (\<lambda>url n. (Inl ''offline'', n)), ol_post = (\<lambda>url body n. (Inl ''offline'', n)),
     ol_mono_ns = (\<lambda>n. 0), ol_unix_secs = (\<lambda>n. 0), ol_await_refresh_lock = (\<lambda>m w. ((om_cache m, om_discovered m), w)),
     ol_json_text = to_text text_codec, ol_shape_error = shape_msg text_codec, ol_random = (\<lambda>k n. ([], n)),
     ol_sha256 = id, ol_b64url = id, ol_open_browser = (\<lambda>url n. (False, n)),
     ol_callback_bind = (\<lambda>p n. (Inr (), n)), ol_callback_accept = (\<lambda>n. (Inr (), n)),
     ol_callback_line = (\<lambda>n. (Inl ''closed'', n)), ol_callback_write = (\<lambda>s n. (Inr (), n)),
     ol_read_stdin = (\<lambda>n. (Inl ''closed'', n))\<rparr>"

definition client_over :: "(post \<Rightarrow> 'n \<Rightarrow> (bool \<times> string + downstream_reply) \<times> 'n) \<Rightarrow> ('n, nat) client_lib" where
  "client_over send = \<lparr>cl_oauth = no_oauth_lib, cl_codec = text_codec, cl_send = send, cl_url_origin = (\<lambda>u. None),
     cl_header_value = list_all header_char, cl_header_name = (\<lambda>n. Some (ascii_lower n)), cl_b64 = b64_encode,
     cl_await_reinit = Pair\<rparr>"

definition scripted :: "'x responder \<Rightarrow> ('x mock_net, nat) client_lib" where
  "scripted respond = client_over (mock_send respond)"

text \<open>Replies in order, the last one for ever.\<close>

fun in_order :: "(nat \<times> string) list responder" where
  "in_order m h ((status, body) # r # rs) = (reply_new status body, r # rs)"
| "in_order m h [(status, body)] = (reply_new status body, [(status, body)])"
| "in_order m h [] = (reply_new 500 [], [])"

definition recording :: "((nat \<times> string) list mock_net, nat) client_lib" where
  "recording = scripted in_order"

definition net_world :: "'x \<Rightarrow> ('x mock_net, nat) oauth_world" where
  "net_world x = \<lparr>ow_secrets = empty_dir, ow_net = \<lparr>mn_seen = [], mn_state = x\<rparr>\<rparr>"

definition result_text :: "json \<Rightarrow> string" where
  "result_text result = to_text text_codec (jobj [(''jsonrpc'', JStr ''2.0''), (''id'', jnat 0), (''result'', result)])"

definition ok_reply :: "json \<Rightarrow> nat \<times> string" where
  "ok_reply result = (200, result_text result)"

section \<open>The backend under test\<close>

definition mock_backend_value :: json where
  "mock_backend_value = jobj [(''id'', JStr ''mock''), (''transport'', JStr ''http''), (''url'', JStr ''http://mock'')]"

definition real_backend :: "('n, nat) client_lib \<Rightarrow> http_backend option" where
  "real_backend lib = Option.bind (backend_def_from_value mock_backend_value) (http_new lib)"

definition connected_backend :: "('n, nat) client_lib \<Rightarrow> http_backend option" where
  "connected_backend lib = map_option (\<lambda>hb. hb\<lparr>hb_connected := True\<rparr>) (real_backend lib)"

definition modern_call :: "string \<Rightarrow> json \<Rightarrow> json" where
  "modern_call name arguments = jobj [(''name'', JStr name), (''arguments'', arguments),
     (''_meta'', jobj [(META_PROTOCOL_VERSION, JStr ''2026-07-28'')])]"

text \<open>Steps of a test: a result that must be one, or an error.\<close>

definition ok_step :: "(backend_error + 'a) \<times> 's \<Rightarrow> ('a \<times> 's) option" where
  "ok_step r = map_option (\<lambda>x. (x, snd r)) (unwrap (fst r))"

definition err_step :: "(backend_error + 'a) \<times> 's \<Rightarrow> (backend_error \<times> 's) option" where
  "err_step r = map_option (\<lambda>e. (e, snd r)) (unwrap_err (fst r))"

definition seen :: "('x mock_net, nat) http_state \<Rightarrow> (string \<times> string) list" where
  "seen s = mn_seen (ow_net (snd s))"

definition head_seen :: "('x mock_net, nat) http_state \<Rightarrow> nat \<Rightarrow> string" where
  "head_seen s i = snd (seen s ! i)"

definition count :: "('x mock_net, nat) http_state \<Rightarrow> string \<Rightarrow> nat" where
  "count s m = length (filter (\<lambda>(m', h). m' = m) (seen s))"

definition has_line :: "string \<Rightarrow> string \<Rightarrow> bool" where
  "has_line head line = contains_sub head (line @ CRLF)"

section \<open>One exchange\<close>

text \<open>
  A mock reads the method of the request that was written: what it answers is known without the text.
\<close>

lemma wf_obj_of: "list_all (\<lambda>(k, v). wf_json v) kvs \<Longrightarrow> wf_json (JObj (obj_of kvs))"
proof -
  have "wf_json (JObj acc) \<Longrightarrow> list_all (\<lambda>(k, v). wf_json v) kvs
      \<Longrightarrow> wf_json (JObj (fold (\<lambda>(k, v). obj_insert k v) kvs acc))" for acc
    by (induction kvs arbitrary: acc) (auto simp: wf_obj_insert simp del: wf_json.simps(6))
  from this [of "[]"] show "list_all (\<lambda>(k, v). wf_json v) kvs \<Longrightarrow> wf_json (JObj (obj_of kvs))"
    by (simp add: obj_of_def sorted_keys_def)
qed

lemma rpc_method_to_text: "wf_json v \<Longrightarrow> at_key v ''method'' = JStr m \<Longrightarrow> rpc_method (to_text text_codec v) = m"
  using text_codec_ok by (simp add: codec_ok_def rpc_method_def)

lemma wf_id: "wf_json (id_value i)"
  by (cases i) (simp_all add: number_of_i64_def)

lemma rpc_method_request:
  assumes "pred_option wf_json params"
  shows "rpc_method (to_text text_codec (message_value (Request (new_request i m params)))) = m"
  using assms
  by (cases params; intro rpc_method_to_text)
     (auto simp: new_request_def opt_field_def wf_id at_key_def map_of_obj_of simp del: wf_json.simps(6) intro!: wf_obj_of)

lemma rpc_method_notification:
  "rpc_method (to_text text_codec (message_value (Notification (new_notification m None)))) = m"
  by (intro rpc_method_to_text)
     (auto simp: new_notification_def opt_field_def at_key_def map_of_obj_of simp del: wf_json.simps(6) intro!: wf_obj_of)

declare text_codec_simps [simp del] message_value.simps [simp del]

text \<open>What the mock sees of a post without its body, and what it answers to a post and to a notification.\<close>

definition head_of :: "string option \<Rightarrow> (string \<times> string) list \<Rightarrow> string" where
  "head_of bearer headers = head_text \<lparr>po_url = [], po_bearer = bearer, po_headers = headers, po_body = []\<rparr>"

definition post_fields :: "(string \<times> string) list \<Rightarrow> string option \<Rightarrow> (string \<times> string) list" where
  "post_fields extra sid = [(''content-type'', APPLICATION_JSON), (''accept'', APPLICATION_JSON @ '', '' @ SSE_CONTENT_TYPE)] @
     extra @ session_field sid"

definition saw :: "string \<times> string \<Rightarrow> 'x \<Rightarrow> ('x mock_net, nat) oauth_world \<Rightarrow> ('x mock_net, nat) oauth_world" where
  "saw entry x w = w\<lparr>ow_net := \<lparr>mn_seen = mn_seen (ow_net w) @ [entry], mn_state = x\<rparr>\<rparr>"

lemma exchange:
  assumes "hb_oauth hb = None"
  shows "http_post (scripted respond) body extra sid (hb, w) =
    (let m = rpc_method body; h = head_of (hb_bearer hb) (post_fields extra sid)
     in case respond m h (mn_state (ow_net w)) of
          (r, x) \<Rightarrow> (Inr (rp_body r, rp_status r, rp_session r), hb, saw (m, h) x w))"
  using assms
  by (simp add: http_post_def scripted_def client_over_def mock_send_def respond_to_def mock_entry_def answered_def head_of_def
      post_fields_def head_text_def discover_on_401_def saw_def split: prod.split)

lemma notified:
  "send_notification (scripted respond) m None (hb, w) =
    (let h = head_of (hb_bearer hb) ((''content-type'', APPLICATION_JSON) # session_header (scripted respond) hb)
     in case respond m h (mn_state (ow_net w)) of
          (r, x) \<Rightarrow>
            (if ok_status (rp_status r) then Inr ()
             else Inl (backend_error_new Protocol
               (''notification to '' @ sq (hb_id hb) @ '' returned HTTP '' @ digits_of (rp_status r))),
             hb, saw (m, h) x w))"
  by (simp add: send_notification_def scripted_def client_over_def mock_send_def respond_to_def mock_entry_def answered_def
      head_of_def head_text_def saw_def rpc_method_notification session_header_def split: prod.split)

text \<open>The properties of a schema one after the other.\<close>

fun walk_all :: "string list \<Rightarrow> jobject \<Rightarrow> param_headers" where
  "walk_all path [] = []"
| "walk_all path ((key, prop) # props) = annotation (path @ [key]) prop @ walk prop (path @ [key]) @ walk_all path props"

lemma walk_code [code]: "walk schema path = walk_all path (properties schema)"
proof -
  have "walk_all path props =
      concat (map (\<lambda>(key, prop). annotation (path @ [key]) prop @ walk prop (path @ [key])) props)" for props
    by (induction props) auto
  then show ?thesis by (simp add: walk.simps [of schema path])
qed

text \<open>Numbers of a message are written on \<open>int\<close>.\<close>

lemma digits_of_int_digits: "0 \<le> i \<Longrightarrow> digits_of (nat i) = int_digits i"
proof (induction i rule: int_digits.induct)
  case (1 i)
  have small: "nat i < 10 \<longleftrightarrow> i < 10" by linarith
  show ?case
  proof (cases "i < 10")
    case True
    then show ?thesis by (simp add: digits_of.simps [of "nat i"] int_digits.simps [of i] small)
  next
    case False
    with 1 show ?thesis
      by (simp add: digits_of.simps [of "nat i"] int_digits.simps [of i] small nat_div_distrib nat_mod_distrib)
  qed
qed

lemma ascii_lower_code [code]:
  "ascii_lower s = map (\<lambda>c. let n = (of_char c :: int) in if 65 \<le> n \<and> n \<le> 90 then char_of (n + 32) else c) s"
proof -
  have int: "(of_char c :: int) = int (of_char c)" for c by (simp add: of_nat_of_char)
  have "(char_of (int (of_char c) + 32) :: char) = char_of ((of_char c :: nat) + 32)" for c
    by (metis char_of_nat of_nat_add of_nat_numeral)
  then show ?thesis by (simp add: ascii_lower_def Let_def int del: of_nat_of_char)
qed

lemma display_i64_code [code]:
  "display_i64 w = (if sint w < 0 then CHR ''-'' # int_digits (- sint w) else int_digits (sint w))"
  by (simp add: display_i64_def digits_of_int_digits)

section \<open>Headers\<close>

definition a_modern_tools_call_carries_the_matching_request_headers :: bool where
  "a_modern_tools_call_carries_the_matching_request_headers = succeeds (do {
     backend \<leftarrow> connected_backend recording;
     let params = modern_call ''peers'' (JObj []);
     (v, s) \<leftarrow> ok_step (http_call_method recording ''tools/call'' (Some params) (backend, net_world [ok_reply (JObj [])]));
     let head = head_seen s 0;
     check (has_line head ''mcp-protocol-version: 2026-07-28'');
     check (has_line head ''mcp-method: tools/call'');
     check (has_line head ''mcp-name: peers'') })"

definition a_modern_resources_read_names_the_uri :: bool where
  "a_modern_resources_read_names_the_uri = succeeds (do {
     backend \<leftarrow> connected_backend recording;
     let params = jobj [(''uri'', JStr ''cli://netbird/state''), (''_meta'', jobj [(META_PROTOCOL_VERSION, JStr ''2026-07-28'')])];
     (v, s) \<leftarrow> ok_step (http_call_method recording ''resources/read'' (Some params) (backend, net_world [ok_reply (JObj [])]));
     let head = head_seen s 0;
     check (has_line head ''mcp-method: resources/read'');
     check (has_line head ''mcp-name: cli://netbird/state'') })"

definition legacy_requests_keep_their_headers :: bool where
  "legacy_requests_keep_their_headers = succeeds (do {
     backend \<leftarrow> connected_backend recording;
     let params = jobj [(''name'', JStr ''peers''), (''arguments'', JObj [])];
     (v, s) \<leftarrow> ok_step (http_call_method recording ''tools/call'' (Some params) (backend, net_world [ok_reply (JObj [])]));
     (v, s) \<leftarrow> ok_step (http_call_method recording ''tools/list'' None s);
     check (list_all (\<lambda>(m, head).
       \<not> contains_sub head ''mcp-protocol-version'' \<and> \<not> contains_sub head ''mcp-method'' \<and> \<not> contains_sub head ''mcp-name'' \<and>
       contains_sub head ''accept: application/json, text/event-stream'') (seen s)) })"

definition execute_sql_tool :: json where
  "execute_sql_tool = jobj
     [(''name'', JStr ''execute_sql''), (''description'', JStr ''sql''),
      (''inputSchema'', jobj [(''type'', JStr ''object''), (''properties'', jobj
         [(''region'', jobj [(''type'', JStr ''string''), (''x-mcp-header'', JStr ''Region'')]),
          (''greeting'', jobj [(''type'', JStr ''string''), (''x-mcp-header'', JStr ''Greeting'')]),
          (''limit'', jobj [(''type'', JStr ''integer''), (''x-mcp-header'', JStr ''Limit'')]),
          (''skipped'', jobj [(''type'', JStr ''string''), (''x-mcp-header'', JStr ''Skipped'')]),
          (''query'', jobj [(''type'', JStr ''string'')])])])]"

text \<open>The greeting is \<open>Hello, \<close> and two characters of three bytes each.\<close>

definition execute_sql_args :: json where
  "execute_sql_args = jobj
     [(''region'', JStr ''us-west1''),
      (''greeting'', JStr (''Hello, '' @ [CHR 0xE4, CHR 0xB8, CHR 0x96, CHR 0xE7, CHR 0x95, CHR 0x8C])),
      (''limit'', jnat 7), (''skipped'', JNull), (''query'', JStr ''SELECT 1'')]"

definition annotated_arguments_are_mirrored_into_param_headers :: bool where
  "annotated_arguments_are_mirrored_into_param_headers = succeeds (do {
     backend \<leftarrow> connected_backend recording;
     let tools = ok_reply (jobj [(''tools'', JArr [execute_sql_tool])]);
     (v, s) \<leftarrow> ok_step (http_list_tools recording (backend, net_world [tools, ok_reply (JObj [])]));
     (v, s) \<leftarrow> ok_step (http_call_method recording ''tools/call'' (Some (modern_call ''execute_sql'' execute_sql_args)) s);
     let head = head_seen s 1;
     check (has_line head ''mcp-param-region: us-west1'');
     check (has_line head ''mcp-param-greeting: =?base64?sgvsbg8sios4luevja==?='');
     check (has_line head ''mcp-param-limit: 7'');
     check (\<not> contains_sub head ''mcp-param-skipped'');
     check (\<not> contains_sub head ''mcp-param-query'') })"

definition header_values_that_are_not_plain_ascii_are_base64_encoded :: bool where
  "header_values_that_are_not_plain_ascii_are_base64_encoded =
     (encode_header_value b64_encode ''us-west1'' = ''us-west1'' \<and>
      encode_header_value b64_encode '' padded '' = ''=?base64?IHBhZGRlZCA=?='' \<and>
      encode_header_value b64_encode (''line1'' @ [CHR 0x0A] @ ''line2'') = ''=?base64?bGluZTEKbGluZTI=?='' \<and>
      encode_header_value b64_encode ''=?base64?literal?='' = ''=?base64?PT9iYXNlNjQ/bGl0ZXJhbD89?='')"

section \<open>Errors\<close>

text \<open>A port that nothing listens on.\<close>

definition closed_port :: "(unit mock_net, nat) client_lib" where
  "closed_port = client_over (\<lambda>p n. (Inl (False, ''connection refused''), n))"

definition error_of_list :: "('x mock_net, nat) client_lib \<Rightarrow> 'x \<Rightarrow> backend_error option" where
  "error_of_list lib x = do {
     backend \<leftarrow> connected_backend lib;
     (e, s) \<leftarrow> err_step (http_call_method lib ''tools/list'' None (backend, net_world x));
     Some e }"

definition a_4xx_is_a_protocol_error_but_a_5xx_or_refused_connection_is_unreachable :: bool where
  "a_4xx_is_a_protocol_error_but_a_5xx_or_refused_connection_is_unreachable =
     (let mismatch = (400, to_text text_codec (jobj [(''code'', JNum (NegInt (-32020))), (''message'', JStr ''Header mismatch'')]))
      in map_option be_kind (error_of_list recording [mismatch]) = Some Protocol \<and>
         map_option be_kind (error_of_list recording [(503, ''{}'')]) = Some Connection \<and>
         map_option be_kind (error_of_list closed_port ()) = Some Connection)"

section \<open>Lost sessions\<close>

definition init_value :: json where
  "init_value = jobj [(''protocolVersion'', JStr ''2024-11-05''),
     (''serverInfo'', jobj [(''name'', JStr ''mock''), (''version'', JStr ''1'')]), (''capabilities'', JObj [])]"

definition init_reply :: reply where
  "init_reply = reply_new 200 (result_text init_value)"

definition rpc_error_reply :: "i64 \<Rightarrow> string \<Rightarrow> reply" where
  "rpc_error_reply code message = reply_new 200 (to_text text_codec (jobj [(''jsonrpc'', JStr ''2.0''), (''id'', jnat 0),
     (''error'', jobj [(''code'', JNum (number_of_i64 code)), (''message'', JStr message)])]))"

definition ok_call :: reply where
  "ok_call = reply_new 200 (snd (ok_reply (jobj [(''ok'', JBool True)])))"

definition NOT_INITIALIZED :: string where
  "NOT_INITIALIZED = ''session is not initialized; call \"initialize\" first''"

text \<open>A server that forgets its session when its flag is set, until the next \<open>initialize\<close>.\<close>

definition restartable :: "bool responder" where
  "restartable m h lost =
     (if m = ''initialize'' then (init_reply, False)
      else if m = ''notifications/initialized'' then (reply_new 202 [], lost)
      else if lost then (rpc_error_reply (-32600) NOT_INITIALIZED, lost)
      else (ok_call, lost))"

definition with_state :: "'x \<Rightarrow> ('x mock_net, nat) http_state \<Rightarrow> ('x mock_net, nat) http_state" where
  "with_state x s = (fst s, (snd s)\<lparr>ow_net := (ow_net (snd s))\<lparr>mn_state := x\<rparr>\<rparr>)"

definition call_peers :: "('x mock_net, nat) client_lib \<Rightarrow> ('x mock_net, nat) http_state
    \<Rightarrow> (backend_error + json) \<times> ('x mock_net, nat) http_state" where
  "call_peers lib s = http_call_tool lib ''peers'' None s"

definition a_restarted_backend_is_initialized_again_and_the_call_retried_once :: bool where
  "a_restarted_backend_is_initialized_again_and_the_call_retried_once = succeeds (do {
     backend \<leftarrow> real_backend (scripted restartable);
     (init, s) \<leftarrow> ok_step (http_connect (scripted restartable) (backend, net_world False));
     (result, s) \<leftarrow> ok_step (call_peers (scripted restartable) (with_state True s));
     check (at_key result ''ok'' = JBool True);
     check (count s ''initialize'' = 2);
     check (count s ''notifications/initialized'' = 2);
     check (count s ''tools/call'' = 2);
     check (fst (http_take_tools_refresh s));
     check (\<not> fst (http_take_tools_refresh (snd (http_take_tools_refresh s)))) })"

text \<open>A server with the session \<open>s2\<close> only.\<close>

definition second_session :: "unit responder" where
  "second_session m h u =
     (if m = ''initialize'' then init_reply\<lparr>rp_session := Some ''s2''\<rparr>
      else if m = ''notifications/initialized'' then reply_new 202 []
      else if has_line h ''mcp-session-id: s2'' then ok_call
      else reply_new 404 ''{}'', u)"

definition a_404_for_a_known_session_starts_a_new_session :: bool where
  "a_404_for_a_known_session_starts_a_new_session = succeeds (do {
     backend \<leftarrow> connected_backend (scripted second_session);
     (v, s) \<leftarrow> ok_step (call_peers (scripted second_session) (backend\<lparr>hb_session_id := Some ''s1''\<rparr>, net_world ()));
     check (map fst (seen s) = [''tools/call'', ''initialize'', ''notifications/initialized'', ''tools/call'']);
     check (\<not> contains_sub (head_seen s 1) ''mcp-session-id'');
     check (has_line (head_seen s 2) ''mcp-session-id: s2'');
     check (has_line (head_seen s 3) ''mcp-session-id: s2'') })"

definition always :: "reply \<Rightarrow> unit responder" where
  "always r m h u = (r, u)"

definition a_404_without_a_session_is_not_retried :: bool where
  "a_404_without_a_session_is_not_retried = succeeds (do {
     let lib = scripted (always (reply_new 404 ''{}''));
     backend \<leftarrow> connected_backend lib;
     (e, s) \<leftarrow> err_step (call_peers lib (backend, net_world ()));
     check (contains_sub (be_message e) ''404'');
     check (length (seen s) = 1) })"

definition other_invalid_request_errors_are_not_retried :: bool where
  "other_invalid_request_errors_are_not_retried = succeeds (do {
     let lib = scripted (always (rpc_error_reply (-32600) ''params must be an object''));
     backend \<leftarrow> connected_backend lib;
     (e, s) \<leftarrow> err_step (call_peers lib (backend, net_world ()));
     check (contains_sub (be_message e) ''params must be an object'');
     check (length (seen s) = 1) })"

definition failing_initialize :: "unit responder" where
  "failing_initialize m h u =
     (if m = ''initialize'' then reply_new 500 ''down'' else rpc_error_reply (-32600) NOT_INITIALIZED, u)"

definition a_failed_re_initialize_returns_the_original_error_without_looping :: bool where
  "a_failed_re_initialize_returns_the_original_error_without_looping = succeeds (do {
     backend \<leftarrow> connected_backend (scripted failing_initialize);
     (e, s) \<leftarrow> err_step (call_peers (scripted failing_initialize) (backend, net_world ()));
     check (contains_sub (be_message e) NOT_INITIALIZED);
     check (map fst (seen s) = [''tools/call'', ''initialize'']);
     check (\<not> fst (http_take_tools_refresh s)) })"

definition never_initialized :: "unit responder" where
  "never_initialized m h u =
     (if m = ''initialize'' then init_reply
      else if m = ''notifications/initialized'' then reply_new 202 []
      else rpc_error_reply (-32600) NOT_INITIALIZED, u)"

definition a_call_that_still_fails_after_re_initialize_is_not_retried_again :: bool where
  "a_call_that_still_fails_after_re_initialize_is_not_retried_again = succeeds (do {
     backend \<leftarrow> connected_backend (scripted never_initialized);
     (e, s) \<leftarrow> err_step (call_peers (scripted never_initialized) (backend, net_world ()));
     check (contains_sub (be_message e) NOT_INITIALIZED);
     check (count s ''initialize'' = 1);
     check (count s ''tools/call'' = 2) })"

definition a_modern_call_is_never_re_initialized :: bool where
  "a_modern_call_is_never_re_initialized = succeeds (do {
     let lib = scripted (always (rpc_error_reply (-32600) NOT_INITIALIZED));
     backend \<leftarrow> connected_backend lib;
     (e, s) \<leftarrow> err_step (http_call_method lib ''tools/call'' (Some (modern_call ''peers'' (JObj []))) (backend, net_world ()));
     check (length (seen s) = 1) })"

section \<open>The tests pass\<close>

definition init_result :: initialize_result where
  "init_result = the (initialize_result_from_value init_value)"

lemma init_result_read: "initialize_result_from_value init_value = Some init_result"
proof -
  have "initialize_result_from_value init_value \<noteq> None" by code_simp
  then show ?thesis by (auto simp: init_result_def)
qed

lemma init_reply_read: "parse_response text_codec (rp_body init_reply) b = Inr init_value"
  by code_simp

lemma ok_call_read: "parse_response text_codec (rp_body ok_call) b = Inr (JObj [(''ok'', JBool True)])"
  by code_simp

lemma lost_read:
  "parse_response text_codec (rp_body (rpc_error_reply (-32600) NOT_INITIALIZED)) b =
     Inl (backend_error_new Protocol (''backend '' @ sq b @ '' returned error (code -32600): '' @ NOT_INITIALIZED))"
  "session_not_initialized text_codec (rp_body (rpc_error_reply (-32600) NOT_INITIALIZED)) = Some ''session is not initialized''"
  by code_simp+

lemma reply_fields [simp]:
  "rp_status (reply_new s t) = s" "rp_body (reply_new s t) = t" "rp_session (reply_new s t) = None"
  "rp_status init_reply = 200" "rp_session init_reply = None"
  "rp_status ok_call = 200" "rp_session ok_call = None"
  "rp_status (rpc_error_reply c e) = 200" "rp_session (rpc_error_reply c e) = None"
  by (simp_all add: reply_new_def init_reply_def ok_call_def rpc_error_reply_def)

lemma scripted_fields [simp]:
  "cl_codec (scripted r) = text_codec" "cl_await_reinit (scripted r) = Pair"
  by (simp_all add: scripted_def client_over_def)

definition mock_def :: backend_def where
  "mock_def = the (backend_def_from_value mock_backend_value)"

lemma mock_def_read: "backend_def_from_value mock_backend_value = Some mock_def"
  "def_transport mock_def = Http ''http://mock'' None None"
  "def_id mock_def = ''mock''"
proof -
  have "map_option (\<lambda>d. (def_transport d, def_id d)) (backend_def_from_value mock_backend_value)
      = Some (Http ''http://mock'' None None, ''mock'')"
    by code_simp
  then show "backend_def_from_value mock_backend_value = Some mock_def"
    "def_transport mock_def = Http ''http://mock'' None None" "def_id mock_def = ''mock''"
    by (auto simp: mock_def_def)
qed

definition mock_hb :: http_backend where
  "mock_hb = \<lparr>hb_def = mock_def, hb_url = ''http://mock'', hb_bearer = None, hb_oauth = None, hb_init = None,
     hb_connected = False, hb_counter = 0, hb_daemon = False, hb_session_id = None, hb_param_headers = [], hb_epoch = 0,
     hb_tools_refresh = False\<rparr>"

lemma real_backend_mock: "real_backend lib = Some mock_hb"
  by (simp add: real_backend_def mock_def_read http_new_def http_with_store_def with_shared_oauth2_def oauth2_manager_def
      client_bearer_def mock_hb_def)

lemma connected_backend_mock: "connected_backend lib = Some (mock_hb\<lparr>hb_connected := True\<rparr>)"
  by (simp add: connected_backend_def real_backend_mock)


lemma http_run:
  assumes "pred_option wf_json params" and "hb_oauth hb = None"
  shows "send_request_inner (scripted respond) m params retry (hb, w) =
    (let extra = modern_headers (scripted respond) hb m params;
         h = head_of (hb_bearer hb) (post_fields extra (hb_session_id hb))
     in case respond m h (mn_state (ow_net w)) of
          (r, x) \<Rightarrow> final_reply (scripted respond) (hb_session_id hb) (rp_body r) (rp_status r)
            (capture_session (rp_session r) (hb\<lparr>hb_counter := hb_counter hb + 1\<rparr>), saw (m, h) x w))"
proof -
  have tools: "tool_headers (hb\<lparr>hb_counter := n\<rparr>) = tool_headers hb" for n
    by (rule ext) (simp add: tool_headers_def)
  have "modern_headers (scripted respond) (hb\<lparr>hb_counter := n\<rparr>) m params = modern_headers (scripted respond) hb m params" for n
    by (simp add: modern_headers_def tools Let_def split: option.split)
  then show ?thesis using assms
    by (simp add: send_request_inner_def exchange rpc_method_request capture_session_def Let_def split: prod.split option.split)
qed

lemma modern_headers_plain [simp]: "modern_version params = None \<Longrightarrow> modern_headers lib hb m params = []"
  by (simp add: modern_headers_def split: option.split)

lemma initialize_plain [simp]: "wf_json initialize_params" "modern_version (Some initialize_params) = None"
  by code_simp+

lemma modern_version_None [simp]: "modern_version None = None"
  by (simp add: modern_version_def)

lemma invalid_request_read:
  "parse_response text_codec (rp_body (rpc_error_reply (-32600) ''params must be an object'')) b =
     Inl (backend_error_new Protocol (''backend '' @ sq b @ '' returned error (code -32600): params must be an object''))"
  "session_not_initialized text_codec (rp_body (rpc_error_reply (-32600) ''params must be an object'')) = None"
  by code_simp+

definition tools_value :: json where
  "tools_value = jobj [(''tools'', JArr [execute_sql_tool])]"

lemma result_read:
  "parse_response text_codec (result_text (JObj [])) b = Inr (JObj [])"
  "parse_response text_codec (result_text tools_value) b = Inr tools_value"
  by code_simp+

lemma execute_sql_read:
  "wf_json execute_sql_args"
  "tool_from_value execute_sql_tool = Some \<lparr>td_name = ''execute_sql'', td_description = ''sql'',
     td_input_schema = at_key execute_sql_tool ''inputSchema''\<rparr>"
  by code_simp+

lemma resource_plain [simp]:
  "wf_json (jobj [(''uri'', JStr u), (''_meta'', jobj [(META_PROTOCOL_VERSION, JStr v)])])"
  by (auto simp: jobj_def simp del: wf_json.simps(6) intro!: wf_obj_of)

definition mismatch_text :: string where
  "mismatch_text = to_text text_codec (jobj [(''code'', JNum (NegInt (-32020))), (''message'', JStr ''Header mismatch'')])"

lemma not_a_message:
  "session_not_initialized text_codec ''{}'' = None"
  "session_not_initialized text_codec mismatch_text = None"
  by code_simp+

lemma modern_call_plain [simp]:
  "wf_json a \<Longrightarrow> wf_json (modern_call n a)" "modern_version (Some (modern_call n a)) = Some ''2026-07-28''"
proof -
  show "modern_version (Some (modern_call n a)) = Some ''2026-07-28''"
    by (simp add: modern_version_def modern_call_def)
  show "wf_json (modern_call n a)" if "wf_json a"
    using that by (auto simp: modern_call_def jobj_def simp del: wf_json.simps(6) intro!: wf_obj_of)
qed

lemmas run_defs = succeeds_def check_def ok_step_def err_step_def unwrap_def unwrap_err_def real_backend_mock
  connected_backend_mock mock_hb_def http_connect_def adopt_token_def handshake_def http_run notified
  final_reply_def ok_status_def init_reply_read init_result_read ok_call_read lost_read not_a_message
  call_peers_def http_call_tool_def http_call_method_def
  check_connected_def send_request_def reinitialize_def capture_session_def saw_def net_world_def seen_def head_seen_def
  count_def with_state_def http_take_tools_refresh_def plain_failure_def hb_id_def mock_def_read invalid_request_read
  ok_reply_def result_read execute_sql_read tools_value_def [symmetric] mismatch_text_def [symmetric]

lemma peers_plain [simp]:
  "wf_json (jobj [(''name'', JStr ''peers''), (''arguments'', JObj [])])"
  "modern_version (Some (jobj [(''name'', JStr ''peers''), (''arguments'', JObj [])])) = None"
  by code_simp+

lemma session_lines:
  "has_line (head_of None (post_fields [] (Some ''s2''))) ''mcp-session-id: s2''"
  "\<not> has_line (head_of None (post_fields [] (Some ''s1''))) ''mcp-session-id: s2''"
  "\<not> contains_sub (head_of None (post_fields [] None)) ''mcp-session-id''"
  "has_line (head_of None [(''content-type'', APPLICATION_JSON), (''mcp-session-id'', ''s2'')]) ''mcp-session-id: s2''"
  "cl_header_value (scripted respond) ''s2''"
  by code_simp+

lemma session_loss_tests_pass:
  "a_restarted_backend_is_initialized_again_and_the_call_retried_once"
  "a_404_for_a_known_session_starts_a_new_session"
  "a_404_without_a_session_is_not_retried"
  "other_invalid_request_errors_are_not_retried"
  "a_failed_re_initialize_returns_the_original_error_without_looping"
  "a_call_that_still_fails_after_re_initialize_is_not_retried_again"
  "a_modern_call_is_never_re_initialized"
  subgoal unfolding a_restarted_backend_is_initialized_again_and_the_call_retried_once_def
    by (simp add: run_defs restartable_def at_key_def)
  subgoal unfolding a_404_for_a_known_session_starts_a_new_session_def Let_def
    by (simp add: run_defs second_session_def session_lines session_header_def)
  subgoal unfolding a_404_without_a_session_is_not_retried_def Let_def
    by (simp add: run_defs always_def) code_simp
  subgoal unfolding other_invalid_request_errors_are_not_retried_def Let_def
    by (simp add: run_defs always_def) code_simp
  subgoal unfolding a_failed_re_initialize_returns_the_original_error_without_looping_def
    by (simp add: run_defs failing_initialize_def) code_simp
  subgoal unfolding a_call_that_still_fails_after_re_initialize_is_not_retried_again_def
    by (simp add: run_defs never_initialized_def) code_simp
  subgoal unfolding a_modern_call_is_never_re_initialized_def Let_def
    by (simp add: run_defs always_def)
  done

lemma error_tests_pass:
  "a_4xx_is_a_protocol_error_but_a_5xx_or_refused_connection_is_unreachable"
  unfolding a_4xx_is_a_protocol_error_but_a_5xx_or_refused_connection_is_unreachable_def error_of_list_def Let_def
  apply (intro conjI)
  subgoal by (simp add: run_defs recording_def)
  subgoal by (simp add: run_defs recording_def)
  subgoal by (simp add: run_defs closed_port_def client_over_def send_request_inner_def http_post_def)
  done

lemma plain_lines [simp]:
  "put_header (scripted respond) ''mcp-protocol-version'' ''2026-07-28'' [] = [(''mcp-protocol-version'', ''2026-07-28'')]"
  "put_header (scripted respond) ''mcp-method'' ''tools/call'' hs = AList.update ''mcp-method'' ''tools/call'' hs"
  "put_header (scripted respond) ''mcp-method'' ''resources/read'' hs = AList.update ''mcp-method'' ''resources/read'' hs"
  "put_header (scripted respond) ''mcp-name'' (encode_header_value (cl_b64 (scripted respond)) ''peers'') hs =
     AList.update ''mcp-name'' ''peers'' hs"
  "put_header (scripted respond) ''mcp-name'' (encode_header_value (cl_b64 (scripted respond)) ''cli://netbird/state'') hs =
     AList.update ''mcp-name'' ''cli://netbird/state'' hs"
  by code_simp+

lemma modern_call_name [simp]: "get_key (modern_call n a) ''name'' = Some (JStr n)"
  by (simp add: modern_call_def)

lemma peers_headers:
  "hb_param_headers hb = [] \<Longrightarrow> modern_headers (scripted respond) hb ''tools/call'' (Some (modern_call ''peers'' a)) =
     [(''mcp-protocol-version'', ''2026-07-28''), (''mcp-method'', ''tools/call''), (''mcp-name'', ''peers'')]"
  by (simp add: modern_headers_def Let_def name_field_def tool_headers_def)

lemma read_headers:
  "modern_headers (scripted respond) hb ''resources/read''
     (Some (jobj [(''uri'', JStr ''cli://netbird/state''), (''_meta'', jobj [(META_PROTOCOL_VERSION, JStr ''2026-07-28'')])])) =
     [(''mcp-protocol-version'', ''2026-07-28''), (''mcp-method'', ''resources/read''), (''mcp-name'', ''cli://netbird/state'')]"
  by (simp add: modern_headers_def modern_version_def Let_def name_field_def)

text \<open>The headers that mirror the annotated arguments.\<close>

definition sql_paths :: param_headers where
  "sql_paths = [([''greeting''], ''Greeting''), ([''limit''], ''Limit''), ([''region''], ''Region''), ([''skipped''], ''Skipped'')]"

lemma sql_paths_found: "param_header_paths (at_key execute_sql_tool ''inputSchema'') = sql_paths" "sql_paths \<noteq> []"
  by code_simp+

lemma tools_listed: "get_key tools_value ''tools'' = Some (JArr [execute_sql_tool])"
  by (simp add: tools_value_def)

definition sql_extra :: "(string \<times> string) list" where
  "sql_extra = [(''mcp-protocol-version'', ''2026-07-28''), (''mcp-method'', ''tools/call''), (''mcp-name'', ''execute_sql''),
     (''mcp-param-greeting'', ''=?base64?SGVsbG8sIOS4lueVjA==?=''), (''mcp-param-limit'', ''7''), (''mcp-param-region'', ''us-west1'')]"

lemma sql_headers:
  assumes "hb_param_headers hb = [(''execute_sql'', sql_paths)]"
  shows "modern_headers (scripted respond) hb ''tools/call'' (Some (modern_call ''execute_sql'' execute_sql_args)) = sql_extra"
proof -
  have "fold (put_param (scripted respond) (modern_call ''execute_sql'' execute_sql_args)) sql_paths
      (put_header (scripted respond) ''mcp-name'' (encode_header_value (cl_b64 (scripted respond)) ''execute_sql'')
        [(''mcp-protocol-version'', ''2026-07-28''), (''mcp-method'', ''tools/call'')]) = sql_extra"
    by code_simp
  then show ?thesis using assms
    by (simp add: modern_headers_def Let_def name_field_def tool_headers_def)
qed

lemma header_lines:
  "has_line (head_of None (post_fields [(''mcp-protocol-version'', ''2026-07-28''), (''mcp-method'', ''tools/call''),
     (''mcp-name'', ''peers'')] None)) ''mcp-protocol-version: 2026-07-28''"
  "has_line (head_of None (post_fields [(''mcp-protocol-version'', ''2026-07-28''), (''mcp-method'', ''tools/call''),
     (''mcp-name'', ''peers'')] None)) ''mcp-method: tools/call''"
  "has_line (head_of None (post_fields [(''mcp-protocol-version'', ''2026-07-28''), (''mcp-method'', ''tools/call''),
     (''mcp-name'', ''peers'')] None)) ''mcp-name: peers''"
  "has_line (head_of None (post_fields [(''mcp-protocol-version'', ''2026-07-28''), (''mcp-method'', ''resources/read''),
     (''mcp-name'', ''cli://netbird/state'')] None)) ''mcp-method: resources/read''"
  "has_line (head_of None (post_fields [(''mcp-protocol-version'', ''2026-07-28''), (''mcp-method'', ''resources/read''),
     (''mcp-name'', ''cli://netbird/state'')] None)) ''mcp-name: cli://netbird/state''"
  "\<not> contains_sub (head_of None (post_fields [] None)) ''mcp-protocol-version''"
  "\<not> contains_sub (head_of None (post_fields [] None)) ''mcp-method''"
  "\<not> contains_sub (head_of None (post_fields [] None)) ''mcp-name''"
  "has_line (head_of None (post_fields sql_extra None)) ''mcp-param-region: us-west1''"
  "has_line (head_of None (post_fields sql_extra None)) ''mcp-param-greeting: =?base64?sgvsbg8sios4luevja==?=''"
  "has_line (head_of None (post_fields sql_extra None)) ''mcp-param-limit: 7''"
  "\<not> contains_sub (head_of None (post_fields sql_extra None)) ''mcp-param-skipped''"
  "\<not> contains_sub (head_of None (post_fields sql_extra None)) ''mcp-param-query''"
  "contains_sub (head_of None (post_fields [] None)) ''accept: application/json, text/event-stream''"
  by code_simp+

lemma header_tests_pass:
  "a_modern_tools_call_carries_the_matching_request_headers"
  "a_modern_resources_read_names_the_uri"
  "legacy_requests_keep_their_headers"
  "annotated_arguments_are_mirrored_into_param_headers"
  "header_values_that_are_not_plain_ascii_are_base64_encoded"
  subgoal unfolding a_modern_tools_call_carries_the_matching_request_headers_def Let_def
    by (simp add: run_defs recording_def peers_headers header_lines)
  subgoal unfolding a_modern_resources_read_names_the_uri_def Let_def
    by (simp add: run_defs recording_def read_headers header_lines)
  subgoal unfolding legacy_requests_keep_their_headers_def Let_def
    by (simp add: run_defs recording_def header_lines)
  subgoal unfolding annotated_arguments_are_mirrored_into_param_headers_def Let_def
    by (simp add: run_defs recording_def http_list_tools_def tools_listed sql_paths_found sql_headers header_lines)
  subgoal by code_simp
  done

end
