(* ===== verification/Hub_OAuth2_Tests.thy ===== *)
theory Hub_OAuth2_Tests
  imports Hub_Test_Tools Hub_OAuth2_Facts
begin

text \<open>
  The unit tests of \<open>crates/backends/backend-http/src/oauth2.rs\<close> and the helpers it compiles for them,
  translated as those of \<open>Hub_Wire_Tests\<close> are.  Their clocks are not evaluated but rewritten: a time of
  the model counts nanoseconds.
\<close>

section \<open>Helpers\<close>

definition set_cached_token ::
  "('n, 'r) oauth_lib \<Rightarrow> string \<Rightarrow> string option \<Rightarrow> ('n, 'r) oauth_state \<Rightarrow> ('n, 'r) oauth_state" where
  "set_cached_token lib access_token refresh_token = (\<lambda>(m, w).
     let client_id = or_else (oc_client_id (om_config m)) (cached_client_id m) in
     (m\<lparr>om_cache := Some \<lparr>tc_access_token = access_token, tc_refresh_token = refresh_token, tc_client_id = client_id,
          tc_expires_at = ol_mono_ns lib (ow_net w)\<rparr>\<rparr>, w))"

definition current_refresh_token :: "('n, 'r) oauth_state \<Rightarrow> string option" where
  "current_refresh_token mgr = Option.bind (om_cache (fst mgr)) tc_refresh_token"

definition dcr_config :: oauth2_config where
  "dcr_config = \<lparr>oc_token_endpoint = Some ''https://example.test/token'', oc_client_id = None, oc_client_secret = None,
     oc_scopes = None, oc_grant_type = ''authorization_code'', oc_callback_port = 9798\<rparr>"

definition static_config :: oauth2_config where
  "static_config = dcr_config\<lparr>oc_client_id := Some ''static-cid''\<rparr>"

text \<open>\<open>OAuth2TokenManager::new\<close>: no store; nothing else of the world is used.\<close>

definition test_world :: "(nat, unit) oauth_world" where
  "test_world = \<lparr>ow_secrets = sample_disk, ow_net = 0\<rparr>"

definition new_manager :: "oauth2_config \<Rightarrow> (nat, unit) oauth_state" where
  "new_manager config = (manager_with_store config None, test_world)"

definition with_dynamic_id :: "string \<Rightarrow> (nat, unit) oauth_state \<Rightarrow> (nat, unit) oauth_state" where
  "with_dynamic_id client_id = (\<lambda>(m, w). (set_dynamic_client_id sample_oauth_lib client_id w m, w))"

definition with_cached :: "string \<Rightarrow> string \<Rightarrow> (nat, unit) oauth_state \<Rightarrow> (nat, unit) oauth_state" where
  "with_cached access refresh = set_cached_token sample_oauth_lib access (Some refresh)"

lemmas oauth_test_defs = new_manager_def with_dynamic_id_def with_cached_def set_cached_token_def
  current_refresh_token_def set_dynamic_client_id_def current_client_id_def cached_client_id_def manager_with_store_def
  dcr_config_def static_config_def cache_token_response_def

section \<open>The tests\<close>

definition set_cached_token_keeps_the_dynamic_client_id :: bool where
  "set_cached_token_keeps_the_dynamic_client_id =
     (let mgr = with_cached ''access-tok'' ''refresh-tok'' (with_dynamic_id ''dyn-cid'' (new_manager dcr_config))
      in current_client_id (fst mgr) = Some ''dyn-cid'' \<and> current_refresh_token mgr = Some ''refresh-tok'')"

definition config_client_id_takes_precedence :: bool where
  "config_client_id_takes_precedence =
     (let mgr = with_cached ''access-tok'' ''refresh-tok'' (with_dynamic_id ''dyn-cid'' (new_manager static_config))
      in current_client_id (fst mgr) = Some ''static-cid'')"

definition no_client_id_anywhere_stays_none :: bool where
  "no_client_id_anywhere_stays_none =
     (let mgr = with_cached ''access-tok'' ''refresh-tok'' (new_manager dcr_config)
      in current_client_id (fst mgr) = None)"

definition refresh_response_without_a_refresh_token_keeps_the_old_one :: bool where
  "refresh_response_without_a_refresh_token_keeps_the_old_one =
     (let mgr = with_cached ''old-access'' ''keep-me'' (with_dynamic_id ''dyn-cid'' (new_manager dcr_config));
          body = jobj [(''access_token'', JStr ''new-access''), (''expires_in'', jnat 3600)];
          (token, mgr) = cache_token_response sample_oauth_lib body ''test'' mgr
      in token = Inr ''new-access'' \<and> current_refresh_token mgr = Some ''keep-me''
         \<and> current_client_id (fst mgr) = Some ''dyn-cid'')"

definition refresh_response_with_a_new_refresh_token_rotates_it :: bool where
  "refresh_response_with_a_new_refresh_token_rotates_it =
     (let mgr = with_cached ''old-access'' ''old-refresh'' (new_manager dcr_config);
          body = jobj [(''access_token'', JStr ''new-access''), (''refresh_token'', JStr ''new-refresh''),
            (''expires_in'', jnat 3600)];
          (token, mgr) = cache_token_response sample_oauth_lib body ''test'' mgr
      in is_ok token \<and> current_refresh_token mgr = Some ''new-refresh'')"

lemma oauth2_tests_pass:
  "set_cached_token_keeps_the_dynamic_client_id"
  "config_client_id_takes_precedence"
  "no_client_id_anywhere_stays_none"
  "refresh_response_without_a_refresh_token_keeps_the_old_one"
  "refresh_response_with_a_new_refresh_token_rotates_it"
  by (simp_all add: set_cached_token_keeps_the_dynamic_client_id_def config_client_id_takes_precedence_def
      no_client_id_anywhere_stays_none_def refresh_response_without_a_refresh_token_keeps_the_old_one_def
      refresh_response_with_a_new_refresh_token_rotates_it_def oauth_test_defs)

end
