(* ===== verification/Spec2Isabelle.thy ===== *)
theory Spec2Isabelle
  imports Hub_Stdio_Transport Hub_Http_Transport Hub_Sse Hub_Stdio_Backend_Facts Hub_Main_Facts
    Hub_Core_Serde Hub_Registry_Sequential Hub_Http_Sequential Hub_OAuth2_Tasks_Facts
    Hub_Wire_Tests Hub_Config_Tests Hub_Registry_Tests Hub_Stdio_Tests Hub_Http_Tests Hub_OAuth2_Tests
begin

text \<open>
  Verification library of \<open>headless-mcp\<close>, a hub that serves the Model Context Protocol to one
  client over stdio or HTTP and forwards its calls to many downstream MCP servers, the backends.

  \<^bold>\<open>The program and its theories.\<close>  A transport reads JSON-RPC messages and hands them to the session;
  the session answers the handshake and the lists itself and routes calls through the registry; the
  registry owns the backends, their tools and the policies on them; HTTP backends get their tokens from
  a token manager that keeps them in the encrypted secret store.

  \<^item> \<open>Hub_Prelude\<close>: results as sums, the string functions of the Rust standard library on UTF-8 bytes
    (prefixes, substrings, splitting, trimming, decimal digits), association lists as tables.
  \<^item> \<open>Hub_Json\<close>: \<open>serde_json::Value\<close> with objects as lists sorted by key, 64-bit numbers, the readers
    of a derived \<open>Deserialize\<close>; the text format is the parameter record \<open>codec\<close>.
  \<^item> \<open>Hub_JsonRpc\<close> (\<open>mcp-wire/src/jsonrpc.rs\<close>) and \<open>Hub_Sse\<close> (\<open>mcp-wire/src/sse.rs\<close>): the messages,
    their serialization, the nesting guard, the decoder; the encoder and the incremental decoder of
    server-sent events.
  \<^item> \<open>Hub_Json_Text\<close>: a reader and a writer of JSON text, \<open>text_codec\<close>, an instance of the parameter with
    the law \<open>codec_ok\<close> proved; the round trip of messages through their text.
  \<^item> \<open>Hub_Core\<close> (\<open>core/src\<close>): errors, backend definitions, capabilities, tools, and the interface
    \<open>McpBackend\<close> as a record \<open>backend_ops\<close> of functions on the world outside the hub.
    \<open>Hub_Core_Serde\<close>: the derived readers and writers of these types and the defaults of the trait.
  \<^item> \<open>Hub_Tasks\<close>: tasks on a shared state, their runs (\<open>run_events\<close>, \<open>reaches\<close>), and the locale
    \<open>task_system\<close>, which proves once that tasks that make progress come to an end.
  \<^item> \<open>Hub_Registry\<close>, \<open>Hub_Registry_Facts\<close>, \<open>Hub_Registry_Calls\<close> (\<open>registry/src/lib.rs\<close>): the maps of
    backends, tools and capabilities; registering, connecting and indexing, queries, the argument
    policy, routing of calls, health checks with their backoff.  \<open>Hub_Registry_Tasks\<close>,
    \<open>Hub_Registry_Tasks_Facts\<close>, \<open>Hub_Registry_Sequential\<close>: the same operations as tasks that interleave
    wherever the code gives up its locks.
  \<^item> \<open>Hub_Protocol\<close> (\<open>mcp-server/src/protocol.rs\<close>, \<open>audit.rs\<close>), \<open>Hub_Session\<close>,
    \<open>Hub_Session_Facts\<close> (\<open>session.rs\<close>), \<open>Hub_Subscriptions\<close> (\<open>subscriptions.rs\<close>): versions and marks,
    audit records, every method of the session, listen requests and the loop of their tasks.
  \<^item> \<open>Hub_Stdio_Transport\<close> (\<open>transport-stdio/src/lib.rs\<close>) and \<open>Hub_Http_Transport\<close>
    (\<open>transport-http/src\<close>): the line loop with its table of stream tasks; start-up checks, rate limit,
    bearer gate and responses of the HTTP server.
  \<^item> \<open>Hub_Secrets\<close> (\<open>secrets/src\<close>): the master key, the encrypted file store and its atomic rewrite.
  \<^item> \<open>Hub_OAuth2_Text\<close>, \<open>Hub_OAuth2\<close>, \<open>Hub_OAuth2_Facts\<close> (\<open>backends/backend-http/src/oauth2.rs\<close>,
    \<open>token_store.rs\<close>): the parsers of URLs and headers, the token manager with its cache, discovery,
    registration, grants and refresh, and its persistence.  \<open>Hub_OAuth2_Tasks\<close>,
    \<open>Hub_OAuth2_Tasks_Facts\<close>: the concurrent callers of one token manager.
  \<^item> \<open>Hub_Http_Text\<close>, \<open>Hub_Http_Backend\<close>, \<open>Hub_Http_Contract\<close>, \<open>Hub_Http_Facts\<close>
    (\<open>backends/backend-http/src/lib.rs\<close>): the pure functions on bodies and headers, the backend with its
    session, its requests, its handshake and the operations of \<open>McpBackend\<close>.  \<open>Hub_Http_Tasks\<close>,
    \<open>Hub_Http_Tasks_Facts\<close>, \<open>Hub_Http_Sequential\<close>: the concurrent callers of one backend.
  \<^item> \<open>Hub_Stdio_Backend\<close>, \<open>Hub_Stdio_Backend_Facts\<close> (\<open>backends/backend-stdio/src\<close>): the shared state of
    callers, readers, timers, connects and disconnects as a transition system, \<open>child_step\<close>; the capture
    of the standard error of a child.
  \<^item> \<open>Hub_Backend_Contract\<close>: the locale \<open>mcp_backend\<close>, what the registry's calls rely on of a backend.
  \<^item> \<open>Hub_Config\<close>, \<open>Hub_Config_Facts\<close>, \<open>Hub_One_Shot\<close>, \<open>Hub_Main\<close>, \<open>Hub_Main_Facts\<close>
    (\<open>server/src\<close>): the configuration file and its placeholders, the one-shot call, the commands of the
    binary and the registries they build.
  \<^item> \<open>Hub_Wire_Tests\<close>, \<open>Hub_Config_Tests\<close>, \<open>Hub_Registry_Tests\<close>, \<open>Hub_Session_Tests\<close>,
    \<open>Hub_Stdio_Tests\<close>, \<open>Hub_Secrets_Tests\<close>, \<open>Hub_OAuth2_Tests\<close>, \<open>Hub_Http_Tests\<close>: the unit tests at the end
    of the source files with their mocks, each test a definition of the same name; \<open>Hub_Test_Tools\<close> has
    what they share.

  \<^bold>\<open>How the code is rendered.\<close>  A struct is a record with the fields of the source behind a prefix, an
  enum a datatype, \<open>u64\<close> and its siblings words of that width, so arithmetic wraps as it does in a
  release build; strings are byte lists in UTF-8.  A \<open>Result\<close> is a sum with the error on the left, an
  early return a branch.  Hash maps are association lists without repeated keys (their iteration order
  is not relied on: where the source sorts, the model sorts, and the order in which the backends of a
  file are visited is a parameter).  What other code does is a function on a
  state type \<open>'w\<close>, \<open>'n\<close> or \<open>'r\<close>: the downstream servers, HTTP clients, clocks, cipher, base64, random
  generator, file faults, tokio broadcast channels, the rate limiter and the text of JSON are parameters,
  and a property that relies on their documented behaviour says so in a hypothesis
  (\<open>codec_ok\<close>, \<open>secret_lib_ok\<close>, \<open>token_text_ok\<close>, \<open>b64_ok\<close>, \<open>logs_posts\<close>, \<open>wf_toml\<close>) that a sample instance is shown to have.

  An \<open>async\<close> operation is first a function that runs it without interruption; these models compose
  (session, registry, backend), taking the refresh lock may change the token cache arbitrarily and taking
  the lock of re-initialisation the whole backend.  Where tasks share state there is a second model, a
  transition system with one event for each section of the code between two points where a task waits,
  whose replies and scheduling are arbitrary: \<open>reg_step\<close> for the registry, \<open>http_step\<close> for an HTTP backend,
  \<open>token_step\<close> for a token manager, \<open>child_step\<close> for a stdio backend; the tasks of subscriptions are
  transitions that may run between any two input lines.  The two models are tied: a task of the registry
  that nothing interrupts does exactly what the function does, and a request of the function of the HTTP
  backend is a run of its transition system.

  \<^bold>\<open>What is shown.\<close>
  \<^item> Registry: the locale \<open>registry_transition\<close> states what every operation promises; it is interpreted
    for the invariant of the tables and for the unchanged policies, and rule induction over
    \<open>registry_reach\<close> gives that advertised tools are sound in every reachable state.  Connecting, the
    argument policy, the calls a routed call may send, start-up and the backoff delay are characterised
    exactly; calls are counted by operations that log what they send.  For the tasks: in every
    interleaving the advertised tools are sound and every call sent keeps the policies; the tasks end.
    What interleaving can break is shown as theorems too: calls of a removed backend, a per-call
    connection closed under another call, a health check that outlives the connection it checked.
  \<^item> Tests: the model passes the unit tests of the repository named above, over \<open>text_codec\<close> and the mocks of
    the tests, by evaluation and rewriting in the kernel: the theorems are about the behaviour the authors fixed.
  \<^item> Wire: decoding inverts serialization, for values and for their text, the byte-level nesting guard equals the depth of the value,
    the shape of a message is decided by its keys; the SSE decoder does not depend on how the stream is
    cut, and inverts the encoder.
  \<^item> Session: one reply and one audit record per request, the handshake gate, when a call is a protocol
    error, which results keep the error flag, to whom events go; no message breaks the registry.
  \<^item> Transports: what one line does, that a cancelled stream is silent, when the stdio loop ends; who
    passes the HTTP gate, that a server does not start without a token, and the response of every branch.
  \<^item> Secrets and tokens: the locale \<open>secret_store\<close> is the contract of a store; the encrypted file
    store is its interpretation \<open>file_store\<close>, which carries the round trips of secrets and of tokens
    over a restart.  A returned token is the cached one, and daemon mode never asks a user.  Concurrent
    callers have at most one token request on its way, none while the token is good, and never send a
    refresh token that was rotated.
  \<^item> HTTP backend: it keeps the contract \<open>mcp_backend\<close>, so a call to a backend that is down sends nothing
    and a per-call connection is never left open; the headers of a modern request say what its body says;
    a lost session costs one handshake and one repeated request, with these messages and no others, against
    an arbitrary server; and a reconnect that keeps a stale session id can fail for ever.  However many
    callers lose the session at once, it is renewed once; yet a late reply can put the lost id back.
  \<^item> Stdio backend: the invariant \<open>pending_inv\<close> of the table of pending replies, kept by every step; a
    reply reaches only the caller of its id, no caller that waits is stuck, and the reader of an old child
    can take a new connection down.
  \<^item> Tasks: \<open>task_system\<close> is interpreted as \<open>http_callers\<close>, \<open>token_callers\<close> and \<open>registry_tasks\<close>: with
    an invariant kept by every event and a rank that progress lowers, every caller returns within a bound.
  \<^item> Core types: a definition written as JSON reads back as itself.
  \<^item> Configuration and binary: placeholders are all replaced within the bound on the passes; a file that
    loads gives one well-typed definition per backend, and a registry that can be built; a hub token whose
    variable is not set never serves; what an expose block advertises; what a one-shot call sends, and that
    it is not held to the policy of the backend; what the flag for interactive sign-in does.

  \<^bold>\<open>Bounds and termination.\<close>  The functions of the code have no fuel of their
  own: every loop of the source is over finite data (bytes, lines, tools, backends, pending results) and is
  structural or has a length or a size as its measure.  \<open>run_alone\<close>, which runs a task of the registry
  without interruption, has the rank of its first section as fuel, which \<open>task_alone_is_sequential\<close> shows to
  be enough.  \<open>read_value\<close> of \<open>text_codec\<close> has the length of the text as a bound on its recursion, which
  \<open>text_codec_ok\<close> shows to be enough for every text it writes.  The 16 passes over a configured value are the bound of
  the source; they are shown to be enough for a value with up to 32 opening braces when no variable has
  one.  The nesting limit is the 128 of the source, words have the width of the source, and the wrap-around
  of the backoff product is proved rather than assumed away.

  \<^bold>\<open>What is not modelled.\<close>  Log output other than audit lines is left out, as are the parsing of the
  command line and of socket addresses, the answers of axum to other paths and methods than those of the
  hub, failures of writing to standard output, panics on overflow of a point in time, and the order in
  which \<open>serde\<close> reports repeated keys of a typed object.  The assignments of \<open>connect\<close> of the stdio
  backend around its handshake count as one step each; the listeners of expose blocks act on the world in
  turn, and the token manager that blocks share is passed to each by value.  Of the unit tests
  those are left out that fix an interleaving of real tasks or run a child process, a socket or a token
  endpoint, and those of command line arguments; the theorems on tasks are about all interleavings.
\<close>

end
